(* ===== verification/Prelude.thy ===== *)
theory Prelude
  imports Main "HOL-Library.AList" "HOL-Library.Char_ord" "HOL-Library.List_Lexorder"
    "HOL-Library.State_Monad" "HOL-Library.Sublist"
begin

text \<open>
  The shared prelude of the development: the collections of facts the component theories
  add to, the representation of Go maps, the parts of Go's string library the operator
  uses, and a small frame calculus for effectful code.

  \<^item> A Go \<open>map[string]string\<close> is an association list (\<open>gomap\<close>). Looking a key up is
    \<^const>\<open>map_of\<close>, storing is \<^const>\<open>AList.update\<close>, deleting is \<^const>\<open>AList.delete\<close>.
    The order of the list stands for the order in which Go's \<open>range\<close> happens to visit
    the map, so a theorem about every list is a theorem about every iteration order.
    Comparing maps (\<open>gm_eq\<close>) ignores that order. A nil map and an empty map are both
    the empty list: objects read from the API never carry an empty non-nil map, because
    the JSON encoding omits it.
  \<^item> Effectful code is written in the state monad of the library. Its state is the world
    behind the Kubernetes API; \<open>preserves\<close> says that an action keeps a predicate of
    that world, and its rules are collected in \<open>pres_intros\<close>.
\<close>

named_theorems pres_intros "rules that show that an action keeps a predicate of the world"
named_theorems gomap_simps "equations about Go maps"
named_theorems kube_defs "definitions that unfold when a concrete object is computed"

section \<open>Go maps\<close>

type_synonym 'v smap = "(string \<times> 'v) list"
type_synonym gomap = "string smap"

definition gm_eq :: "('k \<times> 'v) list \<Rightarrow> ('k \<times> 'v) list \<Rightarrow> bool" where
  "gm_eq m n \<longleftrightarrow> list_all (\<lambda>k. map_of m k = map_of n k) (map fst m @ map fst n)"

text \<open>Comparing the entries that are present is comparing the maps as functions.\<close>

lemma gm_eq_iff: "gm_eq m n \<longleftrightarrow> map_of m = map_of n"
proof
  assume eq: "gm_eq m n"
  show "map_of m = map_of n"
  proof
    fix k
    show "map_of m k = map_of n k"
    proof (cases "k \<in> fst ` (set m \<union> set n)")
      case True
      then show ?thesis using eq by (auto simp: gm_eq_def list_all_iff)
    next
      case False
      then have "map_of m k = None" and "map_of n k = None"
        by (auto simp: map_of_eq_None_iff)
      then show ?thesis by simp
    qed
  qed
qed (simp add: gm_eq_def list_all_iff)

lemma gm_eq_refl [simp, intro]: "gm_eq m m"
  by (simp add: gm_eq_iff)

lemma gm_eq_sym: "gm_eq m n \<longleftrightarrow> gm_eq n m"
  by (auto simp: gm_eq_iff)

lemma gm_eq_trans: "gm_eq m n \<Longrightarrow> gm_eq n k \<Longrightarrow> gm_eq m k"
  by (simp add: gm_eq_iff)

lemma map_of_update_eq [gomap_simps]:
  "map_of (AList.update k v m) k' = (if k' = k then Some v else map_of m k')"
  by (simp add: update_conv')

lemma map_of_delete_eq [gomap_simps]:
  "map_of (AList.delete k m) k' = (if k' = k then None else map_of m k')"
  by (simp add: delete_conv')

text \<open>
  The loop over a set of managed keys that several components share: a wanted value is
  stored when it differs, an unwanted one is deleted, every other key is left alone.
\<close>

definition syncKey :: "('k \<times> 'v) list \<Rightarrow> ('k \<times> 'v) list \<Rightarrow> 'k \<Rightarrow> ('k \<times> 'v) list \<Rightarrow> ('k \<times> 'v) list" where
  "syncKey current expected k updated =
     (case map_of expected k of
        Some v \<Rightarrow> if map_of current k \<noteq> Some v then AList.update k v updated else updated
      | None \<Rightarrow> if map_of current k \<noteq> None then AList.delete k updated else updated)"

definition syncKeys :: "'k list \<Rightarrow> ('k \<times> 'v) list \<Rightarrow> ('k \<times> 'v) list \<Rightarrow> ('k \<times> 'v) list" where
  "syncKeys ks current expected = fold (syncKey current expected) ks current"

lemma fold_syncKey:
  "(\<And>k. k \<in> set ks \<Longrightarrow> map_of upd k = map_of cur k) \<Longrightarrow> distinct ks \<Longrightarrow>
   map_of (fold (syncKey cur exp) ks upd) k = (if k \<in> set ks then map_of exp k else map_of upd k)"
proof (induction ks arbitrary: upd)
  case (Cons a ks)
  have step: "map_of (syncKey cur exp a upd) j = (if j = a then map_of exp a else map_of upd j)" for j
    using Cons.prems(1)[of a] by (auto simp: syncKey_def gomap_simps split: option.split)
  have "map_of (syncKey cur exp a upd) j = map_of cur j" if "j \<in> set ks" for j
    using that Cons.prems by (auto simp: step)
  then show ?case using Cons.IH[of "syncKey cur exp a upd"] Cons.prems(2) step by auto
qed simp

lemma map_of_syncKeys [gomap_simps]:
  "distinct ks \<Longrightarrow> map_of (syncKeys ks cur exp) k = (if k \<in> set ks then map_of exp k else map_of cur k)"
  by (simp add: syncKeys_def fold_syncKey)

text \<open>A missing key reads as the zero value, the empty string.\<close>

definition gm_get :: "gomap \<Rightarrow> string \<Rightarrow> string" where
  "gm_get m k = (case map_of m k of None \<Rightarrow> '''' | Some v \<Rightarrow> v)"

section \<open>Strings\<close>

definition nl :: string where
  "nl = [CHR 10]"

text \<open>\<open>strings.Join\<close>.\<close>

fun join :: "string \<Rightarrow> string list \<Rightarrow> string" where
  "join sep [] = ''''"
| "join sep [s] = s"
| "join sep (s # t # ss) = s @ sep @ join sep (t # ss)"

text \<open>Decimal rendering, as \<open>%d\<close> prints it.\<close>

function digits :: "int \<Rightarrow> string" where
  "digits n = (if n < 10 then [char_of (48 + n)] else digits (n div 10) @ [char_of (48 + n mod 10)])"
  by pat_completeness auto
termination
  by (relation "measure nat") auto

declare digits.simps [simp del]

definition itoa :: "int \<Rightarrow> string" where
  "itoa i = (if i < 0 then ''-'' @ digits (- i) else digits i)"

text \<open>
  \<open>strings.ToUpper\<close> and \<open>strings.EqualFold\<close> on the ASCII letters; every other byte is
  left alone. The operator applies them to IP addresses only.
\<close>

definition upper_char :: "char \<Rightarrow> char" where
  "upper_char c = (let n = of_char c :: nat in if 97 \<le> n \<and> n \<le> 122 then char_of (n - 32) else c)"

definition toUpper :: "string \<Rightarrow> string" where
  "toUpper s = map upper_char s"

definition equalFold :: "string \<Rightarrow> string \<Rightarrow> bool" where
  "equalFold a b \<longleftrightarrow> toUpper a = toUpper b"

lemma upper_char_idem [simp]: "upper_char (upper_char c) = upper_char c"
proof -
  have "(of_char c :: nat) < 256" by simp
  then show ?thesis by (auto simp: upper_char_def Let_def)
qed

lemma toUpper_idem [simp]: "toUpper (toUpper s) = toUpper s"
  by (simp add: toUpper_def)

lemma equalFold_refl [simp, intro]: "equalFold a a"
  by (simp add: equalFold_def)

section \<open>Lists\<close>

text \<open>A loop that skips an element when a previously kept one matches it.\<close>

fun keep_new :: "('a \<Rightarrow> 'a \<Rightarrow> bool) \<Rightarrow> 'a list \<Rightarrow> 'a list \<Rightarrow> 'a list" where
  "keep_new eq acc [] = acc"
| "keep_new eq acc (x # xs) =
     keep_new eq (if \<exists>y\<in>set acc. eq x y then acc else acc @ [x]) xs"

lemma keep_new_prefix: "prefix acc (keep_new eq acc xs)"
proof (induction xs arbitrary: acc)
  case (Cons x xs)
  show ?case
  proof (cases "\<exists>y\<in>set acc. eq x y")
    case True
    then show ?thesis using Cons[of acc] by simp
  next
    case False
    then show ?thesis
      using Cons[of "acc @ [x]"] by (auto dest: append_prefixD)
  qed
qed simp

lemma keep_new_subseq: "subseq (keep_new eq acc xs) (acc @ xs)"
proof (induction xs arbitrary: acc)
  case (Cons x xs)
  have "subseq (acc @ xs) (acc @ x # xs)"
    by (auto intro: list_emb_append_mono)
  then show ?case
    using Cons[of acc] Cons[of "acc @ [x]"] by (auto intro: subseq_order.trans)
qed simp

lemma keep_new_covers:
  assumes refl: "\<And>x. eq x x"
  shows "x \<in> set xs \<Longrightarrow> \<exists>y\<in>set (keep_new eq acc xs). eq x y"
proof (induction xs arbitrary: acc)
  case (Cons z zs)
  let ?acc = "if \<exists>y\<in>set acc. eq z y then acc else acc @ [z]"
  have sub: "set ?acc \<subseteq> set (keep_new eq ?acc zs)"
    using keep_new_prefix[of ?acc eq zs] by (simp only: set_mono_prefix)
  have "x = z \<Longrightarrow> \<exists>y\<in>set ?acc. eq x y" using refl by auto
  then show ?case using Cons sub by (auto split: if_splits)
qed simp

definition pairwise_new :: "('a \<Rightarrow> 'a \<Rightarrow> bool) \<Rightarrow> 'a list \<Rightarrow> bool" where
  "pairwise_new eq xs \<longleftrightarrow> (\<forall>i j. i < j \<longrightarrow> j < length xs \<longrightarrow> \<not> eq (xs ! j) (xs ! i))"

lemma pairwise_new_snoc:
  "pairwise_new eq (xs @ [x]) \<longleftrightarrow> pairwise_new eq xs \<and> (\<forall>y\<in>set xs. \<not> eq x y)"
proof -
  have "(\<forall>y\<in>set xs. \<not> eq x y) \<longleftrightarrow> (\<forall>i<length xs. \<not> eq x (xs ! i))"
    by (simp add: all_set_conv_all_nth)
  then show ?thesis
    by (auto simp: pairwise_new_def nth_append less_Suc_eq)
qed

lemma keep_new_pairwise: "pairwise_new eq acc \<Longrightarrow> pairwise_new eq (keep_new eq acc xs)"
  by (induction xs arbitrary: acc) (auto simp: pairwise_new_snoc)

section \<open>Actions on the world\<close>

text \<open>An action that never breaks \<open>I\<close>, whatever it returns.\<close>

definition preserves :: "('w \<Rightarrow> bool) \<Rightarrow> ('w, 'a) state \<Rightarrow> bool" where
  "preserves I m \<longleftrightarrow> (\<forall>w. I w \<longrightarrow> I (snd (run_state m w)))"

lemma preservesD: "preserves I m \<Longrightarrow> I w \<Longrightarrow> I (snd (run_state m w))"
  by (simp add: preserves_def)

lemma preserves_return [pres_intros]: "preserves I (State_Monad.return x)"
  by (simp add: preserves_def)

lemma preserves_bind [pres_intros]:
  "preserves I m \<Longrightarrow> (\<And>x. preserves I (f x)) \<Longrightarrow> preserves I (State_Monad.bind m f)"
  by (fastforce simp: preserves_def split: prod.splits)

lemma preserves_if [pres_intros]:
  "(b \<Longrightarrow> preserves I m) \<Longrightarrow> (\<not> b \<Longrightarrow> preserves I n) \<Longrightarrow> preserves I (if b then m else n)"
  by simp

lemma preserves_case_option [pres_intros]:
  "(x = None \<Longrightarrow> preserves I m) \<Longrightarrow> (\<And>y. x = Some y \<Longrightarrow> preserves I (f y)) \<Longrightarrow>
   preserves I (case x of None \<Rightarrow> m | Some y \<Rightarrow> f y)"
  by (cases x) auto

lemma preserves_case_sum [pres_intros]:
  "(\<And>y. x = Inl y \<Longrightarrow> preserves I (f y)) \<Longrightarrow> (\<And>y. x = Inr y \<Longrightarrow> preserves I (g y)) \<Longrightarrow>
   preserves I (case x of Inl y \<Rightarrow> f y | Inr y \<Rightarrow> g y)"
  by (cases x) auto

lemma preserves_case_prod [pres_intros]:
  "(\<And>a b. x = (a, b) \<Longrightarrow> preserves I (f a b)) \<Longrightarrow> preserves I (case x of (a, b) \<Rightarrow> f a b)"
  by (cases x) auto

lemma preserves_let [pres_intros]:
  "(\<And>x. x = t \<Longrightarrow> preserves I (f x)) \<Longrightarrow> preserves I (let x = t in f x)"
  by simp

end
