(* ===== verification/Go_Lib.thy ===== *)
theory Go_Lib
  imports Prelude "HOL-Library.Multiset"
begin

text \<open>
  The parts of Go's runtime and standard library, and of the vendored libraries, that the
  operator's logic rests on:
  \<^item> error values and \<open>utilerrors.Aggregate\<close> (\<open>k8s.io/apimachinery/pkg/util/errors\<close>);
  \<^item> \<open>int32\<close> subtraction, \<open>time.Duration\<close> (an \<open>int64\<close> of nanoseconds) and
    \<open>time.Time\<close> (an instant in nanoseconds), with saturation where Go saturates;
  \<^item> \<open>sort.SliceStable\<close> and \<open>cmpopts.SortSlices\<close>
    (\<open>github.com/google/go-cmp/cmp/cmpopts/sort.go\<close>), including its panic.
  A Go panic is the value \<^const>\<open>None\<close>.
\<close>

section \<open>Errors\<close>

text \<open>
  An error is a plain message (\<open>errors.New\<close>, \<open>fmt.Errorf\<close>), a retryable error
  (\<open>pkg/util/retryableerror\<close>), or an aggregate. A nil error is \<^const>\<open>None\<close> at the
  places where the code allows one.
\<close>

datatype goerror =
    ErrMsg string
  | Retryable goerror int
  | Aggregate "goerror list"

text \<open>\<open>Error()\<close>, with the aggregate's suppression of repeated messages.\<close>

fun uniq_msgs :: "string list \<Rightarrow> string list \<Rightarrow> string list" where
  "uniq_msgs seen [] = seen"
| "uniq_msgs seen (m # ms) = uniq_msgs (if m \<in> set seen then seen else seen @ [m]) ms"

fun errText :: "goerror \<Rightarrow> string"
  and visit_msgs :: "goerror list \<Rightarrow> string list" where
  "errText (ErrMsg s) = s"
| "errText (Retryable e _) = errText e"
| "errText (Aggregate es) =
     (case es of [] \<Rightarrow> '''' | [e] \<Rightarrow> errText e
      | _ \<Rightarrow> (let ms = uniq_msgs [] (visit_msgs es) in
              if length ms = 1 then hd ms else ''['' @ join '', '' ms @ '']''))"
| "visit_msgs [] = []"
| "visit_msgs (e # es) =
     (case e of Aggregate fs \<Rightarrow> visit_msgs fs | _ \<Rightarrow> [errText e]) @ visit_msgs es"

text \<open>\<open>utilerrors.NewAggregate\<close>: nil entries are dropped, nothing left is nil.\<close>

definition NewAggregate :: "goerror option list \<Rightarrow> goerror option" where
  "NewAggregate errlist =
     (let errs = List.map_filter (\<lambda>e. e) errlist
      in if errs = [] then None else Some (Aggregate errs))"

text \<open>\<open>fmt.Errorf\<close> with a prefix and the text of a wrapped error.\<close>

definition errorf :: "string \<Rightarrow> goerror \<Rightarrow> goerror" where
  "errorf prefix_text e = ErrMsg (prefix_text @ '': '' @ errText e)"

lemma map_filter_Some [simp]: "List.map_filter (\<lambda>e. e) (map Some es) = es"
  by (induction es) (auto simp: List.map_filter_def)

lemma NewAggregate_None: "NewAggregate errs = None \<longleftrightarrow> (\<forall>e\<in>set errs. e = None)"
  by (auto simp: NewAggregate_def List.map_filter_def Let_def filter_empty_conv)

lemma NewAggregate_map_Some [simp]:
  "NewAggregate (map Some es) = (if es = [] then None else Some (Aggregate es))"
  by (simp add: NewAggregate_def)

section \<open>Integers and time\<close>

text \<open>An \<open>int32\<close> is an integer; its subtraction wraps around.\<close>

definition int32_sub :: "int \<Rightarrow> int \<Rightarrow> int" where
  "int32_sub a b = (a - b + 2 ^ 31) mod 2 ^ 32 - 2 ^ 31"

lemma int32_sub_exact:
  "- (2 ^ 31) \<le> a - b \<Longrightarrow> a - b < 2 ^ 31 \<Longrightarrow> int32_sub a b = a - b"
  by (simp add: int32_sub_def)

type_synonym duration = int
type_synonym instant = int

definition maxDuration :: duration where
  "maxDuration = 2 ^ 63 - 1"

definition minDuration :: duration where
  "minDuration = - (2 ^ 63)"

definition time_Second :: duration where
  "time_Second = 1000000000"

text \<open>\<open>Time.Sub\<close> saturates.\<close>

definition time_Sub :: "instant \<Rightarrow> instant \<Rightarrow> duration" where
  "time_Sub t u = max minDuration (min maxDuration (t - u))"

text \<open>Go's \<open>%\<close> and \<open>/\<close> truncate towards zero.\<close>

definition go_rem :: "int \<Rightarrow> int \<Rightarrow> int" where
  "go_rem a b = (if a < 0 then - ((- a) mod \<bar>b\<bar>) else a mod \<bar>b\<bar>)"

definition go_quot :: "int \<Rightarrow> int \<Rightarrow> int" where
  "go_quot a b = sgn a * sgn b * (\<bar>a\<bar> div \<bar>b\<bar>)"

text \<open>\<open>Duration.Round\<close>: to the nearest multiple, halfway away from zero, saturating.\<close>

definition duration_Round :: "duration \<Rightarrow> duration \<Rightarrow> duration" where
  "duration_Round d m =
     (if m \<le> 0 then d
      else let r = go_rem d m in
        if d < 0 then
          (let r = - r in
           if r + r < m then d + r
           else if d - m + r \<ge> minDuration then d - m + r else minDuration)
        else if r + r < m then d - r
        else if d + m - r \<le> maxDuration then d + m - r else maxDuration)"

lemma duration_Round_near:
  assumes "0 < m" "0 \<le> d" "d + m \<le> maxDuration"
  shows "m dvd duration_Round d m" "2 * \<bar>duration_Round d m - d\<bar> \<le> m"
proof -
  have r: "go_rem d m = d mod m" using assms by (simp add: go_rem_def)
  have b: "0 \<le> d mod m" "d mod m < m" using assms by simp_all
  have "m dvd (d - d mod m)" by (rule dvd_minus_mod)
  then have "m dvd (d - d mod m + m)" by simp
  then show "m dvd duration_Round d m" "2 * \<bar>duration_Round d m - d\<bar> \<le> m"
    using assms b \<open>m dvd (d - d mod m)\<close>
    by (auto simp: duration_Round_def r Let_def algebra_simps)
qed

section \<open>Stable sorting\<close>

text \<open>
  \<open>sort.SliceStable\<close>: insertion sort on blocks of 20, then in-place merging of
  neighbouring blocks by rotation (\<open>symMerge\<close>). The operator also calls it with a
  function that is no order, so the algorithm itself is modelled and not its contract.
  Sorting works on positions of a list; \<open>lt\<close> compares two elements.
\<close>

definition swap :: "nat \<Rightarrow> nat \<Rightarrow> 'a list \<Rightarrow> 'a list" where
  "swap i j xs = xs[i := xs ! j, j := xs ! i]"

fun sift_down :: "('a \<Rightarrow> 'a \<Rightarrow> bool) \<Rightarrow> nat \<Rightarrow> nat \<Rightarrow> 'a list \<Rightarrow> 'a list" where
  "sift_down lt a 0 xs = xs"
| "sift_down lt a (Suc j) xs =
     (if a < Suc j \<and> lt (xs ! Suc j) (xs ! j)
      then sift_down lt a j (swap (Suc j) j xs) else xs)"

definition insertionSort :: "('a \<Rightarrow> 'a \<Rightarrow> bool) \<Rightarrow> nat \<Rightarrow> nat \<Rightarrow> 'a list \<Rightarrow> 'a list" where
  "insertionSort lt a b xs = fold (sift_down lt a) [Suc a..<b] xs"

text \<open>Binary search for the first position of \<open>[i, j)\<close> where \<open>p\<close> fails.\<close>

function bsearch :: "(nat \<Rightarrow> bool) \<Rightarrow> nat \<Rightarrow> nat \<Rightarrow> nat" where
  "bsearch p i j =
     (if i < j then let h = (i + j) div 2 in if p h then bsearch p (Suc h) j else bsearch p i h
      else i)"
  by pat_completeness auto
termination
  by (relation "measure (\<lambda>(p, i, j). j - i)") auto

declare bsearch.simps [simp del]

definition rotate_block :: "nat \<Rightarrow> nat \<Rightarrow> nat \<Rightarrow> 'a list \<Rightarrow> 'a list" where
  "rotate_block a m b xs =
     take a xs @ drop m (take b xs) @ drop a (take m xs) @ drop b xs"

primrec symMerge :: "nat \<Rightarrow> ('a \<Rightarrow> 'a \<Rightarrow> bool) \<Rightarrow> nat \<Rightarrow> nat \<Rightarrow> nat \<Rightarrow> 'a list \<Rightarrow> 'a list" where
  "symMerge 0 lt a m b xs = xs"
| "symMerge (Suc fuel) lt a m b xs =
     (if m - a = 1 then
        (let i = bsearch (\<lambda>h. lt (xs ! h) (xs ! a)) m b in rotate_block a (Suc a) i xs)
      else if b - m = 1 then
        (let i = bsearch (\<lambda>h. \<not> lt (xs ! m) (xs ! h)) a m in rotate_block i m (Suc m) xs)
      else
        let mid = (a + b) div 2; n = mid + m;
            start = (if mid < m then bsearch (\<lambda>c. \<not> lt (xs ! (n - 1 - c)) (xs ! c)) (n - b) mid
                     else bsearch (\<lambda>c. \<not> lt (xs ! (n - 1 - c)) (xs ! c)) a m);
            fin = n - start;
            ys = (if start < m \<and> m < fin then rotate_block start m fin xs else xs);
            zs = (if a < start \<and> start < mid then symMerge fuel lt a start mid ys else ys)
        in if mid < fin \<and> fin < b then symMerge fuel lt mid fin b zs else zs)"

primrec merge_blocks :: "nat \<Rightarrow> ('a \<Rightarrow> 'a \<Rightarrow> bool) \<Rightarrow> nat \<Rightarrow> nat \<Rightarrow> 'a list \<Rightarrow> 'a list" where
  "merge_blocks 0 lt blk a xs = xs"
| "merge_blocks (Suc k) lt blk a xs =
     (if a + 2 * blk \<le> length xs
      then merge_blocks k lt blk (a + 2 * blk)
             (symMerge (length xs) lt a (a + blk) (a + 2 * blk) xs)
      else if a + blk < length xs
      then symMerge (length xs) lt a (a + blk) (length xs) xs else xs)"

primrec merge_passes :: "nat \<Rightarrow> ('a \<Rightarrow> 'a \<Rightarrow> bool) \<Rightarrow> nat \<Rightarrow> 'a list \<Rightarrow> 'a list" where
  "merge_passes 0 lt blk xs = xs"
| "merge_passes (Suc k) lt blk xs =
     (if blk < length xs
      then merge_passes k lt (2 * blk) (merge_blocks (length xs) lt blk 0 xs) else xs)"

definition sliceStable :: "('a \<Rightarrow> 'a \<Rightarrow> bool) \<Rightarrow> 'a list \<Rightarrow> 'a list" where
  "sliceStable lt xs =
     (let n = length xs; full = n div 20;
          ys = fold (\<lambda>k. insertionSort lt (20 * k) (20 * k + 20)) [0..<full] xs
      in merge_passes n lt 20 (insertionSort lt (20 * full) n ys))"

definition sliceIsSorted :: "('a \<Rightarrow> 'a \<Rightarrow> bool) \<Rightarrow> 'a list \<Rightarrow> bool" where
  "sliceIsSorted lt xs \<longleftrightarrow> list_all (\<lambda>i. \<not> lt (xs ! Suc i) (xs ! i)) [0..<length xs - 1]"

text \<open>
  \<open>sliceSorter.checkSort\<close>: true when it returns, false when it panics. The argument
  \<open>start\<close> is the start of a run of elements not less than their successors.
\<close>

fun checkSort_loop :: "('a \<Rightarrow> 'a \<Rightarrow> bool) \<Rightarrow> 'a list \<Rightarrow> nat option \<Rightarrow> nat list \<Rightarrow> bool" where
  "checkSort_loop lt v start [] = True"
| "checkSort_loop lt v start (i # is) =
     (if lt (v ! (i - 1)) (v ! i) then
        (case start of
           Some s \<Rightarrow> \<not> (lt (v ! s) (v ! (i - 1)) \<or> lt (v ! (i - 1)) (v ! s))
                      \<and> checkSort_loop lt v None is
         | None \<Rightarrow> checkSort_loop lt v None is)
      else checkSort_loop lt v (if start = None then Some i else start) is)"

definition checkSort :: "('a \<Rightarrow> 'a \<Rightarrow> bool) \<Rightarrow> 'a list \<Rightarrow> bool" where
  "checkSort lt v = checkSort_loop lt v None [1..<length v]"

definition sortSlices_filter :: "('a \<Rightarrow> 'a \<Rightarrow> bool) \<Rightarrow> 'a list \<Rightarrow> 'a list \<Rightarrow> bool" where
  "sortSlices_filter lt xs ys \<longleftrightarrow>
     \<not> (length xs \<le> 1 \<and> length ys \<le> 1) \<and> \<not> (sliceIsSorted lt xs \<and> sliceIsSorted lt ys)"

definition sortSlices_sort :: "('a \<Rightarrow> 'a \<Rightarrow> bool) \<Rightarrow> 'a list \<Rightarrow> 'a list option" where
  "sortSlices_sort lt xs =
     (let dst = sliceStable lt xs in if checkSort lt dst then Some dst else None)"

text \<open>
  \<open>cmp.Equal(xs, ys, cmpopts.EquateEmpty(), cmpopts.SortSlices(lt))\<close> on two slices whose
  elements are compared by \<open>eq\<close>: two empty slices are equal; otherwise both slices are
  sorted first when the filter asks for it; then they are compared position by position.
\<close>

definition sortedSlicesEqual ::
  "('a \<Rightarrow> 'a \<Rightarrow> bool) \<Rightarrow> ('a \<Rightarrow> 'a \<Rightarrow> bool) \<Rightarrow> 'a list \<Rightarrow> 'a list \<Rightarrow> bool option" where
  "sortedSlicesEqual lt eq xs ys =
     (if sortSlices_filter lt xs ys
      then (case sortSlices_sort lt xs of None \<Rightarrow> None
            | Some xs' \<Rightarrow> (case sortSlices_sort lt ys of None \<Rightarrow> None
            | Some ys' \<Rightarrow> Some (list_all2 eq xs' ys')))
      else Some (list_all2 eq xs ys))"

subsection \<open>Short slices\<close>

text \<open>
  Slices of fewer than 20 elements are sorted by plain insertion: the result is a
  permutation, and for a strict weak order it is sorted, so \<open>checkSort\<close> accepts it.
\<close>

lemma length_sift_down [simp]: "length (sift_down lt a j xs) = length xs"
  by (induction j arbitrary: xs) (auto simp: swap_def)

lemma mset_sift_down: "j < length xs \<Longrightarrow> mset (sift_down lt a j xs) = mset xs"
proof (induction j arbitrary: xs)
  case (Suc j)
  have "mset (swap (Suc j) j xs) = mset xs"
    using Suc.prems by (simp add: swap_def mset_swap)
  moreover have "j < length (swap (Suc j) j xs)" using Suc.prems by (simp add: swap_def)
  ultimately show ?case using Suc.IH by simp
qed simp

lemma fold_sift_down:
  "\<forall>j\<in>set js. j < length xs \<Longrightarrow>
   length (fold (sift_down lt a) js xs) = length xs \<and> mset (fold (sift_down lt a) js xs) = mset xs"
  by (induction js arbitrary: xs) (auto simp: mset_sift_down)

lemma length_insertionSort [simp]:
  "length (insertionSort lt 0 (length xs) xs) = length xs"
  by (simp add: insertionSort_def fold_sift_down)

lemma mset_insertionSort [simp]:
  "mset (insertionSort lt 0 (length xs) xs) = mset xs"
  by (simp add: insertionSort_def fold_sift_down)

lemma sliceStable_small:
  "length xs < 20 \<Longrightarrow> sliceStable lt xs = insertionSort lt 0 (length xs) xs"
proof -
  assume "length xs < 20"
  moreover from this have "merge_passes k lt 20 (insertionSort lt 0 (length xs) xs)
      = insertionSort lt 0 (length xs) xs" for k
    by (cases k) simp_all
  ultimately show ?thesis by (simp add: sliceStable_def Let_def)
qed

subsection \<open>Slices of any length\<close>

text \<open>
  Whatever the comparison function is, sorting only permutes, and the fuel of the merge phase is
  more than its recursion can use.
\<close>

lemma bsearch_bounds: "i \<le> j \<Longrightarrow> i \<le> bsearch p i j \<and> bsearch p i j \<le> j"
proof (induction p i j rule: bsearch.induct)
  case (1 p i j)
  show ?case
  proof (cases "i < j")
    case True
    let ?h = "(i + j) div 2"
    have "Suc ?h \<le> j" "i \<le> ?h" using True by auto
    then show ?thesis using "1.IH"[OF True refl] True by (subst (1 2) bsearch.simps) (auto simp: Let_def)
  qed (use 1 in \<open>simp add: bsearch.simps\<close>)
qed

lemma rotate_block_perm:
  assumes "a \<le> m" "m \<le> b" "b \<le> length xs"
  shows "length (rotate_block a m b xs) = length xs" "mset (rotate_block a m b xs) = mset xs"
proof -
  have split: "xs = take a xs @ drop a (take m xs) @ drop m (take b xs) @ drop b xs"
    using assms by (metis append_assoc append_take_drop_id drop_drop le_add_diff_inverse2 min.absorb_iff1 take_drop take_take)
  have "mset (rotate_block a m b xs) = mset (take a xs @ drop a (take m xs) @ drop m (take b xs) @ drop b xs)"
    by (simp add: rotate_block_def)
  then show "mset (rotate_block a m b xs) = mset xs" using split by simp
  then show "length (rotate_block a m b xs) = length xs" by (metis size_mset)
qed

text \<open>The positions that a merge computes, whichever half the pivot falls into.\<close>

lemma symMerge_positions:
  fixes a m b :: nat and p :: "nat \<Rightarrow> bool"
  assumes "a < m" "m < b"
  defines "mid \<equiv> (a + b) div 2"
  defines "start \<equiv> (if mid < m then bsearch p (mid + m - b) mid else bsearch p a m)"
  shows "a \<le> start" "start \<le> m" "m \<le> mid + m - start" "mid + m - start \<le> b"
proof -
  have mid: "2 * mid \<le> a + b" "a + b \<le> 2 * mid + 1" "a < b" using assms by auto
  consider "mid < m" | "m \<le> mid" by linarith
  then have "a \<le> start \<and> start \<le> m \<and> m \<le> mid + m - start \<and> mid + m - start \<le> b"
  proof cases
    case 1
    then have "mid + m - b \<le> start \<and> start \<le> mid" using assms(2) by (simp add: start_def bsearch_bounds)
    then show ?thesis using 1 mid assms(1,2) by linarith
  next
    case 2
    then have "a \<le> start \<and> start \<le> m" using assms(1) by (simp add: start_def bsearch_bounds)
    then show ?thesis using 2 mid assms(1,2) by linarith
  qed
  then show "a \<le> start" "start \<le> m" "m \<le> mid + m - start" "mid + m - start \<le> b" by auto
qed

text \<open>One round of a merge: either a rotation ends it, or the two halves around \<open>mid\<close> are merged.\<close>

lemma symMerge_round:
  assumes "a < m" "m < b" "b \<le> length xs"
  obtains
    (rotated) ys where "\<And>f. symMerge (Suc f) lt a m b xs = ys" "length ys = length xs" "mset ys = mset xs"
  | (halves) ys start mid fin where "\<And>f. symMerge (Suc f) lt a m b xs =
        (let zs = if a < start \<and> start < mid then symMerge f lt a start mid ys else ys
         in if mid < fin \<and> fin < b then symMerge f lt mid fin b zs else zs)"
      "length ys = length xs" "mset ys = mset xs" "a < mid" "mid < b"
proof -
  define mid where "mid = (a + b) div 2"
  define start where "start = (if mid < m then bsearch (\<lambda>c. \<not> lt (xs ! (mid + m - 1 - c)) (xs ! c)) (mid + m - b) mid
    else bsearch (\<lambda>c. \<not> lt (xs ! (mid + m - 1 - c)) (xs ! c)) a m)"
  define fin where "fin = mid + m - start"
  define ys where "ys = (if start < m \<and> m < fin then rotate_block start m fin xs else xs)"
  note pos = symMerge_positions[OF assms(1,2), folded mid_def, where p = "\<lambda>c. \<not> lt (xs ! (mid + m - 1 - c)) (xs ! c)",
      folded start_def, folded fin_def]
  have left: "Suc a \<le> bsearch p m b \<and> bsearch p m b \<le> length xs" for p
    using bsearch_bounds[of m b p] assms by linarith
  have right: "bsearch p a m \<le> m" for p using bsearch_bounds[of a m p] assms by linarith
  consider "m - a = 1" | "m - a \<noteq> 1" "b - m = 1" | "m - a \<noteq> 1" "b - m \<noteq> 1" by blast
  then show ?thesis
  proof cases
    case 1
    then show ?thesis
      using left assms(1) by (intro rotated[of "rotate_block a (Suc a) (bsearch (\<lambda>h. lt (xs ! h) (xs ! a)) m b) xs"])
        (simp_all add: rotate_block_perm)
  next
    case 2
    then show ?thesis
      using right assms by (intro rotated[of "rotate_block (bsearch (\<lambda>h. \<not> lt (xs ! m) (xs ! h)) a m) m (Suc m) xs"])
        (simp_all add: rotate_block_perm)
  next
    case 3
    have "symMerge (Suc f) lt a m b xs =
        (let zs = if a < start \<and> start < mid then symMerge f lt a start mid ys else ys
         in if mid < fin \<and> fin < b then symMerge f lt mid fin b zs else zs)" for f
      by (simp only: symMerge.simps Let_def mid_def start_def fin_def ys_def 3 if_False)
    moreover have "length ys = length xs" "mset ys = mset xs"
      using pos assms(3) by (auto simp: ys_def rotate_block_perm)
    ultimately show ?thesis by (rule halves) (use assms in \<open>auto simp: mid_def\<close>)
  qed
qed

lemma symMerge_perm:
  "a < m \<Longrightarrow> m < b \<Longrightarrow> b \<le> length xs \<Longrightarrow>
   length (symMerge f lt a m b xs) = length xs \<and> mset (symMerge f lt a m b xs) = mset xs"
proof (induction f arbitrary: a m b xs)
  case (Suc f)
  from Suc.prems show ?case
  proof (cases rule: symMerge_round[where lt = lt])
    case (halves ys start mid fin)
    define zs where "zs = (if a < start \<and> start < mid then symMerge f lt a start mid ys else ys)"
    have "length zs = length xs \<and> mset zs = mset xs"
      using Suc.IH[of a start mid ys] Suc.prems halves(2-5) by (auto simp: zs_def)
    then show ?thesis
      unfolding halves(1) Let_def zs_def[symmetric] using Suc.IH[of mid fin b zs] Suc.prems by auto
  qed metis
qed simp

lemma symMerge_fuel:
  "a < m \<Longrightarrow> m < b \<Longrightarrow> b \<le> length xs \<Longrightarrow> b - a \<le> f \<Longrightarrow> b - a \<le> g \<Longrightarrow>
   symMerge f lt a m b xs = symMerge g lt a m b xs"
proof (induction f arbitrary: a m b xs g)
  case (Suc f)
  then obtain g' where g: "g = Suc g'" by (cases g) auto
  from Suc.prems(1-3) show ?case
  proof (cases rule: symMerge_round[where lt = lt])
    case (halves ys start mid fin)
    define zs where "zs = (if a < start \<and> start < mid then symMerge f lt a start mid ys else ys)"
    have "(if a < start \<and> start < mid then symMerge g' lt a start mid ys else ys) = zs"
      using Suc.IH[of a start mid ys g'] Suc.prems halves(2-5) g by (auto simp: zs_def)
    moreover have "length zs = length xs"
      using symMerge_perm[of a start mid ys f lt] Suc.prems halves(2-5) by (auto simp: zs_def)
    ultimately show ?thesis
      unfolding g halves(1) Let_def zs_def[symmetric]
      using Suc.IH[of mid fin b zs g'] Suc.prems halves(4,5) g by auto
  qed (metis g)
qed simp

lemma merge_blocks_perm:
  "0 < blk \<Longrightarrow> length (merge_blocks k lt blk a xs) = length xs \<and> mset (merge_blocks k lt blk a xs) = mset xs"
  by (induction k arbitrary: a xs) (auto simp: symMerge_perm)

lemma merge_passes_perm:
  "0 < blk \<Longrightarrow> length (merge_passes k lt blk xs) = length xs \<and> mset (merge_passes k lt blk xs) = mset xs"
  by (induction k arbitrary: blk xs) (auto simp: merge_blocks_perm)

lemma insertionSort_perm:
  "b \<le> length xs \<Longrightarrow> length (insertionSort lt a b xs) = length xs \<and> mset (insertionSort lt a b xs) = mset xs"
  by (simp add: insertionSort_def fold_sift_down)

lemma insertionSorts_perm:
  "\<forall>k\<in>set ks. 20 * k + 20 \<le> length xs \<Longrightarrow>
   length (fold (\<lambda>k. insertionSort lt (20 * k) (20 * k + 20)) ks xs) = length xs
   \<and> mset (fold (\<lambda>k. insertionSort lt (20 * k) (20 * k + 20)) ks xs) = mset xs"
  by (induction ks arbitrary: xs) (auto simp: insertionSort_perm)

lemma mset_sliceStable: "mset (sliceStable lt xs) = mset xs"
proof -
  have "20 * k + 20 \<le> length xs" if "k < length xs div 20" for k using that by linarith
  then show ?thesis
    by (simp add: sliceStable_def Let_def merge_passes_perm insertionSort_perm insertionSorts_perm)
qed

text \<open>The loops over blocks and passes end as well before their counters do.\<close>

lemma merge_blocks_fuel:
  "0 < blk \<Longrightarrow> length xs - a \<le> k \<Longrightarrow> length xs - a \<le> l \<Longrightarrow> merge_blocks k lt blk a xs = merge_blocks l lt blk a xs"
proof (induction k arbitrary: a xs l)
  case (Suc k)
  show ?case
  proof (cases l)
    case (Suc l')
    then show ?thesis using Suc.IH[of _ "a + 2 * blk" l'] Suc.prems by (auto simp: symMerge_perm)
  qed (use Suc.prems in auto)
next
  case 0
  then show ?case by (cases l) auto
qed

lemma merge_passes_fuel:
  "0 < blk \<Longrightarrow> length xs - blk \<le> k \<Longrightarrow> length xs - blk \<le> l \<Longrightarrow> merge_passes k lt blk xs = merge_passes l lt blk xs"
proof (induction k arbitrary: blk xs l)
  case (Suc k)
  show ?case
  proof (cases l)
    case (Suc l')
    then show ?thesis using Suc.IH[of "2 * blk" _ l'] Suc.prems by (auto simp: merge_blocks_perm)
  qed (use Suc.prems in auto)
next
  case 0
  then show ?case by (cases l) auto
qed

end
