(* ===== verification/Kube_Types.thy ===== *)
theory Kube_Types
  imports Util
begin

text \<open>
  The API objects the operator reads and writes, as records with the fields its code (or
  one of its manifests) sets or reads. Go's string enumerations stay strings, because the
  code compares them as strings and an object may carry any value; the named constants
  below are the ones the source uses. A pointer field is an \<open>option\<close>.
\<close>

section \<open>Metadata\<close>

record nsname =
  nn_ns :: string
  nn_name :: string

record ownerref =
  or_apiVersion :: string
  or_kind :: string
  or_name :: string
  or_uid :: string
  or_controller :: "bool option"

record objmeta =
  m_name :: string
  m_namespace :: string
  m_uid :: string
  m_resourceVersion :: string
  m_labels :: gomap
  m_annotations :: gomap
  m_finalizers :: "string list"
  m_ownerRefs :: "ownerref list"
  m_deletionTimestamp :: "instant option"

definition emptyMeta :: objmeta where
  "emptyMeta = \<lparr>m_name = '''', m_namespace = '''', m_uid = '''', m_resourceVersion = '''',
     m_labels = [], m_annotations = [], m_finalizers = [], m_ownerRefs = [],
     m_deletionTimestamp = None\<rparr>"

record labelselector =
  ls_matchLabels :: gomap
  ls_matchExpressions :: "(string \<times> string \<times> string list) list"

definition sel_eq :: "labelselector \<Rightarrow> labelselector \<Rightarrow> bool" where
  "sel_eq a b \<longleftrightarrow> gm_eq (ls_matchLabels a) (ls_matchLabels b)
     \<and> ls_matchExpressions a = ls_matchExpressions b"

lemma sel_eq_refl [simp, intro]: "sel_eq a a"
  by (simp add: sel_eq_def)

datatype intstr = IntVal int | StrVal string

section \<open>DNS, the operator's own resource\<close>

text \<open>\<open>vendor/github.com/openshift/api/operator/v1/types_dns.go\<close>\<close>

record tlsconfig =
  tls_serverName :: string
  tls_caBundle :: string

record transportconfig =
  tc_transport :: string
  tc_tls :: "tlsconfig option"

record forwardplugin =
  fp_upstreams :: "string list"
  fp_policy :: string
  fp_transportConfig :: transportconfig
  fp_protocolStrategy :: string

record server =
  srv_name :: string
  srv_zones :: "string list"
  srv_forwardPlugin :: forwardplugin

record upstream =
  up_type :: string
  up_address :: string
  up_port :: int

record upstreamresolvers =
  ur_upstreams :: "upstream list"
  ur_policy :: string
  ur_transportConfig :: transportconfig
  ur_protocolStrategy :: string

record toleration =
  tol_key :: string
  tol_operator :: string
  tol_value :: string
  tol_effect :: string
  tol_seconds :: "int option"

record nodeplacement =
  np_nodeSelector :: gomap
  np_tolerations :: "toleration list"

record condition =
  c_type :: string
  c_status :: string
  c_lastTransitionTime :: instant
  c_reason :: string
  c_message :: string

record dnsspec =
  spec_servers :: "server list"
  spec_upstreamResolvers :: upstreamresolvers
  spec_nodePlacement :: nodeplacement
  spec_managementState :: string
  spec_operatorLogLevel :: string
  spec_logLevel :: string
  spec_positiveTTL :: duration
  spec_negativeTTL :: duration

record dnsstatus =
  st_clusterIP :: string
  st_clusterDomain :: string
  st_conditions :: "condition list"

record dns =
  dns_meta :: objmeta
  dns_spec :: dnsspec
  dns_status :: dnsstatus

definition TLSTransport :: string where "TLSTransport = ''TLS''"
definition CleartextTransport :: string where "CleartextTransport = ''Cleartext''"
definition SystemResolveConfType :: string where "SystemResolveConfType = ''SystemResolvConf''"
definition NetworkResolverType :: string where "NetworkResolverType = ''Network''"
definition RandomForwardingPolicy :: string where "RandomForwardingPolicy = ''Random''"
definition RoundRobinForwardingPolicy :: string where "RoundRobinForwardingPolicy = ''RoundRobin''"
definition SequentialForwardingPolicy :: string where "SequentialForwardingPolicy = ''Sequential''"
definition Unmanaged :: string where "Unmanaged = ''Unmanaged''"
definition ConditionTrue :: string where "ConditionTrue = ''True''"
definition ConditionFalse :: string where "ConditionFalse = ''False''"
definition ConditionUnknown :: string where "ConditionUnknown = ''Unknown''"
definition TypeAvailable :: string where "TypeAvailable = ''Available''"
definition TypeProgressing :: string where "TypeProgressing = ''Progressing''"
definition TypeDegraded :: string where "TypeDegraded = ''Degraded''"
definition TypeUpgradeable :: string where "TypeUpgradeable = ''Upgradeable''"

lemmas dns_consts [kube_defs] =
  TLSTransport_def CleartextTransport_def SystemResolveConfType_def NetworkResolverType_def
  RandomForwardingPolicy_def RoundRobinForwardingPolicy_def SequentialForwardingPolicy_def
  Unmanaged_def

lemmas condition_consts [kube_defs] =
  ConditionTrue_def ConditionFalse_def ConditionUnknown_def
  TypeAvailable_def TypeProgressing_def TypeDegraded_def TypeUpgradeable_def

section \<open>Pods and daemonsets\<close>

record volumemount =
  vm_name :: string
  vm_mountPath :: string
  vm_readOnly :: bool

record probe =
  pr_path :: string
  pr_port :: int
  pr_scheme :: string
  pr_initialDelay :: int
  pr_period :: int
  pr_timeout :: int
  pr_success :: int
  pr_failure :: int

record containerport =
  cp_name :: string
  cp_containerPort :: int
  cp_protocol :: string

record envvar =
  ev_name :: string
  ev_value :: string

record container =
  ct_name :: string
  ct_image :: string
  ct_command :: "string list"
  ct_args :: "string list"
  ct_env :: "envvar list"
  ct_volumeMounts :: "volumemount list"
  ct_readinessProbe :: "probe option"
  ct_livenessProbe :: "probe option"
  ct_ports :: "containerport list"
  ct_requests :: gomap
  ct_privileged :: "bool option"
  ct_readOnlyRoot :: "bool option"
  ct_imagePullPolicy :: string
  ct_terminationMessagePolicy :: string

record keytopath =
  kp_key :: string
  kp_path :: string
  kp_mode :: "int option"

record configmapvolume =
  cmv_name :: string
  cmv_items :: "keytopath list"
  cmv_defaultMode :: "int option"
  cmv_optional :: "bool option"

record secretvolume =
  sv_secretName :: string
  sv_items :: "keytopath list"
  sv_defaultMode :: "int option"
  sv_optional :: "bool option"

datatype volumesource =
    VNone
  | VConfigMap configmapvolume
  | VSecret secretvolume
  | VHostPath string "string option"
  | VEmptyDir

record volume =
  vol_name :: string
  vol_source :: volumesource

record podspec =
  ps_containers :: "container list"
  ps_volumes :: "volume list"
  ps_nodeSelector :: gomap
  ps_tolerations :: "toleration list"
  ps_terminationGracePeriod :: "int option"
  ps_hostNetwork :: bool
  ps_serviceAccountName :: string
  ps_priorityClassName :: string
  ps_dnsPolicy :: string

record podtemplate =
  pt_labels :: gomap
  pt_annotations :: gomap
  pt_spec :: podspec

record rollingupdate =
  ru_maxUnavailable :: "intstr option"
  ru_maxSurge :: "intstr option"

record updatestrategy =
  us_type :: string
  us_rollingUpdate :: "rollingupdate option"

record dsspec =
  dss_selector :: "labelselector option"
  dss_template :: podtemplate
  dss_updateStrategy :: updatestrategy
  dss_minReadySeconds :: int

record dsstatus =
  dst_desiredNumberScheduled :: int
  dst_updatedNumberScheduled :: int
  dst_numberAvailable :: int

record daemonset =
  ds_meta :: objmeta
  ds_spec :: dsspec
  ds_status :: dsstatus

record podcondition =
  pc_type :: string
  pc_status :: string
  pc_lastTransitionTime :: "instant option"

record pod =
  pod_meta :: objmeta
  pod_containers :: "container list"
  pod_conditions :: "podcondition list"

record taint =
  ta_key :: string
  ta_value :: string
  ta_effect :: string

record nodecondition =
  nc_type :: string
  nc_status :: string

record node =
  nd_meta :: objmeta
  nd_unschedulable :: bool
  nd_taints :: "taint list"
  nd_allocatableCPU :: int
  nd_conditions :: "nodecondition list"

section \<open>Configuration, network and access objects\<close>

record configmap =
  cm_meta :: objmeta
  cm_data :: gomap

record serviceport =
  sp_name :: string
  sp_protocol :: string
  sp_port :: int
  sp_targetPort :: intstr
  sp_nodePort :: int

record servicespec =
  ss_type :: string
  ss_selector :: gomap
  ss_ports :: "serviceport list"
  ss_clusterIP :: string
  ss_clusterIPs :: "string list"
  ss_ipFamilies :: "string list"
  ss_ipFamilyPolicy :: "string option"
  ss_sessionAffinity :: string
  ss_internalTrafficPolicy :: "string option"
  ss_trafficDistribution :: "string option"
  ss_externalName :: string

record service =
  svc_meta :: objmeta
  svc_spec :: servicespec

record policyrule =
  rule_apiGroups :: "string list"
  rule_resources :: "string list"
  rule_verbs :: "string list"

record role =
  role_meta :: objmeta
  role_rules :: "policyrule list"

record rolebinding =
  rb_meta :: objmeta
  rb_subjects :: "(string \<times> string \<times> string) list"
  rb_roleRef :: "string \<times> string \<times> string"

record serviceaccount =
  sa_meta :: objmeta

record namespace =
  ns_meta :: objmeta

datatype netpeer = NamespaceSelector labelselector | IPBlock string

record netrule =
  nr_ports :: "(string \<times> intstr) list"
  nr_peers :: "netpeer list"

record netpolspec =
  nps_podSelector :: labelselector
  nps_ingress :: "netrule list"
  nps_egress :: "netrule list"
  nps_policyTypes :: "string list"

record networkpolicy =
  npol_meta :: objmeta
  npol_spec :: netpolspec

section \<open>Zero values\<close>

text \<open>The zero value of a struct, where the code starts from one.\<close>

definition emptyTransport :: transportconfig where
  "emptyTransport = \<lparr>tc_transport = '''', tc_tls = None\<rparr>"

definition emptyDNS :: dns where
  "emptyDNS = \<lparr>dns_meta = emptyMeta,
     dns_spec = \<lparr>spec_servers = [],
       spec_upstreamResolvers = \<lparr>ur_upstreams = [], ur_policy = '''',
         ur_transportConfig = emptyTransport, ur_protocolStrategy = ''''\<rparr>,
       spec_nodePlacement = \<lparr>np_nodeSelector = [], np_tolerations = []\<rparr>,
       spec_managementState = '''', spec_operatorLogLevel = '''', spec_logLevel = '''',
       spec_positiveTTL = 0, spec_negativeTTL = 0\<rparr>,
     dns_status = \<lparr>st_clusterIP = '''', st_clusterDomain = '''', st_conditions = []\<rparr>\<rparr>"

definition emptyPodSpec :: podspec where
  "emptyPodSpec = \<lparr>ps_containers = [], ps_volumes = [], ps_nodeSelector = [], ps_tolerations = [],
     ps_terminationGracePeriod = None, ps_hostNetwork = False, ps_serviceAccountName = '''',
     ps_priorityClassName = '''', ps_dnsPolicy = ''''\<rparr>"

definition emptyDaemonSet :: daemonset where
  "emptyDaemonSet = \<lparr>ds_meta = emptyMeta,
     ds_spec = \<lparr>dss_selector = None,
       dss_template = \<lparr>pt_labels = [], pt_annotations = [], pt_spec = emptyPodSpec\<rparr>,
       dss_updateStrategy = \<lparr>us_type = '''', us_rollingUpdate = None\<rparr>, dss_minReadySeconds = 0\<rparr>,
     ds_status = \<lparr>dst_desiredNumberScheduled = 0, dst_updatedNumberScheduled = 0,
       dst_numberAvailable = 0\<rparr>\<rparr>"

lemmas zero_defs [kube_defs] =
  emptyMeta_def emptyTransport_def emptyDNS_def emptyPodSpec_def emptyDaemonSet_def

end
