(* ===== verification/Node_Placement.thy ===== *)
theory Node_Placement
  imports Names
begin

text \<open>
  Where DNS pods may run: the node selector and tolerations that a DNS asks for
  (\<open>nodeSelectorForDNS\<close>, \<open>tolerationsForDNS\<close>), the test whether tolerations cover a
  node's taints (\<open>tolerationsTolerateTaints\<close>, with \<open>Toleration.ToleratesTaint\<close> of
  \<open>k8s.io/api/core/v1/toleration.go\<close>), and the comparison of two toleration lists
  (\<open>cmpTolerations\<close>, used as the order of \<open>cmpopts.SortSlices\<close>), all from
  \<open>controller_dns_daemonset.go\<close>.
\<close>

section \<open>What a DNS asks for\<close>

definition nodeSelectorForDNS :: "dns \<Rightarrow> gomap" where
  "nodeSelectorForDNS d =
     (if length (np_nodeSelector (spec_nodePlacement (dns_spec d))) \<noteq> 0
      then np_nodeSelector (spec_nodePlacement (dns_spec d))
      else [(''kubernetes.io/os'', ''linux'')])"

definition tolerationsForDNS :: "dns \<Rightarrow> toleration list" where
  "tolerationsForDNS d =
     (if length (np_tolerations (spec_nodePlacement (dns_spec d))) \<noteq> 0
      then np_tolerations (spec_nodePlacement (dns_spec d))
      else [\<lparr>tol_key = ''node-role.kubernetes.io/master'', tol_operator = ''Exists'',
              tol_value = '''', tol_effect = '''', tol_seconds = None\<rparr>])"

section \<open>Taints\<close>

text \<open>
  The comparison operators \<open>Lt\<close> and \<open>Gt\<close> are disabled by the caller, so a toleration
  that uses one matches nothing.
\<close>

definition ToleratesTaint :: "toleration \<Rightarrow> taint \<Rightarrow> bool" where
  "ToleratesTaint t ta =
     (if tol_effect t \<noteq> '''' \<and> tol_effect t \<noteq> ta_effect ta then False
      else if tol_key t \<noteq> '''' \<and> tol_key t \<noteq> ta_key ta then False
      else if tol_operator t = '''' \<or> tol_operator t = ''Equal'' then tol_value t = ta_value ta
      else if tol_operator t = ''Exists'' then True
      else False)"

fun anyTolerates :: "toleration list \<Rightarrow> taint \<Rightarrow> bool" where
  "anyTolerates [] ta = False"
| "anyTolerates (t # ts) ta = (if ToleratesTaint t ta then True else anyTolerates ts ta)"

fun tolerationsTolerateTaints :: "toleration list \<Rightarrow> taint list \<Rightarrow> bool" where
  "tolerationsTolerateTaints ts [] = True"
| "tolerationsTolerateTaints ts (ta # tas) =
     (if \<not> anyTolerates ts ta then False else tolerationsTolerateTaints ts tas)"

lemma anyTolerates_iff: "anyTolerates ts ta \<longleftrightarrow> (\<exists>t\<in>set ts. ToleratesTaint t ta)"
  by (induction ts) auto

lemma tolerationsTolerateTaints_iff:
  "tolerationsTolerateTaints ts tas \<longleftrightarrow> (\<forall>ta\<in>set tas. \<exists>t\<in>set ts. ToleratesTaint t ta)"
  by (induction tas) (auto simp: anyTolerates_iff)

section \<open>Comparing toleration lists\<close>

definition cmpTolerations :: "toleration \<Rightarrow> toleration \<Rightarrow> bool" where
  "cmpTolerations a b =
     (if tol_key a \<noteq> tol_key b then False
      else if tol_value a \<noteq> tol_value b then False
      else if tol_operator a \<noteq> tol_operator b then False
      else if tol_effect a \<noteq> tol_effect b then False
      else if tol_effect a = ''NoExecute''
      then (if (tol_seconds a = None) \<noteq> (tol_seconds b = None) then False
            else \<not> (tol_seconds a \<noteq> None \<and> tol_seconds a \<noteq> tol_seconds b))
      else True)"

text \<open>
  \<open>cmp.Equal(xs, ys, cmpopts.EquateEmpty(), cmpopts.SortSlices(cmpTolerations))\<close>:
  \<open>cmpTolerations\<close> is handed to \<open>SortSlices\<close> as if it were an order.
\<close>

definition tolerationsEqual :: "toleration list \<Rightarrow> toleration list \<Rightarrow> bool option" where
  "tolerationsEqual xs ys = sortedSlicesEqual cmpTolerations (=) xs ys"

lemma cmpTolerations_refl [simp, intro]: "cmpTolerations a a"
  by (simp add: cmpTolerations_def)

lemma cmpTolerations_sym: "cmpTolerations a b \<longleftrightarrow> cmpTolerations b a"
  by (auto simp: cmpTolerations_def)

definition noAdjacentDup :: "toleration list \<Rightarrow> bool" where
  "noAdjacentDup xs \<longleftrightarrow> sliceIsSorted cmpTolerations xs"

lemma noAdjacentDup_iff:
  "noAdjacentDup xs \<longleftrightarrow> (\<forall>i. Suc i < length xs \<longrightarrow> \<not> cmpTolerations (xs ! i) (xs ! Suc i))"
  by (auto simp: noAdjacentDup_def sliceIsSorted_def list_all_iff cmpTolerations_sym
      less_diff_conv)

text \<open>As long as no two neighbours compare equal, the comparison is plain equality of lists.\<close>

lemma tolerationsEqual_plain:
  "noAdjacentDup xs \<Longrightarrow> noAdjacentDup ys \<Longrightarrow> tolerationsEqual xs ys = Some (xs = ys)"
  by (simp add: tolerationsEqual_def sortedSlicesEqual_def sortSlices_filter_def noAdjacentDup_def
      list_all2_eq)

lemma tolerationsEqual_short:
  "length xs \<le> 1 \<Longrightarrow> length ys \<le> 1 \<Longrightarrow> tolerationsEqual xs ys = Some (xs = ys)"
  by (simp add: tolerationsEqual_def sortedSlicesEqual_def sortSlices_filter_def list_all2_eq)

text \<open>Where it panics: two equal tolerations after a different one.\<close>

lemma tolerationsEqual_panic:
  assumes "\<not> cmpTolerations a b"
  shows "tolerationsEqual xs [a, b, b] = None"
proof -
  have "\<not> cmpTolerations b a" using assms cmpTolerations_sym by blast
  then have srt: "sliceStable cmpTolerations [a, b, b] = [a, b, b]"
    by (simp add: sliceStable_small insertionSort_def upt_rec swap_def)
  have "\<not> checkSort cmpTolerations [a, b, b]"
    using assms by (simp add: checkSort_def upt_rec)
  moreover have "sortSlices_filter cmpTolerations xs [a, b, b]"
    by (simp add: sortSlices_filter_def sliceIsSorted_def upt_rec)
  ultimately show ?thesis
    by (simp add: tolerationsEqual_def sortedSlicesEqual_def sortSlices_sort_def srt Let_def
        split: option.split)
qed

lemma tolerationsEqual_perm: "tolerationsEqual xs ys = Some True \<Longrightarrow> mset xs = mset ys"
  by (auto simp: tolerationsEqual_def sortedSlicesEqual_def sortSlices_sort_def list.rel_eq Let_def
      split: if_splits option.splits dest!: arg_cong[where f = mset] simp: mset_sliceStable)

end
