(* ===== verification/Kube_API.thy ===== *)
theory Kube_API
  imports Names
begin

text \<open>
  The operator's view of the Kubernetes API. The API server is not part of the repository,
  so the client is a parameter of every operation that uses it: a record of actions over
  an arbitrary world \<open>'w\<close>. Any call may fail, and any call may change the world. What an
  operation relies on beyond that is a hypothesis of the theorem that needs it.
\<close>

text \<open>The one distinction the code draws between API errors is \<open>errors.IsNotFound\<close>.\<close>

datatype apierror = NotFound string | APIError string

fun IsNotFound :: "apierror \<Rightarrow> bool" where
  "IsNotFound (NotFound _) = True"
| "IsNotFound (APIError _) = False"

fun apiText :: "apierror \<Rightarrow> string" where
  "apiText (NotFound s) = s"
| "apiText (APIError s) = s"

definition apiErr :: "apierror \<Rightarrow> goerror" where
  "apiErr e = ErrMsg (apiText e)"

record ('o, 'w) kclient =
  kget :: "nsname \<Rightarrow> ('w, apierror + 'o) state"
  kcreate :: "'o \<Rightarrow> ('w, apierror option) state"
  kupdate :: "'o \<Rightarrow> ('w, apierror option) state"
  kdelete :: "nsname \<Rightarrow> ('w, apierror option) state"

text \<open>\<open>reconcile.Result\<close>\<close>

record rresult =
  rr_requeue :: bool
  rr_requeueAfter :: duration

definition emptyResult :: rresult where
  "emptyResult = \<lparr>rr_requeue = False, rr_requeueAfter = 0\<rparr>"

section \<open>Reading, creating and updating one object\<close>

text \<open>
  The shape that the \<open>currentX\<close> functions share: a missing object is no error. A pair of
  Go values \<open>(have bool, object *T)\<close> is an option.
\<close>

definition currentObject :: "('o, 'w) kclient \<Rightarrow> nsname \<Rightarrow> ('w, 'o option \<times> goerror option) state" where
  "currentObject c n = do {
     r \<leftarrow> kget c n;
     State_Monad.return (case r of
         Inl e \<Rightarrow> if IsNotFound e then (None, None) else (None, Some (apiErr e))
       | Inr x \<Rightarrow> (Some x, None))
   }"

text \<open>
  The shape that the \<open>updateX\<close> functions share: nothing is written when no change is
  detected, and the answer says whether something was written.
\<close>

definition updateObject ::
  "('o, 'w) kclient \<Rightarrow> ('o \<Rightarrow> string) \<Rightarrow> ('o \<Rightarrow> 'o \<Rightarrow> 'o option) \<Rightarrow> 'o \<Rightarrow> 'o \<Rightarrow> ('w, goerror + bool) state" where
  "updateObject c msg changed current desired =
     (case changed current desired of
        None \<Rightarrow> State_Monad.return (Inr False)
      | Some updated \<Rightarrow> do {
          r \<leftarrow> kupdate c updated;
          State_Monad.return (case r of
              Some e \<Rightarrow> Inl (errorf (msg updated) (apiErr e))
            | None \<Rightarrow> Inr True)
        })"

text \<open>The \<open>switch\<close> on the presence of the object that the \<open>ensureX\<close> functions share.\<close>

definition createOrUpdate ::
  "('o \<Rightarrow> ('w, apierror option) state) \<Rightarrow> string \<Rightarrow> ('w, 'o option \<times> goerror option) state \<Rightarrow>
   ('o \<Rightarrow> 'o \<Rightarrow> ('w, goerror + bool) state) \<Rightarrow> 'o option \<Rightarrow> 'o \<Rightarrow> ('w, 'o option \<times> goerror option) state" where
  "createOrUpdate create createMsg getCurrent update current desired =
     (case current of
        None \<Rightarrow> do {
          r \<leftarrow> create desired;
          (case r of
             Some e \<Rightarrow> State_Monad.return (None, Some (errorf createMsg (apiErr e)))
           | None \<Rightarrow> getCurrent)
        }
      | Some cur \<Rightarrow> do {
          u \<leftarrow> update cur desired;
          (case u of
             Inl e \<Rightarrow> State_Monad.return (Some cur, Some e)
           | Inr updated \<Rightarrow> if updated then getCurrent else State_Monad.return (Some cur, None))
        })"

text \<open>
  The shape of an \<open>ensureX\<close> function whose desired object needs no further reads: an error of
  the first read is returned as it is.
\<close>

definition ensureObject ::
  "('o, 'w) kclient \<Rightarrow> nsname \<Rightarrow> string \<Rightarrow> ('o \<Rightarrow> 'o \<Rightarrow> ('w, goerror + bool) state) \<Rightarrow> 'o \<Rightarrow>
   ('w, 'o option \<times> goerror option) state" where
  "ensureObject c n createMsg update desired = do {
     (current, err) \<leftarrow> currentObject c n;
     (case err of
        Some e \<Rightarrow> State_Monad.return (None, Some e)
      | None \<Rightarrow> createOrUpdate (kcreate c) createMsg (currentObject c n) update current desired)
   }"

definition nsname_text :: "objmeta \<Rightarrow> string" where
  "nsname_text m = m_namespace m @ ''/'' @ m_name m"

definition meta_key :: "objmeta \<Rightarrow> nsname" where
  "meta_key m = \<lparr>nn_ns = m_namespace m, nn_name = m_name m\<rparr>"

section \<open>A server that keeps what it is given\<close>

text \<open>
  What convergence relies on: reading changes nothing, an object is found under its own
  name, and after a successful create or update the name reads as an object that is
  \<open>sim\<close>ilar to the one written (the server may fill in fields).
\<close>

definition stores :: "('o \<Rightarrow> 'o \<Rightarrow> bool) \<Rightarrow> ('o \<Rightarrow> nsname) \<Rightarrow> ('o, 'w) kclient \<Rightarrow> bool" where
  "stores sim key c \<longleftrightarrow>
     (\<forall>n w. snd (run_state (kget c n) w) = w) \<and>
     (\<forall>n w x. fst (run_state (kget c n) w) = Inr x \<longrightarrow> key x = n) \<and>
     (\<forall>x w w'. run_state (kcreate c x) w = (None, w') \<longrightarrow>
        (\<exists>y. fst (run_state (kget c (key x)) w') = Inr y \<and> sim x y)) \<and>
     (\<forall>x w w'. run_state (kupdate c x) w = (None, w') \<longrightarrow>
        (\<exists>y. fst (run_state (kget c (key x)) w') = Inr y \<and> sim x y))"

lemma reads_only: "stores sim key c \<Longrightarrow> snd (run_state (kget c n) w) = w"
  by (simp add: stores_def)

text \<open>A server that does so: a list of named objects.\<close>

definition storeClient :: "('o \<Rightarrow> nsname) \<Rightarrow> ('o, (nsname \<times> 'o) list) kclient" where
  "storeClient key = \<lparr>
     kget = (\<lambda>n. State (\<lambda>w. (case map_of w n of
         None \<Rightarrow> Inl (NotFound ''not found'')
       | Some x \<Rightarrow> if key x = n then Inr x else Inl (NotFound ''not found''), w))),
     kcreate = (\<lambda>x. State (\<lambda>w. if map_of w (key x) = None then (None, AList.update (key x) x w)
                               else (Some (APIError ''already exists''), w))),
     kupdate = (\<lambda>x. State (\<lambda>w. if map_of w (key x) = None then (Some (NotFound ''not found''), w)
                               else (None, AList.update (key x) x w))),
     kdelete = (\<lambda>n. State (\<lambda>w. if map_of w n = None then (Some (NotFound ''not found''), w)
                               else (None, AList.delete n w)))\<rparr>"

lemma storeClient_stores: "(\<And>x. sim x x) \<Longrightarrow> stores sim key (storeClient key)"
  by (auto simp: stores_def storeClient_def gomap_simps split: option.splits if_splits)

text \<open>What a name reads as, and that a write to one name leaves the others alone.\<close>

definition look :: "('o, 'w) kclient \<Rightarrow> nsname \<Rightarrow> 'w \<Rightarrow> apierror + 'o" where
  "look c n w = fst (run_state (kget c n) w)"

definition framed :: "('o \<Rightarrow> nsname) \<Rightarrow> ('o, 'w) kclient \<Rightarrow> bool" where
  "framed key c \<longleftrightarrow>
     (\<forall>x n w. n \<noteq> key x \<longrightarrow> look c n (snd (run_state (kcreate c x) w)) = look c n w) \<and>
     (\<forall>x n w. n \<noteq> key x \<longrightarrow> look c n (snd (run_state (kupdate c x) w)) = look c n w) \<and>
     (\<forall>m n w. n \<noteq> m \<longrightarrow> look c n (snd (run_state (kdelete c m) w)) = look c n w)"

text \<open>
  What a delete achieves, and what listing by a selector returns: the objects of the store
  that match.
\<close>

definition deletes :: "('o, 'w) kclient \<Rightarrow> bool" where
  "deletes c \<longleftrightarrow> (\<forall>n w w' r x. run_state (kdelete c n) w = (r, w') \<longrightarrow>
     (\<forall>e. r = Some e \<longrightarrow> IsNotFound e) \<longrightarrow> look c n w' \<noteq> Inr x)"

definition lists :: "('o \<Rightarrow> bool) \<Rightarrow> ('o \<Rightarrow> nsname) \<Rightarrow> ('o, 'w) kclient \<Rightarrow> ('w \<Rightarrow> 'o list) \<Rightarrow> bool" where
  "lists sel key c items \<longleftrightarrow> (\<forall>w x. x \<in> set (items w) \<longleftrightarrow> sel x \<and> look c (key x) w = Inr x)"

definition storeItems :: "('o \<Rightarrow> bool) \<Rightarrow> ('o \<Rightarrow> nsname) \<Rightarrow> (nsname \<times> 'o) list \<Rightarrow> 'o list" where
  "storeItems sel key w = map snd (filter (\<lambda>(n, x). key x = n \<and> sel x \<and> map_of w n = Some x) w)"

lemma storeClient_framed: "framed key (storeClient key)"
  by (simp add: framed_def look_def storeClient_def gomap_simps)

lemma storeClient_deletes: "deletes (storeClient key)"
  by (auto simp: deletes_def look_def storeClient_def gomap_simps split: if_splits)

lemma storeClient_lists: "lists sel key (storeClient key) (storeItems sel key)"
  by (auto simp: lists_def look_def storeClient_def storeItems_def image_iff split: option.splits
      dest: map_of_SomeD)

text \<open>Configmaps count as the same when their data is.\<close>

definition cm_key :: "configmap \<Rightarrow> nsname" where
  "cm_key cm = meta_key (cm_meta cm)"

definition cm_same :: "configmap \<Rightarrow> configmap \<Rightarrow> bool" where
  "cm_same a b \<longleftrightarrow> gm_eq (cm_data a) (cm_data b)"

lemma run_currentObject:
  assumes "snd (run_state (kget c n) w) = w"
  shows "run_state (currentObject c n) w =
    (case fst (run_state (kget c n) w) of
       Inl e \<Rightarrow> ((None, if IsNotFound e then None else Some (apiErr e)), w)
     | Inr x \<Rightarrow> ((Some x, None), w))"
  using assms by (cases "run_state (kget c n) w") (auto simp: currentObject_def split: sum.splits)

lemma stores_pure: "stores sim key c \<Longrightarrow> snd (run_state (kget c n) w) = w"
  by (simp add: stores_def)

lemma stores_key: "stores sim key c \<Longrightarrow> fst (run_state (kget c n) w) = Inr x \<Longrightarrow> key x = n"
  by (auto simp: stores_def)

lemma stores_written:
  assumes "stores sim key c" "run_state (kcreate c x) w = (None, w') \<or> run_state (kupdate c x) w = (None, w')"
  obtains y where "fst (run_state (kget c (key x)) w') = Inr y" "sim x y"
  using assms unfolding stores_def by blast

text \<open>Reading back what has just been written.\<close>

lemma stores_read_back:
  assumes api: "stores sim key c" and "run_state (kcreate c x) w = (None, w1) \<or> run_state (kupdate c x) w = (None, w1)"
    and "key x = n" and rd: "run_state (currentObject c n) w1 = ((r, None), w')"
  shows "\<exists>y. r = Some y \<and> sim x y \<and> w' = w1 \<and> fst (run_state (kget c n) w1) = Inr y"
proof -
  obtain y where "fst (run_state (kget c n) w1) = Inr y" "sim x y"
    using stores_written[OF assms(1,2)] assms(3) by metis
  then show ?thesis using rd run_currentObject[OF stores_pure[OF api]] by simp
qed

section \<open>Change detection\<close>

text \<open>
  The contract between a \<open>xChanged\<close> function and the \<open>ensureX\<close> function that calls it.
  \<open>managed cur exp\<close> says that \<open>cur\<close> agrees with \<open>exp\<close> in everything the operator manages.
  A change is detected exactly when it does not, the returned object does, and what the
  server fills in is never taken for a change. Under this contract an ensure step that
  succeeds leaves a managed object, and repeating it writes nothing.
\<close>

locale change_detector =
  fixes changed :: "'o \<Rightarrow> 'o \<Rightarrow> 'o option"
    and managed :: "'o \<Rightarrow> 'o \<Rightarrow> bool"
    and sim :: "'o \<Rightarrow> 'o \<Rightarrow> bool"
    and key :: "'o \<Rightarrow> nsname"
  assumes detects: "changed cur exp = None \<longleftrightarrow> managed cur exp"
    and repairs: "changed cur exp = Some upd \<Longrightarrow> managed upd exp"
    and fresh: "managed exp exp"
    and respects: "managed cur exp \<Longrightarrow> sim cur cur' \<Longrightarrow> managed cur' exp"
    and keeps_key: "changed cur exp = Some upd \<Longrightarrow> key upd = key cur"
begin

lemma settles: "changed cur exp = Some upd \<Longrightarrow> changed upd exp = None"
  using repairs detects by blast

lemma update_run:
  assumes "run_state (updateObject c msg changed cur exp) w = (res, w')" "managed cur exp"
  shows "res = Inr False \<and> w' = w"
  using assms detects[of cur exp] by (simp add: updateObject_def)

lemma update_writes:
  assumes "run_state (updateObject c msg changed cur exp) w = (Inr True, w')"
  obtains upd where "changed cur exp = Some upd" "run_state (kupdate c upd) w = (None, w')"
  using assms
  by (auto simp: updateObject_def split: option.splits prod.splits)

lemma stored:
  assumes api: "stores sim key c" and n: "key exp = n"
    and cur: "run_state (currentObject c n) w = ((cur, None), w)"
    and run: "run_state (createOrUpdate (kcreate c) cmsg (currentObject c n)
                 (updateObject c umsg changed) cur exp) w = ((r, None), w')"
  shows "\<exists>x. r = Some x \<and> managed x exp \<and> run_state (currentObject c n) w' = ((Some x, None), w')"
proof (cases cur)
  case None
  then obtain w1 where cr: "run_state (kcreate c exp) w = (None, w1)"
    and rd: "run_state (currentObject c n) w1 = ((r, None), w')"
    using run by (auto simp: createOrUpdate_def split: prod.splits option.splits)
  show ?thesis using stores_read_back[OF api disjI1[OF cr] n rd] respects[OF fresh] rd by auto
next
  case (Some o1)
  show ?thesis
  proof (cases "changed o1 exp")
    case None
    then have "r = Some o1" "w' = w"
      using run Some by (simp_all add: createOrUpdate_def updateObject_def)
    then show ?thesis using None detects cur Some by simp
  next
    case upd: (Some o2)
    then obtain w1 where up: "run_state (kupdate c o2) w = (None, w1)"
      and rd: "run_state (currentObject c n) w1 = ((r, None), w')"
      using run Some by (auto simp: createOrUpdate_def updateObject_def split: prod.splits option.splits)
    have "key o1 = n"
      using cur Some stores_key[OF api, of n w] by (auto simp: run_currentObject[OF stores_pure[OF api]] split: sum.splits)
    then have "key o2 = n" using keeps_key[OF upd] by simp
    from stores_read_back[OF api disjI2[OF up] this rd] show ?thesis using respects[OF repairs[OF upd]] rd by auto
  qed
qed

lemma ensured:
  assumes api: "stores sim key c" and n: "key exp = n"
    and cur: "run_state (currentObject c n) w = ((cur, None), w)"
    and run: "run_state (createOrUpdate (kcreate c) cmsg (currentObject c n)
                 (updateObject c umsg changed) cur exp) w = ((Some x, None), w')"
  shows "managed x exp \<and> run_state (currentObject c n) w' = ((Some x, None), w')"
  using stored[OF api n cur run] by simp

lemma present:
  assumes api: "stores sim key c" and n: "key exp = n"
    and cur: "run_state (currentObject c n) w = ((cur, None), w)"
    and run: "run_state (createOrUpdate (kcreate c) cmsg (currentObject c n)
                 (updateObject c umsg changed) cur exp) w = ((r, None), w')"
  obtains x where "r = Some x"
  using stored[OF api n cur run] that by blast

lemma quiet:
  assumes "managed x exp" "run_state (currentObject c n) w = ((Some x, None), w)"
  shows "run_state (createOrUpdate (kcreate c) cmsg (currentObject c n)
           (updateObject c umsg changed) (Some x) exp) w = ((Some x, None), w)"
  using assms detects[of x exp] by (simp add: createOrUpdate_def updateObject_def)

lemma ensure_converges:
  assumes api: "stores sim key c" and n: "key exp = n"
    and run: "run_state (ensureObject c n cmsg (updateObject c umsg changed) exp) w = ((Some x, None), w')"
  shows "managed x exp
    \<and> run_state (ensureObject c n cmsg (updateObject c umsg changed) exp) w' = ((Some x, None), w')"
proof -
  have pure: "snd (run_state (kget c m) v) = v" for m v using api by (simp add: stores_def)
  obtain cur err where cur: "run_state (currentObject c n) w = ((cur, err), w)"
    using run_currentObject[OF pure, of n w] by (auto split: sum.splits)
  have err: "err = None" using run cur by (auto simp: ensureObject_def split: option.splits)
  have res: "managed x exp" "run_state (currentObject c n) w' = ((Some x, None), w')"
    using ensured[OF api n, of w cur cmsg umsg x w'] run cur err by (auto simp: ensureObject_def)
  then show ?thesis using quiet[OF res] by (simp add: ensureObject_def)
qed

end

section \<open>Frames\<close>

lemma preserves_currentObject [pres_intros]:
  "preserves I (kget c n) \<Longrightarrow> preserves I (currentObject c n)"
  unfolding currentObject_def by (intro pres_intros)

lemma preserves_updateObject [pres_intros]:
  "(\<And>x. preserves I (kupdate c x)) \<Longrightarrow> preserves I (updateObject c msg changed cur des)"
  unfolding updateObject_def by (intro pres_intros)

lemma preserves_createOrUpdate [pres_intros]:
  "preserves I (create des) \<Longrightarrow> preserves I getCurrent \<Longrightarrow> (\<And>x. preserves I (update x des)) \<Longrightarrow>
   preserves I (createOrUpdate create cm getCurrent update cur des)"
  unfolding createOrUpdate_def by (intro pres_intros)

lemma preserves_ensureObject [pres_intros]:
  "(\<And>m. preserves I (kget c m)) \<Longrightarrow> (\<And>x. preserves I (kcreate c x)) \<Longrightarrow> (\<And>x y. preserves I (update x y)) \<Longrightarrow>
   preserves I (ensureObject c n cm update des)"
  unfolding ensureObject_def by (intro pres_intros)

text \<open>On an empty store, ensuring an object creates it.\<close>

lemma ensureObject_creates:
  "key des = n \<Longrightarrow> run_state (ensureObject (storeClient key) n cm upd des) [] = ((Some des, None), [(n, des)])"
  by (simp add: ensureObject_def currentObject_def createOrUpdate_def storeClient_def)

section \<open>What an ensure step leaves behind\<close>

context change_detector
begin

lemma ensure_object_done:
  assumes api: "stores sim key c" and n: "key exp = n"
    and run: "run_state (ensureObject c n cmsg (updateObject c umsg changed) exp) w = ((r, None), w')"
  obtains x where "r = Some x" "look c n w' = Inr x" "managed x exp"
proof -
  have pure: "snd (run_state (kget c m) v) = v" for m v using api by (simp add: stores_def)
  obtain cur err where cur: "run_state (currentObject c n) w = ((cur, err), w)"
    using run_currentObject[OF pure, of n w] by (auto split: sum.splits)
  have err: "err = None" using run cur by (auto simp: ensureObject_def split: option.splits)
  have co: "run_state (createOrUpdate (kcreate c) cmsg (currentObject c n) (updateObject c umsg changed) cur exp) w
      = ((r, None), w')"
    using run cur err by (simp add: ensureObject_def)
  obtain x where x: "r = Some x" using present[OF api n cur[unfolded err] co] .
  have "managed x exp" "run_state (currentObject c n) w' = ((Some x, None), w')"
    using ensured[OF api n cur[unfolded err] co[unfolded x]] by auto
  then show ?thesis
    using that[OF x] run_currentObject[OF pure, of n w'] by (auto simp: look_def split: sum.splits)
qed

lemma ensure_object_quiet:
  assumes "stores sim key c" "look c n w = Inr x" "managed x exp"
  shows "run_state (ensureObject c n cmsg (updateObject c umsg changed) exp) w = ((Some x, None), w)"
proof -
  have "snd (run_state (kget c n) w) = w" using assms(1) by (simp add: stores_def)
  then have "run_state (currentObject c n) w = ((Some x, None), w)"
    using run_currentObject[of c n w] assms(2) by (simp add: look_def)
  then show ?thesis using quiet[OF assms(3)] by (simp add: ensureObject_def)
qed

text \<open>What is written in between has the name of the object.\<close>

lemma create_or_update_frame:
  assumes api: "stores sim key c" "framed key c" and n: "key exp \<noteq> n" "\<And>x. cur = Some x \<Longrightarrow> key x \<noteq> n"
  shows "preserves (\<lambda>v. look c n v = r)
    (createOrUpdate (kcreate c) cmsg (currentObject c m) (updateObject c umsg changed) cur exp)"
proof -
  have "preserves (\<lambda>v. look c n v = r) (kget c k)" for k
    using api(1) by (simp add: preserves_def stores_def)
  moreover have "preserves (\<lambda>v. look c n v = r) (kcreate c exp)"
    using api(2) n(1) by (auto simp: preserves_def framed_def)
  moreover have "preserves (\<lambda>v. look c n v = r) (kupdate c upd)" if "cur = Some x" "changed x exp = Some upd" for x upd
    using api(2) n(2)[OF that(1)] keeps_key[OF that(2)] by (auto simp: preserves_def framed_def)
  ultimately show ?thesis
    unfolding createOrUpdate_def updateObject_def by (intro pres_intros) auto
qed

lemma ensure_object_frame:
  assumes api: "stores sim key c" "framed key c" and n: "key exp = m" "m \<noteq> n"
  shows "preserves (\<lambda>v. look c n v = r) (ensureObject c m cmsg (updateObject c umsg changed) exp)"
  unfolding preserves_def
proof (intro allI impI)
  fix w assume w: "look c n w = r"
  have pure: "snd (run_state (kget c k) v) = v" for k v using api(1) by (simp add: stores_def)
  obtain cur err where cur: "run_state (currentObject c m) w = ((cur, err), w)"
    using run_currentObject[OF pure, of m w] by (auto split: sum.splits)
  have own: "key x \<noteq> n" if "cur = Some x" for x
    using that cur run_currentObject[OF pure, of m w] api(1) n(2) by (auto simp: stores_def split: sum.splits)
  show "look c n (snd (run_state (ensureObject c m cmsg (updateObject c umsg changed) exp) w)) = r"
    using preservesD[OF create_or_update_frame[OF api, of exp n cur r cmsg m umsg], of w] own w n cur
    by (cases err) (auto simp: ensureObject_def)
qed

end

end
