(* ===== verification/DNS_Status.thy ===== *)
theory DNS_Status
  imports Node_Placement Kube_API
begin

text \<open>
  \<open>pkg/operator/controller/dns_status.go\<close> and \<open>pkg/util/conditions\<close>: the status conditions
  of a DNS and the operation that publishes them.

  The clock is explicit. \<open>now\<close> is the reading of \<open>time.Now()\<close> in
  \<open>computeDNSStatusConditions\<close>; every call of \<open>metav1.Now()\<close> in
  \<open>setDNSLastTransitionTime\<close> has a reading of its own. A pair of Go values
  \<open>(have bool, daemonset *DaemonSet)\<close> is an option.
  \<open>%+v\<close> prints a toleration with the address of its \<open>TolerationSeconds\<close>, so the text of
  a toleration list is a parameter (\<open>ppTol\<close>).
\<close>

section \<open>Conditions\<close>

definition formatCondition :: "condition \<Rightarrow> string" where
  "formatCondition c =
     '', '' @ c_type c @ ''='' @ c_status c @ '' ('' @ c_reason c @ '': '' @ c_message c @ '')''"

definition FormatConditions :: "condition list \<Rightarrow> string" where
  "FormatConditions conds =
     (if length conds = 0 then '''' else drop 2 (concat (map formatCondition conds)))"

text \<open>
  \<open>SortSlices\<close> with the order of the condition types: by the contract of
  \<open>sort.SliceStable\<close> both lists are sorted stably by type and then compared.
\<close>

definition ConditionsEqual :: "condition list \<Rightarrow> condition list \<Rightarrow> bool" where
  "ConditionsEqual a b \<longleftrightarrow> sort_key c_type a = sort_key c_type b"

definition dnsStatusesEqual :: "dnsstatus \<Rightarrow> dnsstatus \<Rightarrow> bool" where
  "dnsStatusesEqual a b =
     (if \<not> ConditionsEqual (st_conditions a) (st_conditions b) then False
      else if st_clusterIP a \<noteq> st_clusterIP b then False
      else if st_clusterDomain a \<noteq> st_clusterDomain b then False
      else True)"

definition generateCondition :: "string \<Rightarrow> string \<Rightarrow> string \<Rightarrow> string \<Rightarrow> instant \<Rightarrow> condition" where
  "generateCondition condtype reason message status transitionTime =
     \<lparr>c_type = condtype, c_status = status, c_lastTransitionTime = transitionTime,
      c_reason = reason, c_message = message\<rparr>"

definition lastTransitionTimeIsRecent :: "instant \<Rightarrow> instant \<Rightarrow> duration \<Rightarrow> bool" where
  "lastTransitionTimeIsRecent currTime prevTime toleration =
     (if toleration < 0 then False
      else let elapsed = time_Sub currTime prevTime in
        if elapsed = 0 then True
        else if elapsed < 0 then False
        else elapsed \<le> toleration)"

definition setDNSLastTransitionTime :: "instant \<Rightarrow> condition \<Rightarrow> condition option \<Rightarrow> condition" where
  "setDNSLastTransitionTime mnow c oldCondition =
     (case oldCondition of
        Some old \<Rightarrow>
          if c_status c = c_status old
          then c\<lparr>c_lastTransitionTime := c_lastTransitionTime old\<rparr>
          else c\<lparr>c_lastTransitionTime := mnow\<rparr>
      | None \<Rightarrow> c\<lparr>c_lastTransitionTime := mnow\<rparr>)"

definition newCondition :: "string \<Rightarrow> string \<Rightarrow> string \<Rightarrow> string \<Rightarrow> condition" where
  "newCondition ty status reason message =
     \<lparr>c_type = ty, c_status = status, c_lastTransitionTime = 0, c_reason = reason,
      c_message = message\<rparr>"

section \<open>Percentages\<close>

text \<open>
  \<open>intstr.GetScaledValueFromIntOrPercent\<close>. The floating-point division is exact to the
  next integer for the totals that fit an \<open>int32\<close>.
\<close>

definition isDigit :: "char \<Rightarrow> bool" where
  "isDigit c \<longleftrightarrow> (48::nat) \<le> of_char c \<and> (of_char c :: nat) \<le> 57"

definition parseDigits :: "string \<Rightarrow> int option" where
  "parseDigits s =
     (if s \<noteq> '''' \<and> list_all isDigit s
      then Some (foldl (\<lambda>n c. 10 * n + (of_char c - 48)) 0 s) else None)"

definition atoi :: "string \<Rightarrow> int option" where
  "atoi s =
     (if take 1 s = ''-'' then map_option uminus (parseDigits (drop 1 s))
      else if take 1 s = ''+'' then parseDigits (drop 1 s)
      else parseDigits s)"

definition getIntOrPercentValueSafely :: "intstr \<Rightarrow> string + (int \<times> bool)" where
  "getIntOrPercentValueSafely v =
     (case v of
        IntVal i \<Rightarrow> Inr (i, False)
      | StrVal s \<Rightarrow>
          if s \<noteq> '''' \<and> last s = CHR ''%'' then
            (case atoi (butlast s) of
               None \<Rightarrow> Inl (''invalid value '' @ s)
             | Some i \<Rightarrow> Inr (i, True))
          else Inl ''invalid type: string is not a percentage'')"

definition GetScaledValueFromIntOrPercent :: "intstr \<Rightarrow> int \<Rightarrow> bool \<Rightarrow> string + int" where
  "GetScaledValueFromIntOrPercent v tot roundUp =
     (case getIntOrPercentValueSafely v of
        Inl e \<Rightarrow> Inl (''invalid value for IntOrString: '' @ e)
      | Inr (val, isPercent) \<Rightarrow>
          if isPercent
          then (if roundUp then Inr (- ((- (val * tot)) div 100)) else Inr (val * tot div 100))
          else Inr val)"

section \<open>Degraded\<close>

definition DNSNoService :: string where "DNSNoService = ''NoService''"
definition DNSNoDNSDaemonSet :: string where "DNSNoDNSDaemonSet = ''NoDNSDaemonSet''"
definition DNSNoDNSPodsDesired :: string where "DNSNoDNSPodsDesired = ''NoDNSPodsDesired''"
definition DNSNoDNSPodsAvailable :: string where "DNSNoDNSPodsAvailable = ''NoDNSPodsAvailable''"
definition DNSInvalidDNSMaxUnavailable :: string where
  "DNSInvalidDNSMaxUnavailable = ''InvalidDNSMaxUnavailable''"
definition DNSMaxUnavailableDNSPodsExceeded :: string where
  "DNSMaxUnavailableDNSPodsExceeded = ''MaxUnavailableDNSPodsExceeded''"

definition degradedReasons :: "string \<Rightarrow> daemonset option \<Rightarrow> instant \<Rightarrow> condition list" where
  "degradedReasons clusterIP ds transitionTime =
     (if length clusterIP = 0
      then [generateCondition DNSNoService DNSNoService
              ''No IP address is assigned to the DNS service.'' ConditionTrue transitionTime]
      else []) @
     (case ds of
        None \<Rightarrow> [generateCondition DNSNoDNSDaemonSet DNSNoDNSDaemonSet
                   ''The DNS daemonset does not exist.'' ConditionTrue transitionTime]
      | Some d \<Rightarrow>
          let want = dst_desiredNumberScheduled (ds_status d);
              have = dst_numberAvailable (ds_status d);
              numberUnavailable = int32_sub want have;
              scaled = GetScaledValueFromIntOrPercent (StrVal ''10%'') want True
          in
          if want = 0 then
            [generateCondition DNSNoDNSPodsDesired DNSNoDNSPodsDesired
               ''No DNS pods are desired; this could mean all nodes are tainted or unschedulable.''
               ConditionTrue transitionTime]
          else if have = 0 then
            [generateCondition DNSNoDNSPodsAvailable DNSNoDNSPodsAvailable
               ''No DNS pods are available.'' ConditionTrue transitionTime]
          else (case scaled of
              Inl e \<Rightarrow>
                [generateCondition DNSInvalidDNSMaxUnavailable DNSInvalidDNSMaxUnavailable
                   (''The DNS daemonset has an invalid MaxUnavailable value: '' @ e)
                   ConditionTrue transitionTime]
            | Inr maxUnavailable \<Rightarrow>
                if numberUnavailable > maxUnavailable then
                  [generateCondition DNSMaxUnavailableDNSPodsExceeded DNSMaxUnavailableDNSPodsExceeded
                     (''Too many DNS pods are unavailable ('' @ itoa numberUnavailable @ '' > ''
                      @ itoa maxUnavailable @ '' max unavailable).'') ConditionTrue transitionTime]
                else []))"

text \<open>The guard that both Progressing and Degraded use to damp flapping.\<close>

definition recentlyFalse :: "condition option \<Rightarrow> instant \<Rightarrow> duration \<Rightarrow> bool" where
  "recentlyFalse oldCondition currentTime transitionUnchangedToleration =
     (case oldCondition of
        None \<Rightarrow> False
      | Some old \<Rightarrow> c_status old = ConditionFalse
          \<and> lastTransitionTimeIsRecent currentTime (c_lastTransitionTime old)
              transitionUnchangedToleration)"

definition computeDNSDegradedCondition ::
  "condition option \<Rightarrow> condition option \<Rightarrow> string \<Rightarrow> daemonset option \<Rightarrow> duration \<Rightarrow> instant \<Rightarrow>
   instant \<Rightarrow> condition \<times> goerror option" where
  "computeDNSDegradedCondition oldDegraded newProgressing clusterIP ds toleration currentTime mnow =
     (let degradedConditions = degradedReasons clusterIP ds currentTime;
          progressing = (case newProgressing of None \<Rightarrow> False | Some c \<Rightarrow> c_status c = ConditionTrue)
      in if length degradedConditions \<noteq> 0 \<and> recentlyFalse oldDegraded currentTime toleration
         then (the oldDegraded, None)
         else if \<not> progressing \<and> length degradedConditions \<noteq> 0
         then (setDNSLastTransitionTime mnow
                 (newCondition TypeDegraded ConditionTrue ''DegradedConditions''
                    (''One or more other status conditions indicate a degraded state: ''
                     @ FormatConditions degradedConditions)) oldDegraded,
               Some (retryable_New (ErrMsg ''DNS operator is degraded'') toleration))
         else (setDNSLastTransitionTime mnow
                 (newCondition TypeDegraded ConditionFalse ''AsExpected''
                    ''Enough DNS pods are available, and the DNS service has a cluster IP address.'')
                 oldDegraded, None))"

section \<open>Progressing, Available, Upgradeable\<close>

text \<open>\<open>fmt.Sprintf("%+v", m)\<close> of a string map: the entries sorted by key.\<close>

definition fmtMap :: "gomap \<Rightarrow> string" where
  "fmtMap m = ''map['' @ join '' '' (map (\<lambda>(k, v). k @ '':'' @ v) (sort_key fst m)) @ '']''"

definition progressingMessages ::
  "(toleration list \<Rightarrow> string) \<Rightarrow> dns \<Rightarrow> string \<Rightarrow> daemonset option \<Rightarrow> daemonset option \<Rightarrow> string list" where
  "progressingMessages ppTol d clusterIP dnsDS nrDS =
     (if length clusterIP = 0 then [''No IP address is assigned to the DNS service.''] else []) @
     (case dnsDS of
        None \<Rightarrow> [''The DNS daemonset does not exist.'']
      | Some ds \<Rightarrow>
          (let want = dst_desiredNumberScheduled (ds_status ds);
               have = dst_updatedNumberScheduled (ds_status ds)
           in if have < want
              then [''Have '' @ itoa have @ '' up-to-date DNS pods, want '' @ itoa want @ ''.'']
              else []) @
          (let haveSelector = ps_nodeSelector (pt_spec (dss_template (ds_spec ds)));
               wantSelector = nodeSelectorForDNS d
           in if \<not> gm_eq haveSelector wantSelector
              then [''Have DNS daemonset with node selector '' @ fmtMap haveSelector
                    @ '', want '' @ fmtMap wantSelector @ ''.'']
              else []) @
          (let haveTolerations = ps_tolerations (pt_spec (dss_template (ds_spec ds)));
               wantTolerations = tolerationsForDNS d
           in if haveTolerations \<noteq> wantTolerations
              then [''Have DNS daemonset with tolerations '' @ ppTol haveTolerations
                    @ '', want '' @ ppTol wantTolerations @ ''.'']
              else [])) @
     (case nrDS of
        None \<Rightarrow> [''The node-resolver daemonset does not exist.'']
      | Some ds \<Rightarrow>
          (let want = dst_desiredNumberScheduled (ds_status ds);
               have = dst_updatedNumberScheduled (ds_status ds)
           in if have < want
              then [''Have '' @ itoa have @ '' available node-resolver pods, want '' @ itoa want @ ''.'']
              else []))"

definition computeDNSProgressingCondition ::
  "(toleration list \<Rightarrow> string) \<Rightarrow> condition option \<Rightarrow> dns \<Rightarrow> string \<Rightarrow> daemonset option \<Rightarrow>
   daemonset option \<Rightarrow> duration \<Rightarrow> instant \<Rightarrow> instant \<Rightarrow> rresult \<Rightarrow> condition \<times> rresult" where
  "computeDNSProgressingCondition ppTol oldCondition d clusterIP dnsDS nrDS toleration currentTime
     mnow reconcileResult =
     (let messages = progressingMessages ppTol d clusterIP dnsDS nrDS in
      if length messages \<noteq> 0 then
        (if recentlyFalse oldCondition currentTime toleration
         then (the oldCondition,
               reconcileResult\<lparr>rr_requeue := True, rr_requeueAfter := toleration\<rparr>)
         else (setDNSLastTransitionTime mnow
                 (newCondition TypeProgressing ConditionTrue ''Reconciling'' (join nl messages))
                 oldCondition, reconcileResult))
      else (setDNSLastTransitionTime mnow
              (newCondition TypeProgressing ConditionFalse ''AsExpected''
                 (''All DNS and node-resolver pods are updated, ''
                  @ ''and the DNS service has a cluster IP address.'')) oldCondition,
            reconcileResult))"

definition unavailableReasons :: "string \<Rightarrow> daemonset option \<Rightarrow> (string \<times> string) list" where
  "unavailableReasons clusterIP ds =
     (case ds of
        None \<Rightarrow> [(''NoDaemonSet'', ''The DNS daemonset does not exist.'')]
      | Some d \<Rightarrow>
          if dst_numberAvailable (ds_status d) = 0
          then [(''NoDaemonSetPods'', ''The DNS daemonset has no pods available.'')] else []) @
     (if length clusterIP = 0
      then [(''NoService'', ''No IP address is assigned to the DNS service.'')] else [])"

definition computeDNSAvailableCondition ::
  "condition option \<Rightarrow> string \<Rightarrow> daemonset option \<Rightarrow> instant \<Rightarrow> condition" where
  "computeDNSAvailableCondition oldCondition clusterIP ds mnow =
     (let rs = unavailableReasons clusterIP ds in
      setDNSLastTransitionTime mnow
        (if length rs \<noteq> 0
         then newCondition TypeAvailable ConditionFalse (join '''' (map fst rs)) (join nl (map snd rs))
         else newCondition TypeAvailable ConditionTrue ''AsExpected''
                (''The DNS daemonset has available pods, ''
                 @ ''and the DNS service has a cluster IP address.''))
        oldCondition)"

definition computeDNSUpgradeableCondition :: "condition option \<Rightarrow> dns \<Rightarrow> instant \<Rightarrow> condition" where
  "computeDNSUpgradeableCondition oldCondition d mnow =
     setDNSLastTransitionTime mnow
       (if spec_managementState (dns_spec d) = Unmanaged
        then newCondition TypeUpgradeable ConditionFalse ''OperatorUnmanaged''
               ''Cannot upgrade while managementState is Unmanaged''
        else newCondition TypeUpgradeable ConditionTrue ''AsExpected'' ''DNS Operator can be upgraded'')
       oldCondition"

section \<open>All conditions\<close>

text \<open>The clock readings of one computation, in the order the code takes them.\<close>

record clock =
  clk_now :: instant
  clk_progressing :: instant
  clk_available :: instant
  clk_upgradeable :: instant
  clk_degraded :: instant

fun lastOfType :: "string \<Rightarrow> condition option \<Rightarrow> condition list \<Rightarrow> condition option" where
  "lastOfType t old [] = old"
| "lastOfType t old (c # cs) = lastOfType t (if c_type c = t then Some c else old) cs"

definition oldCondition :: "string \<Rightarrow> dns \<Rightarrow> condition option" where
  "oldCondition t d = lastOfType t None (st_conditions (dns_status d))"

definition computeDNSStatusConditions ::
  "(toleration list \<Rightarrow> string) \<Rightarrow> clock \<Rightarrow> dns \<Rightarrow> string \<Rightarrow> daemonset option \<Rightarrow> daemonset option \<Rightarrow>
   duration \<Rightarrow> rresult \<Rightarrow> condition list \<times> goerror option \<times> rresult" where
  "computeDNSStatusConditions ppTol clk d clusterIP dnsDS nrDS toleration result =
     (let (newProgressing, result') =
            computeDNSProgressingCondition ppTol (oldCondition TypeProgressing d) d clusterIP dnsDS
              nrDS toleration (clk_now clk) (clk_progressing clk) result;
          available = computeDNSAvailableCondition (oldCondition TypeAvailable d) clusterIP dnsDS
                        (clk_available clk);
          upgradeable = computeDNSUpgradeableCondition (oldCondition TypeUpgradeable d) d
                          (clk_upgradeable clk);
          (degraded, err) =
            computeDNSDegradedCondition (oldCondition TypeDegraded d) (Some newProgressing) clusterIP
              dnsDS toleration (clk_now clk) (clk_degraded clk)
      in ([newProgressing, available, upgradeable, degraded], err, result'))"

definition syncDNSStatus ::
  "(dns \<Rightarrow> ('w, apierror option) state) \<Rightarrow> (toleration list \<Rightarrow> string) \<Rightarrow> clock \<Rightarrow> dns \<Rightarrow> string \<Rightarrow>
   string \<Rightarrow> daemonset option \<Rightarrow> daemonset option \<Rightarrow> duration \<Rightarrow> rresult \<Rightarrow>
   ('w, goerror option \<times> rresult) state" where
  "syncDNSStatus statusUpdate ppTol clk d clusterIP clusterDomain dnsDS nrDS toleration result =
     (let (statusConds, err, result') =
            computeDNSStatusConditions ppTol clk d clusterIP dnsDS nrDS toleration result
      in case err of
           Some e \<Rightarrow> State_Monad.return (NewMaybeRetryableAggregate [Some e], result')
         | None \<Rightarrow>
             let updated = d\<lparr>dns_status := \<lparr>st_clusterIP = clusterIP, st_clusterDomain = clusterDomain,
                                           st_conditions = statusConds\<rparr>\<rparr>
             in if \<not> dnsStatusesEqual (dns_status updated) (dns_status d)
                then do {
                  r \<leftarrow> statusUpdate updated;
                  (case r of
                     Some e \<Rightarrow> State_Monad.return
                                (Some (errorf ''failed to update dns status'' (apiErr e)), result')
                   | None \<Rightarrow> State_Monad.return (None, result'))
                }
                else State_Monad.return (None, result'))"

section \<open>Facts about each condition\<close>

lemma scaled_ten_percent:
  "GetScaledValueFromIntOrPercent (StrVal ''10%'') want True = Inr ((want + 9) div 10)"
proof -
  have "atoi ''10'' = Some 10"
    by (simp add: atoi_def parseDigits_def isDigit_def)
  moreover have "(- (10 * want)) div 100 = (- want) div 10"
    using div_mult_mult1[of 10 "- want" 10] by simp
  moreover have "- ((- want) div 10) = (want + 9) div 10"
    by linarith
  ultimately show ?thesis
    by (simp add: GetScaledValueFromIntOrPercent_def getIntOrPercentValueSafely_def)
qed

lemma degradedReasons_no_daemonset: "degradedReasons ip None t \<noteq> []"
  by (simp add: degradedReasons_def)

lemma degradedReasons_Nil_iff:
  assumes "0 \<le> dst_desiredNumberScheduled (ds_status ds)" "dst_desiredNumberScheduled (ds_status ds) < 2 ^ 31"
    and "0 \<le> dst_numberAvailable (ds_status ds)" "dst_numberAvailable (ds_status ds) < 2 ^ 31"
  shows "degradedReasons ip (Some ds) t = [] \<longleftrightarrow>
    ip \<noteq> '''' \<and> 0 < dst_desiredNumberScheduled (ds_status ds) \<and> 0 < dst_numberAvailable (ds_status ds)
    \<and> dst_desiredNumberScheduled (ds_status ds) - dst_numberAvailable (ds_status ds)
        \<le> (dst_desiredNumberScheduled (ds_status ds) + 9) div 10"
proof -
  have "int32_sub (dst_desiredNumberScheduled (ds_status ds)) (dst_numberAvailable (ds_status ds))
      = dst_desiredNumberScheduled (ds_status ds) - dst_numberAvailable (ds_status ds)"
    using assms by (intro int32_sub_exact) auto
  then show ?thesis
    using assms by (auto simp: degradedReasons_def scaled_ten_percent Let_def)
qed

lemma recent_iff:
  assumes "0 \<le> toleration" "toleration < maxDuration"
  shows "lastTransitionTimeIsRecent cur prev toleration \<longleftrightarrow> prev \<le> cur \<and> cur - prev \<le> toleration"
  using assms by (auto simp: lastTransitionTimeIsRecent_def time_Sub_def minDuration_def maxDuration_def
      Let_def min_def max_def)

lemma setTime_fields [simp]:
  "c_type (setDNSLastTransitionTime t c old) = c_type c"
  "c_status (setDNSLastTransitionTime t c old) = c_status c"
  "c_reason (setDNSLastTransitionTime t c old) = c_reason c"
  "c_message (setDNSLastTransitionTime t c old) = c_message c"
  by (simp_all add: setDNSLastTransitionTime_def split: option.split)

lemma newCondition_fields [simp]:
  "c_type (newCondition ty s r m) = ty" "c_status (newCondition ty s r m) = s"
  "c_reason (newCondition ty s r m) = r" "c_message (newCondition ty s r m) = m"
  by (simp_all add: newCondition_def)

lemma lastOfType_type: "lastOfType t old cs = Some c \<Longrightarrow> c_type c = t \<or> old = Some c"
  by (induction cs arbitrary: old) (auto split: if_splits)

lemma oldCondition_type: "oldCondition t d = Some c \<Longrightarrow> c_type c = t"
  by (auto simp: oldCondition_def dest: lastOfType_type)

definition kept :: "condition option \<Rightarrow> condition \<Rightarrow> bool" where
  "kept old c \<longleftrightarrow> (case old of None \<Rightarrow> True
     | Some o1 \<Rightarrow> c_status c = c_status o1 \<longrightarrow> c_lastTransitionTime c = c_lastTransitionTime o1)"

lemma recentlyFalse_old:
  assumes "recentlyFalse (oldCondition t d) now tol"
  shows "c_type (the (oldCondition t d)) = t" "c_status (the (oldCondition t d)) = ConditionFalse"
    "kept (oldCondition t d) (the (oldCondition t d))"
  using assms oldCondition_type[of t d]
  by (auto simp: recentlyFalse_def kept_def split: option.splits)

lemma kept_setTime: "kept old (setDNSLastTransitionTime t c old)"
  by (simp add: kept_def setDNSLastTransitionTime_def split: option.split)

lemma condition_types_distinct [simp]:
  "TypeProgressing \<noteq> TypeDegraded" "TypeAvailable \<noteq> TypeDegraded" "TypeUpgradeable \<noteq> TypeDegraded"
  "TypeDegraded \<noteq> TypeProgressing" "TypeDegraded \<noteq> TypeAvailable" "TypeDegraded \<noteq> TypeUpgradeable"
  "TypeProgressing \<noteq> TypeAvailable" "TypeProgressing \<noteq> TypeUpgradeable"
  "TypeAvailable \<noteq> TypeProgressing" "TypeAvailable \<noteq> TypeUpgradeable"
  "TypeUpgradeable \<noteq> TypeProgressing" "TypeUpgradeable \<noteq> TypeAvailable"
  by (simp_all add: condition_consts)

lemma condition_distinct [simp]:
  "ConditionTrue \<noteq> ConditionFalse" "ConditionFalse \<noteq> ConditionTrue"
  by (simp_all add: condition_consts)

lemma progressing_facts:
  assumes "computeDNSProgressingCondition pp (oldCondition TypeProgressing d) d2 ip ds nr tol now t r = (c, r')"
  shows "c_type c = TypeProgressing" "kept (oldCondition TypeProgressing d) c"
    "c_status c = ConditionTrue \<longleftrightarrow>
      progressingMessages pp d2 ip ds nr \<noteq> [] \<and> \<not> recentlyFalse (oldCondition TypeProgressing d) now tol"
  using assms
  by (auto simp: computeDNSProgressingCondition_def Let_def kept_setTime recentlyFalse_old
      condition_distinct split: if_splits)

lemma degraded_facts:
  assumes "computeDNSDegradedCondition (oldCondition TypeDegraded d) (Some p) ip ds tol now t = (c, e)"
  shows "c_type c = TypeDegraded" "kept (oldCondition TypeDegraded d) c"
    "c_status c = ConditionTrue \<longleftrightarrow>
      degradedReasons ip ds now \<noteq> [] \<and> \<not> recentlyFalse (oldCondition TypeDegraded d) now tol
      \<and> c_status p \<noteq> ConditionTrue"
    "c_status c = ConditionTrue \<or> c_status c = ConditionFalse"
    "e = (if c_status c = ConditionTrue
          then Some (Retryable (ErrMsg ''DNS operator is degraded'') tol) else None)"
  using assms
  by (auto simp: computeDNSDegradedCondition_def Let_def kept_setTime recentlyFalse_old
      condition_distinct retryable_New_def split: if_splits)

lemma available_facts:
  "c_type (computeDNSAvailableCondition old ip ds t) = TypeAvailable"
  "kept old (computeDNSAvailableCondition old ip ds t)"
  "c_status (computeDNSAvailableCondition old ip ds t) = ConditionTrue \<longleftrightarrow>
     ip \<noteq> '''' \<and> (\<exists>d. ds = Some d \<and> dst_numberAvailable (ds_status d) \<noteq> 0)"
  by (auto simp: computeDNSAvailableCondition_def unavailableReasons_def Let_def kept_setTime
      condition_consts split: option.splits)

lemma upgradeable_facts:
  "c_type (computeDNSUpgradeableCondition old d t) = TypeUpgradeable"
  "kept old (computeDNSUpgradeableCondition old d t)"
  "c_status (computeDNSUpgradeableCondition old d t) = ConditionTrue \<longleftrightarrow>
     spec_managementState (dns_spec d) \<noteq> Unmanaged"
  by (auto simp: computeDNSUpgradeableCondition_def kept_setTime condition_consts)

lemma status_conditions_cases:
  assumes "computeDNSStatusConditions pp clk d ip ds nr tol r = (cs, e, r')"
  obtains p dg where
    "cs = [p, computeDNSAvailableCondition (oldCondition TypeAvailable d) ip ds (clk_available clk),
           computeDNSUpgradeableCondition (oldCondition TypeUpgradeable d) d (clk_upgradeable clk), dg]"
    "computeDNSProgressingCondition pp (oldCondition TypeProgressing d) d ip ds nr tol (clk_now clk)
       (clk_progressing clk) r = (p, r')"
    "computeDNSDegradedCondition (oldCondition TypeDegraded d) (Some p) ip ds tol (clk_now clk)
       (clk_degraded clk) = (dg, e)"
  using assms by (auto simp: computeDNSStatusConditions_def Let_def split: prod.splits)


lemma sync_run:
  assumes "computeDNSStatusConditions pp clk d ip ds nr tol r = (cs, e, r')"
  shows "run_state (syncDNSStatus upd pp clk d ip cdom ds nr tol r) w =
    (let new = \<lparr>st_clusterIP = ip, st_clusterDomain = cdom, st_conditions = cs\<rparr> in
     case e of
       Some x \<Rightarrow> ((NewMaybeRetryableAggregate [Some x], r'), w)
     | None \<Rightarrow> if dnsStatusesEqual new (dns_status d) then ((None, r'), w)
         else (case run_state (upd (d\<lparr>dns_status := new\<rparr>)) w of (res, w') \<Rightarrow>
           ((map_option (\<lambda>x. errorf ''failed to update dns status'' (apiErr x)) res, r'), w')))"
  using assms
  by (auto simp: syncDNSStatus_def Let_def split: option.splits prod.splits)


lemma setTime_stable:
  "setDNSLastTransitionTime t' c (Some (setDNSLastTransitionTime t c old))
   = setDNSLastTransitionTime t c old"
  by (auto simp: setDNSLastTransitionTime_def split: option.split)

lemma degradedReasons_time: "degradedReasons ip ds t = [] \<longleftrightarrow> degradedReasons ip ds t' = []"
  by (simp add: degradedReasons_def Let_def split: option.split sum.split)

lemma available_stable:
  "computeDNSAvailableCondition (Some (computeDNSAvailableCondition old ip ds t)) ip ds t'
   = computeDNSAvailableCondition old ip ds t"
  by (simp add: computeDNSAvailableCondition_def Let_def setTime_stable)

lemma upgradeable_stable:
  "dns_spec d' = dns_spec d \<Longrightarrow>
   computeDNSUpgradeableCondition (Some (computeDNSUpgradeableCondition old d t)) d' t'
   = computeDNSUpgradeableCondition old d t"
  by (simp add: computeDNSUpgradeableCondition_def setTime_stable)

lemma progressing_stable:
  assumes "progressingMessages pp d ip ds nr = []" "progressingMessages pp d' ip ds nr = []"
  shows "computeDNSProgressingCondition pp
     (Some (fst (computeDNSProgressingCondition pp old d ip ds nr tol now t r))) d' ip ds nr tol now' t' r'
   = (fst (computeDNSProgressingCondition pp old d ip ds nr tol now t r), r')"
  using assms by (simp add: computeDNSProgressingCondition_def Let_def setTime_stable)

lemma degraded_stable:
  assumes "degradedReasons ip ds now = []" "degradedReasons ip ds now' = []"
  shows "computeDNSDegradedCondition
     (Some (fst (computeDNSDegradedCondition old p ip ds tol now t))) p' ip ds tol now' t'
   = (fst (computeDNSDegradedCondition old p ip ds tol now t), None)"
  using assms by (simp add: computeDNSDegradedCondition_def Let_def setTime_stable)

lemma progressingMessages_status:
  "dns_spec d' = dns_spec d \<Longrightarrow> progressingMessages pp d' ip ds nr = progressingMessages pp d ip ds nr"
proof -
  assume "dns_spec d' = dns_spec d"
  then have "nodeSelectorForDNS d' = nodeSelectorForDNS d" "tolerationsForDNS d' = tolerationsForDNS d"
    by (simp_all add: nodeSelectorForDNS_def tolerationsForDNS_def)
  then show ?thesis by (cases ds) (simp_all add: progressingMessages_def)
qed

lemma oldCondition_four:
  assumes "st_conditions (dns_status d) = [p, a, u, g]" "c_type p = TypeProgressing"
    "c_type a = TypeAvailable" "c_type u = TypeUpgradeable" "c_type g = TypeDegraded"
  shows "oldCondition TypeProgressing d = Some p" "oldCondition TypeAvailable d = Some a"
    "oldCondition TypeUpgradeable d = Some u" "oldCondition TypeDegraded d = Some g"
  using assms by (simp_all add: oldCondition_def)


section \<open>Properties\<close>

text \<open>Two sample inputs for the witnesses: a clock, and a daemonset whose ten pods all run.\<close>

definition sample_clock :: clock where
  "sample_clock = \<lparr>clk_now = 100, clk_progressing = 101, clk_available = 102,
     clk_upgradeable = 103, clk_degraded = 104\<rparr>"

definition sample_daemonset :: daemonset where
  "sample_daemonset = emptyDaemonSet\<lparr>
     ds_spec := (ds_spec emptyDaemonSet)\<lparr>dss_template := (dss_template (ds_spec emptyDaemonSet))\<lparr>
       pt_spec := emptyPodSpec\<lparr>ps_nodeSelector := nodeSelectorForDNS emptyDNS,
                               ps_tolerations := tolerationsForDNS emptyDNS\<rparr>\<rparr>\<rparr>,
     ds_status := \<lparr>dst_desiredNumberScheduled = 10, dst_updatedNumberScheduled = 10,
                   dst_numberAvailable = 10\<rparr>\<rparr>"

text \<open>
  The conditions a DNS gets are always the four types Progressing, Available,
  Upgradeable and Degraded, in this order, and a condition whose status did not change
  keeps the transition time it had in the old status.
\<close>

theorem status_conditions_wellformed:
  assumes "computeDNSStatusConditions pp clk d ip ds nr tol r = (cs, e, r')"
  shows "map c_type cs = [TypeProgressing, TypeAvailable, TypeUpgradeable, TypeDegraded]
    \<and> (\<forall>c\<in>set cs. \<forall>old. oldCondition (c_type c) d = Some old \<longrightarrow> c_status c = c_status old \<longrightarrow>
         c_lastTransitionTime c = c_lastTransitionTime old)"
  using assms
proof (cases rule: status_conditions_cases)
  case (1 p dg)
  note P = progressing_facts[OF 1(2)] and D = degraded_facts[OF 1(3)]
  have all: "\<forall>c\<in>set cs. kept (oldCondition (c_type c) d) c"
    using 1(1) P(1,2) D(1,2) by (simp add: available_facts upgradeable_facts)
  have "map c_type cs = [TypeProgressing, TypeAvailable, TypeUpgradeable, TypeDegraded]"
    using 1(1) P(1) D(1) by (simp add: available_facts upgradeable_facts)
  moreover have "c_lastTransitionTime c = c_lastTransitionTime old"
    if "c \<in> set cs" "oldCondition (c_type c) d = Some old" "c_status c = c_status old" for c old
    using all that by (auto simp: kept_def)
  ultimately show ?thesis by blast
qed

theorem status_conditions_wellformed_witness:
  "\<exists>cs e r. computeDNSStatusConditions (\<lambda>_. '''') sample_clock emptyDNS '''' None None 40 emptyResult = (cs, e, r)
     \<and> map c_type cs = [TypeProgressing, TypeAvailable, TypeUpgradeable, TypeDegraded]"
proof -
  obtain cs e r where "computeDNSStatusConditions (\<lambda>_. '''') sample_clock emptyDNS '''' None None 40
      emptyResult = (cs, e, r)"
    by (rule prod_cases3)
  then show ?thesis using status_conditions_wellformed by blast
qed

text \<open>
  C8: Publishing a status never publishes Degraded=True. Whatever the daemonsets, the old
  status and the clock are, \<open>syncDNSStatus\<close> either makes no API call or writes a status in
  which every Degraded condition is False: the error that \<open>computeDNSDegradedCondition\<close>
  returns together with Degraded=True makes \<open>syncDNSStatus\<close> return before the update.
\<close>

theorem sync_never_publishes_degraded:
  assumes "run_state (syncDNSStatus upd pp clk d ip cdom ds nr tol r) w = (res, w')"
  shows "w' = w \<or>
    (\<exists>cs. w' = snd (run_state (upd (d\<lparr>dns_status := \<lparr>st_clusterIP = ip, st_clusterDomain = cdom,
                                                     st_conditions = cs\<rparr>\<rparr>)) w)
       \<and> (\<forall>c\<in>set cs. c_type c = TypeDegraded \<longrightarrow> c_status c = ConditionFalse))"
proof -
  obtain cs e r' where comp: "computeDNSStatusConditions pp clk d ip ds nr tol r = (cs, e, r')"
    by (cases "computeDNSStatusConditions pp clk d ip ds nr tol r") auto
  from comp obtain p dg where cs: "cs = [p,
        computeDNSAvailableCondition (oldCondition TypeAvailable d) ip ds (clk_available clk),
        computeDNSUpgradeableCondition (oldCondition TypeUpgradeable d) d (clk_upgradeable clk), dg]"
      and P: "computeDNSProgressingCondition pp (oldCondition TypeProgressing d) d ip ds nr tol
        (clk_now clk) (clk_progressing clk) r = (p, r')"
      and D: "computeDNSDegradedCondition (oldCondition TypeDegraded d) (Some p) ip ds tol
        (clk_now clk) (clk_degraded clk) = (dg, e)"
    by (cases rule: status_conditions_cases)
  have "e = None \<Longrightarrow> \<forall>c\<in>set cs. c_type c = TypeDegraded \<longrightarrow> c_status c = ConditionFalse"
    using cs progressing_facts(1)[OF P] degraded_facts(4,5)[OF D]
    by (auto simp: available_facts upgradeable_facts split: if_splits)
  moreover have "w' = w \<or> e = None \<and> w' = snd (run_state (upd (d\<lparr>dns_status :=
      \<lparr>st_clusterIP = ip, st_clusterDomain = cdom, st_conditions = cs\<rparr>\<rparr>)) w)"
    using assms sync_run[OF comp, of upd cdom w]
    by (auto simp: Let_def split: option.splits if_splits prod.splits)
  ultimately show ?thesis by blast
qed

theorem sync_never_publishes_degraded_witness:
  "let w' = snd (run_state (syncDNSStatus (\<lambda>d. State (\<lambda>w. (None, w @ [d]))) (\<lambda>_. '''') sample_clock
       emptyDNS ''172.30.0.10'' ''cluster.local'' (Some sample_daemonset) (Some sample_daemonset)
       40 emptyResult) [])
   in length w' = 1 \<and>
      (\<forall>c\<in>set (st_conditions (dns_status (hd w'))). c_type c = TypeDegraded \<longrightarrow> c_status c = ConditionFalse)"
  (is "let w' = snd ?run in _")
proof -
  have len: "length (snd ?run) = 1"
    by code_simp
  have "\<forall>c\<in>set (st_conditions (dns_status (hd (snd ?run)))).
      c_type c = TypeDegraded \<longrightarrow> c_status c = ConditionFalse"
    using sync_never_publishes_degraded[OF prod.collapse[symmetric, of ?run]] len by auto
  with len show ?thesis by (simp only: Let_def simp_thms)
qed

text \<open>
  In a healthy cluster the operator is quiet: once a status has been computed from
  daemonsets that give no reason to be progressing or degraded, syncing the DNS that
  carries this status again, at any time, makes no API call and returns no error.
\<close>

theorem sync_healthy_quiet:
  assumes msgs: "progressingMessages pp d ip ds nr = []" and deg: "degradedReasons ip ds 0 = []"
    and d': "d' = d\<lparr>dns_status := \<lparr>st_clusterIP = ip, st_clusterDomain = cdom, st_conditions =
               fst (computeDNSStatusConditions pp clk d ip ds nr tol r)\<rparr>\<rparr>"
  shows "run_state (syncDNSStatus upd pp clk' d' ip cdom ds nr tol r') w = ((None, r'), w)"
proof -
  obtain cs e r1 where comp: "computeDNSStatusConditions pp clk d ip ds nr tol r = (cs, e, r1)"
    by (cases "computeDNSStatusConditions pp clk d ip ds nr tol r") auto
  from comp obtain p g where cs: "cs = [p,
        computeDNSAvailableCondition (oldCondition TypeAvailable d) ip ds (clk_available clk),
        computeDNSUpgradeableCondition (oldCondition TypeUpgradeable d) d (clk_upgradeable clk), g]"
      and P: "computeDNSProgressingCondition pp (oldCondition TypeProgressing d) d ip ds nr tol
        (clk_now clk) (clk_progressing clk) r = (p, r1)"
      and D: "computeDNSDegradedCondition (oldCondition TypeDegraded d) (Some p) ip ds tol
        (clk_now clk) (clk_degraded clk) = (g, e)"
    by (cases rule: status_conditions_cases)
  have spec: "dns_spec d' = dns_spec d" and st: "st_conditions (dns_status d') = cs"
    using d' comp by simp_all
  note old = oldCondition_four[OF st[unfolded cs] progressing_facts(1)[OF P] available_facts(1)
      upgradeable_facts(1) degraded_facts(1)[OF D]]
  have now: "degradedReasons ip ds t = []" for t
    using deg degradedReasons_time by blast
  have "computeDNSProgressingCondition pp (Some p) d' ip ds nr tol (clk_now clk') (clk_progressing clk') r'
      = (p, r')"
    using progressing_stable[OF msgs, of d'] msgs P spec
    by (metis fst_conv progressingMessages_status)
  moreover have "computeDNSDegradedCondition (Some g) (Some p) ip ds tol (clk_now clk') (clk_degraded clk')
      = (g, None)"
    using degraded_stable[OF now now] D by (metis fst_conv)
  ultimately have "computeDNSStatusConditions pp clk' d' ip ds nr tol r' = (cs, None, r')"
    by (simp add: computeDNSStatusConditions_def old cs available_stable upgradeable_stable[OF spec])
  moreover have "dns_status d' = \<lparr>st_clusterIP = ip, st_clusterDomain = cdom, st_conditions = cs\<rparr>"
    using d' comp by simp
  ultimately show ?thesis
    by (simp add: sync_run Let_def dnsStatusesEqual_def ConditionsEqual_def)
qed

theorem sync_healthy_quiet_witness:
  "progressingMessages (\<lambda>_. '''') emptyDNS ''172.30.0.10'' (Some sample_daemonset) (Some sample_daemonset) = []
   \<and> run_state (syncDNSStatus (\<lambda>d. State (\<lambda>w. (None, w @ [d]))) (\<lambda>_. '''') sample_clock
       (emptyDNS\<lparr>dns_status := \<lparr>st_clusterIP = ''172.30.0.10'', st_clusterDomain = ''cluster.local'',
          st_conditions = fst (computeDNSStatusConditions (\<lambda>_. '''') sample_clock emptyDNS ''172.30.0.10''
            (Some sample_daemonset) (Some sample_daemonset) 40 emptyResult)\<rparr>\<rparr>)
       ''172.30.0.10'' ''cluster.local'' (Some sample_daemonset) (Some sample_daemonset) 40 emptyResult) []
     = ((None, emptyResult), [])"
proof -
  have m: "progressingMessages (\<lambda>_. '''') emptyDNS ''172.30.0.10'' (Some sample_daemonset)
      (Some sample_daemonset) = []"
    by code_simp
  have g: "degradedReasons ''172.30.0.10'' (Some sample_daemonset) 0 = []"
    by code_simp
  show ?thesis by (rule conjI[OF m sync_healthy_quiet[OF m g refl]])
qed

text \<open>
  C32: When the Degraded condition is set. For a daemonset whose counts are proper
  \<open>int32\<close> counts, Degraded becomes True exactly when the daemonset wants pods but too few
  are available (none, or more than a tenth of the desired ones, rounded up, missing), or
  it wants none, or no cluster IP is known; and the operator is not progressing and the old
  condition was not set to False within the toleration. The error that asks for a retry
  after the toleration comes with exactly these cases.
\<close>

theorem degraded_condition_iff:
  assumes "0 \<le> dst_desiredNumberScheduled (ds_status ds)" "dst_desiredNumberScheduled (ds_status ds) < 2 ^ 31"
    and "0 \<le> dst_numberAvailable (ds_status ds)" "dst_numberAvailable (ds_status ds) < 2 ^ 31"
    and "computeDNSDegradedCondition (oldCondition TypeDegraded d) (Some p) ip (Some ds) tol now t = (c, e)"
  shows "(c_status c = ConditionTrue \<longleftrightarrow>
      (ip = '''' \<or> dst_desiredNumberScheduled (ds_status ds) = 0 \<or> dst_numberAvailable (ds_status ds) = 0
       \<or> dst_desiredNumberScheduled (ds_status ds) - dst_numberAvailable (ds_status ds)
           > (dst_desiredNumberScheduled (ds_status ds) + 9) div 10)
      \<and> \<not> recentlyFalse (oldCondition TypeDegraded d) now tol \<and> c_status p \<noteq> ConditionTrue)
    \<and> (e \<noteq> None \<longleftrightarrow> c_status c = ConditionTrue)
    \<and> (\<forall>x. e = Some x \<longrightarrow> is_retryable x \<and> After x = tol)"
  using degraded_facts(3,5)[OF assms(5)] degradedReasons_Nil_iff[OF assms(1-4), of ip now] assms(1,3)
  by auto

theorem degraded_condition_iff_witness:
  "fst (computeDNSDegradedCondition (oldCondition TypeDegraded emptyDNS)
     (Some (newCondition TypeProgressing ConditionFalse '''' '''')) ''172.30.0.10''
     (Some (sample_daemonset\<lparr>ds_status := \<lparr>dst_desiredNumberScheduled = 10,
        dst_updatedNumberScheduled = 10, dst_numberAvailable = 8\<rparr>\<rparr>)) 40 100 100) =
   \<lparr>c_type = TypeDegraded, c_status = ConditionTrue, c_lastTransitionTime = 100,
     c_reason = ''DegradedConditions'', c_message =
      ''One or more other status conditions indicate a degraded state: MaxUnavailableDNSPodsExceeded=True (MaxUnavailableDNSPodsExceeded: Too many DNS pods are unavailable (2 > 1 max unavailable).)''\<rparr>
   \<and> \<not> recentlyFalse (oldCondition TypeDegraded emptyDNS) 100 40"
  (is "fst (computeDNSDegradedCondition _ (Some ?p) _ (Some ?ds) _ _ _) = _ \<and> _")
proof -
  obtain c e where ce: "computeDNSDegradedCondition (oldCondition TypeDegraded emptyDNS) (Some ?p)
      ''172.30.0.10'' (Some ?ds) 40 100 100 = (c, e)"
    by (cases "computeDNSDegradedCondition (oldCondition TypeDegraded emptyDNS) (Some ?p)
      ''172.30.0.10'' (Some ?ds) 40 100 100")
  have "c_status c = ConditionTrue \<longrightarrow> \<not> recentlyFalse (oldCondition TypeDegraded emptyDNS) 100 40"
    using degraded_condition_iff[OF _ _ _ _ ce] by simp
  moreover have val: "fst (computeDNSDegradedCondition (oldCondition TypeDegraded emptyDNS) (Some ?p)
      ''172.30.0.10'' (Some ?ds) 40 100 100) =
     \<lparr>c_type = TypeDegraded, c_status = ConditionTrue, c_lastTransitionTime = 100,
       c_reason = ''DegradedConditions'', c_message =
      ''One or more other status conditions indicate a degraded state: MaxUnavailableDNSPodsExceeded=True (MaxUnavailableDNSPodsExceeded: Too many DNS pods are unavailable (2 > 1 max unavailable).)''\<rparr>"
    by code_simp
  ultimately show ?thesis using ce by simp
qed

end
