(* ===== verification/Go_Net.thy ===== *)
theory Go_Net
  imports Prelude
begin

text \<open>
  The functions of Go's \<open>net\<close> package that the operator calls on addresses:
  \<open>net.JoinHostPort\<close>, \<open>net.SplitHostPort\<close>, \<open>net.ParseIP\<close> (of which the operator
  uses only whether it accepts the text), \<open>net.ParseCIDR\<close> and \<open>IP.String\<close>. An error is
  \<^const>\<open>None\<close>.
\<close>

section \<open>Host and port\<close>

definition JoinHostPort :: "string \<Rightarrow> string \<Rightarrow> string" where
  "JoinHostPort host port =
     (if CHR '':'' \<in> set host then ''['' @ host @ '']:'' @ port else host @ '':'' @ port)"

text \<open>\<open>IndexByte\<close> and \<open>LastIndexByte\<close>, with \<^const>\<open>None\<close> for -1.\<close>

fun indexByte :: "char \<Rightarrow> string \<Rightarrow> nat option" where
  "indexByte c [] = None"
| "indexByte c (x # xs) = (if x = c then Some 0 else map_option Suc (indexByte c xs))"

definition lastIndexByte :: "char \<Rightarrow> string \<Rightarrow> nat option" where
  "lastIndexByte c s = map_option (\<lambda>i. length s - 1 - i) (indexByte c (rev s))"

definition SplitHostPort :: "string \<Rightarrow> (string \<times> string) option" where
  "SplitHostPort hostport =
     (case lastIndexByte (CHR '':'') hostport of
        None \<Rightarrow> None
      | Some i \<Rightarrow>
          (let bracketed = (hd hostport = CHR ''['');
               hjk = (if bracketed then
                        (case indexByte (CHR '']'') hostport of
                           None \<Rightarrow> None
                         | Some fin \<Rightarrow>
                             if fin + 1 = length hostport then None
                             else if fin + 1 = i
                             then Some (take (fin - 1) (drop 1 hostport), 1, fin + 1)
                             else None)
                      else if CHR '':'' \<in> set (take i hostport) then None
                      else Some (take i hostport, 0, 0))
           in case hjk of
                None \<Rightarrow> None
              | Some (host, j, k) \<Rightarrow>
                  if CHR ''['' \<in> set (drop j hostport) then None
                  else if CHR '']'' \<in> set (drop k hostport) then None
                  else Some (host, drop (i + 1) hostport)))"

section \<open>IP addresses\<close>

text \<open>
  An address is its length in bits (32 or 128, for a byte slice of 4 or 16 bytes) and its
  value in network byte order.
\<close>

record ipaddr =
  ip_bits :: nat
  ip_val :: int

definition bytesVal :: "int list \<Rightarrow> int" where
  "bytesVal bs = foldl (\<lambda>acc b. acc * 256 + b) 0 bs"

definition decDigit :: "char \<Rightarrow> int option" where
  "decDigit c = (let n = of_char c :: int in if 48 \<le> n \<and> n \<le> 57 then Some (n - 48) else None)"

definition hexDigit :: "char \<Rightarrow> int option" where
  "hexDigit c = (let n = of_char c :: int in
     if 48 \<le> n \<and> n \<le> 57 then Some (n - 48)
     else if 97 \<le> n \<and> n \<le> 102 then Some (n - 87)
     else if 65 \<le> n \<and> n \<le> 70 then Some (n - 55)
     else None)"

text \<open>
  \<open>parseIPv4Fields\<close>: \<open>val\<close> and \<open>digLen\<close> belong to the current octet, \<open>octs\<close> holds the
  finished ones, \<open>prev\<close> tells whether the previous byte was a dot (or there is none).
\<close>

fun parseIPv4Fields :: "int \<Rightarrow> nat \<Rightarrow> int list \<Rightarrow> bool \<Rightarrow> string \<Rightarrow> int list option" where
  "parseIPv4Fields val digLen octs prev [] =
     (if length octs < 3 then None else Some (octs @ [val]))"
| "parseIPv4Fields val digLen octs prev (c # s) =
     (case decDigit c of
        Some n \<Rightarrow>
          if digLen = 1 \<and> val = 0 then None
          else if val * 10 + n > 255 then None
          else parseIPv4Fields (val * 10 + n) (digLen + 1) octs False s
      | None \<Rightarrow>
          if c = CHR ''.'' then
            (if prev \<or> s = [] then None
             else if length octs = 3 then None
             else parseIPv4Fields 0 0 (octs @ [val]) True s)
          else None)"

definition parseIPv4 :: "string \<Rightarrow> ipaddr option" where
  "parseIPv4 s = map_option (\<lambda>bs. \<lparr>ip_bits = 32, ip_val = bytesVal bs\<rparr>) (parseIPv4Fields 0 0 [] True s)"

text \<open>
  One hexadecimal group: the number of its digits, its value and the rest of the text;
  \<^const>\<open>None\<close> when it has more than four.
\<close>

fun hexGroup :: "nat \<Rightarrow> int \<Rightarrow> string \<Rightarrow> (nat \<times> int \<times> string) option" where
  "hexGroup off acc [] = Some (off, acc, [])"
| "hexGroup off acc (c # s) =
     (case hexDigit c of
        None \<Rightarrow> Some (off, acc, c # s)
      | Some h \<Rightarrow> if off > 3 then None else hexGroup (off + 1) (acc * 16 + h) s)"

text \<open>What \<open>parseIPv6\<close> does with the bytes after its loop: the ellipsis fills up the 16 bytes.\<close>

definition expandEllipsis :: "int list \<Rightarrow> nat option \<Rightarrow> int list option" where
  "expandEllipsis bytes ellipsis =
     (case ellipsis of
        None \<Rightarrow> if length bytes < 16 then None else Some bytes
      | Some e \<Rightarrow> if length bytes < 16
                   then Some (take e bytes @ replicate (16 - length bytes) 0 @ drop e bytes) else None)"

text \<open>
  The loop of \<open>parseIPv6\<close>: \<open>bytes\<close> are the bytes filled so far, \<open>ellipsis\<close> the position
  where \<open>::\<close> was seen. The loop of the source runs while fewer than 16 bytes are filled; each
  round fills two, so eight rounds (the fuel) are all it can make.
\<close>

primrec parseIPv6_loop :: "nat \<Rightarrow> int list \<Rightarrow> nat option \<Rightarrow> string \<Rightarrow> int list option" where
  "parseIPv6_loop 0 bytes ellipsis s = (if s \<noteq> [] then None else expandEllipsis bytes ellipsis)"
| "parseIPv6_loop (Suc fuel) bytes ellipsis s =
     (case hexGroup 0 0 s of
        None \<Rightarrow> None
      | Some (off, acc, rest) \<Rightarrow>
          if off = 0 then None
          else if rest \<noteq> [] \<and> hd rest = CHR ''.'' then
            (if ellipsis = None \<and> length bytes \<noteq> 12 then None
             else if length bytes + 4 > 16 then None
             else (case parseIPv4Fields 0 0 [] True s of
                     None \<Rightarrow> None
                   | Some v4 \<Rightarrow> expandEllipsis (bytes @ v4) ellipsis))
          else
            let bytes' = bytes @ [acc div 256, acc mod 256] in
            if rest = [] then expandEllipsis bytes' ellipsis
            else if hd rest \<noteq> CHR '':'' then None
            else if tl rest = [] then None
            else
              (let s' = tl rest in
               if hd s' = CHR '':'' then
                 (if ellipsis \<noteq> None then None
                  else if tl s' = [] then expandEllipsis bytes' (Some (length bytes'))
                  else parseIPv6_loop fuel bytes' (Some (length bytes')) (tl s'))
               else parseIPv6_loop fuel bytes' ellipsis s'))"

text \<open>A zone makes \<open>net.ParseIP\<close> and \<open>net.ParseCIDR\<close> reject the address, and so does an empty one.\<close>

definition parseIPv6 :: "string \<Rightarrow> ipaddr option" where
  "parseIPv6 s =
     map_option (\<lambda>bs. \<lparr>ip_bits = 128, ip_val = bytesVal bs\<rparr>)
       (if CHR ''%'' \<in> set s then None
        else if take 2 s = ''::'' then
          (if length s = 2 then Some (replicate 16 0) else parseIPv6_loop 8 [] (Some 0) (drop 2 s))
        else parseIPv6_loop 8 [] None s)"

fun ParseAddr_scan :: "string \<Rightarrow> string \<Rightarrow> ipaddr option" where
  "ParseAddr_scan whole [] = None"
| "ParseAddr_scan whole (c # s) =
     (if c = CHR ''.'' then parseIPv4 whole
      else if c = CHR '':'' then parseIPv6 whole
      else if c = CHR ''%'' then None
      else ParseAddr_scan whole s)"

definition ParseAddr :: "string \<Rightarrow> ipaddr option" where
  "ParseAddr s = ParseAddr_scan s s"

definition ParseIP :: "string \<Rightarrow> bool" where
  "ParseIP s \<longleftrightarrow> ParseAddr s \<noteq> None"

section \<open>Networks\<close>

text \<open>
  \<open>net.IPNet\<close>: the masked address and the length of the mask. \<open>dtoi\<close> gives up at \<open>0xFFFFFF\<close>.
\<close>

record ipnet =
  net_ip :: ipaddr
  net_prefix :: nat

fun dtoi :: "int \<Rightarrow> string \<Rightarrow> int option" where
  "dtoi n [] = Some n"
| "dtoi n (c # s) =
     (case decDigit c of
        None \<Rightarrow> None
      | Some k \<Rightarrow> if n * 10 + k \<ge> 0xFFFFFF then None else dtoi (n * 10 + k) s)"

definition maskIP :: "nat \<Rightarrow> ipaddr \<Rightarrow> ipaddr" where
  "maskIP ones ip = ip\<lparr>ip_val := ip_val ip div 2 ^ (ip_bits ip - ones) * 2 ^ (ip_bits ip - ones)\<rparr>"

definition ParseCIDR :: "string \<Rightarrow> ipnet option" where
  "ParseCIDR s =
     (case indexByte (CHR ''/'') s of
        None \<Rightarrow> None
      | Some i \<Rightarrow>
          (case ParseAddr (take i s) of
             None \<Rightarrow> None
           | Some ip \<Rightarrow>
               (let mask = drop (i + 1) s in
                if mask = [] then None
                else case dtoi 0 mask of
                       None \<Rightarrow> None
                     | Some n \<Rightarrow>
                         if n > int (ip_bits ip) then None
                         else Some \<lparr>net_ip = maskIP (nat n) ip, net_prefix = nat n\<rparr>)))"

text \<open>\<open>IP.To4\<close> succeeds for a 4-byte address and for an IPv4-mapped one.\<close>

definition isTo4 :: "ipaddr \<Rightarrow> bool" where
  "isTo4 ip \<longleftrightarrow> ip_bits ip = 32 \<or> ip_val ip div 2 ^ 32 = 0xFFFF"

section \<open>Printing addresses\<close>

definition byteAt :: "int \<Rightarrow> nat \<Rightarrow> int" where
  "byteAt v i = v div 256 ^ i mod 256"

definition string4 :: "int \<Rightarrow> string" where
  "string4 v = itoa (byteAt v 3) @ ''.'' @ itoa (byteAt v 2) @ ''.'' @ itoa (byteAt v 1) @ ''.'' @ itoa (byteAt v 0)"

definition hexChar :: "int \<Rightarrow> char" where
  "hexChar d = (if d < 10 then char_of (48 + d) else char_of (87 + d))"

definition appendHex :: "int \<Rightarrow> string" where
  "appendHex x =
     (if x \<ge> 0x1000 then [hexChar (x div 0x1000)] else [])
     @ (if x \<ge> 0x100 then [hexChar (x div 0x100 mod 16)] else [])
     @ (if x \<ge> 0x10 then [hexChar (x div 0x10 mod 16)] else [])
     @ [hexChar (x mod 16)]"

definition groups6 :: "int \<Rightarrow> int list" where
  "groups6 v = map (\<lambda>i. v div 65536 ^ (7 - i) mod 65536) [0..<8]"

text \<open>The first longest run of at least two zero groups: its start and end (\<open>255, 255\<close> when there is none).\<close>

fun zeroRun :: "(nat \<times> nat) \<Rightarrow> nat list \<Rightarrow> int list \<Rightarrow> nat \<times> nat" where
  "zeroRun best [] gs = best"
| "zeroRun best (i # is) gs =
     (let l = length (takeWhile (\<lambda>g. g = 0) (drop i gs)) in
      zeroRun (if l \<ge> 2 \<and> l > snd best - fst best then (i, i + l) else best) is gs)"

text \<open>\<open>appendTo6\<close> with fuel for its loop over the eight groups; a run of zeros skips several.\<close>

primrec appendTo6 :: "nat \<Rightarrow> nat \<Rightarrow> nat \<Rightarrow> nat \<Rightarrow> int list \<Rightarrow> string" where
  "appendTo6 0 i z0 z1 gs = []"
| "appendTo6 (Suc fuel) i z0 z1 gs =
     (if i \<ge> 8 then []
      else if i = z0 then
        (if z1 \<ge> 8 then ''::''
         else ''::'' @ appendHex (gs ! z1) @ appendTo6 fuel (z1 + 1) z0 z1 gs)
      else (if i > 0 then '':'' else []) @ appendHex (gs ! i) @ appendTo6 fuel (i + 1) z0 z1 gs)"

definition string6 :: "int \<Rightarrow> string" where
  "string6 v = (let gs = groups6 v; (z0, z1) = zeroRun (255, 255) [0..<8] gs in appendTo6 8 0 z0 z1 gs)"

definition ipString :: "ipaddr \<Rightarrow> string" where
  "ipString ip = (if isTo4 ip then string4 (ip_val ip mod 2 ^ 32) else string6 (ip_val ip))"

section \<open>Facts\<close>

lemma indexByte_None: "indexByte c s = None \<longleftrightarrow> c \<notin> set s"
  by (induction s) auto

lemma indexByte_append: "c \<notin> set a \<Longrightarrow> indexByte c (a @ c # b) = Some (length a)"
  by (induction a) auto

lemma lastIndexByte_append:
  assumes "c \<notin> set b"
  shows "lastIndexByte c (a @ c # b) = Some (length a)"
  using assms indexByte_append[of c "rev b" "rev a"] by (simp add: lastIndexByte_def)

text \<open>What \<open>JoinHostPort\<close> writes, \<open>SplitHostPort\<close> reads back.\<close>

lemma Split_Join:
  assumes "CHR ''['' \<notin> set host" "CHR '']'' \<notin> set host"
    and "CHR '':'' \<notin> set port" "CHR ''['' \<notin> set port" "CHR '']'' \<notin> set port"
  shows "SplitHostPort (JoinHostPort host port) = Some (host, port)"
proof (cases "CHR '':'' \<in> set host")
  case True
  let ?s = "''['' @ host @ '']:'' @ port"
  have i: "lastIndexByte (CHR '':'') ?s = Some (length host + 2)"
    using lastIndexByte_append[OF assms(3), of "''['' @ host @ '']''"] by simp
  have e: "indexByte (CHR '']'') ?s = Some (length host + 1)"
    using indexByte_append[of "CHR '']''" "''['' @ host" "'':'' @ port"] assms(2) by simp
  have j: "JoinHostPort host port = ?s" using True by (simp add: JoinHostPort_def)
  show ?thesis unfolding j SplitHostPort_def i using e assms by simp
next
  case False
  then have j: "JoinHostPort host port = host @ '':'' @ port" by (simp add: JoinHostPort_def)
  have i: "lastIndexByte (CHR '':'') (host @ '':'' @ port) = Some (length host)"
    using lastIndexByte_append[OF assms(3), of host] by simp
  have "hd (host @ '':'' @ port) \<noteq> CHR ''[''" using assms(1) by (cases host) auto
  then show ?thesis unfolding j SplitHostPort_def i using assms False by simp
qed

lemma digits_chars:
  assumes "0 \<le> n" "c \<in> set (digits n)"
  shows "48 \<le> (of_char c :: nat) \<and> (of_char c :: nat) \<le> 57"
  using assms
proof (induction n rule: digits.induct)
  case (1 n)
  have dec: "(of_char (char_of (48 + k) :: char) :: nat) = 48 + nat k" if "0 \<le> k" "k < 10" for k :: int
  proof -
    have "k = 0 \<or> k = 1 \<or> k = 2 \<or> k = 3 \<or> k = 4 \<or> k = 5 \<or> k = 6 \<or> k = 7 \<or> k = 8 \<or> k = 9"
      using that by arith
    then show ?thesis by (elim disjE) (simp_all add: char_of_def)
  qed
  show ?case
    using 1 dec[of n] dec[of "n mod 10"]
    by (subst (asm) (2) digits.simps) (auto split: if_splits)
qed

end
