(* ===== verification/Corefile.thy ===== *)
theory Corefile
  imports Kube_API Go_Net
begin

text \<open>
  \<open>pkg/operator/controller/controller_dns_configmap.go\<close>: from a DNS to the CoreDNS
  configuration file and the configmap that holds it.

  \<^item> \<open>sanitizeTLSSettings\<close> rejects or normalises the TLS settings of the servers and of the
    upstream resolvers.
  \<^item> \<open>desiredDNSConfigMap\<close> removes duplicate upstreams, computes the parameters and renders
    the template. The rendering is a list of lines; the file is the lines with their line
    ends. It follows the template's own trimming of white space.
  \<^item> \<open>ensureDNSConfigMap\<close> brings the cluster's configmap in line.

  The conversion of a floating-point number that is no \<open>uint32\<close> to \<open>uint32\<close> is left open by
  Go (\<open>toU32\<close> below is that conversion); the conversion of the others is their value.
\<close>

section \<open>Constants\<close>

definition resolvConf :: string where "resolvConf = ''/etc/resolv.conf''"
definition defaultDNSPort :: int where "defaultDNSPort = 53"
definition lameDuckDuration :: duration where "lameDuckDuration = 20 * time_Second"
definition cacheDefaultMaxPositiveTTLSeconds :: int where "cacheDefaultMaxPositiveTTLSeconds = 900"
definition cacheDefaultMaxNegativeTTLSeconds :: int where "cacheDefaultMaxNegativeTTLSeconds = 30"
definition DNSLogLevelNormal :: string where "DNSLogLevelNormal = ''Normal''"
definition DNSLogLevelDebug :: string where "DNSLogLevelDebug = ''Debug''"
definition DNSLogLevelTrace :: string where "DNSLogLevelTrace = ''Trace''"

definition errInvalidNetworkUpstream :: goerror where
  "errInvalidNetworkUpstream = ErrMsg ''The address field is mandatory for upstream of type Network, but was not provided''"
definition errTransportTLSConfiguredWithoutServerName :: goerror where
  "errTransportTLSConfiguredWithoutServerName = ErrMsg ''The ServerName field is mandatory when configuring TLS as the DNS Transport''"
definition errTransportTLSConfiguredForNonIP :: goerror where
  "errTransportTLSConfiguredForNonIP = ErrMsg ''Only IP addresses are allowed when configuring TLS as the DNS Transport''"
definition errTransportTLSConfiguredForSysResConf :: goerror where
  "errTransportTLSConfiguredForSysResConf = ErrMsg ''Using system resolv config is not allowed when configuring TLS as the DNS Transport''"

section \<open>TLS settings\<close>

definition upstreamIsIP :: "string \<Rightarrow> bool" where
  "upstreamIsIP upstream =
     ParseIP (case SplitHostPort upstream of Some (v, _) \<Rightarrow> v | None \<Rightarrow> upstream)"

text \<open>The default transport, and the server name that only TLS uses.\<close>

definition defaultTransport :: "transportconfig \<Rightarrow> transportconfig" where
  "defaultTransport tc =
     (let tc1 = (if tc_transport tc = '''' then tc\<lparr>tc_transport := CleartextTransport\<rparr> else tc) in
      case tc_tls tc1 of
        Some tls \<Rightarrow>
          if tc_transport tc1 = CleartextTransport \<and> tls_serverName tls \<noteq> ''''
          then tc1\<lparr>tc_tls := Some (tls\<lparr>tls_serverName := ''''\<rparr>)\<rparr> else tc1
      | None \<Rightarrow> tc1)"

definition hasServerName :: "transportconfig \<Rightarrow> bool" where
  "hasServerName tc = (case tc_tls tc of None \<Rightarrow> False | Some tls \<Rightarrow> tls_serverName tls \<noteq> '''')"

definition sanitizeServer :: "server \<Rightarrow> goerror + server" where
  "sanitizeServer s =
     (let fp = srv_forwardPlugin s; tc = fp_transportConfig fp in
      if tc_transport tc = TLSTransport \<and> \<not> hasServerName tc
      then Inl errTransportTLSConfiguredWithoutServerName
      else if tc_transport tc = TLSTransport \<and> \<not> list_all upstreamIsIP (fp_upstreams fp)
      then Inl errTransportTLSConfiguredForNonIP
      else Inr (s\<lparr>srv_forwardPlugin := fp\<lparr>fp_transportConfig := defaultTransport tc\<rparr>\<rparr>))"

fun sanitizeServers :: "server list \<Rightarrow> goerror + server list" where
  "sanitizeServers [] = Inr []"
| "sanitizeServers (s # ss) =
     (case sanitizeServer s of
        Inl e \<Rightarrow> Inl e
      | Inr s' \<Rightarrow> (case sanitizeServers ss of Inl e \<Rightarrow> Inl e | Inr ss' \<Rightarrow> Inr (s' # ss')))"

definition sanitizeUpstreamResolvers :: "upstreamresolvers \<Rightarrow> goerror + upstreamresolvers" where
  "sanitizeUpstreamResolvers ur =
     (let tc = ur_transportConfig ur in
      if tc_transport tc = TLSTransport \<and> \<not> hasServerName tc
      then Inl errTransportTLSConfiguredWithoutServerName
      else if tc_transport tc = TLSTransport \<and> length (ur_upstreams ur) < 1
      then Inl errTransportTLSConfiguredForSysResConf
      else if tc_transport tc = TLSTransport
          \<and> list_ex (\<lambda>u. up_type u = SystemResolveConfType) (ur_upstreams ur)
      then Inl errTransportTLSConfiguredForSysResConf
      else Inr (ur\<lparr>ur_transportConfig := defaultTransport tc\<rparr>))"

definition sanitizeTLSSettings :: "dns \<Rightarrow> goerror + dns" where
  "sanitizeTLSSettings d =
     (case sanitizeServers (spec_servers (dns_spec d)) of
        Inl e \<Rightarrow> Inl e
      | Inr servers \<Rightarrow>
          (case sanitizeUpstreamResolvers (spec_upstreamResolvers (dns_spec d)) of
             Inl e \<Rightarrow> Inl e
           | Inr ur \<Rightarrow> Inr (d\<lparr>dns_spec := (dns_spec d)\<lparr>spec_servers := servers,
                                                       spec_upstreamResolvers := ur\<rparr>\<rparr>)))"

section \<open>Upstream resolvers\<close>

definition cmpUpstreamType :: "string \<Rightarrow> string \<Rightarrow> bool" where
  "cmpUpstreamType a b =
     ((if a = '''' then SystemResolveConfType else a) = (if b = '''' then SystemResolveConfType else b))"

definition cmpPort :: "int \<Rightarrow> int \<Rightarrow> bool" where
  "cmpPort a b = ((if a \<noteq> 0 then a else defaultDNSPort) = (if b \<noteq> 0 then b else defaultDNSPort))"

definition cmpAddress :: "string \<Rightarrow> string \<Rightarrow> bool" where
  "cmpAddress a b = equalFold a b"

definition upstreamEqual :: "upstream \<Rightarrow> upstream \<Rightarrow> bool" where
  "upstreamEqual a b \<longleftrightarrow> cmpUpstreamType (up_type a) (up_type b)
     \<and> cmpAddress (up_address a) (up_address b) \<and> cmpPort (up_port a) (up_port b)"

fun contains :: "upstream list \<Rightarrow> upstream \<Rightarrow> bool" where
  "contains [] u = False"
| "contains (an # us) u = (if upstreamEqual u an then True else contains us u)"

fun collectUpstreams :: "upstream list \<Rightarrow> upstream list \<Rightarrow> goerror + upstream list" where
  "collectUpstreams acc [] = Inr acc"
| "collectUpstreams acc (u # us) =
     (if up_type u = NetworkResolverType \<and> up_address u = '''' then Inl errInvalidNetworkUpstream
      else collectUpstreams (if \<not> contains acc u then acc @ [u] else acc) us)"

definition defaultUpstream :: upstream where
  "defaultUpstream = \<lparr>up_type = SystemResolveConfType, up_address = '''', up_port = 0\<rparr>"

definition effectiveResolvers :: "upstreamresolvers \<Rightarrow> goerror + upstreamresolvers" where
  "effectiveResolvers ur =
     (let start = \<lparr>ur_upstreams = [defaultUpstream], ur_policy = SequentialForwardingPolicy,
                  ur_transportConfig = ur_transportConfig ur,
                  ur_protocolStrategy = ur_protocolStrategy ur\<rparr>;
          withPolicy = (\<lambda>r. if ur_policy ur \<noteq> '''' then r\<lparr>ur_policy := ur_policy ur\<rparr> else r)
      in if length (ur_upstreams ur) > 0
         then (case collectUpstreams [] (ur_upstreams ur) of
                 Inl e \<Rightarrow> Inl e
               | Inr us \<Rightarrow> Inr (withPolicy (start\<lparr>ur_upstreams := us\<rparr>)))
         else Inr (withPolicy start))"

definition coreDNSResolver :: "upstream \<Rightarrow> goerror + string" where
  "coreDNSResolver u =
     (if up_type u = NetworkResolverType then
        (if up_address u = '''' then Inl errInvalidNetworkUpstream
         else if up_port u > 0
         then Inr (JoinHostPort (toUpper (up_address u)) (digits (up_port u)))
         else Inr (toUpper (up_address u)))
      else Inr resolvConf)"

definition coreDNSPolicy :: "string \<Rightarrow> string" where
  "coreDNSPolicy policy =
     (if policy = RandomForwardingPolicy then ''random''
      else if policy = RoundRobinForwardingPolicy then ''round_robin''
      else if policy = SequentialForwardingPolicy then ''sequential''
      else ''random'')"

definition coreDNSLogLevel :: "dns \<Rightarrow> string" where
  "coreDNSLogLevel d =
     (let l = spec_logLevel (dns_spec d) in
      if l = DNSLogLevelNormal then ''class error''
      else if l = DNSLogLevelDebug then ''class denial error''
      else if l = DNSLogLevelTrace then ''class all''
      else ''class error'')"

definition toSeconds :: "(int \<Rightarrow> int) \<Rightarrow> duration \<Rightarrow> int" where
  "toSeconds toU32 d =
     (let s = go_quot (duration_Round d time_Second) time_Second in
      if 0 \<le> s \<and> s < 2 ^ 32 then s else toU32 s)"

definition coreDNSCache :: "(int \<Rightarrow> int) \<Rightarrow> dns \<Rightarrow> int \<times> int" where
  "coreDNSCache toU32 d =
     (let configuredPosTTL = toSeconds toU32 (spec_positiveTTL (dns_spec d));
          configuredNegTTL = toSeconds toU32 (spec_negativeTTL (dns_spec d))
      in (if configuredPosTTL \<le> 0 then cacheDefaultMaxPositiveTTLSeconds else configuredPosTTL,
          if configuredNegTTL \<le> 0 then cacheDefaultMaxNegativeTTLSeconds else configuredNegTTL))"

section \<open>The Corefile\<close>

record corefileparams =
  cf_ClusterDomain :: string
  cf_Servers :: "server list"
  cf_UpstreamResolvers :: upstreamresolvers
  cf_LogLevel :: string
  cf_CABundleRevisionMap :: gomap
  cf_CABundleFileName :: string
  cf_LameDuckDuration :: duration
  cf_PositiveTTL :: int
  cf_NegativeTTL :: int
  cf_OCPDNSNameResolver :: bool
  cf_DNSNameResolverNamespaces :: "string list"

text \<open>A whole number of seconds below a minute prints as such.\<close>

definition durationText :: "duration \<Rightarrow> string" where
  "durationText d = itoa (go_quot d time_Second) @ ''s''"

definition caBundlePath :: "corefileparams \<Rightarrow> tlsconfig \<Rightarrow> string" where
  "caBundlePath p tls =
     (if cf_CABundleRevisionMap p = [] then ''''
      else let cm = gm_get (cf_CABundleRevisionMap p) (tls_caBundle tls) in
        if cm = '''' then ''''
        else '' /etc/pki/'' @ tls_serverName tls @ ''-'' @ cm @ ''/'' @ cf_CABundleFileName p)"

definition tlsLines :: "corefileparams \<Rightarrow> transportconfig \<Rightarrow> string list" where
  "tlsLines p tc =
     (case tc_tls tc of
        None \<Rightarrow> []
      | Some tls \<Rightarrow>
          if tls_serverName tls = '''' then []
          else [''        tls_servername '' @ tls_serverName tls, ''        tls'' @ caBundlePath p tls])"

definition forwardLine :: "transportconfig \<Rightarrow> string list \<Rightarrow> string" where
  "forwardLine tc targets =
     ''    forward .''
     @ concat (map (\<lambda>u. '' '' @ (if tc_transport tc = TLSTransport then ''tls://'' else '''') @ u) targets)
     @ '' {''"

definition forwardBlock :: "corefileparams \<Rightarrow> transportconfig \<Rightarrow> string list \<Rightarrow> string \<Rightarrow> string \<Rightarrow> string list" where
  "forwardBlock p tc targets policy strategy =
     [forwardLine tc targets] @ tlsLines p tc @ [''        policy '' @ coreDNSPolicy policy]
     @ (if strategy = ''TCP'' then [''        force_tcp''] else []) @ [''    }'']"

definition cacheLines :: "corefileparams \<Rightarrow> string list" where
  "cacheLines p =
     [''    cache '' @ itoa (cf_PositiveTTL p) @ '' {'',
      ''        denial 9984 '' @ itoa (cf_NegativeTTL p), ''    }'']"

definition nameResolverLines :: "corefileparams \<Rightarrow> string list" where
  "nameResolverLines p =
     (if cf_OCPDNSNameResolver p
      then [''    ocp_dnsnameresolver {'',
            ''        namespaces '' @ concat (map (\<lambda>n. n @ '' '') (cf_DNSNameResolverNamespaces p)),
            ''    }'']
      else [])"

definition serverBlock :: "corefileparams \<Rightarrow> server \<Rightarrow> string list" where
  "serverBlock p s =
     (let fp = srv_forwardPlugin s in
      [''# '' @ srv_name s,
       concat (map (\<lambda>z. z @ '':5353 '') (srv_zones s)) @ ''{'',
       ''    prometheus 127.0.0.1:9153'']
      @ forwardBlock p (fp_transportConfig fp) (fp_upstreams fp) (fp_policy fp) (fp_protocolStrategy fp)
      @ [''    errors'', ''    log . {'', ''        '' @ cf_LogLevel p, ''    }'', ''    bufsize 1232'']
      @ cacheLines p @ nameResolverLines p @ [''}''])"

definition defaultBlock :: "corefileparams \<Rightarrow> string list \<Rightarrow> string list" where
  "defaultBlock p targets =
     (let ur = cf_UpstreamResolvers p in
      [''.:5353 {'', ''    bufsize 1232'', ''    errors'', ''    log . {'',
       ''        '' @ cf_LogLevel p, ''    }'', ''    health {'',
       ''        lameduck '' @ durationText (cf_LameDuckDuration p), ''    }'', ''    ready'',
       ''    kubernetes '' @ cf_ClusterDomain p @ '' in-addr.arpa ip6.arpa {'',
       ''        pods insecure'', ''        fallthrough in-addr.arpa ip6.arpa'', ''    }'',
       ''    prometheus 127.0.0.1:9153'']
      @ forwardBlock p (ur_transportConfig ur) targets (ur_policy ur) (ur_protocolStrategy ur)
      @ cacheLines p @ [''    reload''] @ nameResolverLines p @ [''}''])"

definition hostnameBlock :: "string list" where
  "hostnameBlock = [''hostname.bind:5353 {'', ''    chaos'', ''}'']"

text \<open>An error of \<open>UpstreamResolver\<close> ends the execution of the template.\<close>

fun resolverTargets :: "upstream list \<Rightarrow> goerror + string list" where
  "resolverTargets [] = Inr []"
| "resolverTargets (u # us) =
     (case coreDNSResolver u of
        Inl e \<Rightarrow> Inl e
      | Inr t \<Rightarrow> (case resolverTargets us of Inl e \<Rightarrow> Inl e | Inr ts \<Rightarrow> Inr (t # ts)))"

definition corefileLines :: "corefileparams \<Rightarrow> goerror + string list" where
  "corefileLines p =
     (case resolverTargets (ur_upstreams (cf_UpstreamResolvers p)) of
        Inl e \<Rightarrow> Inl e
      | Inr targets \<Rightarrow>
          Inr (concat (map (serverBlock p) (cf_Servers p)) @ defaultBlock p targets @ hostnameBlock))"

definition withLineEnds :: "string list \<Rightarrow> string" where
  "withLineEnds ls = concat (map (\<lambda>l. l @ nl) ls)"

definition corefileTemplate :: "corefileparams \<Rightarrow> goerror + string" where
  "corefileTemplate p = map_sum id withLineEnds (corefileLines p)"

section \<open>The configmap\<close>

definition corefileParameters ::
  "(int \<Rightarrow> int) \<Rightarrow> dns \<Rightarrow> upstreamresolvers \<Rightarrow> string \<Rightarrow> gomap \<Rightarrow> bool \<Rightarrow> string list \<Rightarrow> corefileparams" where
  "corefileParameters toU32 d ur clusterDomain revisions nameResolver namespaces =
     \<lparr>cf_ClusterDomain = clusterDomain, cf_Servers = spec_servers (dns_spec d),
      cf_UpstreamResolvers = ur, cf_LogLevel = coreDNSLogLevel d,
      cf_CABundleRevisionMap = revisions, cf_CABundleFileName = caBundleFileName,
      cf_LameDuckDuration = lameDuckDuration, cf_PositiveTTL = fst (coreDNSCache toU32 d),
      cf_NegativeTTL = snd (coreDNSCache toU32 d), cf_OCPDNSNameResolver = nameResolver,
      cf_DNSNameResolverNamespaces = namespaces\<rparr>"

definition desiredDNSConfigMap ::
  "(int \<Rightarrow> int) \<Rightarrow> dns \<Rightarrow> string \<Rightarrow> gomap \<Rightarrow> bool \<Rightarrow> string list \<Rightarrow> goerror + configmap" where
  "desiredDNSConfigMap toU32 d0 clusterDomain revisions nameResolver namespaces =
     (let domain_name = (if length clusterDomain = 0 then ''cluster.local'' else clusterDomain) in
      case sanitizeTLSSettings d0 of
        Inl e \<Rightarrow> Inl e
      | Inr d \<Rightarrow>
          (case effectiveResolvers (spec_upstreamResolvers (dns_spec d)) of
             Inl e \<Rightarrow> Inl e
           | Inr ur \<Rightarrow>
               (case corefileTemplate
                       (corefileParameters toU32 d ur domain_name revisions nameResolver namespaces) of
                  Inl e \<Rightarrow> Inl e
                | Inr corefile \<Rightarrow>
                    let name = DNSConfigMapName d in
                    Inr \<lparr>cm_meta = emptyMeta\<lparr>m_name := nn_name name, m_namespace := nn_ns name,
                           m_labels := [(OwningDNSLabel, DNSDaemonSetLabel d)],
                           m_ownerRefs := [dnsOwnerRef d]\<rparr>,
                         cm_data = [(''Corefile'', corefile)]\<rparr>)))"

definition corefileChanged :: "configmap \<Rightarrow> configmap \<Rightarrow> configmap option" where
  "corefileChanged current expected =
     (if gm_eq (cm_data current) (cm_data expected) then None
      else Some (current\<lparr>cm_data := cm_data expected\<rparr>))"

definition currentDNSConfigMap ::
  "(configmap, 'w) kclient \<Rightarrow> dns \<Rightarrow> ('w, configmap option \<times> goerror option) state" where
  "currentDNSConfigMap c d = currentObject c (DNSConfigMapName d)"

definition updateDNSConfigMap ::
  "(configmap, 'w) kclient \<Rightarrow> configmap \<Rightarrow> configmap \<Rightarrow> ('w, goerror + bool) state" where
  "updateDNSConfigMap c = updateObject c (\<lambda>_. ''failed to update configmap'') corefileChanged"

definition ensureDNSConfigMap ::
  "(configmap, 'w) kclient \<Rightarrow> (int \<Rightarrow> int) \<Rightarrow> bool \<Rightarrow> string list \<Rightarrow> dns \<Rightarrow> string \<Rightarrow> gomap \<Rightarrow>
   ('w, configmap option \<times> goerror option) state" where
  "ensureDNSConfigMap c toU32 nameResolver namespaces d clusterDomain revisions = do {
     (current, err) \<leftarrow> currentDNSConfigMap c d;
     (case err of
        Some e \<Rightarrow> State_Monad.return (None, Some (errorf ''failed to get configmap'' e))
      | None \<Rightarrow>
          (case desiredDNSConfigMap toU32 d clusterDomain revisions nameResolver namespaces of
             Inl e \<Rightarrow> State_Monad.return (current, Some (errorf ''failed to build configmap'' e))
           | Inr desired \<Rightarrow>
               createOrUpdate (kcreate c) ''failed to create configmap'' (currentDNSConfigMap c d)
                 (updateDNSConfigMap c) current desired))
   }"

section \<open>Upstreams: facts\<close>

lemma contains_iff: "contains acc u \<longleftrightarrow> (\<exists>a\<in>set acc. upstreamEqual u a)"
  by (induction acc) auto

lemma upstreamEqual_refl [simp, intro]: "upstreamEqual u u"
  by (simp add: upstreamEqual_def cmpUpstreamType_def cmpAddress_def cmpPort_def)

lemma upstreamEqual_sym: "upstreamEqual a b \<longleftrightarrow> upstreamEqual b a"
  by (auto simp: upstreamEqual_def cmpUpstreamType_def cmpAddress_def cmpPort_def equalFold_def)

lemma upstreamEqual_trans: "upstreamEqual a b \<Longrightarrow> upstreamEqual b c \<Longrightarrow> upstreamEqual a c"
  by (auto simp: upstreamEqual_def cmpUpstreamType_def cmpAddress_def cmpPort_def equalFold_def)

definition addressed :: "upstream \<Rightarrow> bool" where
  "addressed u \<longleftrightarrow> \<not> (up_type u = NetworkResolverType \<and> up_address u = '''')"

lemma collectUpstreams_eq:
  "collectUpstreams acc us =
   (if list_all addressed us then Inr (keep_new upstreamEqual acc us) else Inl errInvalidNetworkUpstream)"
  by (induction us arbitrary: acc) (auto simp: addressed_def contains_iff)

lemma effectiveResolvers_eq:
  "effectiveResolvers ur =
   (if list_all addressed (ur_upstreams ur)
    then Inr \<lparr>ur_upstreams = (if ur_upstreams ur = [] then [defaultUpstream]
                              else keep_new upstreamEqual [] (ur_upstreams ur)),
              ur_policy = (if ur_policy ur = '''' then SequentialForwardingPolicy else ur_policy ur),
              ur_transportConfig = ur_transportConfig ur,
              ur_protocolStrategy = ur_protocolStrategy ur\<rparr>
    else Inl errInvalidNetworkUpstream)"
  by (cases "ur_upstreams ur") (auto simp: effectiveResolvers_def Let_def collectUpstreams_eq)

lemma coreDNSResolver_addressed:
  "addressed u \<Longrightarrow> \<exists>t. coreDNSResolver u = Inr t"
  by (simp add: coreDNSResolver_def addressed_def)

lemma resolverTargets_addressed:
  "list_all addressed us \<Longrightarrow> \<exists>ts. resolverTargets us = Inr ts \<and> length ts = length us"
proof (induction us)
  case (Cons u us)
  then obtain ts where "resolverTargets us = Inr ts" "length ts = length us" by auto
  moreover obtain t where "coreDNSResolver u = Inr t"
    using Cons.prems coreDNSResolver_addressed by auto
  ultimately show ?case by simp
qed simp

lemma effective_addressed:
  assumes "effectiveResolvers ur = Inr r"
  shows "list_all addressed (ur_upstreams r)"
proof -
  have "set (keep_new upstreamEqual [] (ur_upstreams ur)) \<subseteq> set (ur_upstreams ur)"
    using keep_new_subseq[of upstreamEqual "[]" "ur_upstreams ur"]
    by (auto dest: list_emb_set)
  then show ?thesis
    using assms by (auto simp: effectiveResolvers_eq list_all_iff addressed_def defaultUpstream_def
        dns_consts split: if_splits)
qed

section \<open>TLS settings: facts\<close>

definition tlsOk :: "transportconfig \<Rightarrow> bool \<Rightarrow> bool" where
  "tlsOk tc targets_ok \<longleftrightarrow> (tc_transport tc = TLSTransport \<longrightarrow> hasServerName tc \<and> targets_ok)"

definition serverAcceptable :: "server \<Rightarrow> bool" where
  "serverAcceptable s = tlsOk (fp_transportConfig (srv_forwardPlugin s))
     (list_all upstreamIsIP (fp_upstreams (srv_forwardPlugin s)))"

definition resolversAcceptable :: "upstreamresolvers \<Rightarrow> bool" where
  "resolversAcceptable ur = tlsOk (ur_transportConfig ur)
     (ur_upstreams ur \<noteq> [] \<and> list_all (\<lambda>u. up_type u \<noteq> SystemResolveConfType) (ur_upstreams ur))"

definition tlsAcceptable :: "dns \<Rightarrow> bool" where
  "tlsAcceptable d \<longleftrightarrow> list_all serverAcceptable (spec_servers (dns_spec d))
     \<and> resolversAcceptable (spec_upstreamResolvers (dns_spec d))"

definition withDefaults :: "server \<Rightarrow> server" where
  "withDefaults s = s\<lparr>srv_forwardPlugin := (srv_forwardPlugin s)
     \<lparr>fp_transportConfig := defaultTransport (fp_transportConfig (srv_forwardPlugin s))\<rparr>\<rparr>"

definition sanitized :: "dns \<Rightarrow> dns" where
  "sanitized d = d\<lparr>dns_spec := (dns_spec d)
     \<lparr>spec_servers := map withDefaults (spec_servers (dns_spec d)),
      spec_upstreamResolvers := (spec_upstreamResolvers (dns_spec d))
        \<lparr>ur_transportConfig := defaultTransport
           (ur_transportConfig (spec_upstreamResolvers (dns_spec d)))\<rparr>\<rparr>\<rparr>"

lemma sanitizeServer_cases:
  "serverAcceptable s \<Longrightarrow> sanitizeServer s = Inr (withDefaults s)"
  "\<not> serverAcceptable s \<Longrightarrow> \<exists>e. sanitizeServer s = Inl e"
  by (auto simp: sanitizeServer_def serverAcceptable_def tlsOk_def withDefaults_def Let_def)

lemma sanitizeServers_cases:
  "list_all serverAcceptable ss \<Longrightarrow> sanitizeServers ss = Inr (map withDefaults ss)"
  "\<not> list_all serverAcceptable ss \<Longrightarrow> \<exists>e. sanitizeServers ss = Inl e"
proof (induction ss)
  case (Cons s ss)
  {
    case 1
    then show ?case using Cons by (simp add: sanitizeServer_cases)
  next
    case 2
    then show ?case
      using Cons sanitizeServer_cases[of s] by (cases "serverAcceptable s") auto
  }
qed auto

lemma sanitizeUpstreamResolvers_cases:
  "resolversAcceptable ur \<Longrightarrow> sanitizeUpstreamResolvers ur
     = Inr (ur\<lparr>ur_transportConfig := defaultTransport (ur_transportConfig ur)\<rparr>)"
  "\<not> resolversAcceptable ur \<Longrightarrow> \<exists>e. sanitizeUpstreamResolvers ur = Inl e"
  by (auto simp: sanitizeUpstreamResolvers_def resolversAcceptable_def tlsOk_def Let_def list_all_iff
      list_ex_iff Suc_le_eq)

lemma sanitize_cases:
  "tlsAcceptable d \<Longrightarrow> sanitizeTLSSettings d = Inr (sanitized d)"
  "\<not> tlsAcceptable d \<Longrightarrow> \<exists>e. sanitizeTLSSettings d = Inl e"
proof -
  let ?ss = "spec_servers (dns_spec d)" and ?ur = "spec_upstreamResolvers (dns_spec d)"
  show "tlsAcceptable d \<Longrightarrow> sanitizeTLSSettings d = Inr (sanitized d)"
    by (simp add: tlsAcceptable_def sanitizeTLSSettings_def sanitizeServers_cases
        sanitizeUpstreamResolvers_cases sanitized_def)
  show "\<not> tlsAcceptable d \<Longrightarrow> \<exists>e. sanitizeTLSSettings d = Inl e"
    using sanitizeServers_cases[of ?ss] sanitizeUpstreamResolvers_cases[of ?ur]
    by (cases "list_all serverAcceptable ?ss") (auto simp: tlsAcceptable_def sanitizeTLSSettings_def)
qed

lemma sanitize_Inr: "sanitizeTLSSettings d = Inr d' \<longleftrightarrow> tlsAcceptable d \<and> d' = sanitized d"
  using sanitize_cases[of d] by (cases "tlsAcceptable d") auto

lemma defaultTransport_idem [simp]: "defaultTransport (defaultTransport tc) = defaultTransport tc"
  by (cases "tc_tls tc") (auto simp: defaultTransport_def Let_def dns_consts)

lemma defaultTransport_facts:
  "tc_transport (defaultTransport tc) \<noteq> ''''"
  "tc_transport (defaultTransport tc) = TLSTransport \<longleftrightarrow> tc_transport tc = TLSTransport"
  "tc_transport (defaultTransport tc) = CleartextTransport \<Longrightarrow> \<not> hasServerName (defaultTransport tc)"
  "tc_transport tc = TLSTransport \<Longrightarrow> defaultTransport tc = tc"
  by (cases "tc_tls tc";
      auto simp: defaultTransport_def Let_def hasServerName_def dns_consts split: if_splits)+

lemma sanitized_acceptable: "tlsAcceptable (sanitized d) \<longleftrightarrow> tlsAcceptable d"
proof -
  have "tlsOk (defaultTransport tc) b \<longleftrightarrow> tlsOk tc b" for tc b
    using defaultTransport_facts(2,4)[of tc] by (auto simp: tlsOk_def)
  then show ?thesis
    by (simp add: tlsAcceptable_def sanitized_def serverAcceptable_def resolversAcceptable_def
        withDefaults_def list_all_iff)
qed

lemma sanitized_idem: "sanitized (sanitized d) = sanitized d"
  by (simp add: sanitized_def withDefaults_def)

lemma sanitized_name [simp]: "dns_meta (sanitized d) = dns_meta d"
  by (simp add: sanitized_def)

lemma tlsLines_iff: "tlsLines p tc = [] \<longleftrightarrow> \<not> hasServerName tc"
  by (simp add: tlsLines_def hasServerName_def split: option.split)

section \<open>The configmap: facts\<close>

lemma desired_Inr:
  "desiredDNSConfigMap toU32 d dom_name revs nr nss = Inr cm \<Longrightarrow>
   tlsAcceptable d \<and> list_all addressed (ur_upstreams (spec_upstreamResolvers (dns_spec d)))
   \<and> meta_key (cm_meta cm) = DNSConfigMapName d"
  by (auto simp: desiredDNSConfigMap_def Let_def sanitize_Inr effectiveResolvers_eq meta_key_def
      DNSConfigMapName_def dns_name_def sanitized_def split: sum.splits if_splits)

lemma desired_total:
  assumes "tlsAcceptable d" "list_all addressed (ur_upstreams (spec_upstreamResolvers (dns_spec d)))"
  shows "\<exists>cm. desiredDNSConfigMap toU32 d dom_name revs nr nss = Inr cm"
proof -
  have san: "sanitizeTLSSettings d = Inr (sanitized d)" using assms(1) by (simp add: sanitize_Inr)
  obtain ur where ur: "effectiveResolvers (spec_upstreamResolvers (dns_spec (sanitized d))) = Inr ur"
    using assms(2) by (auto simp: effectiveResolvers_eq sanitized_def)
  obtain ts where "resolverTargets (ur_upstreams ur) = Inr ts"
    using resolverTargets_addressed[OF effective_addressed[OF ur]] by blast
  then show ?thesis
    by (simp add: desiredDNSConfigMap_def san ur corefileTemplate_def corefileLines_def
        corefileParameters_def Let_def)
qed

interpretation cmd: change_detector corefileChanged cm_same cm_same cm_key
  by unfold_locales
    (auto simp: corefileChanged_def cm_same_def cm_key_def gm_eq_iff split: if_splits)

lemma ensureDNSConfigMap_ensured:
  assumes api: "stores cm_same cm_key c"
    and run: "run_state (ensureDNSConfigMap c toU32 nr nss d dom_name revs) w = ((r, None), w')"
  obtains x des where "r = Some x" "desiredDNSConfigMap toU32 d dom_name revs nr nss = Inr des" "cm_same x des"
    "run_state (currentObject c (DNSConfigMapName d)) w' = ((Some x, None), w')"
proof -
  have pure: "snd (run_state (kget c n) v) = v" for n v using api by (simp add: stores_def)
  have get: "run_state (currentDNSConfigMap c d) v = (fst (run_state (currentDNSConfigMap c d) v), v)" for v
    using pure by (simp add: currentDNSConfigMap_def run_currentObject split: sum.split)
  obtain cur err where cur: "run_state (currentDNSConfigMap c d) w = ((cur, err), w)"
    using get by (metis prod.exhaust)
  have err: "err = None"
    using run cur by (auto simp: ensureDNSConfigMap_def split: option.splits)
  obtain des where des: "desiredDNSConfigMap toU32 d dom_name revs nr nss = Inr des"
    using run cur err by (auto simp: ensureDNSConfigMap_def split: sum.splits)
  have key: "cm_key des = DNSConfigMapName d" using desired_Inr[OF des] by (simp add: cm_key_def)
  have cu: "run_state (createOrUpdate (kcreate c) ''failed to create configmap''
      (currentObject c (DNSConfigMapName d)) (updateObject c (\<lambda>_. ''failed to update configmap'') corefileChanged)
      cur des) w = ((r, None), w')"
    using run cur err des by (simp add: ensureDNSConfigMap_def currentDNSConfigMap_def updateDNSConfigMap_def)
  obtain x where x: "r = Some x"
    using cmd.present[OF api key _ cu] cur err by (auto simp: currentDNSConfigMap_def)
  then show ?thesis
    using cmd.ensured[OF api key] cu cur err that[OF x des] by (auto simp: currentDNSConfigMap_def)
qed

lemma toSeconds_near:
  assumes "0 \<le> d" "d < (2 ^ 32 - 1) * time_Second"
  shows "0 \<le> toSeconds toU32 d" "2 * \<bar>toSeconds toU32 d * time_Second - d\<bar> \<le> time_Second"
proof -
  let ?r = "duration_Round d time_Second"
  have sec: "time_Second = 1000000000" by (simp add: time_Second_def)
  have dvd: "time_Second dvd ?r" and near: "2 * \<bar>?r - d\<bar> \<le> time_Second"
    using assms duration_Round_near[of time_Second d] by (simp_all add: sec maxDuration_def)
  have r0: "0 \<le> ?r"
    using assms(1) zmod_le_nonneg_dividend[OF assms(1), of time_Second]
    by (simp add: duration_Round_def go_rem_def sec maxDuration_def Let_def)
  have q: "go_quot ?r time_Second = ?r div time_Second"
    using r0 by (cases "?r = 0") (simp_all add: go_quot_def sec)
  have mult: "?r div time_Second * time_Second = ?r" using dvd by simp
  have "0 \<le> ?r div time_Second" using r0 by (simp add: sec pos_imp_zdiv_nonneg_iff)
  moreover have "?r div time_Second < 2 ^ 32"
    using near assms(2) mult by (simp add: sec)
  ultimately have "toSeconds toU32 d = ?r div time_Second"
    by (simp add: toSeconds_def q Let_def)
  then show "0 \<le> toSeconds toU32 d" "2 * \<bar>toSeconds toU32 d * time_Second - d\<bar> \<le> time_Second"
    using \<open>0 \<le> ?r div time_Second\<close> near mult by simp_all
qed

lemma upper_char_bracket:
  "upper_char c = CHR ''['' \<longleftrightarrow> c = CHR ''[''" "upper_char c = CHR '']'' \<longleftrightarrow> c = CHR '']''"
proof -
  have "char_of (n - 32) \<noteq> CHR ''['' \<and> char_of (n - 32) \<noteq> CHR '']''" if "97 \<le> n" "n \<le> 122" for n :: nat
  proof
    show "char_of (n - 32) \<noteq> CHR ''[''"
    proof
      assume "char_of (n - 32) = CHR ''[''"
      then have "(of_char (char_of (n - 32) :: char) :: nat) = 91" by simp
      then show False using that by simp
    qed
    show "char_of (n - 32) \<noteq> CHR '']''"
    proof
      assume "char_of (n - 32) = CHR '']''"
      then have "(of_char (char_of (n - 32) :: char) :: nat) = 93" by simp
      then show False using that by simp
    qed
  qed
  then show "upper_char c = CHR ''['' \<longleftrightarrow> c = CHR ''[''" "upper_char c = CHR '']'' \<longleftrightarrow> c = CHR '']''"
    by (auto simp: upper_char_def Let_def)
qed

lemma digits_plain:
  assumes "0 \<le> n"
  shows "CHR '':'' \<notin> set (digits n)" "CHR ''['' \<notin> set (digits n)" "CHR '']'' \<notin> set (digits n)"
  using digits_chars[OF assms] by fastforce+

section \<open>Properties\<close>

text \<open>
  C28: Which TLS settings are accepted. \<open>sanitizeTLSSettings\<close> succeeds exactly when every
  server with TLS transport has a server name and only IP addresses (with or without a
  port) as upstreams, and the upstream resolvers, if they use TLS, have a server name, at
  least one upstream and none of type SystemResolvConf.
\<close>

theorem sanitize_accepts_iff:
  "(\<exists>d'. sanitizeTLSSettings d = Inr d') \<longleftrightarrow>
   (\<forall>s\<in>set (spec_servers (dns_spec d)).
      tc_transport (fp_transportConfig (srv_forwardPlugin s)) = TLSTransport \<longrightarrow>
      hasServerName (fp_transportConfig (srv_forwardPlugin s))
      \<and> (\<forall>u\<in>set (fp_upstreams (srv_forwardPlugin s)). upstreamIsIP u))
   \<and> (let ur = spec_upstreamResolvers (dns_spec d) in
      tc_transport (ur_transportConfig ur) = TLSTransport \<longrightarrow>
      hasServerName (ur_transportConfig ur) \<and> ur_upstreams ur \<noteq> []
      \<and> (\<forall>u\<in>set (ur_upstreams ur). up_type u \<noteq> SystemResolveConfType))"
proof -
  have "(\<exists>d'. sanitizeTLSSettings d = Inr d') \<longleftrightarrow> tlsAcceptable d" by (auto simp: sanitize_Inr)
  then show ?thesis
    by (simp add: tlsAcceptable_def serverAcceptable_def resolversAcceptable_def tlsOk_def list_all_iff
        Let_def)
qed

definition sample_tls_server :: server where
  "sample_tls_server = \<lparr>srv_name = ''bar'', srv_zones = [''bar.com''], srv_forwardPlugin =
     \<lparr>fp_upstreams = [''1.1.1.1'', ''[2001:db8::1]:853''], fp_policy = '''',
      fp_transportConfig = \<lparr>tc_transport = TLSTransport,
        tc_tls = Some \<lparr>tls_serverName = ''dns.bar.com'', tls_caBundle = ''cacerts''\<rparr>\<rparr>,
      fp_protocolStrategy = ''''\<rparr>\<rparr>"

definition sample_tls_dns :: dns where
  "sample_tls_dns = emptyDNS\<lparr>dns_spec := (dns_spec emptyDNS)\<lparr>spec_servers := [sample_tls_server]\<rparr>\<rparr>"

lemma sample_tls_acceptable: "tlsAcceptable sample_tls_dns"
  by code_simp

theorem sanitize_accepts_iff_witness:
  "(\<exists>d'. sanitizeTLSSettings sample_tls_dns = Inr d')
   \<and> upstreamIsIP ''[2001:db8::1]:853'' \<and> \<not> upstreamIsIP ''dns.example.com:853''"
proof -
  have "\<exists>d'. sanitizeTLSSettings sample_tls_dns = Inr d'"
    using sample_tls_acceptable sanitize_cases(1) by blast
  then have "\<forall>u\<in>set (fp_upstreams (srv_forwardPlugin sample_tls_server)). upstreamIsIP u"
    unfolding sanitize_accepts_iff by (simp add: sample_tls_dns_def sample_tls_server_def)
  then have "upstreamIsIP ''[2001:db8::1]:853''" by (simp add: sample_tls_server_def)
  moreover have "\<not> upstreamIsIP ''dns.example.com:853''" by code_simp
  ultimately show ?thesis
    using \<open>\<exists>d'. sanitizeTLSSettings sample_tls_dns = Inr d'\<close> by blast
qed

text \<open>
  What sanitized settings look like. After \<open>sanitizeTLSSettings\<close> no transport is left
  empty, no Cleartext transport carries a server name, TLS transports are untouched, and
  sanitizing again changes nothing.
\<close>

theorem sanitize_normal_form:
  assumes "sanitizeTLSSettings d = Inr d'"
    and "tc \<in> insert (ur_transportConfig (spec_upstreamResolvers (dns_spec d')))
           ((\<lambda>s. fp_transportConfig (srv_forwardPlugin s)) ` set (spec_servers (dns_spec d')))"
  shows "tc_transport tc \<noteq> '''' \<and> (tc_transport tc = CleartextTransport \<longrightarrow> \<not> hasServerName tc)
    \<and> (tc_transport tc = TLSTransport \<longrightarrow> hasServerName tc)
    \<and> sanitizeTLSSettings d' = Inr d' \<and> dns_meta d' = dns_meta d"
proof -
  have d': "d' = sanitized d" and ok: "tlsAcceptable d" using assms(1) by (auto simp: sanitize_Inr)
  then have ok': "tlsAcceptable d'" by (simp add: sanitized_acceptable)
  from assms(2) d' obtain tc0 where "tc = defaultTransport tc0"
    by (auto simp: sanitized_def withDefaults_def)
  moreover have "tc_transport tc = TLSTransport \<longrightarrow> hasServerName tc"
    using ok' assms(2)
    by (auto simp: tlsAcceptable_def serverAcceptable_def resolversAcceptable_def tlsOk_def list_all_iff)
  ultimately show ?thesis
    using defaultTransport_facts(1,3)[of tc0] sanitize_cases(1)[OF ok'] d' sanitized_idem by auto
qed

theorem sanitize_normal_form_witness:
  "sanitizeTLSSettings (sanitized sample_tls_dns) = Inr (sanitized sample_tls_dns)
   \<and> tc_transport (ur_transportConfig (spec_upstreamResolvers (dns_spec sample_tls_dns))) = ''''
   \<and> tc_transport (ur_transportConfig (spec_upstreamResolvers (dns_spec (sanitized sample_tls_dns)))) \<noteq> ''''"
proof -
  have "tc_transport (ur_transportConfig (spec_upstreamResolvers (dns_spec sample_tls_dns))) = ''''"
    by code_simp
  then show ?thesis
    using sanitize_normal_form[OF sanitize_cases(1)[OF sample_tls_acceptable] insertI1] by auto
qed

text \<open>
  When no Corefile can be built. \<open>desiredDNSConfigMap\<close> fails exactly when the TLS
  settings are rejected or an upstream of type Network has no address; the execution of
  the template itself never fails.
\<close>

theorem desired_fails_iff:
  "(\<exists>e. desiredDNSConfigMap toU32 d dom_name revs nr nss = Inl e) \<longleftrightarrow>
   (\<exists>e. sanitizeTLSSettings d = Inl e)
   \<or> (\<exists>u\<in>set (ur_upstreams (spec_upstreamResolvers (dns_spec d))).
        up_type u = NetworkResolverType \<and> up_address u = '''')"
proof -
  have "(\<exists>e. desiredDNSConfigMap toU32 d dom_name revs nr nss = Inl e) \<longleftrightarrow>
      \<not> (tlsAcceptable d \<and> list_all addressed (ur_upstreams (spec_upstreamResolvers (dns_spec d))))"
    using desired_total[of d toU32 dom_name revs nr nss] desired_Inr[of toU32 d dom_name revs nr nss]
    by (cases "desiredDNSConfigMap toU32 d dom_name revs nr nss") auto
  moreover have "(\<exists>e. sanitizeTLSSettings d = Inl e) \<longleftrightarrow> \<not> tlsAcceptable d"
    using sanitize_cases[of d] by (cases "tlsAcceptable d") auto
  ultimately show ?thesis by (auto simp: list_all_iff addressed_def)
qed

text \<open>
  Duplicate upstreams. The upstream resolvers that go into the Corefile are the
  configured ones in their order, without later duplicates (types, addresses up to case and
  ports up to the default compared), and every configured upstream equals one that is kept;
  with no upstream configured the system resolver is used.
\<close>

theorem upstreams_deduplicated:
  assumes "effectiveResolvers ur = Inr r"
  shows "ur_upstreams r \<noteq> [] \<and> pairwise_new upstreamEqual (ur_upstreams r)
    \<and> (ur_upstreams ur = [] \<longrightarrow> ur_upstreams r = [defaultUpstream])
    \<and> (ur_upstreams ur \<noteq> [] \<longrightarrow> subseq (ur_upstreams r) (ur_upstreams ur))
    \<and> (\<forall>u\<in>set (ur_upstreams ur). \<exists>k\<in>set (ur_upstreams r). upstreamEqual u k)"
proof (cases "ur_upstreams ur")
  case Nil
  then show ?thesis using assms by (auto simp: effectiveResolvers_eq pairwise_new_def split: if_splits)
next
  case (Cons u us)
  let ?k = "keep_new upstreamEqual [] (ur_upstreams ur)"
  have r: "ur_upstreams r = ?k" using assms Cons by (auto simp: effectiveResolvers_eq split: if_splits)
  have "\<forall>u\<in>set (ur_upstreams ur). \<exists>k\<in>set ?k. upstreamEqual u k"
    using keep_new_covers[of upstreamEqual] by blast
  moreover from this have "?k \<noteq> []" using Cons by force
  moreover have "pairwise_new upstreamEqual ?k" by (rule keep_new_pairwise) (simp add: pairwise_new_def)
  moreover have "subseq ?k (ur_upstreams ur)" using keep_new_subseq[of upstreamEqual "[]"] by simp
  ultimately show ?thesis using r Cons by simp
qed

theorem upstreams_deduplicated_witness:
  "\<exists>r. effectiveResolvers \<lparr>ur_upstreams =
       [\<lparr>up_type = ''Network'', up_address = ''fd00::a'', up_port = 53\<rparr>,
        \<lparr>up_type = ''Network'', up_address = ''FD00::A'', up_port = 0\<rparr>],
       ur_policy = '''', ur_transportConfig = emptyTransport, ur_protocolStrategy = ''''\<rparr> = Inr r
     \<and> length (ur_upstreams r) = 1 \<and> pairwise_new upstreamEqual (ur_upstreams r)"
  (is "\<exists>r. effectiveResolvers ?ur = Inr r \<and> _")
proof -
  have len: "(case effectiveResolvers ?ur of Inr r \<Rightarrow> length (ur_upstreams r) | Inl _ \<Rightarrow> 0) = 1"
    by code_simp
  then obtain r where r: "effectiveResolvers ?ur = Inr r"
    by (cases "effectiveResolvers ?ur") auto
  with len have "length (ur_upstreams r) = 1" by (simp only: sum.case)
  with r show ?thesis using upstreams_deduplicated[OF r] by blast
qed

text \<open>
  C33: How an upstream with a port is written. For an address without brackets,
  \<open>coreDNSResolver\<close> prints a text that \<open>net.SplitHostPort\<close> reads back as the address in upper
  case and the port in decimal, for IPv4 and IPv6 addresses alike.
\<close>

theorem resolver_target_roundtrip:
  assumes "up_type u = NetworkResolverType" "up_address u \<noteq> ''''" "0 < up_port u"
    and "CHR ''['' \<notin> set (up_address u)" "CHR '']'' \<notin> set (up_address u)"
  shows "\<exists>t. coreDNSResolver u = Inr t \<and> SplitHostPort t = Some (toUpper (up_address u), digits (up_port u))"
proof -
  have "CHR ''['' \<notin> set (toUpper (up_address u))" "CHR '']'' \<notin> set (toUpper (up_address u))"
    using assms(4,5) by (auto simp: toUpper_def upper_char_bracket image_iff eq_commute[of _ "upper_char _"])
  then show ?thesis
    using assms digits_plain[of "up_port u"] by (simp add: coreDNSResolver_def Split_Join)
qed

theorem resolver_target_roundtrip_witness:
  "\<exists>t. coreDNSResolver \<lparr>up_type = ''Network'', up_address = ''fd00::a'', up_port = 5353\<rparr> = Inr t
     \<and> SplitHostPort t = Some (toUpper ''fd00::a'', digits 5353)"
  using resolver_target_roundtrip[of "\<lparr>up_type = ''Network'', up_address = ''fd00::a'', up_port = 5353\<rparr>"]
  by (simp add: dns_consts)

text \<open>
  C34: Cache times. For configured times from 0 up to the range of \<open>uint32\<close> seconds the
  positive and the negative TTL are positive numbers of seconds; each is within half a
  second of the configured time, or is the default when that rounds to zero.
\<close>

theorem cache_ttl_bounds:
  assumes "0 \<le> spec_positiveTTL (dns_spec d)" "spec_positiveTTL (dns_spec d) < (2 ^ 32 - 1) * time_Second"
    and "0 \<le> spec_negativeTTL (dns_spec d)" "spec_negativeTTL (dns_spec d) < (2 ^ 32 - 1) * time_Second"
    and "coreDNSCache toU32 d = (pTTL, nTTL)"
  shows "0 < pTTL \<and> 0 < nTTL
    \<and> (2 * \<bar>pTTL * time_Second - spec_positiveTTL (dns_spec d)\<bar> \<le> time_Second
       \<or> 2 * spec_positiveTTL (dns_spec d) \<le> time_Second \<and> pTTL = 900)
    \<and> (2 * \<bar>nTTL * time_Second - spec_negativeTTL (dns_spec d)\<bar> \<le> time_Second
       \<or> 2 * spec_negativeTTL (dns_spec d) \<le> time_Second \<and> nTTL = 30)"
  using assms(5) assms(1,3) toSeconds_near[OF assms(1,2), of toU32] toSeconds_near[OF assms(3,4), of toU32]
  by (auto simp: coreDNSCache_def Let_def cacheDefaultMaxPositiveTTLSeconds_def
      cacheDefaultMaxNegativeTTLSeconds_def split: if_splits)

theorem cache_ttl_bounds_witness:
  "\<exists>n. coreDNSCache id (emptyDNS\<lparr>dns_spec := (dns_spec emptyDNS)\<lparr>spec_positiveTTL := 2600000000\<rparr>\<rparr>) = (3, n)
     \<and> 0 < n"
  (is "\<exists>n. coreDNSCache id ?d = (3, n) \<and> 0 < n")
proof -
  have "coreDNSCache id ?d = (3, 30)" by code_simp
  then show ?thesis
    using cache_ttl_bounds[of ?d id 3 30] by (simp add: emptyDNS_def time_Second_def)
qed

text \<open>
  TLS in the Corefile. In the forward block written for a sanitized transport
  (TLS or Cleartext), every upstream has the prefix \<open>tls://\<close> and the block names the TLS
  server exactly when the transport is TLS; a Cleartext block has neither.
\<close>

theorem forward_block_tls:
  assumes "sanitizeTLSSettings d = Inr d'"
    and "tc \<in> insert (ur_transportConfig (spec_upstreamResolvers (dns_spec d')))
           ((\<lambda>s. fp_transportConfig (srv_forwardPlugin s)) ` set (spec_servers (dns_spec d')))"
    and "tc_transport tc = TLSTransport \<or> tc_transport tc = CleartextTransport"
  shows "forwardBlock p tc targets policy strategy =
    (let pre = (if tc_transport tc = TLSTransport then ''tls://'' else '''') in
     [''    forward .'' @ concat (map (\<lambda>u. '' '' @ pre @ u) targets) @ '' {'']
     @ (if tc_transport tc = TLSTransport
        then [''        tls_servername '' @ tls_serverName (the (tc_tls tc)),
              ''        tls'' @ caBundlePath p (the (tc_tls tc))] else [])
     @ [''        policy '' @ coreDNSPolicy policy]
     @ (if strategy = ''TCP'' then [''        force_tcp''] else []) @ [''    }''])"
proof -
  have d': "d' = sanitized d" and ok: "tlsAcceptable d'"
    using assms(1) by (auto simp: sanitize_Inr sanitized_acceptable)
  obtain tc0 where tc0: "tc = defaultTransport tc0"
    using assms(2) d' by (auto simp: sanitized_def withDefaults_def)
  have "tc_transport tc = TLSTransport \<longrightarrow> hasServerName tc"
    using ok assms(2)
    by (auto simp: tlsAcceptable_def serverAcceptable_def resolversAcceptable_def tlsOk_def list_all_iff)
  moreover have "TLSTransport \<noteq> CleartextTransport" by (simp add: dns_consts)
  ultimately show ?thesis
    using assms(3) defaultTransport_facts(3)[of tc0] tc0
    by (auto simp: forwardBlock_def forwardLine_def tlsLines_def hasServerName_def Let_def
        split: option.splits)
qed

theorem forward_block_tls_witness:
  "forwardBlock (corefileParameters id sample_tls_dns (spec_upstreamResolvers (dns_spec sample_tls_dns))
       ''cluster.local'' [(''cacerts'', ''ca-cacerts-2'')] False [])
     (fp_transportConfig (srv_forwardPlugin sample_tls_server)) [''1.1.1.1''] '''' '''' =
   [''    forward . tls://1.1.1.1 {'', ''        tls_servername dns.bar.com'',
    ''        tls /etc/pki/dns.bar.com-ca-cacerts-2/ca-bundle.crt'', ''        policy random'', ''    }'']"
  (is "forwardBlock ?p ?tc _ _ _ = _")
proof -
  have "withDefaults sample_tls_server \<in> set (spec_servers (dns_spec (sanitized sample_tls_dns)))"
    by (simp add: sanitized_def sample_tls_dns_def)
  moreover have tc: "fp_transportConfig (srv_forwardPlugin (withDefaults sample_tls_server)) = ?tc"
    by (simp add: withDefaults_def defaultTransport_facts(4) sample_tls_server_def)
  ultimately have "?tc \<in> (\<lambda>s. fp_transportConfig (srv_forwardPlugin s))
      ` set (spec_servers (dns_spec (sanitized sample_tls_dns)))"
    by (metis image_eqI)
  moreover have "tc_transport ?tc = TLSTransport" by (simp add: sample_tls_server_def)
  moreover have "caBundlePath ?p (the (tc_tls ?tc)) = '' /etc/pki/dns.bar.com-ca-cacerts-2/ca-bundle.crt''"
    "coreDNSPolicy '''' = ''random''"
    by code_simp+
  ultimately show ?thesis
    using forward_block_tls[OF sanitize_cases(1)[OF sample_tls_acceptable] insertI2, of ?tc ?p "[''1.1.1.1'']" "''''" "''''"]
    by (simp add: Let_def sample_tls_server_def)
qed

text \<open>
  The Corefile configmap converges. On a server that keeps what it is given, a
  successful \<open>ensureDNSConfigMap\<close> leaves a configmap whose data is the desired Corefile, and
  repeating it writes nothing and returns the same configmap.
\<close>

theorem ensureDNSConfigMap_converges:
  assumes api: "stores cm_same cm_key c"
    and run: "run_state (ensureDNSConfigMap c toU32 nr nss d dom_name revs) w = ((Some x, None), w')"
  shows "(\<exists>des. desiredDNSConfigMap toU32 d dom_name revs nr nss = Inr des \<and> gm_eq (cm_data x) (cm_data des))
    \<and> run_state (ensureDNSConfigMap c toU32 nr nss d dom_name revs) w' = ((Some x, None), w')"
proof -
  obtain des where des: "desiredDNSConfigMap toU32 d dom_name revs nr nss = Inr des" and same: "cm_same x des"
    and cur: "run_state (currentObject c (DNSConfigMapName d)) w' = ((Some x, None), w')"
    using ensureDNSConfigMap_ensured[OF api run] by blast
  have "run_state (ensureDNSConfigMap c toU32 nr nss d dom_name revs) w' = ((Some x, None), w')"
    using cmd.quiet[OF same cur] cur des
    by (simp add: ensureDNSConfigMap_def currentDNSConfigMap_def updateDNSConfigMap_def)
  then show ?thesis using des same by (auto simp: cm_same_def)
qed

theorem ensureDNSConfigMap_converges_witness:
  "\<exists>x w'. run_state (ensureDNSConfigMap (storeClient cm_key) id False [] emptyDNS ''cluster.local'' [])
       [] = ((Some x, None), w')
     \<and> run_state (ensureDNSConfigMap (storeClient cm_key) id False [] emptyDNS ''cluster.local'' [])
         w' = ((Some x, None), w')"
proof -
  obtain des where des: "desiredDNSConfigMap id emptyDNS ''cluster.local'' [] False [] = Inr des"
    using desired_total[of emptyDNS id "''cluster.local''" "[]" False "[]"]
    by (auto simp: tlsAcceptable_def resolversAcceptable_def tlsOk_def emptyDNS_def emptyTransport_def dns_consts)
  have key: "cm_key des = DNSConfigMapName emptyDNS" using desired_Inr[OF des] by (simp add: cm_key_def)
  have "run_state (ensureDNSConfigMap (storeClient cm_key) id False [] emptyDNS ''cluster.local'' [])
      [] = ((Some des, None), [(DNSConfigMapName emptyDNS, des)])"
    using des key
    by (simp add: ensureDNSConfigMap_def currentDNSConfigMap_def currentObject_def createOrUpdate_def
        storeClient_def)
  then show ?thesis
    using ensureDNSConfigMap_converges[OF storeClient_stores[of cm_same]] by (auto simp: cm_same_def)
qed

end
