(* ===== verification/CA_Bundle.thy ===== *)
theory CA_Bundle
  imports Kube_API
begin

text \<open>
  \<open>pkg/operator/controller/controller_cabundle_configmap.go\<close> and \<open>caBundleRevisionMap\<close> of
  \<open>controller.go\<close>: the CA bundles that DNS-over-TLS forwarding refers to are copied from the
  namespace \<open>openshift-config\<close> to the operand namespace, copies that are no longer referred
  to are deleted, and the revisions of the copies name the directories they are mounted at.

  Listing the configmaps that carry the operator's label in the operand namespace is a
  parameter.
\<close>

section \<open>Which bundles\<close>

definition cmLabels :: gomap where
  "cmLabels = [(''dns.operator.openshift.io/ca-bundle'', ''true'')]"

text \<open>The selector \<open>cmSelector\<close> together with the namespace option of the list call.\<close>

definition cmSelector :: "configmap \<Rightarrow> bool" where
  "cmSelector cm \<longleftrightarrow> m_namespace (cm_meta cm) = DefaultOperandNamespace
     \<and> map_of (m_labels (cm_meta cm)) ''dns.operator.openshift.io/ca-bundle'' = Some ''true''"

definition bundleOf :: "transportconfig \<Rightarrow> string option" where
  "bundleOf tc =
     (case tc_tls tc of
        Some tls \<Rightarrow> if tc_transport tc = TLSTransport \<and> tls_caBundle tls \<noteq> '''' then Some (tls_caBundle tls) else None
      | None \<Rightarrow> None)"

definition transports :: "dns \<Rightarrow> transportconfig list" where
  "transports d = ur_transportConfig (spec_upstreamResolvers (dns_spec d))
     # map (\<lambda>s. fp_transportConfig (srv_forwardPlugin s)) (spec_servers (dns_spec d))"

definition configmapNames :: "dns \<Rightarrow> string list" where
  "configmapNames d = List.map_filter bundleOf (transports d)"

section \<open>Copying\<close>

definition currentCABundleConfigMap ::
  "(configmap, 'w) kclient \<Rightarrow> nsname \<Rightarrow> ('w, configmap option \<times> goerror option) state" where
  "currentCABundleConfigMap c name =
     (if length (nn_name name) = 0 then State_Monad.return (None, None) else currentObject c name)"

text \<open>It never returns an error.\<close>

definition desiredCABundleConfigMap :: "dns \<Rightarrow> configmap option \<Rightarrow> nsname \<Rightarrow> configmap option" where
  "desiredCABundleConfigMap d sourceConfigmap name =
     (case sourceConfigmap of
        None \<Rightarrow> None
      | Some source \<Rightarrow>
          if m_deletionTimestamp (dns_meta d) \<noteq> None then None
          else Some \<lparr>cm_meta = emptyMeta\<lparr>m_name := nn_name name, m_namespace := nn_ns name,
                       m_labels := cmLabels, m_ownerRefs := [dnsOwnerRef d]\<rparr>,
                     cm_data = cm_data source\<rparr>)"

definition caBundleConfigmapsEqual :: "configmap \<Rightarrow> configmap \<Rightarrow> bool" where
  "caBundleConfigmapsEqual a b = gm_eq (cm_data a) (cm_data b)"

definition updateCABundleConfigMap ::
  "(configmap, 'w) kclient \<Rightarrow> configmap \<Rightarrow> configmap \<Rightarrow> ('w, goerror + bool) state" where
  "updateCABundleConfigMap c current desired =
     (if caBundleConfigmapsEqual current desired then State_Monad.return (Inr False)
      else do {
        r \<leftarrow> kupdate c (current\<lparr>cm_data := cm_data desired\<rparr>);
        State_Monad.return (case r of Some e \<Rightarrow> Inl (apiErr e) | None \<Rightarrow> Inr True)
      })"

text \<open>A delete of something that is already gone is no error.\<close>

definition deleteConfigMap :: "(configmap, 'w) kclient \<Rightarrow> configmap \<Rightarrow> ('w, goerror list) state" where
  "deleteConfigMap c cm = do {
     r \<leftarrow> kdelete c (meta_key (cm_meta cm));
     State_Monad.return (case r of
         Some e \<Rightarrow> if \<not> IsNotFound e then [errorf ''failed to delete configmap'' (apiErr e)] else []
       | None \<Rightarrow> [])
   }"

text \<open>One round of the first loop; the result is the errors it appends.\<close>

definition syncCABundle :: "(configmap, 'w) kclient \<Rightarrow> dns \<Rightarrow> string \<Rightarrow> ('w, goerror list) state" where
  "syncCABundle c d name = do {
     (source, err) \<leftarrow> currentCABundleConfigMap c
                       \<lparr>nn_ns = GlobalUserSpecifiedConfigNamespace, nn_name = name\<rparr>;
     (case err of
        Some e \<Rightarrow> State_Monad.return [errorf (''failed to get source ca bundle configmap '' @ name) e]
      | None \<Rightarrow>
     (case source of
        None \<Rightarrow> State_Monad.return []
      | Some src \<Rightarrow> do {
          let destName = CABundleConfigMapName (m_name (cm_meta src));
          (current, err) \<leftarrow> currentCABundleConfigMap c destName;
          (case err of
             Some e \<Rightarrow> State_Monad.return
               [errorf (''failed to get destination ca bundle configmap '' @ nn_name destName) e]
           | None \<Rightarrow>
          (case (desiredCABundleConfigMap d source destName, current) of
             (None, None) \<Rightarrow> State_Monad.return []
           | (None, Some cur) \<Rightarrow> deleteConfigMap c cur
           | (Some desired, None) \<Rightarrow> do {
               r \<leftarrow> kcreate c desired;
               State_Monad.return (case r of
                   Some e \<Rightarrow> [errorf ''failed to create configmap'' (apiErr e)] | None \<Rightarrow> [])
             }
           | (Some desired, Some cur) \<Rightarrow> do {
               r \<leftarrow> updateCABundleConfigMap c cur desired;
               State_Monad.return (case r of
                   Inl e \<Rightarrow> [errorf ''failed to update configmap'' e] | Inr _ \<Rightarrow> [])
             }))
        }))
   }"

fun syncCABundles :: "(configmap, 'w) kclient \<Rightarrow> dns \<Rightarrow> string list \<Rightarrow> goerror list \<Rightarrow> ('w, goerror list) state" where
  "syncCABundles c d [] errs = State_Monad.return errs"
| "syncCABundles c d (name # names) errs = do {
     es \<leftarrow> syncCABundle c d name;
     syncCABundles c d names (errs @ es)
   }"

definition referredInDNS :: "string list \<Rightarrow> configmap \<Rightarrow> bool" where
  "referredInDNS names cm = list_ex (\<lambda>name. m_name (cm_meta cm) = nn_name (CABundleConfigMapName name)) names"

fun removeCABundles ::
  "(configmap, 'w) kclient \<Rightarrow> string list \<Rightarrow> configmap list \<Rightarrow> goerror list \<Rightarrow> ('w, goerror list) state" where
  "removeCABundles c names [] errs = State_Monad.return errs"
| "removeCABundles c names (cm # cms) errs =
     (if \<not> referredInDNS names cm
      then do { es \<leftarrow> deleteConfigMap c cm; removeCABundles c names cms (errs @ es) }
      else removeCABundles c names cms errs)"

definition ensureCABundleConfigMaps ::
  "(configmap, 'w) kclient \<Rightarrow> ('w, apierror + configmap list) state \<Rightarrow> dns \<Rightarrow> ('w, goerror option) state" where
  "ensureCABundleConfigMaps c listCMs d = do {
     let names = configmapNames d;
     errs \<leftarrow> syncCABundles c d names [];
     r \<leftarrow> listCMs;
     let errs' = (case r of
         Inl e \<Rightarrow> errs @ [errorf ''failed to list ca bundle configmaps'' (apiErr e)] | Inr _ \<Rightarrow> errs);
     let items = (case r of Inl _ \<Rightarrow> [] | Inr cms \<Rightarrow> cms);
     errs'' \<leftarrow> removeCABundles c names items errs';
     State_Monad.return (NewAggregate (map Some errs''))
   }"

section \<open>Revisions\<close>

text \<open>Any error of the read is logged and otherwise treated as an absent copy.\<close>

definition revisionStep ::
  "(configmap, 'w) kclient \<Rightarrow> transportconfig \<Rightarrow> gomap \<Rightarrow> ('w, gomap) state" where
  "revisionStep c tc revs =
     (case bundleOf tc of
        None \<Rightarrow> State_Monad.return revs
      | Some name \<Rightarrow> do {
          r \<leftarrow> kget c (CABundleConfigMapName name);
          State_Monad.return (case r of
              Inl _ \<Rightarrow> revs
            | Inr cm \<Rightarrow> AList.update name (m_name (cm_meta cm) @ ''-'' @ m_resourceVersion (cm_meta cm)) revs)
        })"

fun revisionSteps :: "(configmap, 'w) kclient \<Rightarrow> transportconfig list \<Rightarrow> gomap \<Rightarrow> ('w, gomap) state" where
  "revisionSteps c [] revs = State_Monad.return revs"
| "revisionSteps c (tc # tcs) revs = do { revs' \<leftarrow> revisionStep c tc revs; revisionSteps c tcs revs' }"

definition caBundleRevisionMap :: "(configmap, 'w) kclient \<Rightarrow> dns \<Rightarrow> ('w, gomap) state" where
  "caBundleRevisionMap c d = revisionSteps c (transports d) []"


section \<open>Facts\<close>

lemma desired_ca_key: "desiredCABundleConfigMap d src n = Some des \<Longrightarrow> cm_key des = n"
  by (auto simp: desiredCABundleConfigMap_def cm_key_def meta_key_def split: option.splits if_splits)

text \<open>The facts about the server that the proofs below use, in the form they use them.\<close>

lemma server_facts:
  assumes "stores cm_same cm_key c" "framed cm_key c"
  shows "snd (run_state (kget c n) w) = w"
    and "look c n w = Inr x \<Longrightarrow> cm_key x = n"
    and "run_state (kcreate c x) w = (None, w') \<Longrightarrow> \<exists>y. look c (cm_key x) w' = Inr y \<and> gm_eq (cm_data x) (cm_data y)"
    and "run_state (kupdate c x) w = (None, w') \<Longrightarrow> \<exists>y. look c (cm_key x) w' = Inr y \<and> gm_eq (cm_data x) (cm_data y)"
    and "n \<noteq> cm_key x \<Longrightarrow> look c n (snd (run_state (kcreate c x) w)) = look c n w"
    and "n \<noteq> cm_key x \<Longrightarrow> look c n (snd (run_state (kupdate c x) w)) = look c n w"
    and "n \<noteq> m \<Longrightarrow> look c n (snd (run_state (kdelete c m) w)) = look c n w"
  using assms unfolding stores_def framed_def look_def cm_same_def by blast+

lemma run_current:
  assumes "stores cm_same cm_key c"
  shows "run_state (currentCABundleConfigMap c n) w =
    (if nn_name n = '''' then ((None, None), w)
     else (case look c n w of
             Inl e \<Rightarrow> ((None, if IsNotFound e then None else Some (apiErr e)), w)
           | Inr x \<Rightarrow> ((Some x, None), w)))"
  using run_currentObject[of c n w] assms
  by (simp add: currentCABundleConfigMap_def look_def stores_def)

text \<open>The last part of a round, once source and copy are read.\<close>

definition writeCABundle ::
  "(configmap, 'w) kclient \<Rightarrow> configmap option \<Rightarrow> configmap option \<Rightarrow> ('w, goerror list) state" where
  "writeCABundle c want got =
     (case (want, got) of
        (None, None) \<Rightarrow> State_Monad.return []
      | (None, Some cur) \<Rightarrow> deleteConfigMap c cur
      | (Some desired, None) \<Rightarrow> do {
          r \<leftarrow> kcreate c desired;
          State_Monad.return (case r of
              Some e \<Rightarrow> [errorf ''failed to create configmap'' (apiErr e)] | None \<Rightarrow> [])
        }
      | (Some desired, Some cur) \<Rightarrow> do {
          r \<leftarrow> updateCABundleConfigMap c cur desired;
          State_Monad.return (case r of
              Inl e \<Rightarrow> [errorf ''failed to update configmap'' e] | Inr _ \<Rightarrow> [])
        })"

lemma run_delete: "snd (run_state (deleteConfigMap c cm) w) = snd (run_state (kdelete c (cm_key cm)) w)"
  by (simp add: deleteConfigMap_def cm_key_def split: prod.split)

lemma write_frame:
  assumes "stores cm_same cm_key c" "framed cm_key c" "n \<noteq> m"
    and "\<And>x. want = Some x \<Longrightarrow> cm_key x = m" "\<And>x. got = Some x \<Longrightarrow> cm_key x = m"
  shows "look c n (snd (run_state (writeCABundle c want got) w)) = look c n w"
proof -
  note f = server_facts(5-7)[OF assms(1,2)]
  have "cm_key (x\<lparr>cm_data := y\<rparr>) = cm_key x" for x y by (simp add: cm_key_def)
  then show ?thesis
    using assms(3-5) f(1)[of n "the want" w] f(2)[of n "(the got)\<lparr>cm_data := cm_data (the want)\<rparr>" w]
      f(3)[of n m w] run_delete[of c "the got" w]
    by (cases want; cases got)
      (auto simp: writeCABundle_def updateCABundleConfigMap_def split: prod.splits)
qed

lemma write_done:
  assumes "stores cm_same cm_key c" "framed cm_key c"
    and "cm_key des = m" "\<And>x. got = Some x \<Longrightarrow> look c m w = Inr x"
    and "run_state (writeCABundle c (Some des) got) w = ([], w')"
  shows "\<exists>y. look c m w' = Inr y \<and> gm_eq (cm_data des) (cm_data y)"
proof (cases got)
  case None
  then have "run_state (kcreate c des) w = (None, w')"
    using assms(5) by (auto simp: writeCABundle_def split: prod.splits option.splits)
  then show ?thesis using server_facts(3)[OF assms(1,2)] assms(3) by blast
next
  case (Some cur)
  have k: "cm_key cur = m" using server_facts(2)[OF assms(1,2) assms(4)[OF Some]] .
  show ?thesis
  proof (cases "gm_eq (cm_data cur) (cm_data des)")
    case True
    then have "w' = w" using assms(5) Some
      by (simp add: writeCABundle_def updateCABundleConfigMap_def caBundleConfigmapsEqual_def)
    then show ?thesis using assms(4)[OF Some] True gm_eq_sym by blast
  next
    case False
    then have "run_state (kupdate c (cur\<lparr>cm_data := cm_data des\<rparr>)) w = (None, w')"
      using assms(5) Some
      by (auto simp: writeCABundle_def updateCABundleConfigMap_def caBundleConfigmapsEqual_def
          split: prod.splits option.splits)
    from server_facts(4)[OF assms(1,2) this] show ?thesis using k by (auto simp: cm_key_def)
  qed
qed

definition sourceName :: "string \<Rightarrow> nsname" where
  "sourceName name = \<lparr>nn_ns = GlobalUserSpecifiedConfigNamespace, nn_name = name\<rparr>"

lemma source_not_copy: "sourceName name \<noteq> CABundleConfigMapName name'"
  by (simp add: sourceName_def CABundleConfigMapName_def GlobalUserSpecifiedConfigNamespace_def)

lemma copy_named [simp]: "nn_name (CABundleConfigMapName n) \<noteq> ''''"
  by (simp add: CABundleConfigMapName_def)

text \<open>A round either ends without a write or is the write above.\<close>

lemma round_cases:
  assumes api: "stores cm_same cm_key c" "framed cm_key c"
    and run: "run_state (syncCABundle c d name) w = (errs, w')"
  shows "w' = w \<and> (errs \<noteq> [] \<or> name = '''' \<or> (\<forall>src. look c (sourceName name) w \<noteq> Inr src))
    \<or> (\<exists>src got. look c (sourceName name) w = Inr src
         \<and> (\<forall>x. got = Some x \<longrightarrow> look c (CABundleConfigMapName name) w = Inr x)
         \<and> run_state (writeCABundle c
              (desiredCABundleConfigMap d (Some src) (CABundleConfigMapName name)) got) w = (errs, w'))"
proof -
  let ?src = "look c (sourceName name) w" and ?dst = "look c (CABundleConfigMapName name) w"
  note cur = run_current[OF api(1)]
  have src: "run_state (currentCABundleConfigMap c (sourceName name)) w =
      (if name = '''' then ((None, None), w) else
       (case ?src of Inl e \<Rightarrow> ((None, if IsNotFound e then None else Some (apiErr e)), w)
        | Inr x \<Rightarrow> ((Some x, None), w)))"
    by (simp add: cur sourceName_def)
  show ?thesis
  proof (cases "name = '''' \<or> (\<exists>e. ?src = Inl e)")
    case True
    then show ?thesis
      using run src by (auto simp: syncCABundle_def sourceName_def split: if_splits)
  next
    case False
    then obtain s where s: "?src = Inr s" by (cases ?src) auto
    then have nm: "m_name (cm_meta s) = name"
      using server_facts(2)[OF api s] by (simp add: cm_key_def meta_key_def sourceName_def)
    show ?thesis
    proof (cases "\<exists>e. ?dst = Inl e \<and> \<not> IsNotFound e")
      case True
      then show ?thesis
        using run src s False nm cur[of "CABundleConfigMapName name" w]
        by (auto simp: syncCABundle_def sourceName_def Let_def)
    next
      case no: False
      define h where "h = (case ?dst of Inl _ \<Rightarrow> None | Inr x \<Rightarrow> Some x)"
      have "run_state (currentCABundleConfigMap c (CABundleConfigMapName name)) w = ((h, None), w)"
        using no cur[of "CABundleConfigMapName name" w] by (cases ?dst) (auto simp: h_def)
      then have "run_state (writeCABundle c
          (desiredCABundleConfigMap d (Some s) (CABundleConfigMapName name)) h) w = (errs, w')"
        using run src s False nm by (simp add: syncCABundle_def sourceName_def writeCABundle_def Let_def)
      moreover have "\<forall>x. h = Some x \<longrightarrow> ?dst = Inr x" by (auto simp: h_def split: sum.splits)
      ultimately show ?thesis using s by blast
    qed
  qed
qed

lemma round_frame:
  assumes api: "stores cm_same cm_key c" "framed cm_key c"
    and run: "run_state (syncCABundle c d name) w = (errs, w')" and n: "n \<noteq> CABundleConfigMapName name"
  shows "look c n w' = look c n w"
  using round_cases[OF api run]
proof (elim disjE exE conjE)
  fix src h
  assume "\<forall>x. h = Some x \<longrightarrow> look c (CABundleConfigMapName name) w = Inr x"
    and w: "run_state (writeCABundle c
      (desiredCABundleConfigMap d (Some src) (CABundleConfigMapName name)) h) w = (errs, w')"
  then have "h = Some x \<Longrightarrow> cm_key x = CABundleConfigMapName name" for x
    using server_facts(2)[OF api] by blast
  then have "look c n (snd (run_state (writeCABundle c
      (desiredCABundleConfigMap d (Some src) (CABundleConfigMapName name)) h) w)) = look c n w"
    using desired_ca_key by (intro write_frame[OF api n]) auto
  then show ?thesis using w by simp
qed auto

lemma round_done:
  assumes api: "stores cm_same cm_key c" "framed cm_key c"
    and run: "run_state (syncCABundle c d name) w = ([], w')"
    and live: "m_deletionTimestamp (dns_meta d) = None" "name \<noteq> ''''"
    and src: "look c (sourceName name) w = Inr src"
  shows "\<exists>y. look c (CABundleConfigMapName name) w' = Inr y \<and> gm_eq (cm_data y) (cm_data src)"
proof -
  obtain h where h: "\<And>x. h = Some x \<Longrightarrow> look c (CABundleConfigMapName name) w = Inr x"
    and w: "run_state (writeCABundle c
      (desiredCABundleConfigMap d (Some src) (CABundleConfigMapName name)) h) w = ([], w')"
    using round_cases[OF api run] live(2) src by auto
  obtain des where des: "desiredCABundleConfigMap d (Some src) (CABundleConfigMapName name) = Some des"
      and data: "cm_data des = cm_data src"
    using live(1) by (simp add: desiredCABundleConfigMap_def)
  have "run_state (writeCABundle c (Some des) h) w = ([], w')" using w des by simp
  from write_done[OF api desired_ca_key[OF des] h this]
  obtain y where "look c (CABundleConfigMapName name) w' = Inr y" "gm_eq (cm_data des) (cm_data y)" by blast
  then show ?thesis using data gm_eq_sym by auto
qed

section \<open>The loops\<close>

lemma sync_loop:
  assumes api: "stores cm_same cm_key c" "framed cm_key c"
    and run: "run_state (syncCABundles c d names errs) w = (errs', w')"
  shows "length errs \<le> length errs'"
    and "n \<notin> CABundleConfigMapName ` set names \<Longrightarrow> look c n w' = look c n w"
    and "errs' = errs \<Longrightarrow> m_deletionTimestamp (dns_meta d) = None \<Longrightarrow> '''' \<notin> set names \<Longrightarrow>
      \<forall>name\<in>set names. \<forall>src. look c (sourceName name) w = Inr src \<longrightarrow>
        (\<exists>y. look c (CABundleConfigMapName name) w' = Inr y \<and> gm_eq (cm_data y) (cm_data src))"
proof -
  have "length errs \<le> length errs'
    \<and> (\<forall>n. n \<notin> CABundleConfigMapName ` set names \<longrightarrow> look c n w' = look c n w)
    \<and> (errs' = errs \<longrightarrow> m_deletionTimestamp (dns_meta d) = None \<longrightarrow> '''' \<notin> set names \<longrightarrow>
      (\<forall>name\<in>set names. \<forall>src. look c (sourceName name) w = Inr src \<longrightarrow>
        (\<exists>y. look c (CABundleConfigMapName name) w' = Inr y \<and> gm_eq (cm_data y) (cm_data src))))"
    using run
  proof (induction names arbitrary: errs w)
    case (Cons a names)
    obtain es w1 where step: "run_state (syncCABundle c d a) w = (es, w1)"
      and rest: "run_state (syncCABundles c d names (errs @ es)) w1 = (errs', w')"
      using Cons.prems by (auto split: prod.splits)
    note IH = Cons.IH[OF rest]
    have fr: "n \<noteq> CABundleConfigMapName a \<Longrightarrow> look c n w1 = look c n w" for n
      by (rule round_frame[OF api step])
    have synced: "\<exists>y. look c (CABundleConfigMapName name) w' = Inr y \<and> gm_eq (cm_data y) (cm_data src)"
      if same: "errs' = errs" and live: "m_deletionTimestamp (dns_meta d) = None" "'''' \<notin> set (a # names)"
        and nm: "name \<in> set (a # names)" and src: "look c (sourceName name) w = Inr src" for name src
    proof -
      have es: "es = []" using IH same by auto
      have src1: "look c (sourceName name) w1 = Inr src" using src fr[OF source_not_copy] by simp
      show ?thesis
      proof (cases "name \<in> set names")
        case True
        then show ?thesis using IH es same live src1 by simp
      next
        case False
        then have "name = a" using nm by simp
        moreover have "CABundleConfigMapName a \<notin> CABundleConfigMapName ` set names"
          using False \<open>name = a\<close> by (auto simp: CABundleConfigMapName_inj)
        ultimately show ?thesis
          using round_done[OF api step[unfolded es] live(1), of src] live(2) src IH by auto
      qed
    qed
    then show ?case using IH fr by auto
  qed simp
  then show "length errs \<le> length errs'"
    and "n \<notin> CABundleConfigMapName ` set names \<Longrightarrow> look c n w' = look c n w"
    and "errs' = errs \<Longrightarrow> m_deletionTimestamp (dns_meta d) = None \<Longrightarrow> '''' \<notin> set names \<Longrightarrow>
      \<forall>name\<in>set names. \<forall>src. look c (sourceName name) w = Inr src \<longrightarrow>
        (\<exists>y. look c (CABundleConfigMapName name) w' = Inr y \<and> gm_eq (cm_data y) (cm_data src))"
    by blast+
qed

lemma run_deleteConfigMap:
  "run_state (deleteConfigMap c cm) w = (es, w') \<Longrightarrow>
   \<exists>r. run_state (kdelete c (cm_key cm)) w = (r, w') \<and> (es = [] \<longrightarrow> (\<forall>e. r = Some e \<longrightarrow> IsNotFound e))"
  by (auto simp: deleteConfigMap_def cm_key_def split: prod.splits option.splits if_splits)

lemma remove_loop:
  assumes api: "stores cm_same cm_key c" "framed cm_key c" "deletes c"
    and run: "run_state (removeCABundles c names cms errs) w = (errs', w')"
  shows "length errs \<le> length errs'
    \<and> (errs' = errs \<longrightarrow> (\<forall>n x. look c n w' = Inr x \<longrightarrow> look c n w = Inr x
         \<and> (\<forall>cm\<in>set cms. cm_key cm = n \<longrightarrow> referredInDNS names cm)))
    \<and> (\<forall>n. (\<forall>cm\<in>set cms. cm_key cm = n \<longrightarrow> referredInDNS names cm) \<longrightarrow> look c n w' = look c n w)"
  using run
proof (induction cms arbitrary: errs w)
  case (Cons cm cms)
  show ?case
  proof (cases "referredInDNS names cm")
    case True
    then show ?thesis using Cons.IH[of errs w] Cons.prems by auto
  next
    case False
    then obtain es w1 where step: "run_state (deleteConfigMap c cm) w = (es, w1)"
      and rest: "run_state (removeCABundles c names cms (errs @ es)) w1 = (errs', w')"
      using Cons.prems by (auto split: prod.splits)
    obtain r where del: "run_state (kdelete c (cm_key cm)) w = (r, w1)"
      and nf: "es = [] \<longrightarrow> (\<forall>e. r = Some e \<longrightarrow> IsNotFound e)"
      using run_deleteConfigMap[OF step] by blast
    have fr: "n \<noteq> cm_key cm \<Longrightarrow> look c n w1 = look c n w" for n
      using server_facts(7)[OF api(1,2), of n "cm_key cm" w] del by simp
    have gone: "es = [] \<Longrightarrow> look c (cm_key cm) w1 \<noteq> Inr x" for x
      using api(3) del nf by (auto simp: deletes_def)
    note IH = Cons.IH[OF rest]
    have stay: "look c n w = Inr x \<and> n \<noteq> cm_key cm" if "es = []" "look c n w1 = Inr x" for n x
      using that fr[of n] gone[of x] by (cases "n = cm_key cm") auto
    have "look c n w = Inr x \<and> (\<forall>m\<in>set (cm # cms). cm_key m = n \<longrightarrow> referredInDNS names m)"
      if "errs' = errs" "look c n w' = Inr x" for n x
    proof -
      have es: "es = []" using IH that(1) by auto
      then have "look c n w1 = Inr x" "\<forall>m\<in>set cms. cm_key m = n \<longrightarrow> referredInDNS names m"
        using IH that by auto
      then show ?thesis using stay[OF es] by auto
    qed
    moreover have "look c n w' = look c n w"
      if "\<forall>m\<in>set (cm # cms). cm_key m = n \<longrightarrow> referredInDNS names m" for n
      using that False IH fr[of n] by auto
    ultimately show ?thesis using IH by auto
  qed
qed simp


lemma transport_bundle:
  "name \<in> set (configmapNames d) \<longleftrightarrow> (\<exists>tc\<in>set (transports d). bundleOf tc = Some name)"
  by (force simp: configmapNames_def List.map_filter_def)

lemma names_nonempty: "'''' \<notin> set (configmapNames d)"
proof -
  have "bundleOf tc \<noteq> Some ''''" for tc
    by (cases "tc_tls tc") (auto simp: bundleOf_def)
  then show ?thesis by (auto simp: transport_bundle)
qed

lemma referred_copy:
  "name \<in> set names \<Longrightarrow> cm_key cm = CABundleConfigMapName name \<Longrightarrow> referredInDNS names cm"
  by (auto simp: referredInDNS_def list_ex_iff cm_key_def meta_key_def CABundleConfigMapName_def)

lemma revisionSteps_run:
  assumes "\<And>n v. snd (run_state (kget c n) v) = v"
  shows "run_state (revisionSteps c tcs revs) w = (revs', w') \<Longrightarrow> w' = w \<and>
    (\<forall>name. map_of revs' name =
      (if (\<exists>tc\<in>set tcs. bundleOf tc = Some name)
       then (case look c (CABundleConfigMapName name) w of
               Inr cm \<Rightarrow> Some (m_name (cm_meta cm) @ ''-'' @ m_resourceVersion (cm_meta cm))
             | Inl _ \<Rightarrow> map_of revs name)
       else map_of revs name))"
proof (induction tcs arbitrary: revs)
  case (Cons tc tcs)
  show ?case
  proof (cases "bundleOf tc")
    case None
    then show ?thesis using Cons by (auto simp: revisionStep_def)
  next
    case (Some nm)
    let ?l = "look c (CABundleConfigMapName nm) w"
    define r1 where "r1 = (case ?l of Inl _ \<Rightarrow> revs
      | Inr cm \<Rightarrow> AList.update nm (m_name (cm_meta cm) @ ''-'' @ m_resourceVersion (cm_meta cm)) revs)"
    have "run_state (revisionStep c tc revs) w = (r1, w)"
      using Some assms[of "CABundleConfigMapName nm" w]
      by (cases "run_state (kget c (CABundleConfigMapName nm)) w")
        (simp add: revisionStep_def r1_def look_def)
    then have "run_state (revisionSteps c tcs r1) w = (revs', w')" using Cons.prems by simp
    from Cons.IH[OF this] show ?thesis
      using Some by (auto simp: r1_def gomap_simps split: sum.splits)
  qed
qed simp

lemma ca_copies_synced:
  assumes api: "stores cm_same cm_key c" "framed cm_key c" "deletes c"
    and items: "lists sel cm_key c items" "\<And>v. run_state listCMs v = (Inr (items v), v)"
    and live: "m_deletionTimestamp (dns_meta d) = None"
    and run: "run_state (ensureCABundleConfigMaps c listCMs d) w = (None, w')"
  shows "(\<forall>name\<in>set (configmapNames d). \<forall>src. look c (sourceName name) w = Inr src \<longrightarrow>
      (\<exists>y. look c (CABundleConfigMapName name) w' = Inr y \<and> gm_eq (cm_data y) (cm_data src)))
    \<and> (\<forall>cm\<in>set (items w'). referredInDNS (configmapNames d) cm)"
proof -
  let ?names = "configmapNames d"
  obtain e1 w1 where s: "run_state (syncCABundles c d ?names []) w = (e1, w1)" by fastforce
  obtain e2 w2 where r: "run_state (removeCABundles c ?names (items w1) e1) w1 = (e2, w2)" by fastforce
  have e2: "e2 = []" and w2: "w2 = w'"
    using run s r items(2) by (auto simp: ensureCABundleConfigMaps_def Let_def split: if_splits)
  note R = remove_loop[OF api r]
  have e1: "e1 = []" using R e2 by simp
  note S = sync_loop(3)[OF api(1,2) s e1 live names_nonempty]
  have keep: "look c (CABundleConfigMapName name) w' = look c (CABundleConfigMapName name) w1"
    if "name \<in> set ?names" for name
    using R w2 referred_copy[OF that] by auto
  moreover have "referredInDNS ?names cm" if "cm \<in> set (items w')" for cm
  proof -
    have now: "sel cm" "look c (cm_key cm) w' = Inr cm" using that items(1) by (auto simp: lists_def)
    then have "look c (cm_key cm) w1 = Inr cm" using R e1 e2 w2 by auto
    then have "cm \<in> set (items w1)" using now(1) items(1) by (auto simp: lists_def)
    then show ?thesis using R now(2) e1 e2 w2 by auto
  qed
  ultimately show ?thesis using S by auto
qed

text \<open>The state in which the bundles are synchronised, and that there is nothing left to do in it.\<close>

definition caSettled :: "(configmap, 'w) kclient \<Rightarrow> ('w \<Rightarrow> configmap list) \<Rightarrow> dns \<Rightarrow> 'w \<Rightarrow> bool" where
  "caSettled c items d w \<longleftrightarrow>
     (\<forall>name\<in>set (configmapNames d). \<forall>src. look c (sourceName name) w = Inr src \<longrightarrow>
        (\<exists>y. look c (CABundleConfigMapName name) w = Inr y \<and> gm_eq (cm_data y) (cm_data src)))
     \<and> (\<forall>cm\<in>set (items w). referredInDNS (configmapNames d) cm)"

lemma ca_synced:
  assumes api: "stores cm_same cm_key c" "framed cm_key c" "deletes c"
    and items: "lists cmSelector cm_key c items" "\<And>v. run_state listCMs v = (Inr (items v), v)"
    and live: "m_deletionTimestamp (dns_meta d) = None"
    and run: "run_state (ensureCABundleConfigMaps c listCMs d) w = (None, w')"
  shows "caSettled c items d w'"
proof -
  let ?names = "configmapNames d"
  obtain e1 w1 where s: "run_state (syncCABundles c d ?names []) w = (e1, w1)" by fastforce
  obtain e2 w2 where r: "run_state (removeCABundles c ?names (items w1) e1) w1 = (e2, w2)" by fastforce
  have e2: "e2 = []" and w2: "w2 = w'"
    using run s r items(2) by (auto simp: ensureCABundleConfigMaps_def Let_def split: if_splits)
  note R = remove_loop[OF api r]
  have e1: "e1 = []" using R e2 by simp
  have source: "look c (sourceName name) w' = look c (sourceName name) w" for name
  proof -
    have "cm_key cm \<noteq> sourceName name" if "cm \<in> set (items w1)" for cm
      using that items(1) by (auto simp: lists_def cmSelector_def cm_key_def meta_key_def sourceName_def
          DefaultOperandNamespace_def GlobalUserSpecifiedConfigNamespace_def)
    then have "look c (sourceName name) w' = look c (sourceName name) w1" using R w2 by auto
    also have "\<dots> = look c (sourceName name) w"
      using sync_loop(2)[OF api(1,2) s] source_not_copy by blast
    finally show ?thesis .
  qed
  show ?thesis
    using ca_copies_synced[OF api items live run] source by (simp add: caSettled_def)
qed

lemma ca_quiet:
  assumes api: "stores cm_same cm_key c" and nf: "\<And>n e. look c n w = Inl e \<Longrightarrow> IsNotFound e"
    and items: "\<And>v. run_state listCMs v = (Inr (items v), v)"
    and live: "m_deletionTimestamp (dns_meta d) = None" and st: "caSettled c items d w"
  shows "run_state (ensureCABundleConfigMaps c listCMs d) w = (None, w)"
proof -
  have round: "run_state (syncCABundle c d name) w = ([], w)" if nm: "name \<in> set (configmapNames d)" for name
  proof -
    have ne: "name \<noteq> ''''" using nm names_nonempty by metis
    have src: "run_state (currentCABundleConfigMap c (sourceName name)) w =
        (case look c (sourceName name) w of Inl e \<Rightarrow> ((None, None), w) | Inr x \<Rightarrow> ((Some x, None), w))"
      using run_current[OF api, of "sourceName name" w] ne nf[of "sourceName name"]
      by (simp add: sourceName_def split: sum.split)
    show ?thesis
    proof (cases "look c (sourceName name) w")
      case (Inl e)
      then show ?thesis using src by (simp add: syncCABundle_def sourceName_def)
    next
      case (Inr s)
      obtain y where y: "look c (CABundleConfigMapName name) w = Inr y" "gm_eq (cm_data y) (cm_data s)"
        using st nm Inr unfolding caSettled_def by blast
      have "cm_key s = sourceName name" using api Inr unfolding stores_def look_def by blast
      then have "m_name (cm_meta s) = name" by (simp add: cm_key_def meta_key_def sourceName_def)
      moreover have "run_state (currentCABundleConfigMap c (CABundleConfigMapName name)) w = ((Some y, None), w)"
        using run_current[OF api, of "CABundleConfigMapName name" w] y(1) by simp
      ultimately show ?thesis
        using src Inr y(2) live
        by (simp add: syncCABundle_def sourceName_def Let_def desiredCABundleConfigMap_def updateCABundleConfigMap_def
            caBundleConfigmapsEqual_def)
    qed
  qed
  have "run_state (syncCABundles c d names []) w = ([], w)" if "set names \<subseteq> set (configmapNames d)" for names
    using that round by (induction names) simp_all
  moreover have "run_state (removeCABundles c (configmapNames d) cms []) w = ([], w)"
    if "\<forall>cm\<in>set cms. referredInDNS (configmapNames d) cm" for cms
    using that by (induction cms) auto
  ultimately show ?thesis
    using st items by (simp add: ensureCABundleConfigMaps_def caSettled_def Let_def)
qed

lemma revision_map_cong:
  assumes pure: "\<And>n v. snd (run_state (kget c n) v) = v"
    and same: "\<And>name. look c (CABundleConfigMapName name) w' = look c (CABundleConfigMapName name) w"
    and run: "run_state (caBundleRevisionMap c d) w = (revs, v)"
  shows "run_state (caBundleRevisionMap c d) w' = (revs, w') \<and> v = w"
proof -
  have get: "run_state (kget c n) u = (look c n u, u)" for n u using pure[of n u] by (simp add: look_def prod_eq_iff)
  have step: "\<exists>r. run_state (revisionStep c tc rs) w = (r, w) \<and> run_state (revisionStep c tc rs) w' = (r, w')" for tc rs
    using same by (simp add: revisionStep_def get split: option.split)
  have "\<exists>r. run_state (revisionSteps c tcs rs) w = (r, w) \<and> run_state (revisionSteps c tcs rs) w' = (r, w')" for tcs rs
  proof (induction tcs arbitrary: rs)
    case (Cons tc tcs)
    obtain r where "run_state (revisionStep c tc rs) w = (r, w)" "run_state (revisionStep c tc rs) w' = (r, w')"
      using step by blast
    then show ?case using Cons[of r] by simp
  qed simp
  then show ?thesis using run unfolding caBundleRevisionMap_def by (metis prod.inject)
qed

section \<open>Properties\<close>

text \<open>
  C16: CA bundles are synchronised. When \<open>ensureCABundleConfigMaps\<close> reports no error for a DNS
  that is not being deleted, then every CA bundle the DNS refers to whose source exists has
  a copy in the operand namespace with the data of the source, and every labelled configmap
  that is left there is one the DNS refers to.
\<close>

theorem ca_bundles_synced:
  assumes api: "stores cm_same cm_key c" "framed cm_key c" "deletes c"
    and items: "lists sel cm_key c items" "\<And>v. run_state listCMs v = (Inr (items v), v)"
    and live: "m_deletionTimestamp (dns_meta d) = None"
    and run: "run_state (ensureCABundleConfigMaps c listCMs d) w = (None, w')"
  shows "(\<forall>name\<in>set (configmapNames d). \<forall>src. look c (sourceName name) w = Inr src \<longrightarrow>
      (\<exists>y. look c (CABundleConfigMapName name) w' = Inr y \<and> gm_eq (cm_data y) (cm_data src)))
    \<and> (\<forall>cm\<in>set (items w'). referredInDNS (configmapNames d) cm)"
  by (rule ca_copies_synced[OF assms])

definition sample_source :: configmap where
  "sample_source = \<lparr>cm_meta = emptyMeta\<lparr>m_namespace := ''openshift-config'', m_name := ''cacerts''\<rparr>,
     cm_data = [(''ca-bundle.crt'', ''PEM'')]\<rparr>"

definition sample_stale :: configmap where
  "sample_stale = \<lparr>cm_meta = emptyMeta\<lparr>m_namespace := ''openshift-dns'', m_name := ''ca-old'',
     m_labels := cmLabels\<rparr>, cm_data = []\<rparr>"

definition sample_bundle_dns :: dns where
  "sample_bundle_dns = emptyDNS\<lparr>dns_spec := (dns_spec emptyDNS)\<lparr>spec_upstreamResolvers :=
     (spec_upstreamResolvers (dns_spec emptyDNS))\<lparr>ur_transportConfig :=
       \<lparr>tc_transport = TLSTransport, tc_tls = Some \<lparr>tls_serverName = ''dns.example.com'',
        tls_caBundle = ''cacerts''\<rparr>\<rparr>\<rparr>\<rparr>\<rparr>"

theorem ca_bundles_synced_witness:
  "let w = [(cm_key sample_source, sample_source), (cm_key sample_stale, sample_stale)];
       w' = snd (run_state (ensureCABundleConfigMaps (storeClient cm_key)
              (State (\<lambda>w. (Inr (storeItems cmSelector cm_key w), w))) sample_bundle_dns) w)
   in (\<exists>y. look (storeClient cm_key) (CABundleConfigMapName ''cacerts'') w' = Inr y
         \<and> gm_eq (cm_data y) (cm_data sample_source))
      \<and> (\<forall>cm\<in>set (storeItems cmSelector cm_key w'). referredInDNS (configmapNames sample_bundle_dns) cm)"
  (is "let w = ?w; w' = snd (run_state ?ens w) in _")
proof -
  have "fst (run_state ?ens ?w) = None" by code_simp
  then have run: "run_state ?ens ?w = (None, snd (run_state ?ens ?w))"
    by (simp only: prod_eq_iff fst_conv snd_conv)
  have names: "''cacerts'' \<in> set (configmapNames sample_bundle_dns)"
    and live: "m_deletionTimestamp (dns_meta sample_bundle_dns) = None"
    and src: "look (storeClient cm_key) (sourceName ''cacerts'') ?w = Inr sample_source"
    by code_simp+
  have refl: "cm_same x x" for x by (simp add: cm_same_def)
  have "(\<forall>name\<in>set (configmapNames sample_bundle_dns). \<forall>src. look (storeClient cm_key) (sourceName name) ?w = Inr src \<longrightarrow>
      (\<exists>y. look (storeClient cm_key) (CABundleConfigMapName name) (snd (run_state ?ens ?w)) = Inr y
        \<and> gm_eq (cm_data y) (cm_data src)))
    \<and> (\<forall>cm\<in>set (storeItems cmSelector cm_key (snd (run_state ?ens ?w))). referredInDNS (configmapNames sample_bundle_dns) cm)"
    by (rule ca_bundles_synced[OF storeClient_stores[OF refl] storeClient_framed storeClient_deletes
          storeClient_lists _ live run]) simp
  then have "\<exists>y. look (storeClient cm_key) (CABundleConfigMapName ''cacerts'') (snd (run_state ?ens ?w)) = Inr y
      \<and> gm_eq (cm_data y) (cm_data sample_source)"
    "\<forall>cm\<in>set (storeItems cmSelector cm_key (snd (run_state ?ens ?w))). referredInDNS (configmapNames sample_bundle_dns) cm"
    using bspec[OF _ names] src by auto
  then show ?thesis unfolding Let_def by (rule conjI)
qed

text \<open>
  The revision map names exactly the copies that exist. When reading changes nothing,
  \<open>caBundleRevisionMap\<close> returns a map whose keys are the CA bundles that the DNS refers to
  and whose copy can be read, each with the name and resource version of the copy, and it
  changes nothing either.
\<close>

theorem revision_map_spec:
  assumes "\<And>n v. snd (run_state (kget c n) v) = v"
    and "run_state (caBundleRevisionMap c d) w = (revs, w')"
  shows "w' = w \<and> map_of revs name =
    (if name \<in> set (configmapNames d)
     then (case look c (CABundleConfigMapName name) w of
             Inr cm \<Rightarrow> Some (m_name (cm_meta cm) @ ''-'' @ m_resourceVersion (cm_meta cm))
           | Inl _ \<Rightarrow> None)
     else None)"
  using revisionSteps_run[OF assms(1), of "transports d" "[]" w revs w'] assms(2)
  by (simp add: caBundleRevisionMap_def transport_bundle split: sum.split)

theorem revision_map_spec_witness:
  "map_of (fst (run_state (caBundleRevisionMap (storeClient cm_key) sample_bundle_dns)
     [(CABundleConfigMapName ''cacerts'', sample_source\<lparr>cm_meta := emptyMeta\<lparr>m_namespace := ''openshift-dns'',
        m_name := ''ca-cacerts'', m_resourceVersion := ''7''\<rparr>\<rparr>)])) ''cacerts'' = Some ''ca-cacerts-7''"
  (is "map_of (fst (run_state ?r ?w)) _ = _")
proof -
  have "look (storeClient cm_key) (CABundleConfigMapName ''cacerts'') ?w = Inr (snd (hd ?w))"
    "''cacerts'' \<in> set (configmapNames sample_bundle_dns)"
    by code_simp+
  moreover have "snd (run_state (kget (storeClient cm_key) n) v) = v" for n v
    by (simp add: storeClient_def)
  ultimately show ?thesis
    using revision_map_spec[of "storeClient cm_key" sample_bundle_dns ?w, OF _ prod.collapse[symmetric], of "''cacerts''"]
    by simp
qed

end
