(* ===== verification/Manifests.thy ===== *)
theory Manifests
  imports Names
begin

text \<open>
  \<open>pkg/manifests\<close>: the objects that the embedded YAML assets decode to. Every function of
  \<open>manifests.go\<close> reads one asset and decodes it; its value is the object written below,
  field by field from the asset. The shell script of the node resolver is a text the
  operator only passes on, so it is an argument where it is used.
\<close>

definition namedMeta :: "string \<Rightarrow> string \<Rightarrow> objmeta" where
  "namedMeta ns n = emptyMeta\<lparr>m_namespace := ns, m_name := n\<rparr>"

section \<open>Namespace and access control\<close>

definition DNSNamespace :: namespace where
  "DNSNamespace = \<lparr>ns_meta = (namedMeta '''' ''openshift-dns'')\<lparr>
     m_annotations := [(''openshift.io/node-selector'', ''''),
                       (''workload.openshift.io/allowed'', ''management'')],
     m_labels := [(''openshift.io/run-level'', ''0''),
                  (''openshift.io/cluster-monitoring'', ''true''),
                  (''pod-security.kubernetes.io/enforce'', ''privileged''),
                  (''pod-security.kubernetes.io/audit'', ''privileged''),
                  (''pod-security.kubernetes.io/warn'', ''privileged'')]\<rparr>\<rparr>"

definition DNSServiceAccount :: serviceaccount where
  "DNSServiceAccount = \<lparr>sa_meta = namedMeta ''openshift-dns'' ''dns''\<rparr>"

definition NodeResolverServiceAccount :: serviceaccount where
  "NodeResolverServiceAccount = \<lparr>sa_meta = namedMeta ''openshift-dns'' ''node-resolver''\<rparr>"

definition rule :: "string list \<Rightarrow> string list \<Rightarrow> string list \<Rightarrow> policyrule" where
  "rule gs rs vs = \<lparr>rule_apiGroups = gs, rule_resources = rs, rule_verbs = vs\<rparr>"

definition DNSClusterRole :: role where
  "DNSClusterRole = \<lparr>role_meta = namedMeta '''' ''openshift-dns'', role_rules =
     [rule [''''] [''endpoints'', ''services'', ''pods'', ''namespaces''] [''list'', ''watch''],
      rule [''discovery.k8s.io''] [''endpointslices''] [''list'', ''watch''],
      rule [''authentication.k8s.io''] [''tokenreviews''] [''create''],
      rule [''authorization.k8s.io''] [''subjectaccessreviews''] [''create'']]\<rparr>"

definition DNSClusterRoleBinding :: rolebinding where
  "DNSClusterRoleBinding = \<lparr>rb_meta = namedMeta '''' ''openshift-dns'',
     rb_subjects = [(''ServiceAccount'', ''dns'', ''openshift-dns'')],
     rb_roleRef = ('''', ''ClusterRole'', ''openshift-dns'')\<rparr>"

definition MetricsClusterRole :: role where
  "MetricsClusterRole = \<lparr>role_meta = namedMeta '''' ''dns-monitoring'', role_rules =
     [rule [''operator.openshift.io''] [''dnses''] [''get'']]\<rparr>"

definition MetricsClusterRoleBinding :: rolebinding where
  "MetricsClusterRoleBinding = \<lparr>rb_meta = namedMeta '''' ''dns-monitoring'',
     rb_subjects = [(''ServiceAccount'', ''prometheus-k8s'', ''openshift-monitoring'')],
     rb_roleRef = (''rbac.authorization.k8s.io'', ''ClusterRole'', ''dns-monitoring'')\<rparr>"

definition MetricsRole :: role where
  "MetricsRole = \<lparr>role_meta = namedMeta ''openshift-dns'' ''prometheus-k8s'', role_rules =
     [rule [''''] [''services'', ''endpoints'', ''pods''] [''get'', ''list'', ''watch'']]\<rparr>"

definition MetricsRoleBinding :: rolebinding where
  "MetricsRoleBinding = \<lparr>rb_meta = namedMeta ''openshift-dns'' ''prometheus-k8s'',
     rb_subjects = [(''ServiceAccount'', ''prometheus-k8s'', ''openshift-monitoring'')],
     rb_roleRef = (''rbac.authorization.k8s.io'', ''Role'', ''prometheus-k8s'')\<rparr>"

section \<open>Service and network policies\<close>

definition servicePort :: "string \<Rightarrow> int \<Rightarrow> string \<Rightarrow> string \<Rightarrow> serviceport" where
  "servicePort name port target protocol = \<lparr>sp_name = name, sp_protocol = protocol, sp_port = port,
     sp_targetPort = StrVal target, sp_nodePort = 0\<rparr>"

definition emptyServiceSpec :: servicespec where
  "emptyServiceSpec = \<lparr>ss_type = '''', ss_selector = [], ss_ports = [], ss_clusterIP = '''',
     ss_clusterIPs = [], ss_ipFamilies = [], ss_ipFamilyPolicy = None, ss_sessionAffinity = '''',
     ss_internalTrafficPolicy = None, ss_trafficDistribution = None, ss_externalName = ''''\<rparr>"

definition DNSService :: service where
  "DNSService = \<lparr>svc_meta = emptyMeta, svc_spec = emptyServiceSpec\<lparr>
     ss_trafficDistribution := Some ''PreferSameNode'',
     ss_ports := [servicePort ''dns'' 53 ''dns'' ''UDP'', servicePort ''dns-tcp'' 53 ''dns-tcp'' ''TCP'',
                  servicePort ''metrics'' 9154 ''metrics'' ''TCP'']\<rparr>\<rparr>"

definition emptySelector :: labelselector where
  "emptySelector = \<lparr>ls_matchLabels = [], ls_matchExpressions = []\<rparr>"

definition DNSNetworkPolicy :: networkpolicy where
  "DNSNetworkPolicy = \<lparr>npol_meta = emptyMeta, npol_spec =
     \<lparr>nps_podSelector = emptySelector,
      nps_ingress = [\<lparr>nr_ports = [(''UDP'', IntVal 5353), (''TCP'', IntVal 5353)], nr_peers = []\<rparr>,
                     \<lparr>nr_ports = [(''TCP'', IntVal 9154)],
                      nr_peers = [NamespaceSelector \<lparr>ls_matchLabels =
                        [(''kubernetes.io/metadata.name'', ''openshift-monitoring'')],
                        ls_matchExpressions = []\<rparr>]\<rparr>],
      nps_egress = [\<lparr>nr_ports = [], nr_peers = [IPBlock ''0.0.0.0/0'', IPBlock ''::/0'']\<rparr>],
      nps_policyTypes = [''Ingress'', ''Egress'']\<rparr>\<rparr>"

definition NetworkPolicyDenyAll :: networkpolicy where
  "NetworkPolicyDenyAll = \<lparr>npol_meta = (namedMeta ''openshift-dns'' ''openshift-dns-deny-all'')\<lparr>
       m_labels := [(''dns.operator.openshift.io/owning-dns'', ''default'')]\<rparr>,
     npol_spec = \<lparr>nps_podSelector = emptySelector, nps_ingress = [], nps_egress = [],
       nps_policyTypes = [''Ingress'', ''Egress'']\<rparr>\<rparr>"

section \<open>The DNS daemonset\<close>

definition emptyContainer :: container where
  "emptyContainer = \<lparr>ct_name = '''', ct_image = '''', ct_command = [], ct_args = [], ct_env = [],
     ct_volumeMounts = [], ct_readinessProbe = None, ct_livenessProbe = None, ct_ports = [],
     ct_requests = [], ct_privileged = None, ct_readOnlyRoot = None, ct_imagePullPolicy = '''',
     ct_terminationMessagePolicy = ''''\<rparr>"

definition mount :: "string \<Rightarrow> string \<Rightarrow> bool \<Rightarrow> volumemount" where
  "mount name path ro = \<lparr>vm_name = name, vm_mountPath = path, vm_readOnly = ro\<rparr>"

definition port :: "int \<Rightarrow> string \<Rightarrow> string \<Rightarrow> containerport" where
  "port p name protocol = \<lparr>cp_name = name, cp_containerPort = p, cp_protocol = protocol\<rparr>"

definition dnsContainer :: container where
  "dnsContainer = emptyContainer\<lparr>ct_name := ''dns'', ct_imagePullPolicy := ''IfNotPresent'',
     ct_terminationMessagePolicy := ''FallbackToLogsOnError'', ct_command := [''coredns''],
     ct_args := [''-conf'', ''/etc/coredns/Corefile''],
     ct_volumeMounts := [mount ''config-volume'' ''/etc/coredns'' True, mount ''tmp-dir'' ''/tmp'' False],
     ct_ports := [port 5353 ''dns'' ''UDP'', port 5353 ''dns-tcp'' ''TCP''],
     ct_readinessProbe := Some \<lparr>pr_path = ''/ready'', pr_port = 8181, pr_scheme = ''HTTP'',
       pr_initialDelay = 10, pr_period = 3, pr_timeout = 3, pr_success = 1, pr_failure = 3\<rparr>,
     ct_livenessProbe := Some \<lparr>pr_path = ''/health'', pr_port = 8080, pr_scheme = ''HTTP'',
       pr_initialDelay = 60, pr_period = 0, pr_timeout = 5, pr_success = 1, pr_failure = 5\<rparr>,
     ct_requests := [(''cpu'', ''50m''), (''memory'', ''70Mi'')], ct_readOnlyRoot := Some True\<rparr>"

definition kubeRBACProxyContainer :: container where
  "kubeRBACProxyContainer = emptyContainer\<lparr>ct_name := ''kube-rbac-proxy'',
     ct_ports := [port 9154 ''metrics'' ''''],
     ct_requests := [(''cpu'', ''10m''), (''memory'', ''40Mi'')],
     ct_terminationMessagePolicy := ''FallbackToLogsOnError'',
     ct_volumeMounts := [mount ''metrics-tls'' ''/etc/tls/private'' True, mount ''tmp-dir'' ''/tmp'' False],
     ct_readOnlyRoot := Some True\<rparr>"

definition DNSDaemonSet :: daemonset where
  "DNSDaemonSet = emptyDaemonSet\<lparr>ds_spec := \<lparr>dss_selector = None,
     dss_template = \<lparr>pt_labels = [],
       pt_annotations = [(''target.workload.openshift.io/management'',
                          ''{'' @ [CHR 0x22] @ ''effect'' @ [CHR 0x22] @ '': '' @ [CHR 0x22]
                          @ ''PreferredDuringScheduling'' @ [CHR 0x22] @ ''}'')],
       pt_spec = emptyPodSpec\<lparr>ps_serviceAccountName := ''dns'',
         ps_priorityClassName := ''system-node-critical'',
         ps_containers := [dnsContainer, kubeRBACProxyContainer], ps_dnsPolicy := ''Default'',
         ps_volumes :=
           [\<lparr>vol_name = ''config-volume'', vol_source = VConfigMap \<lparr>cmv_name = '''',
              cmv_items = [\<lparr>kp_key = ''Corefile'', kp_path = ''Corefile'', kp_mode = None\<rparr>],
              cmv_defaultMode = None, cmv_optional = None\<rparr>\<rparr>,
            \<lparr>vol_name = ''metrics-tls'', vol_source = VNone\<rparr>,
            \<lparr>vol_name = ''tmp-dir'', vol_source = VEmptyDir\<rparr>]\<rparr>\<rparr>,
     dss_updateStrategy = \<lparr>us_type = ''RollingUpdate'', us_rollingUpdate = Some
       \<lparr>ru_maxUnavailable = Some (IntVal 0), ru_maxSurge = Some (StrVal ''10%'')\<rparr>\<rparr>,
     dss_minReadySeconds = 9\<rparr>\<rparr>"

lemmas manifest_defs [kube_defs] =
  namedMeta_def rule_def servicePort_def emptyServiceSpec_def emptySelector_def emptyContainer_def
  mount_def port_def dnsContainer_def kubeRBACProxyContainer_def

text \<open>
  The pods need the service account, the cluster role and the binding to fit together, the
  service its ports to exist on the pods, and every volume a container mounts to be defined.
\<close>

lemma manifests_fit:
  "rb_subjects DNSClusterRoleBinding =
     [(''ServiceAccount'', m_name (sa_meta DNSServiceAccount), m_namespace (sa_meta DNSServiceAccount))]"
  "snd (snd (rb_roleRef DNSClusterRoleBinding)) = m_name (role_meta DNSClusterRole)"
  "ps_serviceAccountName (pt_spec (dss_template (ds_spec DNSDaemonSet))) = m_name (sa_meta DNSServiceAccount)"
  by (simp_all add: DNSClusterRoleBinding_def DNSServiceAccount_def DNSClusterRole_def DNSDaemonSet_def
      namedMeta_def)

end
