(* ===== verification/DNS_Service.thy ===== *)
theory DNS_Service
  imports Kube_API Manifests
begin

text \<open>
  \<open>pkg/operator/controller/controller_dns_service.go\<close>: the cluster DNS service and the
  decision whether it gets topology-aware hints.

  \<^item> The decision is a function of the list of nodes; listing them is a parameter.
  \<^item> \<open>serviceChanged\<close> compares what the operator manages, taking the API's defaults for
    unset fields and leaving alone what the API or a user may set.
  The lemmas show the decision's exact condition, what an update keeps and what it sets,
  and that ensuring the service converges.
\<close>

section \<open>Topology-aware hints\<close>

definition topologyAwareHintsAnnotationKey :: string where
  "topologyAwareHintsAnnotationKey = ''service.kubernetes.io/topology-aware-hints''"

definition servingCertAnnotationKey :: string where
  "servingCertAnnotationKey = ''service.beta.openshift.io/serving-cert-secret-name''"

definition managedDNSServiceAnnotations :: "string list" where
  "managedDNSServiceAnnotations = [servingCertAnnotationKey, topologyAwareHintsAnnotationKey]"

definition LabelTopologyZone :: string where
  "LabelTopologyZone = ''topology.kubernetes.io/zone''"

definition nodeHasExcludedLabels :: "gomap \<Rightarrow> bool" where
  "nodeHasExcludedLabels labels =
     (if length labels = 0 then False
      else if map_of labels ''node-role.kubernetes.io/control-plane'' \<noteq> None then True
      else if map_of labels ''node-role.kubernetes.io/master'' \<noteq> None then True
      else False)"

fun nodeIsReady :: "nodecondition list \<Rightarrow> bool" where
  "nodeIsReady [] = False"
| "nodeIsReady (cond # conds) =
     (if nc_type cond = ''Ready'' then nc_status cond = ConditionTrue else nodeIsReady conds)"

definition ignoreNodeForTopologyAwareHints :: "node \<Rightarrow> bool" where
  "ignoreNodeForTopologyAwareHints n \<longleftrightarrow>
     nodeHasExcludedLabels (m_labels (nd_meta n)) \<or> \<not> nodeIsReady (nd_conditions n)"

definition nodeZone :: "node \<Rightarrow> string" where
  "nodeZone n = gm_get (m_labels (nd_meta n)) LabelTopologyZone"

definition nodeIsValidForTopologyAwareHints :: "node \<Rightarrow> bool" where
  "nodeIsValidForTopologyAwareHints n \<longleftrightarrow> nd_allocatableCPU n \<noteq> 0 \<and> nodeZone n \<noteq> ''''"

text \<open>The loop over the nodes; \<^const>\<open>None\<close> is the early return of false.\<close>

fun collectZones :: "string list \<Rightarrow> node list \<Rightarrow> string list option" where
  "collectZones zones [] = Some zones"
| "collectZones zones (n # ns) =
     (if ignoreNodeForTopologyAwareHints n then collectZones zones ns
      else if \<not> nodeIsValidForTopologyAwareHints n then None
      else collectZones (List.insert (nodeZone n) zones) ns)"

definition enableHints :: "node list \<Rightarrow> bool" where
  "enableHints nodes = (case collectZones [] nodes of None \<Rightarrow> False | Some zones \<Rightarrow> length zones \<ge> 2)"

definition shouldEnableTopologyAwareHints ::
  "('w, apierror + node list) state \<Rightarrow> ('w, goerror + bool) state" where
  "shouldEnableTopologyAwareHints listNodes = do {
     r \<leftarrow> listNodes;
     State_Monad.return (case r of Inl e \<Rightarrow> Inl (apiErr e) | Inr nodes \<Rightarrow> Inr (enableHints nodes))
   }"

section \<open>The service\<close>

definition desiredDNSService :: "dns \<Rightarrow> string \<Rightarrow> bool \<Rightarrow> ownerref \<Rightarrow> service" where
  "desiredDNSService d clusterIP enableTopologyAwareHints daemonsetRef =
     (let name = DNSServiceName d;
          anns = [(MetricsServingCertAnnotation, DNSMetricsSecretName d)]
      in \<lparr>svc_meta = (svc_meta DNSService)\<lparr>m_namespace := nn_ns name, m_name := nn_name name,
            m_ownerRefs := [dnsOwnerRef d],
            m_annotations := (if enableTopologyAwareHints
                              then AList.update topologyAwareHintsAnnotationKey ''auto'' anns else anns),
            m_labels := [(OwningDNSLabel, DNSDaemonSetLabel d)]\<rparr>,
          svc_spec =
            (let spec = (svc_spec DNSService)\<lparr>ss_selector := ls_matchLabels (DNSDaemonSetPodSelector d)\<rparr>
             in if length clusterIP > 0 then spec\<lparr>ss_clusterIP := clusterIP\<rparr> else spec)\<rparr>)"

definition cmpServiceAffinity :: "string \<Rightarrow> string \<Rightarrow> bool" where
  "cmpServiceAffinity a b =
     ((if length a = 0 then ''None'' else a) = (if length b = 0 then ''None'' else b))"

definition cmpServiceType :: "string \<Rightarrow> string \<Rightarrow> bool" where
  "cmpServiceType a b =
     ((if length a = 0 then ''ClusterIP'' else a) = (if length b = 0 then ''ClusterIP'' else b))"

definition cmpServiceInternalTrafficPolicyType :: "string option \<Rightarrow> string option \<Rightarrow> bool" where
  "cmpServiceInternalTrafficPolicyType a b =
     ((case a of None \<Rightarrow> ''Cluster'' | Some x \<Rightarrow> x) = (case b of None \<Rightarrow> ''Cluster'' | Some x \<Rightarrow> x))"

text \<open>\<open>cmp.Equal(current.Spec, expected.Spec, serviceCmpOpts...)\<close>\<close>

definition serviceSpecsEqual :: "servicespec \<Rightarrow> servicespec \<Rightarrow> bool" where
  "serviceSpecsEqual a b \<longleftrightarrow> cmpServiceType (ss_type a) (ss_type b)
     \<and> gm_eq (ss_selector a) (ss_selector b) \<and> ss_ports a = ss_ports b
     \<and> cmpServiceAffinity (ss_sessionAffinity a) (ss_sessionAffinity b)
     \<and> cmpServiceInternalTrafficPolicyType (ss_internalTrafficPolicy a) (ss_internalTrafficPolicy b)
     \<and> ss_trafficDistribution a = ss_trafficDistribution b \<and> ss_externalName a = ss_externalName b"

definition managedEntriesEqual :: "string list \<Rightarrow> gomap \<Rightarrow> gomap \<Rightarrow> bool" where
  "managedEntriesEqual ks a b \<longleftrightarrow> list_all (\<lambda>k. map_of a k = map_of b k) ks"

definition serviceChanged :: "service \<Rightarrow> service \<Rightarrow> service option" where
  "serviceChanged current expected =
     (if serviceSpecsEqual (svc_spec current) (svc_spec expected)
         \<and> managedEntriesEqual managedDNSServiceAnnotations
              (m_annotations (svc_meta current)) (m_annotations (svc_meta expected))
      then None
      else Some \<lparr>svc_meta = (svc_meta current)\<lparr>m_annotations :=
                   syncKeys managedDNSServiceAnnotations
                     (m_annotations (svc_meta current)) (m_annotations (svc_meta expected))\<rparr>,
                 svc_spec = (svc_spec expected)\<lparr>ss_clusterIP := ss_clusterIP (svc_spec current),
                   ss_clusterIPs := ss_clusterIPs (svc_spec current),
                   ss_ipFamilies := ss_ipFamilies (svc_spec current),
                   ss_ipFamilyPolicy := ss_ipFamilyPolicy (svc_spec current)\<rparr>\<rparr>)"

definition currentDNSService ::
  "(service, 'w) kclient \<Rightarrow> dns \<Rightarrow> ('w, service option \<times> goerror option) state" where
  "currentDNSService c d = currentObject c (DNSServiceName d)"

definition updateDNSService ::
  "(service, 'w) kclient \<Rightarrow> service \<Rightarrow> service \<Rightarrow> ('w, goerror + bool) state" where
  "updateDNSService c =
     updateObject c (\<lambda>s. ''failed to update dns service '' @ nsname_text (svc_meta s)) serviceChanged"

definition ensureDNSService ::
  "(service, 'w) kclient \<Rightarrow> ('w, apierror + node list) state \<Rightarrow> dns \<Rightarrow> string \<Rightarrow> ownerref \<Rightarrow>
   ('w, service option \<times> goerror option) state" where
  "ensureDNSService c listNodes d clusterIP daemonsetRef = do {
     (current, err) \<leftarrow> currentDNSService c d;
     (case err of
        Some e \<Rightarrow> State_Monad.return (None, Some e)
      | None \<Rightarrow> do {
          hints \<leftarrow> shouldEnableTopologyAwareHints listNodes;
          (case hints of
             Inl e \<Rightarrow> State_Monad.return (None, Some e)
           | Inr enable \<Rightarrow>
               createOrUpdate (kcreate c) ''failed to create dns service'' (currentDNSService c d)
                 (updateDNSService c) current (desiredDNSService d clusterIP enable daemonsetRef))
        })
   }"

section \<open>Facts\<close>

lemma distinct_managed [simp]: "distinct managedDNSServiceAnnotations"
  by (simp add: managedDNSServiceAnnotations_def servingCertAnnotationKey_def
      topologyAwareHintsAnnotationKey_def)

lemma collectZones_iff:
  "distinct zones \<Longrightarrow> collectZones zones ns = Some zs \<Longrightarrow>
   distinct zs \<and> set zs = set zones \<union> nodeZone ` {n \<in> set ns. \<not> ignoreNodeForTopologyAwareHints n}
   \<and> (\<forall>n\<in>set ns. \<not> ignoreNodeForTopologyAwareHints n \<longrightarrow> nodeIsValidForTopologyAwareHints n)"
proof (induction ns arbitrary: zones)
  case (Cons n ns)
  show ?case
  proof (cases "ignoreNodeForTopologyAwareHints n")
    case True
    then show ?thesis using Cons.IH[of zones] Cons.prems by auto
  next
    case False
    then have v: "nodeIsValidForTopologyAwareHints n" using Cons.prems(2) by (auto split: if_splits)
    then have "collectZones (List.insert (nodeZone n) zones) ns = Some zs" using False Cons.prems(2) by simp
    then show ?thesis using Cons.IH[of "List.insert (nodeZone n) zones"] Cons.prems(1) False v by auto
  qed
qed simp

lemma collectZones_None:
  "collectZones zones ns = None \<longleftrightarrow>
   (\<exists>n\<in>set ns. \<not> ignoreNodeForTopologyAwareHints n \<and> \<not> nodeIsValidForTopologyAwareHints n)"
  by (induction ns arbitrary: zones) auto

lemma serviceSpecsEqual_refl [simp, intro]: "serviceSpecsEqual a a"
  by (simp add: serviceSpecsEqual_def cmpServiceType_def cmpServiceAffinity_def
      cmpServiceInternalTrafficPolicyType_def)

lemma serviceSpecsEqual_sym: "serviceSpecsEqual a b \<Longrightarrow> serviceSpecsEqual b a"
  unfolding serviceSpecsEqual_def cmpServiceType_def cmpServiceAffinity_def
    cmpServiceInternalTrafficPolicyType_def gm_eq_iff
  by (intro conjI; elim conjE; erule sym)

lemma serviceSpecsEqual_trans: "serviceSpecsEqual a b \<Longrightarrow> serviceSpecsEqual b c \<Longrightarrow> serviceSpecsEqual a c"
  unfolding serviceSpecsEqual_def cmpServiceType_def cmpServiceAffinity_def
    cmpServiceInternalTrafficPolicyType_def gm_eq_iff
  by (intro conjI; elim conjE; erule (1) trans)

definition svc_key :: "service \<Rightarrow> nsname" where
  "svc_key s = meta_key (svc_meta s)"

definition svc_managed :: "service \<Rightarrow> service \<Rightarrow> bool" where
  "svc_managed cur exp \<longleftrightarrow> serviceSpecsEqual (svc_spec cur) (svc_spec exp)
     \<and> managedEntriesEqual managedDNSServiceAnnotations
          (m_annotations (svc_meta cur)) (m_annotations (svc_meta exp))"

text \<open>
  What the API server may do to a service it stores: assign addresses and families, fill in
  the default type, affinity and traffic policy, and change metadata other than annotations.
\<close>

definition svc_sim :: "service \<Rightarrow> service \<Rightarrow> bool" where
  "svc_sim a b \<longleftrightarrow> serviceSpecsEqual (svc_spec a) (svc_spec b)
     \<and> gm_eq (m_annotations (svc_meta a)) (m_annotations (svc_meta b))"

lemma specs_equal_ignores:
  "serviceSpecsEqual (s\<lparr>ss_clusterIP := a, ss_clusterIPs := b, ss_ipFamilies := c, ss_ipFamilyPolicy := e\<rparr>) t
   \<longleftrightarrow> serviceSpecsEqual s t"
  by (simp add: serviceSpecsEqual_def)

interpretation svcd: change_detector serviceChanged svc_managed svc_sim svc_key
proof unfold_locales
  fix cur exp upd cur' :: service
  show "serviceChanged cur exp = None \<longleftrightarrow> svc_managed cur exp"
    by (simp add: serviceChanged_def svc_managed_def)
  show "svc_managed exp exp"
    by (simp add: svc_managed_def managedEntriesEqual_def list_all_iff)
  show "serviceChanged cur exp = Some upd \<Longrightarrow> svc_managed upd exp"
    by (auto simp: serviceChanged_def svc_managed_def specs_equal_ignores managedEntriesEqual_def
        list_all_iff gomap_simps split: if_splits)
  show "svc_managed cur exp \<Longrightarrow> svc_sim cur cur' \<Longrightarrow> svc_managed cur' exp"
    unfolding svc_managed_def svc_sim_def managedEntriesEqual_def gm_eq_iff list_all_iff
    by (metis serviceSpecsEqual_sym serviceSpecsEqual_trans)
  show "serviceChanged cur exp = Some upd \<Longrightarrow> svc_key upd = svc_key cur"
    by (auto simp: serviceChanged_def svc_key_def meta_key_def split: if_splits)
qed

lemma desired_svc_key: "svc_key (desiredDNSService d ip h ref) = DNSServiceName d"
  by (simp add: desiredDNSService_def svc_key_def meta_key_def DNSServiceName_def Let_def)

lemma service_done:
  assumes api: "stores svc_sim svc_key c" and nodes: "run_state listNodes w = (Inr nodes, w)"
    and run: "run_state (ensureDNSService c listNodes d ip ref) w = ((r, None), w')"
  obtains x where "r = Some x" "look c (DNSServiceName d) w' = Inr x"
    "svc_managed x (desiredDNSService d ip (enableHints nodes) ref)"
proof -
  let ?des = "desiredDNSService d ip (enableHints nodes) ref"
  have "run_state (ensureObject c (DNSServiceName d) ''failed to create dns service''
      (updateObject c (\<lambda>s. ''failed to update dns service '' @ nsname_text (svc_meta s)) serviceChanged) ?des) w
      = ((r, None), w')"
  proof -
    obtain cur err where cur: "run_state (currentObject c (DNSServiceName d)) w = ((cur, err), w)"
      using run_currentObject[OF reads_only[OF api], of "DNSServiceName d" w] by (auto split: sum.splits)
    then show ?thesis
      using run nodes by (cases err) (simp_all add: ensureDNSService_def ensureObject_def currentDNSService_def
          updateDNSService_def shouldEnableTopologyAwareHints_def)
  qed
  then show ?thesis using svcd.ensure_object_done[OF api desired_svc_key] that by blast
qed

lemma service_quiet:
  assumes api: "stores svc_sim svc_key c" and nodes: "run_state listNodes w = (Inr nodes, w)"
    and x: "look c (DNSServiceName d) w = Inr x" "svc_managed x (desiredDNSService d ip (enableHints nodes) ref)"
  shows "run_state (ensureDNSService c listNodes d ip ref) w = ((Some x, None), w)"
proof -
  have "run_state (currentObject c (DNSServiceName d)) w = ((Some x, None), w)"
    using run_currentObject[OF reads_only[OF api], of "DNSServiceName d" w] x(1) by (simp add: look_def)
  then show ?thesis
    using svcd.quiet[OF x(2)] nodes
    by (simp add: ensureDNSService_def currentDNSService_def updateDNSService_def shouldEnableTopologyAwareHints_def)
qed

section \<open>Properties\<close>

text \<open>
  When topology-aware hints are enabled: exactly when every node that counts (ready, not
  a control-plane node) has CPU and a zone, and these nodes span at least two zones.
\<close>

theorem enableHints_iff:
  "enableHints nodes \<longleftrightarrow>
   (\<forall>n\<in>set nodes. \<not> ignoreNodeForTopologyAwareHints n \<longrightarrow> nodeIsValidForTopologyAwareHints n)
   \<and> 2 \<le> card (nodeZone ` {n \<in> set nodes. \<not> ignoreNodeForTopologyAwareHints n})"
proof (cases "collectZones [] nodes")
  case None
  then have "\<exists>n\<in>set nodes. \<not> ignoreNodeForTopologyAwareHints n \<and> \<not> nodeIsValidForTopologyAwareHints n"
    by (simp only: collectZones_None)
  then show ?thesis using None by (auto simp: enableHints_def)
next
  case (Some zs)
  then have "distinct zs" "set zs = nodeZone ` {n \<in> set nodes. \<not> ignoreNodeForTopologyAwareHints n}"
    "\<forall>n\<in>set nodes. \<not> ignoreNodeForTopologyAwareHints n \<longrightarrow> nodeIsValidForTopologyAwareHints n"
    using collectZones_iff[of "[]" nodes zs] by auto
  then show ?thesis using Some by (auto simp: enableHints_def distinct_card[symmetric])
qed

definition sample_node :: "string \<Rightarrow> node" where
  "sample_node zone = \<lparr>nd_meta = emptyMeta\<lparr>m_labels := [(LabelTopologyZone, zone)]\<rparr>,
     nd_unschedulable = False, nd_taints = [], nd_allocatableCPU = 4,
     nd_conditions = [\<lparr>nc_type = ''Ready'', nc_status = ConditionTrue\<rparr>]\<rparr>"

theorem enableHints_iff_witness:
  "enableHints [sample_node ''a'', sample_node ''b'']
   \<and> 2 \<le> card (nodeZone ` {n \<in> set [sample_node ''a'', sample_node ''b''].
       \<not> ignoreNodeForTopologyAwareHints n})"
proof -
  have "enableHints [sample_node ''a'', sample_node ''b'']" by code_simp
  then show ?thesis unfolding enableHints_iff[symmetric] using enableHints_iff by blast
qed

text \<open>
  What a service update keeps and what it sets. The addresses, IP families, name, labels
  and owner of the current service and all annotations the operator does not manage stay as
  they are; the managed annotations and the rest of the spec become the expected ones.
\<close>

theorem service_update_frame:
  assumes "serviceChanged cur exp = Some upd"
  shows "ss_clusterIP (svc_spec upd) = ss_clusterIP (svc_spec cur)
    \<and> ss_clusterIPs (svc_spec upd) = ss_clusterIPs (svc_spec cur)
    \<and> ss_ipFamilies (svc_spec upd) = ss_ipFamilies (svc_spec cur)
    \<and> ss_ipFamilyPolicy (svc_spec upd) = ss_ipFamilyPolicy (svc_spec cur)
    \<and> (svc_meta upd)\<lparr>m_annotations := []\<rparr> = (svc_meta cur)\<lparr>m_annotations := []\<rparr>
    \<and> map_of (m_annotations (svc_meta upd)) k =
        map_of (m_annotations (svc_meta (if k \<in> set managedDNSServiceAnnotations then exp else cur))) k
    \<and> serviceSpecsEqual (svc_spec upd) (svc_spec exp)"
  using assms svcd.repairs[OF assms]
  by (auto simp: serviceChanged_def svc_managed_def gomap_simps split: if_splits)

theorem service_update_frame_witness:
  "\<exists>upd. serviceChanged ((desiredDNSService emptyDNS ''172.30.0.10'' True (dnsOwnerRef emptyDNS))
        \<lparr>svc_spec := emptyServiceSpec\<lparr>ss_clusterIP := ''10.0.0.9''\<rparr>\<rparr>)
      (desiredDNSService emptyDNS ''172.30.0.10'' False (dnsOwnerRef emptyDNS)) = Some upd
     \<and> ss_clusterIP (svc_spec upd) = ''10.0.0.9''
     \<and> map_of (m_annotations (svc_meta upd)) topologyAwareHintsAnnotationKey = None"
  (is "\<exists>upd. serviceChanged ?cur ?exp = _ \<and> _")
proof -
  have "ss_ports (svc_spec ?cur) \<noteq> ss_ports (svc_spec ?exp)"
    by (simp add: desiredDNSService_def Let_def emptyServiceSpec_def DNSService_def)
  then have "\<not> svc_managed ?cur ?exp" by (simp add: svc_managed_def serviceSpecsEqual_def)
  then obtain upd where upd: "serviceChanged ?cur ?exp = Some upd"
    using svcd.detects[of ?cur ?exp] by auto
  have "map_of (m_annotations (svc_meta ?exp)) topologyAwareHintsAnnotationKey = None"
    by (simp add: desiredDNSService_def Let_def topologyAwareHintsAnnotationKey_def
        MetricsServingCertAnnotation_def)
  then show ?thesis
    using upd service_update_frame[OF upd, of topologyAwareHintsAnnotationKey]
    by (simp add: managedDNSServiceAnnotations_def)
qed

text \<open>
  The DNS service converges. With the nodes unchanged and a server that keeps services up
  to its own defaults, a successful \<open>ensureDNSService\<close> leaves the desired service, and
  repeating it writes nothing.
\<close>

theorem ensureDNSService_converges:
  assumes api: "stores svc_sim svc_key c" and nodes: "\<And>v. run_state listNodes v = (Inr nodes, v)"
    and run: "run_state (ensureDNSService c listNodes d ip ref) w = ((Some x, None), w')"
  shows "svc_managed x (desiredDNSService d ip (enableHints nodes) ref)
    \<and> run_state (ensureDNSService c listNodes d ip ref) w' = ((Some x, None), w')"
proof -
  obtain y where "Some x = Some y" "look c (DNSServiceName d) w' = Inr y" "svc_managed y (desiredDNSService d ip (enableHints nodes) ref)"
    by (rule service_done[OF api nodes run])
  then show ?thesis using service_quiet[OF api nodes] by simp
qed

theorem ensureDNSService_converges_witness:
  "\<exists>x w'. run_state (ensureDNSService (storeClient svc_key) (State (\<lambda>w. (Inr [], w))) emptyDNS
       ''172.30.0.10'' (dnsOwnerRef emptyDNS)) [] = ((Some x, None), w')
     \<and> run_state (ensureDNSService (storeClient svc_key) (State (\<lambda>w. (Inr [], w))) emptyDNS
         ''172.30.0.10'' (dnsOwnerRef emptyDNS)) w' = ((Some x, None), w')"
  (is "\<exists>x w'. run_state ?ens _ = _ \<and> _")
proof -
  let ?des = "desiredDNSService emptyDNS ''172.30.0.10'' (enableHints []) (dnsOwnerRef emptyDNS)"
  have "run_state ?ens [] = ((Some ?des, None), [(DNSServiceName emptyDNS, ?des)])"
    using desired_svc_key[of emptyDNS "''172.30.0.10''" "enableHints []" "dnsOwnerRef emptyDNS"]
    by (simp add: ensureDNSService_def currentDNSService_def currentObject_def createOrUpdate_def
        storeClient_def shouldEnableTopologyAwareHints_def)
  then show ?thesis
    using ensureDNSService_converges[OF storeClient_stores[of svc_sim]] by (auto simp: svc_sim_def)
qed

end
