(* ===== verification/Network_Policy.thy ===== *)
theory Network_Policy
  imports Kube_API Manifests
begin

text \<open>
  \<open>pkg/operator/controller/controller_dns_networkpolicy.go\<close>: the policy that lets traffic
  reach the DNS pods and the policy that denies everything else in their namespace.
  Specs, labels and owner references are compared and replaced one by one.
\<close>

section \<open>Comparison\<close>

text \<open>\<open>cmp.Equal\<close> on policy specs: label maps are compared as maps, lists in order.\<close>

fun peersEqual :: "netpeer \<Rightarrow> netpeer \<Rightarrow> bool" where
  "peersEqual (NamespaceSelector a) (NamespaceSelector b) = sel_eq a b"
| "peersEqual (IPBlock a) (IPBlock b) = (a = b)"
| "peersEqual _ _ = False"

definition netrulesEqual :: "netrule \<Rightarrow> netrule \<Rightarrow> bool" where
  "netrulesEqual a b \<longleftrightarrow> nr_ports a = nr_ports b \<and> list_all2 peersEqual (nr_peers a) (nr_peers b)"

definition policySpecsEqual :: "netpolspec \<Rightarrow> netpolspec \<Rightarrow> bool" where
  "policySpecsEqual a b \<longleftrightarrow> sel_eq (nps_podSelector a) (nps_podSelector b)
     \<and> list_all2 netrulesEqual (nps_ingress a) (nps_ingress b)
     \<and> list_all2 netrulesEqual (nps_egress a) (nps_egress b)
     \<and> nps_policyTypes a = nps_policyTypes b"

definition networkPolicyChanged :: "networkpolicy \<Rightarrow> networkpolicy \<Rightarrow> networkpolicy option" where
  "networkPolicyChanged current desired =
     (let specChanged = \<not> policySpecsEqual (npol_spec current) (npol_spec desired);
          labelsChanged = \<not> gm_eq (m_labels (npol_meta current)) (m_labels (npol_meta desired));
          ownersChanged = (m_ownerRefs (npol_meta current) \<noteq> m_ownerRefs (npol_meta desired));
          u1 = (if specChanged then current\<lparr>npol_spec := npol_spec desired\<rparr> else current);
          u2 = (if labelsChanged
                then u1\<lparr>npol_meta := (npol_meta u1)\<lparr>m_labels := m_labels (npol_meta desired)\<rparr>\<rparr> else u1);
          u3 = (if ownersChanged
                then u2\<lparr>npol_meta := (npol_meta u2)\<lparr>m_ownerRefs := m_ownerRefs (npol_meta desired)\<rparr>\<rparr>
                else u2)
      in if specChanged \<or> labelsChanged \<or> ownersChanged then Some u3 else None)"

section \<open>The two policies\<close>

definition desiredDNSNetworkPolicy :: "dns \<Rightarrow> networkpolicy" where
  "desiredDNSNetworkPolicy d =
     (let np = DNSNetworkPolicy; name = DNSNetworkPolicyName d in
      \<lparr>npol_meta = (npol_meta np)\<lparr>m_namespace := nn_ns name, m_name := nn_name name,
         m_ownerRefs := [dnsOwnerRef d],
         m_labels := AList.update OwningDNSLabel (DNSDaemonSetLabel d) (m_labels (npol_meta np))\<rparr>,
       npol_spec = (npol_spec np)\<lparr>nps_podSelector := DNSDaemonSetPodSelector d\<rparr>\<rparr>)"

definition updateDNSNetworkPolicy ::
  "(networkpolicy, 'w) kclient \<Rightarrow> networkpolicy \<Rightarrow> networkpolicy \<Rightarrow> ('w, goerror + bool) state" where
  "updateDNSNetworkPolicy c =
     updateObject c (\<lambda>p. ''failed to update dns networkpolicy '' @ nsname_text (npol_meta p))
       networkPolicyChanged"

definition currentDNSNetworkPolicy ::
  "(networkpolicy, 'w) kclient \<Rightarrow> dns \<Rightarrow> ('w, networkpolicy option \<times> goerror option) state" where
  "currentDNSNetworkPolicy c d = currentObject c (DNSNetworkPolicyName d)"

definition ensureDNSNetworkPolicy ::
  "(networkpolicy, 'w) kclient \<Rightarrow> dns \<Rightarrow> ('w, networkpolicy option \<times> goerror option) state" where
  "ensureDNSNetworkPolicy c d =
     ensureObject c (DNSNetworkPolicyName d) ''failed to create dns networkpolicy''
       (updateDNSNetworkPolicy c) (desiredDNSNetworkPolicy d)"

definition currentDenyAllNetworkPolicy ::
  "(networkpolicy, 'w) kclient \<Rightarrow> ('w, networkpolicy option \<times> goerror option) state" where
  "currentDenyAllNetworkPolicy c = currentObject c (meta_key (npol_meta NetworkPolicyDenyAll))"

definition ensureDenyAllNetworkPolicy ::
  "(networkpolicy, 'w) kclient \<Rightarrow> ('w, networkpolicy option \<times> goerror option) state" where
  "ensureDenyAllNetworkPolicy c =
     ensureObject c (meta_key (npol_meta NetworkPolicyDenyAll)) ''failed to create networkpolicy''
       (updateDNSNetworkPolicy c) NetworkPolicyDenyAll"

section \<open>Facts\<close>

text \<open>
  The comparison is equality of normal forms, in which label maps are functions; hence it is
  an equivalence.
\<close>

definition sel_norm :: "labelselector \<Rightarrow> (string \<rightharpoonup> string) \<times> (string \<times> string \<times> string list) list" where
  "sel_norm s = (map_of (ls_matchLabels s), ls_matchExpressions s)"

fun peer_norm :: "netpeer \<Rightarrow> ((string \<rightharpoonup> string) \<times> (string \<times> string \<times> string list) list) + string" where
  "peer_norm (NamespaceSelector s) = Inl (sel_norm s)"
| "peer_norm (IPBlock b) = Inr b"

definition rule_norm where
  "rule_norm r = (nr_ports r, map peer_norm (nr_peers r))"

definition spec_norm where
  "spec_norm s = (sel_norm (nps_podSelector s), map rule_norm (nps_ingress s), map rule_norm (nps_egress s),
     nps_policyTypes s)"

lemma list_all2_norm:
  assumes "\<And>x y. R x y \<longleftrightarrow> f x = f y"
  shows "list_all2 R xs ys \<longleftrightarrow> map f xs = map f ys"
proof (induction xs arbitrary: ys)
  case (Cons x xs)
  then show ?case using assms by (cases ys) auto
qed auto

lemma sel_eq_norm: "sel_eq a b \<longleftrightarrow> sel_norm a = sel_norm b"
  by (simp add: sel_eq_def sel_norm_def gm_eq_iff)

lemma peersEqual_norm: "peersEqual a b \<longleftrightarrow> peer_norm a = peer_norm b"
  by (cases a; cases b) (simp_all add: sel_eq_norm)

lemma netrulesEqual_norm: "netrulesEqual a b \<longleftrightarrow> rule_norm a = rule_norm b"
  by (simp add: netrulesEqual_def rule_norm_def list_all2_norm[OF peersEqual_norm])

lemma policySpecsEqual_norm: "policySpecsEqual a b \<longleftrightarrow> spec_norm a = spec_norm b"
  by (simp add: policySpecsEqual_def spec_norm_def sel_eq_norm list_all2_norm[OF netrulesEqual_norm])

definition np_key :: "networkpolicy \<Rightarrow> nsname" where
  "np_key p = meta_key (npol_meta p)"

definition np_managed :: "networkpolicy \<Rightarrow> networkpolicy \<Rightarrow> bool" where
  "np_managed a b \<longleftrightarrow> policySpecsEqual (npol_spec a) (npol_spec b)
     \<and> gm_eq (m_labels (npol_meta a)) (m_labels (npol_meta b))
     \<and> m_ownerRefs (npol_meta a) = m_ownerRefs (npol_meta b)"

interpretation npd: change_detector networkPolicyChanged np_managed np_managed np_key
  by unfold_locales
    (auto simp: networkPolicyChanged_def np_managed_def np_key_def meta_key_def policySpecsEqual_norm
      gm_eq_iff Let_def split: if_splits)

lemma np_managed_refl: "np_managed a a"
  by (simp add: np_managed_def policySpecsEqual_norm)

lemma desired_np_key: "np_key (desiredDNSNetworkPolicy d) = DNSNetworkPolicyName d"
  by (simp add: desiredDNSNetworkPolicy_def np_key_def meta_key_def DNSNetworkPolicyName_def Let_def)

section \<open>Properties\<close>

text \<open>
  The network policies converge. On a server that keeps what it is given, a successful
  \<open>ensureDNSNetworkPolicy\<close> or \<open>ensureDenyAllNetworkPolicy\<close> leaves a policy with the desired
  spec, labels and owner, and repeating it writes nothing.
\<close>

theorem ensure_network_policies_converge:
  assumes api: "stores np_managed np_key c"
  shows "(run_state (ensureDNSNetworkPolicy c d) w = ((Some x, None), w') \<longrightarrow>
       np_managed x (desiredDNSNetworkPolicy d)
       \<and> run_state (ensureDNSNetworkPolicy c d) w' = ((Some x, None), w'))
    \<and> (run_state (ensureDenyAllNetworkPolicy c) w = ((Some x, None), w') \<longrightarrow>
       np_managed x NetworkPolicyDenyAll
       \<and> run_state (ensureDenyAllNetworkPolicy c) w' = ((Some x, None), w'))"
  using npd.ensure_converges[OF api desired_np_key]
    npd.ensure_converges[OF api, of NetworkPolicyDenyAll "meta_key (npol_meta NetworkPolicyDenyAll)"]
  by (auto simp: ensureDNSNetworkPolicy_def ensureDenyAllNetworkPolicy_def updateDNSNetworkPolicy_def
      np_key_def)

theorem ensure_network_policies_converge_witness:
  "\<exists>w'. run_state (ensureDenyAllNetworkPolicy (storeClient np_key)) [] = ((Some NetworkPolicyDenyAll, None), w')
     \<and> run_state (ensureDenyAllNetworkPolicy (storeClient np_key)) w' = ((Some NetworkPolicyDenyAll, None), w')"
proof -
  have "run_state (ensureDenyAllNetworkPolicy (storeClient np_key)) [] =
      ((Some NetworkPolicyDenyAll, None), [(np_key NetworkPolicyDenyAll, NetworkPolicyDenyAll)])"
    by (simp add: ensureDenyAllNetworkPolicy_def np_key_def ensureObject_creates)
  then show ?thesis
    using ensure_network_policies_converge[OF storeClient_stores[of np_managed, OF np_managed_refl]] by blast
qed

end
