(* ===== verification/Cluster_Role.thy ===== *)
theory Cluster_Role
  imports Kube_API Manifests
begin

text \<open>
  \<open>pkg/operator/controller/controller_cluster_role.go\<close>: the cluster role of the DNS pods,
  with the rules for DNSNameResolver resources when that feature is enabled.
\<close>

definition addDNSNameResolverPolicyRule :: "role \<Rightarrow> role" where
  "addDNSNameResolverPolicyRule cr = cr\<lparr>role_rules := role_rules cr @
     [rule [''network.openshift.io''] [''dnsnameresolvers''] [''get'', ''list'', ''watch''],
      rule [''network.openshift.io''] [''dnsnameresolvers/status''] [''get'', ''update'', ''patch'']]\<rparr>"

definition desiredDNSClusterRole :: "bool \<Rightarrow> role" where
  "desiredDNSClusterRole dnsNameResolverEnabled =
     (if dnsNameResolverEnabled then addDNSNameResolverPolicyRule DNSClusterRole else DNSClusterRole)"

definition clusterRoleChanged :: "role \<Rightarrow> role \<Rightarrow> role option" where
  "clusterRoleChanged current expected =
     (if role_rules current = role_rules expected then None
      else Some (current\<lparr>role_rules := role_rules expected\<rparr>))"

definition currentDNSClusterRole :: "(role, 'w) kclient \<Rightarrow> ('w, role option \<times> goerror option) state" where
  "currentDNSClusterRole c = currentObject c \<lparr>nn_ns = '''', nn_name = m_name (role_meta DNSClusterRole)\<rparr>"

definition updateDNSClusterRole :: "(role, 'w) kclient \<Rightarrow> role \<Rightarrow> role \<Rightarrow> ('w, goerror + bool) state" where
  "updateDNSClusterRole c =
     updateObject c (\<lambda>r. ''failed to update dns cluster role '' @ nsname_text (role_meta r)) clusterRoleChanged"

definition ensureDNSClusterRole ::
  "(role, 'w) kclient \<Rightarrow> bool \<Rightarrow> ('w, role option \<times> goerror option) state" where
  "ensureDNSClusterRole c dnsNameResolverEnabled =
     ensureObject c \<lparr>nn_ns = '''', nn_name = m_name (role_meta DNSClusterRole)\<rparr>
       ''failed to create dns cluster role'' (updateDNSClusterRole c)
       (desiredDNSClusterRole dnsNameResolverEnabled)"

section \<open>Facts\<close>

definition role_key :: "role \<Rightarrow> nsname" where
  "role_key r = meta_key (role_meta r)"

definition role_same :: "role \<Rightarrow> role \<Rightarrow> bool" where
  "role_same a b \<longleftrightarrow> role_rules a = role_rules b"

interpretation crd: change_detector clusterRoleChanged role_same role_same role_key
  by unfold_locales (auto simp: clusterRoleChanged_def role_same_def role_key_def split: if_splits)

lemma desired_role_key:
  "role_key (desiredDNSClusterRole b) = \<lparr>nn_ns = '''', nn_name = m_name (role_meta DNSClusterRole)\<rparr>"
  by (simp add: desiredDNSClusterRole_def addDNSNameResolverPolicyRule_def role_key_def meta_key_def
      DNSClusterRole_def namedMeta_def emptyMeta_def)

section \<open>Properties\<close>

text \<open>
  The cluster role follows the feature gate. On a server that keeps what it is given, a
  successful \<open>ensureDNSClusterRole\<close> leaves a role that grants access to DNSNameResolver
  resources exactly when the feature is enabled and the rules of the manifest in any case;
  repeating it writes nothing.
\<close>

theorem ensureDNSClusterRole_converges:
  assumes "stores role_same role_key c"
    and "run_state (ensureDNSClusterRole c b) w = ((Some x, None), w')"
  shows "set (role_rules DNSClusterRole) \<subseteq> set (role_rules x)
    \<and> ((\<exists>r\<in>set (role_rules x). ''network.openshift.io'' \<in> set (rule_apiGroups r)) \<longleftrightarrow> b)
    \<and> run_state (ensureDNSClusterRole c b) w' = ((Some x, None), w')"
proof -
  have r: "role_rules x = role_rules (desiredDNSClusterRole b)"
    and again: "run_state (ensureDNSClusterRole c b) w' = ((Some x, None), w')"
    using crd.ensure_converges[OF assms(1) desired_role_key] assms(2)
    by (auto simp: ensureDNSClusterRole_def updateDNSClusterRole_def role_same_def)
  have "(\<exists>r\<in>set (role_rules (desiredDNSClusterRole b)). ''network.openshift.io'' \<in> set (rule_apiGroups r)) \<longleftrightarrow> b"
    by (simp add: desiredDNSClusterRole_def addDNSNameResolverPolicyRule_def DNSClusterRole_def rule_def)
  moreover have "set (role_rules DNSClusterRole) \<subseteq> set (role_rules (desiredDNSClusterRole b))"
    by (auto simp: desiredDNSClusterRole_def addDNSNameResolverPolicyRule_def)
  ultimately show ?thesis using r again by simp
qed

theorem ensureDNSClusterRole_converges_witness:
  "\<exists>w'. run_state (ensureDNSClusterRole (storeClient role_key) True) []
       = ((Some (desiredDNSClusterRole True), None), w')
     \<and> run_state (ensureDNSClusterRole (storeClient role_key) True) w'
       = ((Some (desiredDNSClusterRole True), None), w')"
proof -
  have "run_state (ensureDNSClusterRole (storeClient role_key) True) [] =
      ((Some (desiredDNSClusterRole True), None),
       [(\<lparr>nn_ns = '''', nn_name = m_name (role_meta DNSClusterRole)\<rparr>, desiredDNSClusterRole True)])"
    using desired_role_key by (simp add: ensureDNSClusterRole_def ensureObject_creates)
  then show ?thesis
    using ensureDNSClusterRole_converges[OF storeClient_stores[of role_same]] by (auto simp: role_same_def)
qed

end
