(* ===== verification/Service_Monitor.thy ===== *)
theory Service_Monitor
  imports Kube_API Manifests "HOL-Library.Finite_Map"
begin

text \<open>
  \<open>pkg/operator/controller/controller_service_monitor.go\<close>: the ServiceMonitor is handled as
  an unstructured object, a tree of JSON values. Objects are finite maps, so that two
  values are equal exactly when \<open>cmp.Equal\<close> finds them so. Reading a missing field of an
  object gives the nil value.
\<close>

datatype json = JNull | JBool bool | JStr string | JList "json list" | JObj "(string, json) fmap"

type_synonym unstructured = "(string, json) fmap"

definition field :: "string \<Rightarrow> (string, json) fmap \<Rightarrow> json" where
  "field k m = (case fmlookup m k of None \<Rightarrow> JNull | Some v \<Rightarrow> v)"

definition jobj :: "(string \<times> json) list \<Rightarrow> json" where
  "jobj kvs = JObj (fmap_of_list kvs)"

fun asObject :: "json \<Rightarrow> (string, json) fmap" where
  "asObject (JObj m) = m"
| "asObject _ = fmempty"

fun asString :: "json \<Rightarrow> string" where
  "asString (JStr s) = s"
| "asString _ = ''''"

definition GetNamespace :: "unstructured \<Rightarrow> string" where
  "GetNamespace u = asString (field ''namespace'' (asObject (field ''metadata'' u)))"

definition GetName :: "unstructured \<Rightarrow> string" where
  "GetName u = asString (field ''name'' (asObject (field ''metadata'' u)))"

definition SetOwnerReferences :: "ownerref list \<Rightarrow> unstructured \<Rightarrow> unstructured" where
  "SetOwnerReferences refs u =
     fmupd ''metadata'' (JObj (fmupd ''ownerReferences''
       (JList (map (\<lambda>r. jobj ([(''apiVersion'', JStr (or_apiVersion r)), (''kind'', JStr (or_kind r)),
          (''name'', JStr (or_name r)), (''uid'', JStr (or_uid r))]
          @ (case or_controller r of None \<Rightarrow> [] | Some b \<Rightarrow> [(''controller'', JBool b)]))) refs))
       (asObject (field ''metadata'' u)))) u"

definition desiredServiceMonitor :: "dns \<Rightarrow> service \<Rightarrow> ownerref \<Rightarrow> unstructured" where
  "desiredServiceMonitor d svc daemonsetRef =
     (let name = DNSServiceMonitorName d;
          sm = fmap_of_list
            [(''metadata'', jobj [(''namespace'', JStr (nn_ns name)), (''name'', JStr (nn_name name))]),
             (''spec'', jobj
               [(''namespaceSelector'', jobj [(''matchNames'', JList [JStr ''openshift-dns''])]),
                (''selector'', jobj []),
                (''endpoints'', JList [jobj
                  [(''bearerTokenFile'', JStr ''/var/run/secrets/kubernetes.io/serviceaccount/token''),
                   (''interval'', JStr ''30s''), (''port'', JStr ''metrics''), (''scheme'', JStr ''https''),
                   (''path'', JStr ''/metrics''),
                   (''tlsConfig'', jobj
                     [(''caFile'', JStr ''/etc/prometheus/configmaps/serving-certs-ca-bundle/service-ca.crt''),
                      (''serverName'', JStr (m_name (svc_meta svc) @ ''.'' @ m_namespace (svc_meta svc) @ ''.svc''))])]])])]
      in SetOwnerReferences [daemonsetRef]
           (fmupd ''kind'' (JStr ''ServiceMonitor'')
             (fmupd ''apiVersion'' (JStr ''monitoring.coreos.com/v1'') sm)))"

definition serviceMonitorChanged :: "unstructured \<Rightarrow> unstructured \<Rightarrow> unstructured option" where
  "serviceMonitorChanged current expected =
     (if field ''spec'' current = field ''spec'' expected then None
      else Some (fmupd ''spec'' (field ''spec'' expected) current))"

definition currentServiceMonitor ::
  "(unstructured, 'w) kclient \<Rightarrow> dns \<Rightarrow> ('w, unstructured option \<times> goerror option) state" where
  "currentServiceMonitor c d = currentObject c (DNSServiceMonitorName d)"

definition updateDNSServiceMonitor ::
  "(unstructured, 'w) kclient \<Rightarrow> unstructured \<Rightarrow> unstructured \<Rightarrow> ('w, goerror + bool) state" where
  "updateDNSServiceMonitor c =
     updateObject c (\<lambda>u. ''failed to update dns servicemonitor '' @ GetNamespace u @ ''/'' @ GetName u)
       serviceMonitorChanged"

definition ensureServiceMonitor ::
  "(unstructured, 'w) kclient \<Rightarrow> dns \<Rightarrow> service \<Rightarrow> ownerref \<Rightarrow>
   ('w, unstructured option \<times> goerror option) state" where
  "ensureServiceMonitor c d svc daemonsetRef =
     (let desired = desiredServiceMonitor d svc daemonsetRef in
      ensureObject c (DNSServiceMonitorName d)
        (''failed to create servicemonitor '' @ GetNamespace desired @ ''/'' @ GetName desired)
        (updateDNSServiceMonitor c) desired)"

section \<open>Facts\<close>

definition sm_key :: "unstructured \<Rightarrow> nsname" where
  "sm_key u = \<lparr>nn_ns = GetNamespace u, nn_name = GetName u\<rparr>"

definition sm_same :: "unstructured \<Rightarrow> unstructured \<Rightarrow> bool" where
  "sm_same a b \<longleftrightarrow> field ''spec'' a = field ''spec'' b"

lemma field_fmupd: "field k (fmupd k' v m) = (if k = k' then v else field k m)"
  by (simp add: field_def)

interpretation smd: change_detector serviceMonitorChanged sm_same sm_same sm_key
  by unfold_locales
    (auto simp: serviceMonitorChanged_def sm_same_def sm_key_def GetNamespace_def GetName_def
      field_fmupd split: if_splits)

lemma field_list: "field k (fmap_of_list kvs) = (case map_of kvs k of None \<Rightarrow> JNull | Some v \<Rightarrow> v)"
  by (simp add: field_def fmlookup_of_list)

lemma desired_sm_key: "sm_key (desiredServiceMonitor d svc ref) = DNSServiceMonitorName d"
  by (simp add: sm_key_def GetNamespace_def GetName_def desiredServiceMonitor_def SetOwnerReferences_def
      field_fmupd field_list jobj_def Let_def DNSServiceMonitorName_def)

section \<open>Properties\<close>

text \<open>
  The ServiceMonitor converges. On a server that keeps what it is given, a successful
  \<open>ensureServiceMonitor\<close> leaves an object whose spec is the desired one, whatever the object
  carried before, and repeating it writes nothing.
\<close>

theorem ensureServiceMonitor_converges:
  assumes "stores sm_same sm_key c"
    and "run_state (ensureServiceMonitor c d svc ref) w = ((Some x, None), w')"
  shows "field ''spec'' x = field ''spec'' (desiredServiceMonitor d svc ref)
    \<and> run_state (ensureServiceMonitor c d svc ref) w' = ((Some x, None), w')"
  using smd.ensure_converges[OF assms(1) desired_sm_key] assms(2)
  by (auto simp: ensureServiceMonitor_def updateDNSServiceMonitor_def sm_same_def Let_def)

theorem ensureServiceMonitor_converges_witness:
  "\<exists>x w'. run_state (ensureServiceMonitor (storeClient sm_key) emptyDNS DNSService (dnsOwnerRef emptyDNS))
       [] = ((Some x, None), w')
     \<and> run_state (ensureServiceMonitor (storeClient sm_key) emptyDNS DNSService (dnsOwnerRef emptyDNS))
         w' = ((Some x, None), w')"
proof -
  let ?des = "desiredServiceMonitor emptyDNS DNSService (dnsOwnerRef emptyDNS)"
  have "run_state (ensureServiceMonitor (storeClient sm_key) emptyDNS DNSService (dnsOwnerRef emptyDNS))
      [] = ((Some ?des, None), [(DNSServiceMonitorName emptyDNS, ?des)])"
    by (simp only: ensureServiceMonitor_def Let_def ensureObject_creates[of sm_key, OF desired_sm_key])
  then show ?thesis
    using ensureServiceMonitor_converges[OF storeClient_stores[of sm_same]] unfolding sm_same_def by blast
qed

end
