(* ===== verification/TLS_Profile.thy ===== *)
theory TLS_Profile
  imports Go_Lib
begin

text \<open>
  \<open>pkg/operator/controller/tls.go\<close> and \<open>kubeRBACProxyArgs\<close> of
  \<open>controller_dns_daemonset.go\<close>: from the cluster's TLS security profile to the arguments of
  the metrics proxy and to the TLS configuration of the operator's own metrics server.
  The tables are those of the vendored \<open>library-go/pkg/crypto\<close> and of the API's profiles;
  cipher suite, version and curve numbers are the constants of \<open>crypto/tls\<close>.
\<close>

section \<open>Tables\<close>

definition goCipherSuites :: "(string \<times> int) list" where
  "goCipherSuites =
    [(''TLS_RSA_WITH_RC4_128_SHA'', 5),
     (''TLS_RSA_WITH_3DES_EDE_CBC_SHA'', 10),
     (''TLS_RSA_WITH_AES_128_CBC_SHA'', 47),
     (''TLS_RSA_WITH_AES_256_CBC_SHA'', 53),
     (''TLS_RSA_WITH_AES_128_CBC_SHA256'', 60),
     (''TLS_RSA_WITH_AES_128_GCM_SHA256'', 156),
     (''TLS_RSA_WITH_AES_256_GCM_SHA384'', 157),
     (''TLS_ECDHE_ECDSA_WITH_RC4_128_SHA'', 49159),
     (''TLS_ECDHE_ECDSA_WITH_AES_128_CBC_SHA'', 49161),
     (''TLS_ECDHE_ECDSA_WITH_AES_256_CBC_SHA'', 49162),
     (''TLS_ECDHE_RSA_WITH_RC4_128_SHA'', 49169),
     (''TLS_ECDHE_RSA_WITH_3DES_EDE_CBC_SHA'', 49170),
     (''TLS_ECDHE_RSA_WITH_AES_128_CBC_SHA'', 49171),
     (''TLS_ECDHE_RSA_WITH_AES_256_CBC_SHA'', 49172),
     (''TLS_ECDHE_ECDSA_WITH_AES_128_CBC_SHA256'', 49187),
     (''TLS_ECDHE_RSA_WITH_AES_128_CBC_SHA256'', 49191),
     (''TLS_ECDHE_RSA_WITH_AES_128_GCM_SHA256'', 49199),
     (''TLS_ECDHE_ECDSA_WITH_AES_128_GCM_SHA256'', 49195),
     (''TLS_ECDHE_RSA_WITH_AES_256_GCM_SHA384'', 49200),
     (''TLS_ECDHE_ECDSA_WITH_AES_256_GCM_SHA384'', 49196),
     (''TLS_ECDHE_RSA_WITH_CHACHA20_POLY1305'', 52392),
     (''TLS_ECDHE_ECDSA_WITH_CHACHA20_POLY1305'', 52393),
     (''TLS_ECDHE_RSA_WITH_CHACHA20_POLY1305_SHA256'', 52392),
     (''TLS_ECDHE_ECDSA_WITH_CHACHA20_POLY1305_SHA256'', 52393),
     (''TLS_AES_128_GCM_SHA256'', 4865),
     (''TLS_AES_256_GCM_SHA384'', 4866),
     (''TLS_CHACHA20_POLY1305_SHA256'', 4867)]"

definition openSSLToIANACiphers :: gomap where
  "openSSLToIANACiphers =
    [(''TLS_AES_128_GCM_SHA256'', ''TLS_AES_128_GCM_SHA256''),
     (''TLS_AES_256_GCM_SHA384'', ''TLS_AES_256_GCM_SHA384''),
     (''TLS_CHACHA20_POLY1305_SHA256'', ''TLS_CHACHA20_POLY1305_SHA256''),
     (''ECDHE-ECDSA-AES128-GCM-SHA256'', ''TLS_ECDHE_ECDSA_WITH_AES_128_GCM_SHA256''),
     (''ECDHE-RSA-AES128-GCM-SHA256'', ''TLS_ECDHE_RSA_WITH_AES_128_GCM_SHA256''),
     (''ECDHE-ECDSA-AES256-GCM-SHA384'', ''TLS_ECDHE_ECDSA_WITH_AES_256_GCM_SHA384''),
     (''ECDHE-RSA-AES256-GCM-SHA384'', ''TLS_ECDHE_RSA_WITH_AES_256_GCM_SHA384''),
     (''ECDHE-ECDSA-CHACHA20-POLY1305'', ''TLS_ECDHE_ECDSA_WITH_CHACHA20_POLY1305_SHA256''),
     (''ECDHE-RSA-CHACHA20-POLY1305'', ''TLS_ECDHE_RSA_WITH_CHACHA20_POLY1305_SHA256''),
     (''ECDHE-ECDSA-AES128-SHA256'', ''TLS_ECDHE_ECDSA_WITH_AES_128_CBC_SHA256''),
     (''ECDHE-RSA-AES128-SHA256'', ''TLS_ECDHE_RSA_WITH_AES_128_CBC_SHA256''),
     (''AES128-GCM-SHA256'', ''TLS_RSA_WITH_AES_128_GCM_SHA256''),
     (''AES256-GCM-SHA384'', ''TLS_RSA_WITH_AES_256_GCM_SHA384''),
     (''AES128-SHA256'', ''TLS_RSA_WITH_AES_128_CBC_SHA256''),
     (''ECDHE-ECDSA-AES128-SHA'', ''TLS_ECDHE_ECDSA_WITH_AES_128_CBC_SHA''),
     (''ECDHE-RSA-AES128-SHA'', ''TLS_ECDHE_RSA_WITH_AES_128_CBC_SHA''),
     (''ECDHE-ECDSA-AES256-SHA'', ''TLS_ECDHE_ECDSA_WITH_AES_256_CBC_SHA''),
     (''ECDHE-RSA-AES256-SHA'', ''TLS_ECDHE_RSA_WITH_AES_256_CBC_SHA''),
     (''AES128-SHA'', ''TLS_RSA_WITH_AES_128_CBC_SHA''),
     (''AES256-SHA'', ''TLS_RSA_WITH_AES_256_CBC_SHA''),
     (''DES-CBC3-SHA'', ''TLS_RSA_WITH_3DES_EDE_CBC_SHA''),
     (''ECDHE-RSA-DES-CBC3-SHA'', ''TLS_ECDHE_RSA_WITH_3DES_EDE_CBC_SHA'')]"

definition goTLSVersions :: "(string \<times> int) list" where
  "goTLSVersions = [(''VersionTLS10'', 769), (''VersionTLS11'', 770), (''VersionTLS12'', 771), (''VersionTLS13'', 772)]"

definition DefaultTLSVersion :: int where
  "DefaultTLSVersion = 771"

definition DefaultCiphers :: "int list" where
  "DefaultCiphers = [52393, 52392, 49195, 49199, 49196, 49200, 4865, 4866, 4867]"

definition tlsGroupToCurveID :: "(string \<times> int) list" where
  "tlsGroupToCurveID = [(''X25519'', 29), (''secp256r1'', 23), (''secp384r1'', 24), (''secp521r1'', 25),
    (''X25519MLKEM768'', 4588)]"

record tlsprofilespec =
  tps_ciphers :: "string list"
  tps_groups :: "string list"
  tps_minTLSVersion :: string

record tlssecurityprofile =
  tsp_type :: string
  tsp_custom :: "tlsprofilespec option"

definition defaultGroups :: "string list" where
  "defaultGroups = [''X25519MLKEM768'', ''X25519'', ''secp256r1'', ''secp384r1'']"

definition oldProfile :: tlsprofilespec where
  "oldProfile = \<lparr>tps_ciphers =
    [''TLS_AES_128_GCM_SHA256'', ''TLS_AES_256_GCM_SHA384'',
     ''TLS_CHACHA20_POLY1305_SHA256'', ''ECDHE-ECDSA-AES128-GCM-SHA256'',
     ''ECDHE-RSA-AES128-GCM-SHA256'', ''ECDHE-ECDSA-AES256-GCM-SHA384'',
     ''ECDHE-RSA-AES256-GCM-SHA384'', ''ECDHE-ECDSA-CHACHA20-POLY1305'',
     ''ECDHE-RSA-CHACHA20-POLY1305'', ''ECDHE-ECDSA-AES128-SHA256'',
     ''ECDHE-RSA-AES128-SHA256'', ''ECDHE-ECDSA-AES128-SHA'',
     ''ECDHE-RSA-AES128-SHA'', ''ECDHE-ECDSA-AES256-SHA384'',
     ''ECDHE-RSA-AES256-SHA384'', ''ECDHE-ECDSA-AES256-SHA'',
     ''ECDHE-RSA-AES256-SHA'', ''AES128-GCM-SHA256'',
     ''AES256-GCM-SHA384'', ''AES128-SHA256'',
     ''AES256-SHA256'', ''AES128-SHA'',
     ''AES256-SHA'', ''DES-CBC3-SHA''],
    tps_groups = defaultGroups, tps_minTLSVersion = ''VersionTLS10''\<rparr>"

definition intermediateProfile :: tlsprofilespec where
  "intermediateProfile = \<lparr>tps_ciphers =
    [''TLS_AES_128_GCM_SHA256'', ''TLS_AES_256_GCM_SHA384'',
     ''TLS_CHACHA20_POLY1305_SHA256'', ''ECDHE-ECDSA-AES128-GCM-SHA256'',
     ''ECDHE-RSA-AES128-GCM-SHA256'', ''ECDHE-ECDSA-AES256-GCM-SHA384'',
     ''ECDHE-RSA-AES256-GCM-SHA384'', ''ECDHE-ECDSA-CHACHA20-POLY1305'',
     ''ECDHE-RSA-CHACHA20-POLY1305''],
    tps_groups = defaultGroups, tps_minTLSVersion = ''VersionTLS12''\<rparr>"

definition modernProfile :: tlsprofilespec where
  "modernProfile = \<lparr>tps_ciphers =
    [''TLS_AES_128_GCM_SHA256'', ''TLS_AES_256_GCM_SHA384'',
     ''TLS_CHACHA20_POLY1305_SHA256''],
    tps_groups = defaultGroups, tps_minTLSVersion = ''VersionTLS13''\<rparr>"

section \<open>The profile and the proxy's arguments\<close>

definition TLSProfileSpecForSecurityProfile :: "tlssecurityprofile option \<Rightarrow> tlsprofilespec" where
  "TLSProfileSpecForSecurityProfile profile =
     (case profile of
        None \<Rightarrow> intermediateProfile
      | Some p \<Rightarrow>
          if tsp_type p = ''Old'' then oldProfile
          else if tsp_type p = ''Modern'' then modernProfile
          else if tsp_type p = ''Intermediate'' then intermediateProfile
          else if tsp_type p = ''Custom''
          then (case tsp_custom p of Some spec \<Rightarrow> spec | None \<Rightarrow> intermediateProfile)
          else intermediateProfile)"

definition OpenSSLToIANACipherSuites :: "string list \<Rightarrow> string list" where
  "OpenSSLToIANACipherSuites ciphers = List.map_filter (map_of openSSLToIANACiphers) ciphers"

text \<open>The profile and the cipher names that end up on the command line.\<close>

definition proxyProfile :: "tlssecurityprofile option \<Rightarrow> tlsprofilespec \<times> string list" where
  "proxyProfile profile =
     (let spec = TLSProfileSpecForSecurityProfile profile;
          iana = OpenSSLToIANACipherSuites (tps_ciphers spec)
      in if length iana = 0 \<and> length (tps_ciphers spec) > 0
         then (intermediateProfile, OpenSSLToIANACipherSuites (tps_ciphers intermediateProfile))
         else (spec, iana))"

definition kubeRBACProxyArgs :: "tlssecurityprofile option \<Rightarrow> string list" where
  "kubeRBACProxyArgs profile =
     (let (spec, iana) = proxyProfile profile in
      [''--logtostderr'', ''--secure-listen-address=:9154'', ''--upstream=http://127.0.0.1:9153/'',
       ''--tls-cert-file=/etc/tls/private/tls.crt'', ''--tls-private-key-file=/etc/tls/private/tls.key'',
       ''--tls-cipher-suites='' @ join '','' iana, ''--tls-min-version='' @ tps_minTLSVersion spec])"

text \<open>The ciphers of the profile that are not dropped on the way to the command line; the rest is logged.\<close>

definition openSSLNamesFromIANA :: "string list \<Rightarrow> string list \<Rightarrow> string list" where
  "openSSLNamesFromIANA ianaCiphers openSSLCiphers =
     filter (\<lambda>c. case OpenSSLToIANACipherSuites [c] of [] \<Rightarrow> False | x # _ \<Rightarrow> x \<in> set ianaCiphers) openSSLCiphers"

section \<open>The operator's own TLS configuration\<close>

record tlsconf =
  conf_CipherSuites :: "int list"
  conf_MinVersion :: int
  conf_CurvePreferences :: "int list"
  conf_PreferServerCipherSuites :: bool

definition SecureTLSConfig :: "tlsconf \<Rightarrow> tlsconf" where
  "SecureTLSConfig config =
     (let c1 = (if conf_MinVersion config = 0 then config\<lparr>conf_MinVersion := DefaultTLSVersion\<rparr> else config);
          c2 = c1\<lparr>conf_PreferServerCipherSuites := True\<rparr>
      in if length (conf_CipherSuites c2) = 0 then c2\<lparr>conf_CipherSuites := DefaultCiphers\<rparr> else c2)"

definition TLSVersion :: "string \<Rightarrow> int option" where
  "TLSVersion name = (if length name = 0 then Some DefaultTLSVersion else map_of goTLSVersions name)"

definition TLSGroupToCurveID :: "string \<Rightarrow> int option" where
  "TLSGroupToCurveID g = map_of tlsGroupToCurveID g"

definition emptyConf :: tlsconf where
  "emptyConf = \<lparr>conf_CipherSuites = [], conf_MinVersion = 0, conf_CurvePreferences = [],
     conf_PreferServerCipherSuites = False\<rparr>"

definition TLSConfigFromProfile :: "tlsprofilespec option \<Rightarrow> goerror + tlsconf" where
  "TLSConfigFromProfile profile =
     (case profile of
        None \<Rightarrow> Inr (SecureTLSConfig emptyConf)
      | Some spec \<Rightarrow>
          let cfg1 = (if length (tps_ciphers spec) > 0
                      then emptyConf\<lparr>conf_CipherSuites :=
                             List.map_filter (map_of goCipherSuites) (OpenSSLToIANACipherSuites (tps_ciphers spec))\<rparr>
                      else emptyConf);
              curves = List.map_filter TLSGroupToCurveID (tps_groups spec);
              finish = (\<lambda>cfg. Inr (SecureTLSConfig
                         (if length curves > 0 then cfg\<lparr>conf_CurvePreferences := curves\<rparr> else cfg)))
          in if length (tps_minTLSVersion spec) > 0
             then (case TLSVersion (tps_minTLSVersion spec) of
                     None \<Rightarrow> Inl (ErrMsg (''invalid TLS version '' @ tps_minTLSVersion spec))
                   | Some v \<Rightarrow> finish (cfg1\<lparr>conf_MinVersion := v\<rparr>))
             else finish cfg1)"

section \<open>Facts\<close>

lemma iana_known:
  "x \<in> set (OpenSSLToIANACipherSuites cs) \<Longrightarrow> map_of goCipherSuites x \<noteq> None"
proof -
  assume "x \<in> set (OpenSSLToIANACipherSuites cs)"
  then obtain c where "map_of openSSLToIANACiphers c = Some x"
    by (auto simp: OpenSSLToIANACipherSuites_def List.map_filter_def)
  then have "x \<in> set (map snd openSSLToIANACiphers)" by (force dest: map_of_SomeD)
  moreover have "list_all (\<lambda>y. map_of goCipherSuites y \<noteq> None) (map snd openSSLToIANACiphers)"
    by code_simp
  ultimately show ?thesis by (auto simp: list_all_iff)
qed

lemma intermediate_iana: "OpenSSLToIANACipherSuites (tps_ciphers intermediateProfile) \<noteq> []"
  by code_simp

lemma proxyProfile_known:
  assumes "proxyProfile profile = (spec, iana)"
  shows "\<forall>x\<in>set iana. map_of goCipherSuites x \<noteq> None"
  using assms iana_known by (auto simp: proxyProfile_def Let_def split: if_splits)

lemma versions_nonzero: "map_of goTLSVersions n = Some v \<Longrightarrow> 769 \<le> v"
  by (auto simp: goTLSVersions_def split: if_splits)

lemma openSSLNames_kept:
  "openSSLNamesFromIANA (OpenSSLToIANACipherSuites cs) cs = filter (\<lambda>c. map_of openSSLToIANACiphers c \<noteq> None) cs"
  unfolding openSSLNamesFromIANA_def
  by (rule filter_cong[OF refl])
    (force simp: OpenSSLToIANACipherSuites_def List.map_filter_def split: option.splits)

section \<open>Properties\<close>

text \<open>
  The metrics proxy always gets cipher suites it can use. Whatever the profile is, the
  arguments list only cipher suites that Go's TLS library implements; unless a custom profile
  lists no cipher at all, at least one is listed; and the minimum version is the one of the
  profile whose ciphers are listed, the Intermediate one when none of the profile's ciphers
  is known.
\<close>

theorem proxy_args_usable:
  "\<exists>spec iana. kubeRBACProxyArgs profile =
      [''--logtostderr'', ''--secure-listen-address=:9154'', ''--upstream=http://127.0.0.1:9153/'',
       ''--tls-cert-file=/etc/tls/private/tls.crt'', ''--tls-private-key-file=/etc/tls/private/tls.key'',
       ''--tls-cipher-suites='' @ join '','' iana, ''--tls-min-version='' @ tps_minTLSVersion spec]
    \<and> (spec = TLSProfileSpecForSecurityProfile profile
        \<and> iana = OpenSSLToIANACipherSuites (tps_ciphers spec)
       \<or> spec = intermediateProfile \<and> iana = OpenSSLToIANACipherSuites (tps_ciphers spec)
        \<and> OpenSSLToIANACipherSuites (tps_ciphers (TLSProfileSpecForSecurityProfile profile)) = [])
    \<and> (iana = [] \<longrightarrow> tps_ciphers (TLSProfileSpecForSecurityProfile profile) = [])
    \<and> (\<forall>x\<in>set iana. map_of goCipherSuites x \<noteq> None)"
proof -
  obtain spec iana where p: "proxyProfile profile = (spec, iana)" by fastforce
  then have "(spec = TLSProfileSpecForSecurityProfile profile
        \<and> iana = OpenSSLToIANACipherSuites (tps_ciphers spec)
       \<or> spec = intermediateProfile \<and> iana = OpenSSLToIANACipherSuites (tps_ciphers spec)
        \<and> OpenSSLToIANACipherSuites (tps_ciphers (TLSProfileSpecForSecurityProfile profile)) = [])
    \<and> (iana = [] \<longrightarrow> tps_ciphers (TLSProfileSpecForSecurityProfile profile) = [])"
    using intermediate_iana by (auto simp: proxyProfile_def Let_def split: if_splits)
  then show ?thesis
    using p proxyProfile_known[OF p] unfolding kubeRBACProxyArgs_def p by auto
qed

theorem proxy_args_usable_witness:
  "kubeRBACProxyArgs (Some \<lparr>tsp_type = ''Custom'', tsp_custom = Some
       \<lparr>tps_ciphers = [''unknown''], tps_groups = [], tps_minTLSVersion = ''VersionTLS13''\<rparr>\<rparr>) ! 6
   = ''--tls-min-version=VersionTLS12''"
  (is "kubeRBACProxyArgs ?p ! 6 = _")
proof -
  have spec: "TLSProfileSpecForSecurityProfile ?p = the (tsp_custom (the ?p))"
    by (simp add: TLSProfileSpecForSecurityProfile_def)
  have none: "OpenSSLToIANACipherSuites [''unknown''] = []" by code_simp
  have v: "tps_minTLSVersion intermediateProfile = ''VersionTLS12''" by code_simp
  from proxy_args_usable[of ?p] obtain s iana
    where args: "kubeRBACProxyArgs ?p = [''--logtostderr'', ''--secure-listen-address=:9154'',
       ''--upstream=http://127.0.0.1:9153/'', ''--tls-cert-file=/etc/tls/private/tls.crt'',
       ''--tls-private-key-file=/etc/tls/private/tls.key'',
       ''--tls-cipher-suites='' @ join '','' iana, ''--tls-min-version='' @ tps_minTLSVersion s]"
      and s: "s = TLSProfileSpecForSecurityProfile ?p \<and> iana = OpenSSLToIANACipherSuites (tps_ciphers s)
        \<or> s = intermediateProfile"
      and ne: "iana = [] \<longrightarrow> tps_ciphers (TLSProfileSpecForSecurityProfile ?p) = []"
    by blast
  have "s = intermediateProfile" using s ne spec none by auto
  then show ?thesis using args v by simp
qed

text \<open>
  The operator's own TLS configuration is always complete. Building it fails exactly for
  a version name that is not one of Go's; otherwise the result has at least one cipher
  suite, a minimum version of at least TLS 1.0, and every curve it prefers is one of the
  profile's groups.
\<close>

theorem tls_config_complete:
  "case TLSConfigFromProfile profile of
     Inl e \<Rightarrow> \<exists>spec. profile = Some spec \<and> tps_minTLSVersion spec \<noteq> ''''
       \<and> map_of goTLSVersions (tps_minTLSVersion spec) = None
   | Inr cfg \<Rightarrow> conf_CipherSuites cfg \<noteq> [] \<and> 769 \<le> conf_MinVersion cfg
       \<and> conf_PreferServerCipherSuites cfg
       \<and> (profile = None \<longrightarrow> conf_CurvePreferences cfg = [])
       \<and> (\<forall>spec. profile = Some spec \<longrightarrow>
            set (conf_CurvePreferences cfg) = {i. \<exists>g\<in>set (tps_groups spec). TLSGroupToCurveID g = Some i}
            \<and> (tps_minTLSVersion spec \<noteq> '''' \<longrightarrow>
                 map_of goTLSVersions (tps_minTLSVersion spec) = Some (conf_MinVersion cfg)))"
proof (cases profile)
  case None
  then show ?thesis
    by (simp add: TLSConfigFromProfile_def SecureTLSConfig_def emptyConf_def Let_def DefaultTLSVersion_def
        DefaultCiphers_def)
next
  case (Some spec)
  have curves: "set (List.map_filter TLSGroupToCurveID gs) = {i. \<exists>g\<in>set gs. TLSGroupToCurveID g = Some i}" for gs
    by (force simp: List.map_filter_def)
  then have nil: "List.map_filter TLSGroupToCurveID gs = [] \<Longrightarrow> {i. \<exists>g\<in>set gs. TLSGroupToCurveID g = Some i} = {}" for gs
    by (metis empty_set)
  show ?thesis
    using Some versions_nonzero versions_nonzero[of _ 0] nil
    by (auto simp: TLSConfigFromProfile_def SecureTLSConfig_def emptyConf_def Let_def DefaultTLSVersion_def
        DefaultCiphers_def TLSVersion_def curves split: option.splits)
qed

theorem tls_config_complete_witness:
  "\<exists>cfg. TLSConfigFromProfile (Some modernProfile) = Inr cfg \<and> conf_MinVersion cfg = 772
     \<and> conf_CipherSuites cfg \<noteq> []"
proof -
  have v: "map_of goTLSVersions (tps_minTLSVersion modernProfile) = Some 772" by code_simp
  then obtain cfg where cfg: "TLSConfigFromProfile (Some modernProfile) = Inr cfg"
    using tls_config_complete[of "Some modernProfile"] by (cases "TLSConfigFromProfile (Some modernProfile)") auto
  have "tps_minTLSVersion modernProfile \<noteq> ''''" by code_simp
  then show ?thesis
    using tls_config_complete[of "Some modernProfile"] cfg v by auto
qed

end
