(* ===== verification/DNS_DaemonSet.thy ===== *)
theory DNS_DaemonSet
  imports Kube_API Manifests Node_Placement TLS_Profile
begin

text \<open>
  \<open>pkg/operator/controller/controller_dns_daemonset.go\<close>: the daemonset that runs CoreDNS and
  its metrics proxy.

  \<^item> \<open>desiredDNSDaemonSet\<close> completes the manifest: images, arguments, placement, and a volume
    with its mount for every CA bundle in use.
  \<^item> \<open>daemonsetConfigChanged\<close> compares field by field. It can panic, in the comparison of
    tolerations and in an index into the expected containers; a panic is \<^const>\<open>None\<close>.
  \<^item> \<open>daemonsetUpdateIsSafe\<close> keeps an update from moving the pods to no node at all.
  Listing pods and nodes, and the validity test of label selectors, are parameters.
\<close>

section \<open>The desired daemonset\<close>

definition enableDaemonSetEvictionAnnotationKey :: string where
  "enableDaemonSetEvictionAnnotationKey = ''cluster-autoscaler.kubernetes.io/enable-ds-eviction''"

definition targetWorkloadManagementAnnotationKey :: string where
  "targetWorkloadManagementAnnotationKey = ''target.workload.openshift.io/management''"

definition managedDNSDaemonSetAnnotations :: "string list" where
  "managedDNSDaemonSetAnnotations =
     [enableDaemonSetEvictionAnnotationKey, targetWorkloadManagementAnnotationKey]"

definition caBundleCMVolAndVolMount :: "string \<Rightarrow> string \<Rightarrow> gomap \<Rightarrow> (volume \<times> volumemount) option" where
  "caBundleCMVolAndVolMount caBundleName serverName caBundleRevisionMap =
     (case map_of caBundleRevisionMap caBundleName of
        None \<Rightarrow> None
      | Some revision \<Rightarrow>
          let volName = nn_name (CABundleConfigMapName caBundleName) in
          Some (\<lparr>vol_name = volName, vol_source = VConfigMap \<lparr>cmv_name = volName,
                   cmv_items = [\<lparr>kp_key = caBundleFileName, kp_path = caBundleFileName, kp_mode = None\<rparr>],
                   cmv_defaultMode = None, cmv_optional = None\<rparr>\<rparr>,
                \<lparr>vm_name = volName, vm_mountPath = ''/etc/pki/'' @ serverName @ ''-'' @ revision,
                 vm_readOnly = True\<rparr>))"

definition caBundleFor :: "gomap \<Rightarrow> transportconfig \<Rightarrow> (volume \<times> volumemount) option" where
  "caBundleFor revisions tc =
     (case tc_tls tc of
        Some tls \<Rightarrow> if tls_caBundle tls \<noteq> ''''
                    then caBundleCMVolAndVolMount (tls_caBundle tls) (tls_serverName tls) revisions else None
      | None \<Rightarrow> None)"

text \<open>The volumes and mounts in the order the code appends them.\<close>

definition caBundles :: "gomap \<Rightarrow> dns \<Rightarrow> (volume \<times> volumemount) list" where
  "caBundles revisions d = List.map_filter (caBundleFor revisions)
     (ur_transportConfig (spec_upstreamResolvers (dns_spec d))
      # map (\<lambda>s. fp_transportConfig (srv_forwardPlugin s)) (spec_servers (dns_spec d)))"

text \<open>
  The loop over the manifest's volumes. The manifest's \<open>config-volume\<close> is a configmap volume,
  so writing its configmap's name does not fail.
\<close>

definition completeVolume :: "dns \<Rightarrow> volume \<Rightarrow> volume" where
  "completeVolume d v =
     (if vol_name v = ''config-volume'' then
        (case vol_source v of
           VConfigMap cm \<Rightarrow> v\<lparr>vol_source := VConfigMap (cm\<lparr>cmv_name := nn_name (DNSConfigMapName d)\<rparr>)\<rparr>
         | _ \<Rightarrow> v)
      else if vol_name v = ''metrics-tls'' then
        v\<lparr>vol_source := VSecret \<lparr>sv_secretName = DNSMetricsSecretName d, sv_items = [],
                                 sv_defaultMode = None, sv_optional = None\<rparr>\<rparr>
      else v)"

text \<open>The loop over the containers, which also appends volumes.\<close>

fun completeContainers ::
  "string \<Rightarrow> string \<Rightarrow> (volume \<times> volumemount) list \<Rightarrow> tlssecurityprofile option \<Rightarrow>
   volume list \<Rightarrow> container list \<Rightarrow> volume list \<times> container list" where
  "completeContainers coreDNSImage proxyImage bundles profile vols [] = (vols, [])"
| "completeContainers coreDNSImage proxyImage bundles profile vols (ct # cts) =
     (let vols' = (if ct_name ct = ''dns'' then vols @ map fst bundles else vols);
          ct' = (if ct_name ct = ''dns''
                 then ct\<lparr>ct_image := coreDNSImage, ct_volumeMounts := ct_volumeMounts ct @ map snd bundles\<rparr>
                 else if ct_name ct = ''kube-rbac-proxy''
                 then ct\<lparr>ct_image := proxyImage, ct_args := kubeRBACProxyArgs profile\<rparr>
                 else ct);
          (vols'', cts') = completeContainers coreDNSImage proxyImage bundles profile vols' cts
      in (vols'', ct' # cts'))"

definition desiredDNSDaemonSet ::
  "dns \<Rightarrow> string \<Rightarrow> string \<Rightarrow> gomap \<Rightarrow> tlssecurityprofile option \<Rightarrow> goerror + daemonset" where
  "desiredDNSDaemonSet d coreDNSImage kubeRBACProxyImage revisions profile =
     (let ds = DNSDaemonSet; name = DNSDaemonSetName d; template = dss_template (ds_spec ds);
          spec = pt_spec template;
          (vols, cts) = completeContainers coreDNSImage kubeRBACProxyImage (caBundles revisions d) profile
                          (map (completeVolume d) (ps_volumes spec)) (ps_containers spec)
      in if \<not> list_ex (\<lambda>v. vol_name v = ''config-volume'') (ps_volumes spec)
         then Inl (ErrMsg ''volume 'config-volume' is not found'')
         else Inr (ds\<lparr>
           ds_meta := (ds_meta ds)\<lparr>m_name := nn_name name, m_namespace := nn_ns name,
             m_ownerRefs := [dnsOwnerRef d], m_labels := [(OwningDNSLabel, DNSDaemonSetLabel d)]\<rparr>,
           ds_spec := (ds_spec ds)\<lparr>
             dss_selector := Some (DNSDaemonSetPodSelector d),
             dss_template := template\<lparr>
               pt_annotations := AList.update enableDaemonSetEvictionAnnotationKey ''true'' (pt_annotations template),
               pt_labels := ls_matchLabels (DNSDaemonSetPodSelector d),
               pt_spec := spec\<lparr>ps_nodeSelector := nodeSelectorForDNS d,
                 ps_tolerations := tolerationsForDNS d, ps_volumes := vols, ps_containers := cts\<rparr>\<rparr>\<rparr>\<rparr>))"

section \<open>Comparison\<close>

definition cmpTerminationGracePeriodSeconds :: "int option \<Rightarrow> int option \<Rightarrow> bool" where
  "cmpTerminationGracePeriodSeconds a b =
     ((case a of None \<Rightarrow> 30 | Some x \<Rightarrow> x) = (case b of None \<Rightarrow> 30 | Some x \<Rightarrow> x))"

definition cmpConfigMapVolumeSource :: "configmapvolume \<Rightarrow> configmapvolume \<Rightarrow> bool" where
  "cmpConfigMapVolumeSource a b =
     (if cmv_name a \<noteq> cmv_name b then False
      else if cmv_items a \<noteq> cmv_items b then False
      else if (case cmv_defaultMode a of None \<Rightarrow> 420 | Some m \<Rightarrow> m)
              \<noteq> (case cmv_defaultMode b of None \<Rightarrow> 420 | Some m \<Rightarrow> m) then False
      else if cmv_optional a \<noteq> cmv_optional b then False
      else True)"

definition cmpSecretVolumeSource :: "secretvolume \<Rightarrow> secretvolume \<Rightarrow> bool" where
  "cmpSecretVolumeSource a b =
     (if sv_secretName a \<noteq> sv_secretName b then False
      else if sv_items a \<noteq> sv_items b then False
      else if (case sv_defaultMode a of None \<Rightarrow> 420 | Some m \<Rightarrow> m)
              \<noteq> (case sv_defaultMode b of None \<Rightarrow> 420 | Some m \<Rightarrow> m) then False
      else if sv_optional a \<noteq> sv_optional b then False
      else True)"

fun volumeSourcesEqual :: "volumesource \<Rightarrow> volumesource \<Rightarrow> bool" where
  "volumeSourcesEqual (VConfigMap a) (VConfigMap b) = cmpConfigMapVolumeSource a b"
| "volumeSourcesEqual (VSecret a) (VSecret b) = cmpSecretVolumeSource a b"
| "volumeSourcesEqual a b = (a = b)"

definition volumesEqual :: "volume list \<Rightarrow> volume list \<Rightarrow> bool" where
  "volumesEqual xs ys = list_all2 (\<lambda>a b. vol_name a = vol_name b
     \<and> volumeSourcesEqual (vol_source a) (vol_source b)) xs ys"

text \<open>The first container of a name: its position, image and probe.\<close>

definition zeroProbe :: probe where
  "zeroProbe = \<lparr>pr_path = '''', pr_port = 0, pr_scheme = '''', pr_initialDelay = 0, pr_period = 0,
     pr_timeout = 0, pr_success = 0, pr_failure = 0\<rparr>"

fun findContainer :: "string \<Rightarrow> nat \<Rightarrow> container list \<Rightarrow> nat \<times> string \<times> probe" where
  "findContainer name i [] = (0, '''', zeroProbe)"
| "findContainer name i (ct # cts) =
     (if name = ct_name ct
      then (i, ct_image ct, case ct_readinessProbe ct of Some p \<Rightarrow> p | None \<Rightarrow> zeroProbe)
      else findContainer name (Suc i) cts)"

text \<open>
  One round of the loop over the two container names: whether the loop goes on, whether
  something changed, and the containers; \<^const>\<open>None\<close> is the panic of the index into the
  expected containers.
\<close>

definition syncContainer ::
  "container list \<Rightarrow> container list \<Rightarrow> string \<Rightarrow> bool \<times> container list \<Rightarrow> (bool \<times> bool \<times> container list) option" where
  "syncContainer current expected name st =
     (let (changed, updated) = st;
          (curIndex, curImage, curReady) = findContainer name 0 current;
          (_, expImage, expReady) = findContainer name 0 expected
      in if length curImage = 0 then Some (False, True, expected)
         else
           let imageChanged = (curImage \<noteq> expImage);
               updated1 = (if imageChanged
                           then updated[curIndex := (updated ! curIndex)\<lparr>ct_image := expImage\<rparr>] else updated)
           in if curReady \<noteq> expReady
              then (if curIndex < length expected
                    then Some (True, True, updated1[curIndex := (updated1 ! curIndex)
                           \<lparr>ct_readinessProbe := ct_readinessProbe (expected ! curIndex)\<rparr>])
                    else None)
              else Some (True, changed \<or> imageChanged, updated1))"

fun syncContainers ::
  "container list \<Rightarrow> container list \<Rightarrow> string list \<Rightarrow> bool \<times> container list \<Rightarrow> (bool \<times> container list) option" where
  "syncContainers current expected [] st = Some st"
| "syncContainers current expected (name # names) st =
     (case syncContainer current expected name st of
        None \<Rightarrow> None
      | Some (goOn, changed, updated) \<Rightarrow>
          if goOn then syncContainers current expected names (changed, updated) else Some (changed, updated))"

definition containerFieldsEqual :: "container \<Rightarrow> container \<Rightarrow> bool" where
  "containerFieldsEqual a b \<longleftrightarrow> ct_command a = ct_command b \<and> ct_args a = ct_args b
     \<and> ct_volumeMounts a = ct_volumeMounts b"

definition containersDiffer :: "container list \<Rightarrow> container list \<Rightarrow> bool" where
  "containersDiffer current expected \<longleftrightarrow> length current \<noteq> length expected
     \<or> \<not> list_all2 containerFieldsEqual current expected"

definition managedAnnotationsEqual :: "gomap \<Rightarrow> gomap \<Rightarrow> bool" where
  "managedAnnotationsEqual a b \<longleftrightarrow> list_all (\<lambda>k. map_of a k = map_of b k) managedDNSDaemonSetAnnotations"

abbreviation ds_template :: "daemonset \<Rightarrow> podtemplate" where
  "ds_template ds \<equiv> dss_template (ds_spec ds)"

abbreviation ds_pod :: "daemonset \<Rightarrow> podspec" where
  "ds_pod ds \<equiv> pt_spec (dss_template (ds_spec ds))"

definition with_pod :: "(podspec \<Rightarrow> podspec) \<Rightarrow> daemonset \<Rightarrow> daemonset" where
  "with_pod f ds = ds\<lparr>ds_spec := (ds_spec ds)\<lparr>dss_template := (ds_template ds)\<lparr>pt_spec := f (ds_pod ds)\<rparr>\<rparr>\<rparr>"

text \<open>
  The comparisons of the fields that do not depend on each other, and the object in which
  every field that differs is taken from the expected daemonset.
\<close>

definition fieldsChanged :: "daemonset \<Rightarrow> daemonset \<Rightarrow> bool" where
  "fieldsChanged current expected \<longleftrightarrow>
     dss_minReadySeconds (ds_spec current) \<noteq> dss_minReadySeconds (ds_spec expected)
     \<or> dss_updateStrategy (ds_spec current) \<noteq> dss_updateStrategy (ds_spec expected)
     \<or> \<not> managedAnnotationsEqual (pt_annotations (ds_template current)) (pt_annotations (ds_template expected))
     \<or> \<not> gm_eq (ps_nodeSelector (ds_pod current)) (ps_nodeSelector (ds_pod expected))
     \<or> \<not> cmpTerminationGracePeriodSeconds
           (ps_terminationGracePeriod (ds_pod current)) (ps_terminationGracePeriod (ds_pod expected))
     \<or> \<not> volumesEqual (ps_volumes (ds_pod current)) (ps_volumes (ds_pod expected))
     \<or> containersDiffer (ps_containers (ds_pod current)) (ps_containers (ds_pod expected))"

definition mergeDaemonSet :: "daemonset \<Rightarrow> daemonset \<Rightarrow> container list \<Rightarrow> bool \<Rightarrow> daemonset" where
  "mergeDaemonSet current expected cts tolerationsSame =
     current\<lparr>ds_spec := (ds_spec current)\<lparr>
       dss_minReadySeconds :=
         (if dss_minReadySeconds (ds_spec current) \<noteq> dss_minReadySeconds (ds_spec expected)
          then dss_minReadySeconds (ds_spec expected) else dss_minReadySeconds (ds_spec current)),
       dss_updateStrategy :=
         (if dss_updateStrategy (ds_spec current) \<noteq> dss_updateStrategy (ds_spec expected)
          then dss_updateStrategy (ds_spec expected) else dss_updateStrategy (ds_spec current)),
       dss_template := (ds_template current)\<lparr>
         pt_annotations := syncKeys managedDNSDaemonSetAnnotations
           (pt_annotations (ds_template current)) (pt_annotations (ds_template expected)),
         pt_spec := (ds_pod current)\<lparr>
           ps_containers := (if containersDiffer (ps_containers (ds_pod current)) (ps_containers (ds_pod expected))
                             then ps_containers (ds_pod expected) else cts),
           ps_nodeSelector :=
             (if \<not> gm_eq (ps_nodeSelector (ds_pod current)) (ps_nodeSelector (ds_pod expected))
              then ps_nodeSelector (ds_pod expected) else ps_nodeSelector (ds_pod current)),
           ps_terminationGracePeriod :=
             (if \<not> cmpTerminationGracePeriodSeconds
                   (ps_terminationGracePeriod (ds_pod current)) (ps_terminationGracePeriod (ds_pod expected))
              then ps_terminationGracePeriod (ds_pod expected) else ps_terminationGracePeriod (ds_pod current)),
           ps_tolerations := (if \<not> tolerationsSame then ps_tolerations (ds_pod expected)
                              else ps_tolerations (ds_pod current)),
           ps_volumes := (if \<not> volumesEqual (ps_volumes (ds_pod current)) (ps_volumes (ds_pod expected))
                          then ps_volumes (ds_pod expected) else ps_volumes (ds_pod current))\<rparr>\<rparr>\<rparr>\<rparr>"

definition daemonsetConfigChanged :: "daemonset \<Rightarrow> daemonset \<Rightarrow> daemonset option option" where
  "daemonsetConfigChanged current expected =
     (case syncContainers (ps_containers (ds_pod current)) (ps_containers (ds_pod expected))
             [''dns'', ''kube-rbac-proxy''] (False, ps_containers (ds_pod current)) of
        None \<Rightarrow> None
      | Some (containersChanged, cts) \<Rightarrow>
     (case tolerationsEqual (ps_tolerations (ds_pod current)) (ps_tolerations (ds_pod expected)) of
        None \<Rightarrow> None
      | Some tolerationsSame \<Rightarrow>
          Some (if containersChanged \<or> \<not> tolerationsSame \<or> fieldsChanged current expected
                then Some (mergeDaemonSet current expected cts tolerationsSame) else None)))"

section \<open>Safe updates\<close>

record 'w placement_api =
  pa_selectorValid :: "labelselector option \<Rightarrow> bool"
  pa_nodeSelectorValid :: "gomap \<Rightarrow> bool"
  pa_listPods :: "labelselector option \<Rightarrow> string \<Rightarrow> ('w, apierror + pod list) state"
  pa_listNodes :: "gomap \<Rightarrow> ('w, apierror + node list) state"

definition nodeAdmits :: "toleration list \<Rightarrow> node \<Rightarrow> bool" where
  "nodeAdmits tolerations n \<longleftrightarrow> \<not> nd_unschedulable n \<and> tolerationsTolerateTaints tolerations (nd_taints n)"

text \<open>The reasons are only logged; the answer is whether the update is safe.\<close>

definition daemonsetUpdateIsSafe ::
  "'w placement_api \<Rightarrow> daemonset \<Rightarrow> daemonset \<Rightarrow> ('w, goerror + bool) state" where
  "daemonsetUpdateIsSafe pa current updated =
     (if \<not> pa_selectorValid pa (dss_selector (ds_spec current)) then State_Monad.return (Inr True)
      else do {
        pods \<leftarrow> pa_listPods pa (dss_selector (ds_spec current)) (m_namespace (ds_meta current));
        (case pods of
           Inl e \<Rightarrow> State_Monad.return (Inl (errorf ''failed to list the daemonset's pods'' (apiErr e)))
         | Inr podItems \<Rightarrow>
             if length podItems = 0 then State_Monad.return (Inr True)
             else if \<not> pa_nodeSelectorValid pa (ps_nodeSelector (ds_pod updated))
             then State_Monad.return (Inr False)
             else do {
               nodes \<leftarrow> pa_listNodes pa (ps_nodeSelector (ds_pod updated));
               (case nodes of
                  Inl e \<Rightarrow> State_Monad.return (Inl (errorf ''failed to list nodes'' (apiErr e)))
                | Inr items \<Rightarrow>
                    State_Monad.return (Inr (list_ex (nodeAdmits (ps_tolerations (ds_pod updated))) items)))
             })
      })"

section \<open>Ensuring the daemonset\<close>

definition currentDNSDaemonSet ::
  "(daemonset, 'w) kclient \<Rightarrow> dns \<Rightarrow> ('w, daemonset option \<times> goerror option) state" where
  "currentDNSDaemonSet c d = currentObject c (DNSDaemonSetName d)"

definition createDNSDaemonSet :: "(daemonset, 'w) kclient \<Rightarrow> daemonset \<Rightarrow> ('w, goerror option) state" where
  "createDNSDaemonSet c ds = do {
     r \<leftarrow> kcreate c ds;
     State_Monad.return (map_option
       (\<lambda>e. errorf (''failed to create dns daemonset '' @ nsname_text (ds_meta ds)) (apiErr e)) r)
   }"

definition ensureDNSDaemonSetDeleted :: "(daemonset, 'w) kclient \<Rightarrow> dns \<Rightarrow> ('w, goerror option) state" where
  "ensureDNSDaemonSetDeleted c d = do {
     r \<leftarrow> kdelete c (DNSDaemonSetName d);
     State_Monad.return (case r of
         Some e \<Rightarrow> if \<not> IsNotFound e then Some (apiErr e) else None
       | None \<Rightarrow> None)
   }"

text \<open>The placement that is kept when the wanted one is not safe.\<close>

definition keepPlacement :: "daemonset \<Rightarrow> daemonset \<Rightarrow> daemonset" where
  "keepPlacement current updated = with_pod (\<lambda>p. p\<lparr>ps_tolerations := ps_tolerations (ds_pod current),
     ps_nodeSelector := ps_nodeSelector (ds_pod current)\<rparr>) updated"

definition writeDNSDaemonSet :: "(daemonset, 'w) kclient \<Rightarrow> daemonset \<Rightarrow> ('w, (goerror + bool) option) state" where
  "writeDNSDaemonSet c updated = do {
     r \<leftarrow> kupdate c updated;
     State_Monad.return (Some (case r of
         Some e \<Rightarrow> Inl (errorf (''failed to update dns daemonset '' @ nsname_text (ds_meta updated)) (apiErr e))
       | None \<Rightarrow> Inr True))
   }"

definition updateDNSDaemonSet ::
  "(daemonset, 'w) kclient \<Rightarrow> 'w placement_api \<Rightarrow> daemonset \<Rightarrow> daemonset \<Rightarrow>
   ('w, (goerror + bool) option) state" where
  "updateDNSDaemonSet c pa current desired =
     (case daemonsetConfigChanged current desired of
        None \<Rightarrow> State_Monad.return None
      | Some None \<Rightarrow> State_Monad.return (Some (Inr False))
      | Some (Some updated) \<Rightarrow> do {
          safe \<leftarrow> daemonsetUpdateIsSafe pa current updated;
          (case safe of
             Inl e \<Rightarrow> State_Monad.return (Some (Inl e))
           | Inr True \<Rightarrow> writeDNSDaemonSet c updated
           | Inr False \<Rightarrow>
               let updated' = keepPlacement current updated in
               (case daemonsetConfigChanged current updated' of
                  None \<Rightarrow> State_Monad.return None
                | Some None \<Rightarrow> State_Monad.return (Some (Inr False))
                | Some (Some _) \<Rightarrow> writeDNSDaemonSet c updated'))
        })"

definition ensureDNSDaemonSet ::
  "(daemonset, 'w) kclient \<Rightarrow> 'w placement_api \<Rightarrow> string \<Rightarrow> string \<Rightarrow> dns \<Rightarrow> gomap \<Rightarrow>
   tlssecurityprofile option \<Rightarrow> ('w, (daemonset option \<times> goerror option) option) state" where
  "ensureDNSDaemonSet c pa coreDNSImage kubeRBACProxyImage d revisions profile = do {
     (current, err) \<leftarrow> currentDNSDaemonSet c d;
     (case err of
        Some e \<Rightarrow> State_Monad.return (Some (None, Some e))
      | None \<Rightarrow>
     (case desiredDNSDaemonSet d coreDNSImage kubeRBACProxyImage revisions profile of
        Inl e \<Rightarrow> State_Monad.return (Some (current, Some (errorf ''failed to build dns daemonset'' e)))
      | Inr desired \<Rightarrow>
     (case current of
        None \<Rightarrow> do {
          r \<leftarrow> createDNSDaemonSet c desired;
          (case r of
             Some e \<Rightarrow> State_Monad.return (Some (None, Some e))
           | None \<Rightarrow> do { x \<leftarrow> currentDNSDaemonSet c d; State_Monad.return (Some x) })
        }
      | Some cur \<Rightarrow> do {
          u \<leftarrow> updateDNSDaemonSet c pa cur desired;
          (case u of
             None \<Rightarrow> State_Monad.return None
           | Some (Inl e) \<Rightarrow> State_Monad.return (Some (Some cur, Some e))
           | Some (Inr updated) \<Rightarrow>
               if updated then do { x \<leftarrow> currentDNSDaemonSet c d; State_Monad.return (Some x) }
               else State_Monad.return (Some (Some cur, None)))
        })))
   }"

section \<open>The desired daemonset: facts\<close>

lemma config_volume_named:
  "list_ex (\<lambda>v. vol_name v = ''config-volume'') (ps_volumes (ds_pod DNSDaemonSet))"
  by (simp add: DNSDaemonSet_def)

lemma desired_daemonset:
  obtains ds where "desiredDNSDaemonSet d img proxy revs prof = Inr ds"
    and "ps_containers (ds_pod ds) =
      [dnsContainer\<lparr>ct_image := img, ct_volumeMounts := ct_volumeMounts dnsContainer @ map snd (caBundles revs d)\<rparr>,
       kubeRBACProxyContainer\<lparr>ct_image := proxy, ct_args := kubeRBACProxyArgs prof\<rparr>]"
    and "ps_volumes (ds_pod ds) = map (completeVolume d) (ps_volumes (ds_pod DNSDaemonSet)) @ map fst (caBundles revs d)"
    and "ps_tolerations (ds_pod ds) = tolerationsForDNS d"
    and "ps_nodeSelector (ds_pod ds) = nodeSelectorForDNS d"
    and "meta_key (ds_meta ds) = DNSDaemonSetName d"
proof -
  have cts: "ps_containers (ds_pod DNSDaemonSet) = [dnsContainer, kubeRBACProxyContainer]"
    by (simp add: DNSDaemonSet_def)
  have names: "ct_name dnsContainer = ''dns''" "ct_name kubeRBACProxyContainer = ''kube-rbac-proxy''"
    by (simp_all add: dnsContainer_def kubeRBACProxyContainer_def)
  let ?ds = "projr (desiredDNSDaemonSet d img proxy revs prof)"
  show thesis
    by (rule that[of ?ds])
      (simp_all add: desiredDNSDaemonSet_def Let_def cts names config_volume_named meta_key_def
        DNSDaemonSetName_def)
qed

lemma map_filter_Cons:
  "List.map_filter f (x # xs) = (case f x of None \<Rightarrow> List.map_filter f xs | Some y \<Rightarrow> y # List.map_filter f xs)"
  by (simp add: List.map_filter_def split: option.split)

text \<open>The CA bundles in use, one entry per transport that refers to one whose copy exists.\<close>

definition bundlesInUse :: "gomap \<Rightarrow> dns \<Rightarrow> string list" where
  "bundlesInUse revs d = List.map_filter (\<lambda>tc. case tc_tls tc of
       Some tls \<Rightarrow> if tls_caBundle tls \<noteq> '''' \<and> map_of revs (tls_caBundle tls) \<noteq> None
                   then Some (tls_caBundle tls) else None
     | None \<Rightarrow> None)
     (ur_transportConfig (spec_upstreamResolvers (dns_spec d))
      # map (\<lambda>s. fp_transportConfig (srv_forwardPlugin s)) (spec_servers (dns_spec d)))"

lemma caBundle_names:
  "map (\<lambda>p. vol_name (fst p)) (caBundles revs d) = map (\<lambda>b. ''ca-'' @ b) (bundlesInUse revs d)"
proof -
  have "map (\<lambda>p. vol_name (fst p)) (List.map_filter (caBundleFor revs) tcs) =
      map (\<lambda>b. ''ca-'' @ b) (List.map_filter (\<lambda>tc. case tc_tls tc of
       Some tls \<Rightarrow> if tls_caBundle tls \<noteq> '''' \<and> map_of revs (tls_caBundle tls) \<noteq> None
                   then Some (tls_caBundle tls) else None
     | None \<Rightarrow> None) tcs)" for tcs
    by (induction tcs) (auto simp: map_filter_Cons caBundleFor_def caBundleCMVolAndVolMount_def
        CABundleConfigMapName_def Let_def List.map_filter_def split: option.splits)
  then show ?thesis unfolding caBundles_def bundlesInUse_def .
qed

section \<open>Containers: facts\<close>

definition fidx :: "string \<Rightarrow> container list \<Rightarrow> nat" where
  "fidx name xs = length (takeWhile (\<lambda>n. n \<noteq> name) (map ct_name xs))"

definition ready :: "container \<Rightarrow> probe" where
  "ready ct = (case ct_readinessProbe ct of Some p \<Rightarrow> p | None \<Rightarrow> zeroProbe)"

lemma findContainer_eq:
  "findContainer name k xs =
   (if fidx name xs < length xs
    then (k + fidx name xs, ct_image (xs ! fidx name xs), ready (xs ! fidx name xs))
    else (0, '''', zeroProbe))"
  by (induction xs arbitrary: k) (auto simp: fidx_def ready_def)

definition take_over :: "container \<Rightarrow> container \<Rightarrow> container" where
  "take_over c e =
     (let c1 = (if ct_image c \<noteq> ct_image e then c\<lparr>ct_image := ct_image e\<rparr> else c)
      in if ready c \<noteq> ready e then c1\<lparr>ct_readinessProbe := ct_readinessProbe e\<rparr> else c1)"

lemma take_over_facts:
  "ct_name (take_over c e) = ct_name c" "ct_image (take_over c e) = ct_image e"
  "ready (take_over c e) = ready e"
  "containerFieldsEqual (take_over c e) x = containerFieldsEqual c x"
  by (auto simp: take_over_def Let_def ready_def containerFieldsEqual_def)

lemma fidx_cong: "map ct_name xs = map ct_name ys \<Longrightarrow> fidx name xs = fidx name ys"
  by (simp add: fidx_def)

lemma fidx_name: "fidx name xs < length xs \<Longrightarrow> ct_name (xs ! fidx name xs) = name"
  using nth_length_takeWhile[of "\<lambda>n. n \<noteq> name" "map ct_name xs"] by (simp add: fidx_def)

lemma syncContainer_aligned:
  assumes "map ct_name C = map ct_name E" "fidx name E < length E" "length U = length C"
    and "U ! fidx name E = C ! fidx name E"
  shows "syncContainer C E name (ch, U) =
    (let i = fidx name E in
     if ct_image (C ! i) = '''' then Some (False, True, E)
     else Some (True, ch \<or> ct_image (C ! i) \<noteq> ct_image (E ! i) \<or> ready (C ! i) \<noteq> ready (E ! i),
                U[i := take_over (C ! i) (E ! i)]))"
proof -
  have i: "fidx name C = fidx name E" and len: "length C = length E"
    using assms(1) fidx_cong map_eq_imp_length_eq by blast+
  have "U[fidx name E := C ! fidx name E] = U"
    using assms(4) by (metis list_update_id)
  then show ?thesis
    using assms i len
    by (auto simp: syncContainer_def findContainer_eq Let_def take_over_def)
qed

text \<open>The containers after a loop that did not break off.\<close>

lemma syncContainers_aligned:
  assumes names: "map ct_name C = map ct_name E"
    and idx: "fidx ''dns'' E < length E" "fidx ''kube-rbac-proxy'' E < length E"
  shows "syncContainers C E [''dns'', ''kube-rbac-proxy''] (False, C) =
    (let i = fidx ''dns'' E; j = fidx ''kube-rbac-proxy'' E;
         differs = (\<lambda>k. ct_image (C ! k) \<noteq> ct_image (E ! k) \<or> ready (C ! k) \<noteq> ready (E ! k)) in
     if ct_image (C ! i) = '''' \<or> ct_image (C ! j) = '''' then Some (True, E)
     else Some (differs i \<or> differs j,
                C[i := take_over (C ! i) (E ! i), j := take_over (C ! j) (E ! j)]))"
proof -
  have "ct_name (E ! fidx ''dns'' E) \<noteq> ct_name (E ! fidx ''kube-rbac-proxy'' E)"
    using fidx_name[OF idx(1)] fidx_name[OF idx(2)] by simp
  then have ne: "fidx ''dns'' E \<noteq> fidx ''kube-rbac-proxy'' E" by metis
  have 1: "syncContainer C E ''dns'' (False, C) = (let i = fidx ''dns'' E in
     if ct_image (C ! i) = '''' then Some (False, True, E)
     else Some (True, False \<or> ct_image (C ! i) \<noteq> ct_image (E ! i) \<or> ready (C ! i) \<noteq> ready (E ! i),
                C[i := take_over (C ! i) (E ! i)]))"
    by (rule syncContainer_aligned[OF names idx(1)]) simp_all
  have 2: "syncContainer C E ''kube-rbac-proxy'' (ch, C[fidx ''dns'' E := x]) =
    (let i = fidx ''kube-rbac-proxy'' E in
     if ct_image (C ! i) = '''' then Some (False, True, E)
     else Some (True, ch \<or> ct_image (C ! i) \<noteq> ct_image (E ! i) \<or> ready (C ! i) \<noteq> ready (E ! i),
                C[fidx ''dns'' E := x, i := take_over (C ! i) (E ! i)]))" for ch x
    by (rule syncContainer_aligned[OF names idx(2)]) (use ne in simp_all)
  show ?thesis by (simp add: 1 2 Let_def)
qed

lemma containersDiffer_refl [simp]: "\<not> containersDiffer E E"
  by (simp add: containersDiffer_def containerFieldsEqual_def list_all2_refl)

lemma containersDiffer_take_over:
  "i < length C \<Longrightarrow> containersDiffer (C[i := take_over (C ! i) e]) E = containersDiffer C E"
  by (auto simp: containersDiffer_def list_all2_conv_all_nth nth_list_update take_over_facts)

lemma volumesEqual_refl [simp]: "volumesEqual vs vs"
proof -
  have "volumeSourcesEqual s s" for s
    by (cases s) (simp_all add: cmpConfigMapVolumeSource_def cmpSecretVolumeSource_def)
  then show ?thesis by (simp add: volumesEqual_def list_all2_refl)
qed

lemma managedAnnotations_sync: "managedAnnotationsEqual (syncKeys managedDNSDaemonSetAnnotations a b) b"
proof -
  have "distinct managedDNSDaemonSetAnnotations"
    by (simp add: managedDNSDaemonSetAnnotations_def enableDaemonSetEvictionAnnotationKey_def
        targetWorkloadManagementAnnotationKey_def)
  then show ?thesis by (simp add: managedAnnotationsEqual_def list_all_iff gomap_simps)
qed

text \<open>When nothing differs, nothing is changed.\<close>

lemma unchanged_iff:
  assumes "syncContainers (ps_containers (ds_pod cur)) (ps_containers (ds_pod exp))
      [''dns'', ''kube-rbac-proxy''] (False, ps_containers (ds_pod cur)) = Some (ch, cts)"
    and "tolerationsEqual (ps_tolerations (ds_pod cur)) (ps_tolerations (ds_pod exp)) = Some b"
  shows "daemonsetConfigChanged cur exp = Some None \<longleftrightarrow>
    \<not> ch \<and> b \<and> dss_minReadySeconds (ds_spec cur) = dss_minReadySeconds (ds_spec exp)
    \<and> dss_updateStrategy (ds_spec cur) = dss_updateStrategy (ds_spec exp)
    \<and> managedAnnotationsEqual (pt_annotations (ds_template cur)) (pt_annotations (ds_template exp))
    \<and> gm_eq (ps_nodeSelector (ds_pod cur)) (ps_nodeSelector (ds_pod exp))
    \<and> cmpTerminationGracePeriodSeconds (ps_terminationGracePeriod (ds_pod cur)) (ps_terminationGracePeriod (ds_pod exp))
    \<and> volumesEqual (ps_volumes (ds_pod cur)) (ps_volumes (ds_pod exp))
    \<and> \<not> containersDiffer (ps_containers (ds_pod cur)) (ps_containers (ds_pod exp))"
  using assms by (simp add: daemonsetConfigChanged_def fieldsChanged_def)

lemma changed_fields:
  assumes "daemonsetConfigChanged cur exp = Some (Some upd)"
  obtains ch cts b where
    "syncContainers (ps_containers (ds_pod cur)) (ps_containers (ds_pod exp))
      [''dns'', ''kube-rbac-proxy''] (False, ps_containers (ds_pod cur)) = Some (ch, cts)"
    "tolerationsEqual (ps_tolerations (ds_pod cur)) (ps_tolerations (ds_pod exp)) = Some b"
    "dss_minReadySeconds (ds_spec upd) = dss_minReadySeconds (ds_spec exp)"
    "dss_updateStrategy (ds_spec upd) = dss_updateStrategy (ds_spec exp)"
    "managedAnnotationsEqual (pt_annotations (ds_template upd)) (pt_annotations (ds_template exp))"
    "gm_eq (ps_nodeSelector (ds_pod upd)) (ps_nodeSelector (ds_pod exp))"
    "cmpTerminationGracePeriodSeconds (ps_terminationGracePeriod (ds_pod upd)) (ps_terminationGracePeriod (ds_pod exp))"
    "volumesEqual (ps_volumes (ds_pod upd)) (ps_volumes (ds_pod exp))"
    "ps_tolerations (ds_pod upd) = ps_tolerations (ds_pod (if b then cur else exp))"
    "ps_containers (ds_pod upd) = (if containersDiffer (ps_containers (ds_pod cur)) (ps_containers (ds_pod exp))
       then ps_containers (ds_pod exp) else cts)"
    "ds_meta upd = ds_meta cur"
proof -
  obtain ch cts where s: "syncContainers (ps_containers (ds_pod cur)) (ps_containers (ds_pod exp))
      [''dns'', ''kube-rbac-proxy''] (False, ps_containers (ds_pod cur)) = Some (ch, cts)"
    using assms by (auto simp: daemonsetConfigChanged_def split: option.splits)
  obtain b where t: "tolerationsEqual (ps_tolerations (ds_pod cur)) (ps_tolerations (ds_pod exp)) = Some b"
    using assms s by (auto simp: daemonsetConfigChanged_def split: option.splits)
  have upd: "upd = mergeDaemonSet cur exp cts b"
    using assms s t by (simp add: daemonsetConfigChanged_def split: if_splits)
  have grace: "cmpTerminationGracePeriodSeconds x x" for x
    by (simp add: cmpTerminationGracePeriodSeconds_def)
  show thesis
    by (rule that[OF s t]) (simp_all add: upd mergeDaemonSet_def managedAnnotations_sync grace)
qed

text \<open>
  Taking over what differs settles: compared with the desired daemonset, the result differs in
  nothing, and it has the two containers with the desired images.
\<close>

text \<open>The containers of an update: nothing is left to take over from the expected ones.\<close>

lemma settled_containers:
  assumes names: "map ct_name C = [''dns'', ''kube-rbac-proxy'']" "map ct_name E = [''dns'', ''kube-rbac-proxy'']"
    and img: "ct_image (E ! 0) \<noteq> ''''" "ct_image (E ! 1) \<noteq> ''''"
    and s: "syncContainers C E [''dns'', ''kube-rbac-proxy''] (False, C) = Some (ch, cts)"
    and U: "U = (if containersDiffer C E then E else cts)"
  shows "\<exists>cts'. syncContainers U E [''dns'', ''kube-rbac-proxy''] (False, U) = Some (False, cts')"
    and "\<not> containersDiffer U E" and "map ct_name U = map ct_name E" and "map ct_image U = map ct_image E"
proof -
  have idx: "fidx ''dns'' E = 0" "fidx ''kube-rbac-proxy'' E = 1" by (simp_all add: fidx_def names(2))
  have len: "length C = 2" "length E = 2" using arg_cong[OF names(1), of length] arg_cong[OF names(2), of length] by simp_all
  note al = syncContainers_aligned[of _ E, unfolded idx len(2), simplified]
  have namesC: "map ct_name C = map ct_name E" using names by simp
  have U': "U = E \<or> \<not> containersDiffer C E \<and> U = C[0 := take_over (C ! 0) (E ! 0), 1 := take_over (C ! 1) (E ! 1)]"
    using U s al[OF namesC] by (auto simp: Let_def split: if_splits)
  obtain c0 c1 where C: "C = [c0, c1]" using len(1) by (metis One_nat_def Suc_1 length_0_conv length_Suc_conv)
  obtain e0 e1 where E: "E = [e0, e1]" using len(2) by (metis One_nat_def Suc_1 length_0_conv length_Suc_conv)
  show namesU: "map ct_name U = map ct_name E" using U' namesC by (auto simp: C take_over_facts)
  show "map ct_image U = map ct_image E" using U' by (auto simp: C E take_over_facts)
  have same: "ct_image (U ! 0) = ct_image (E ! 0)" "ready (U ! 0) = ready (E ! 0)"
    "ct_image (U ! 1) = ct_image (E ! 1)" "ready (U ! 1) = ready (E ! 1)"
    using U' len(1) by (auto simp: take_over_facts)
  then show "\<exists>cts'. syncContainers U E [''dns'', ''kube-rbac-proxy''] (False, U) = Some (False, cts')"
    using al[OF namesU] img by (auto simp: Let_def)
  show "\<not> containersDiffer U E"
    using U' len containersDiffer_take_over[of 0 C "E ! 0" E]
      containersDiffer_take_over[of 1 "C[0 := take_over (C ! 0) (E ! 0)]" "E ! 1" E]
    by auto
qed

lemma daemonset_settles:
  assumes des: "desiredDNSDaemonSet d img proxy revs prof = Inr exp"
    and img: "img \<noteq> ''''" "proxy \<noteq> ''''" and tol: "noAdjacentDup (tolerationsForDNS d)"
    and names: "map ct_name (ps_containers (ds_pod cur)) = [''dns'', ''kube-rbac-proxy'']"
    and upd: "daemonsetConfigChanged cur exp = Some (Some upd)"
  shows "daemonsetConfigChanged upd exp = Some None"
    and "map ct_name (ps_containers (ds_pod upd)) = [''dns'', ''kube-rbac-proxy'']"
    and "map ct_image (ps_containers (ds_pod upd)) = [img, proxy]"
proof -
  let ?C = "ps_containers (ds_pod cur)" and ?E = "ps_containers (ds_pod exp)"
    and ?U = "ps_containers (ds_pod upd)"
  have E: "?E = [dnsContainer\<lparr>ct_image := img, ct_volumeMounts := ct_volumeMounts dnsContainer @ map snd (caBundles revs d)\<rparr>,
       kubeRBACProxyContainer\<lparr>ct_image := proxy, ct_args := kubeRBACProxyArgs prof\<rparr>]"
    and tolE: "ps_tolerations (ds_pod exp) = tolerationsForDNS d"
    using des desired_daemonset[of d img proxy revs prof] by (metis sum.inject(2))+
  have namesE: "map ct_name ?E = [''dns'', ''kube-rbac-proxy'']" and imgE: "map ct_image ?E = [img, proxy]"
    by (simp_all add: E dnsContainer_def kubeRBACProxyContainer_def)
  from upd obtain ch cts b where
    s: "syncContainers ?C ?E [''dns'', ''kube-rbac-proxy''] (False, ?C) = Some (ch, cts)" and
    t: "tolerationsEqual (ps_tolerations (ds_pod cur)) (ps_tolerations (ds_pod exp)) = Some b" and
    f: "dss_minReadySeconds (ds_spec upd) = dss_minReadySeconds (ds_spec exp)"
      "dss_updateStrategy (ds_spec upd) = dss_updateStrategy (ds_spec exp)"
      "managedAnnotationsEqual (pt_annotations (ds_template upd)) (pt_annotations (ds_template exp))"
      "gm_eq (ps_nodeSelector (ds_pod upd)) (ps_nodeSelector (ds_pod exp))"
      "cmpTerminationGracePeriodSeconds (ps_terminationGracePeriod (ds_pod upd)) (ps_terminationGracePeriod (ds_pod exp))"
      "volumesEqual (ps_volumes (ds_pod upd)) (ps_volumes (ds_pod exp))" and
    tu: "ps_tolerations (ds_pod upd) = ps_tolerations (ds_pod (if b then cur else exp))" and
    cu: "?U = (if containersDiffer ?C ?E then ?E else cts)"
    by (rule changed_fields)
  have imgs: "ct_image (?E ! 0) \<noteq> ''''" "ct_image (?E ! 1) \<noteq> ''''" using img by (simp_all add: E)
  note settled = settled_containers[OF names namesE imgs s cu]
  have t': "tolerationsEqual (ps_tolerations (ds_pod upd)) (ps_tolerations (ds_pod exp)) = Some True"
    using tu t tol tolE tolerationsEqual_plain by (cases b) auto
  from settled(1) obtain cts' where
    "syncContainers ?U ?E [''dns'', ''kube-rbac-proxy''] (False, ?U) = Some (False, cts')" by blast
  from unchanged_iff[OF this t'] show "daemonsetConfigChanged upd exp = Some None" using f settled(2) by simp
  show "map ct_name ?U = [''dns'', ''kube-rbac-proxy'']" using settled(3) namesE by simp
  show "map ct_image ?U = [img, proxy]" using settled(4) imgE by simp
qed

lemma desired_facts:
  assumes "desiredDNSDaemonSet d img proxy revs prof = Inr exp"
  shows "map ct_name (ps_containers (ds_pod exp)) = [''dns'', ''kube-rbac-proxy'']"
    and "map ct_image (ps_containers (ds_pod exp)) = [img, proxy]"
    and "ps_tolerations (ds_pod exp) = tolerationsForDNS d"
    and "meta_key (ds_meta exp) = DNSDaemonSetName d"
proof -
  obtain ds where "desiredDNSDaemonSet d img proxy revs prof = Inr ds"
    and cts: "ps_containers (ds_pod ds) =
      [dnsContainer\<lparr>ct_image := img, ct_volumeMounts := ct_volumeMounts dnsContainer @ map snd (caBundles revs d)\<rparr>,
       kubeRBACProxyContainer\<lparr>ct_image := proxy, ct_args := kubeRBACProxyArgs prof\<rparr>]"
    and tol: "ps_tolerations (ds_pod ds) = tolerationsForDNS d" "meta_key (ds_meta ds) = DNSDaemonSetName d"
    by (rule desired_daemonset)
  then have "exp = ds" using assms by simp
  then show "map ct_name (ps_containers (ds_pod exp)) = [''dns'', ''kube-rbac-proxy'']"
    "map ct_image (ps_containers (ds_pod exp)) = [img, proxy]"
    "ps_tolerations (ds_pod exp) = tolerationsForDNS d" "meta_key (ds_meta exp) = DNSDaemonSetName d"
    using tol by (simp_all add: cts dnsContainer_def kubeRBACProxyContainer_def)
qed

text \<open>A daemonset that is as desired but for its placement, compared with itself updated but for its placement.\<close>

lemma syncContainers_same:
  assumes "length C = 2" "map ct_name C = [''dns'', ''kube-rbac-proxy'']" "ct_image (C ! 0) \<noteq> ''''" "ct_image (C ! 1) \<noteq> ''''"
  shows "syncContainers C C [''dns'', ''kube-rbac-proxy''] (False, C) = Some (False, C)"
proof -
  have idx: "fidx ''dns'' C = 0" "fidx ''kube-rbac-proxy'' C = 1" using assms(2) by (simp_all add: fidx_def)
  have "take_over c c = c" for c by (simp add: take_over_def)
  then show ?thesis
    using syncContainers_aligned[of C C] assms by (simp add: idx Let_def del: syncContainers.simps)
qed

lemma unchanged_refl:
  assumes "map ct_name (ps_containers (ds_pod x)) = [''dns'', ''kube-rbac-proxy'']"
    "ct_image (ps_containers (ds_pod x) ! 0) \<noteq> ''''" "ct_image (ps_containers (ds_pod x) ! 1) \<noteq> ''''"
    "noAdjacentDup (ps_tolerations (ds_pod x))"
    "ps_containers (ds_pod y) = ps_containers (ds_pod x)" "ps_tolerations (ds_pod y) = ps_tolerations (ds_pod x)"
    "ps_nodeSelector (ds_pod y) = ps_nodeSelector (ds_pod x)" "ps_volumes (ds_pod y) = ps_volumes (ds_pod x)"
    "ps_terminationGracePeriod (ds_pod y) = ps_terminationGracePeriod (ds_pod x)"
    "managedAnnotationsEqual (pt_annotations (ds_template x)) (pt_annotations (ds_template y))"
    "dss_minReadySeconds (ds_spec y) = dss_minReadySeconds (ds_spec x)"
    "dss_updateStrategy (ds_spec y) = dss_updateStrategy (ds_spec x)"
  shows "daemonsetConfigChanged x y = Some None"
proof -
  have len: "length (ps_containers (ds_pod x)) = 2" using arg_cong[OF assms(1), of length] by simp
  have s: "syncContainers (ps_containers (ds_pod x)) (ps_containers (ds_pod y)) [''dns'', ''kube-rbac-proxy'']
      (False, ps_containers (ds_pod x)) = Some (False, ps_containers (ds_pod x))"
    using syncContainers_same[OF len assms(1-3)] assms(5) by simp
  have t: "tolerationsEqual (ps_tolerations (ds_pod x)) (ps_tolerations (ds_pod y)) = Some True"
    using assms(4,6) by (simp add: tolerationsEqual_plain)
  show ?thesis
    unfolding unchanged_iff[OF s t] using assms by (simp add: cmpTerminationGracePeriodSeconds_def)
qed


lemma syncContainers_fixed:
  assumes "map ct_name C = [''dns'', ''kube-rbac-proxy'']" "map ct_name E = map ct_name C"
    and "ct_image (C ! 0) \<noteq> ''''" "ct_image (C ! 1) \<noteq> ''''"
    and "syncContainers C E [''dns'', ''kube-rbac-proxy''] (False, C) = Some (False, cts)"
  shows "cts = C"
proof -
  have len: "length C = 2" "length E = 2" using arg_cong[OF assms(1), of length] arg_cong[OF assms(2), of length] by simp_all
  have idx: "fidx ''dns'' E = 0" "fidx ''kube-rbac-proxy'' E = 1" using assms(1,2) by (simp_all add: fidx_def)
  have "take_over c e = c" if "ct_image c = ct_image e" "ready c = ready e" for c e
    using that by (simp add: take_over_def)
  then show ?thesis
    using syncContainers_aligned[of C E] assms len by (auto simp: idx Let_def simp del: syncContainers.simps)
qed

lemma changed_merge:
  "daemonsetConfigChanged cur exp = Some (Some upd) \<Longrightarrow> \<exists>ch cts b.
     syncContainers (ps_containers (ds_pod cur)) (ps_containers (ds_pod exp))
       [''dns'', ''kube-rbac-proxy''] (False, ps_containers (ds_pod cur)) = Some (ch, cts)
     \<and> tolerationsEqual (ps_tolerations (ds_pod cur)) (ps_tolerations (ds_pod exp)) = Some b
     \<and> upd = mergeDaemonSet cur exp cts b"
  by (auto simp: daemonsetConfigChanged_def simp del: syncContainers.simps split: option.splits if_splits)

lemma merge_placement:
  "ps_tolerations (ds_pod (mergeDaemonSet cur exp cts b)) = (if \<not> b then ps_tolerations (ds_pod exp) else ps_tolerations (ds_pod cur))"
  "ps_nodeSelector (ds_pod (mergeDaemonSet cur exp cts b)) =
     (if \<not> gm_eq (ps_nodeSelector (ds_pod cur)) (ps_nodeSelector (ds_pod exp)) then ps_nodeSelector (ds_pod exp)
      else ps_nodeSelector (ds_pod cur))"
  by (simp_all add: mergeDaemonSet_def)

text \<open>
  When the placement is kept although another one is desired, the daemonset that is written is one
  for which the same decision leaves nothing to write.
\<close>

text \<open>What the update of the daemonset with the current placement keeps and takes.\<close>

lemma kept_fields:
  "ps_containers (ds_pod (keepPlacement cur upd)) = ps_containers (ds_pod upd)"
  "ps_tolerations (ds_pod (keepPlacement cur upd)) = ps_tolerations (ds_pod cur)"
  "ps_nodeSelector (ds_pod (keepPlacement cur upd)) = ps_nodeSelector (ds_pod cur)"
  "ps_volumes (ds_pod (keepPlacement cur upd)) = ps_volumes (ds_pod upd)"
  "ps_terminationGracePeriod (ds_pod (keepPlacement cur upd)) = ps_terminationGracePeriod (ds_pod upd)"
  "pt_annotations (ds_template (keepPlacement cur upd)) = pt_annotations (ds_template upd)"
  "dss_minReadySeconds (ds_spec (keepPlacement cur upd)) = dss_minReadySeconds (ds_spec upd)"
  "dss_updateStrategy (ds_spec (keepPlacement cur upd)) = dss_updateStrategy (ds_spec upd)"
  by (simp_all add: keepPlacement_def with_pod_def)

lemma kept_placement_settles:
  assumes des: "desiredDNSDaemonSet d img proxy revs prof = Inr exp"
    and img: "img \<noteq> ''''" "proxy \<noteq> ''''" and tol: "noAdjacentDup (tolerationsForDNS d)"
    and names: "map ct_name (ps_containers (ds_pod cur)) = [''dns'', ''kube-rbac-proxy'']"
    and curTol: "noAdjacentDup (ps_tolerations (ds_pod cur))"
    and upd: "daemonsetConfigChanged cur exp = Some (Some upd)"
    and upd2: "daemonsetConfigChanged (keepPlacement cur upd) exp = Some (Some upd2)"
  shows "daemonsetConfigChanged (keepPlacement cur upd) (keepPlacement (keepPlacement cur upd) upd2) = Some None"
    and "ps_tolerations (ds_pod upd2) = ps_tolerations (ds_pod upd)"
    and "ps_nodeSelector (ds_pod upd2) = ps_nodeSelector (ds_pod upd)"
proof -
  let ?y = "keepPlacement cur upd" let ?z = "keepPlacement ?y upd2"
  let ?E = "ps_containers (ds_pod exp)" and ?U = "ps_containers (ds_pod upd)"
  note upd_settled = daemonset_settles[OF des img tol names upd]
  obtain cts b where m1: "tolerationsEqual (ps_tolerations (ds_pod cur)) (ps_tolerations (ds_pod exp)) = Some b"
      "upd = mergeDaemonSet cur exp cts b"
    using changed_merge[OF upd] by blast
  obtain ch2 cts2 b2 where m2: "syncContainers ?U ?E [''dns'', ''kube-rbac-proxy''] (False, ?U) = Some (ch2, cts2)"
      "tolerationsEqual (ps_tolerations (ds_pod ?y)) (ps_tolerations (ds_pod exp)) = Some b2"
      "upd2 = mergeDaemonSet ?y exp cts2 b2"
    using changed_merge[OF upd2] unfolding kept_fields(1) by blast
  have b: "b2 = b" using m1(1) m2(2) by (simp add: kept_fields)
  show tu: "ps_tolerations (ds_pod upd2) = ps_tolerations (ds_pod upd)"
    and "ps_nodeSelector (ds_pod upd2) = ps_nodeSelector (ds_pod upd)"
    unfolding m2(3) b merge_placement kept_fields by (subst m1(2), simp only: merge_placement)+
  obtain chU ctsU bU where tU: "tolerationsEqual (ps_tolerations (ds_pod upd)) (ps_tolerations (ds_pod exp)) = Some bU"
    using upd_settled(1) by (auto simp: daemonsetConfigChanged_def simp del: syncContainers.simps split: option.splits)
  note fixed = upd_settled(1)[unfolded unchanged_iff[OF m2(1) tU]]
  have imgs: "ct_image (?U ! 0) \<noteq> ''''" "ct_image (?U ! 1) \<noteq> ''''"
    using upd_settled(3) img by (auto simp: map_eq_Cons_conv)
  have cts2: "cts2 = ?U"
    using syncContainers_fixed[OF upd_settled(2) _ imgs, of ?E cts2] desired_facts(1)[OF des] upd_settled(2) m2(1) fixed by simp
  have z: "ps_containers (ds_pod upd2) = ?U" "ps_volumes (ds_pod upd2) = ps_volumes (ds_pod upd)"
    "ps_terminationGracePeriod (ds_pod upd2) = ps_terminationGracePeriod (ds_pod upd)"
    "dss_minReadySeconds (ds_spec upd2) = dss_minReadySeconds (ds_spec upd)"
    "dss_updateStrategy (ds_spec upd2) = dss_updateStrategy (ds_spec upd)"
    "pt_annotations (ds_template upd2) = syncKeys managedDNSDaemonSetAnnotations
       (pt_annotations (ds_template upd)) (pt_annotations (ds_template exp))"
    using fixed by (simp_all add: keepPlacement_def with_pod_def m2(3) mergeDaemonSet_def cts2)
  have "managedAnnotationsEqual (pt_annotations (ds_template ?y)) (pt_annotations (ds_template ?z))"
    using fixed managedAnnotations_sync[of "pt_annotations (ds_template upd)" "pt_annotations (ds_template exp)"]
    unfolding kept_fields z(6) by (auto simp: managedAnnotationsEqual_def list_all_iff)
  then show "daemonsetConfigChanged ?y ?z = Some None"
    using z upd_settled(2) imgs curTol by (intro unchanged_refl) (simp_all add: kept_fields)
qed

section \<open>Properties\<close>

text \<open>
  C12: The daemonset comparison settles. For the desired daemonset of a DNS (with images set
  and no two equal tolerations next to each other) and a current daemonset that has the two
  containers of the operator, an update that \<open>daemonsetConfigChanged\<close> asks for leaves nothing
  it would ask for again.
\<close>

theorem daemonset_update_settles:
  assumes des: "desiredDNSDaemonSet d img proxy revs prof = Inr exp"
    and img: "img \<noteq> ''''" "proxy \<noteq> ''''" and tol: "noAdjacentDup (tolerationsForDNS d)"
    and names: "map ct_name (ps_containers (ds_pod cur)) = [''dns'', ''kube-rbac-proxy'']"
    and upd: "daemonsetConfigChanged cur exp = Some (Some upd)"
  shows "daemonsetConfigChanged upd exp = Some None"
  by (rule daemonset_settles[OF assms])

definition sample_old_daemonset :: "daemonset \<Rightarrow> daemonset" where
  "sample_old_daemonset ds = ds\<lparr>ds_spec := (ds_spec ds)\<lparr>dss_minReadySeconds := 0\<rparr>\<rparr>"

theorem daemonset_update_settles_witness:
  "\<exists>exp upd. desiredDNSDaemonSet emptyDNS ''coredns:v2'' ''proxy:v2'' [] None = Inr exp
     \<and> daemonsetConfigChanged (sample_old_daemonset exp) exp = Some (Some upd)
     \<and> daemonsetConfigChanged upd exp = Some None"
proof -
  obtain exp where exp: "desiredDNSDaemonSet emptyDNS ''coredns:v2'' ''proxy:v2'' [] None = Inr exp"
    by (rule desired_daemonset)
  have "(case desiredDNSDaemonSet emptyDNS ''coredns:v2'' ''proxy:v2'' [] None of
      Inl _ \<Rightarrow> False
    | Inr e \<Rightarrow> map ct_name (ps_containers (ds_pod (sample_old_daemonset e))) = [''dns'', ''kube-rbac-proxy'']
        \<and> (case daemonsetConfigChanged (sample_old_daemonset e) e of Some (Some _) \<Rightarrow> True | _ \<Rightarrow> False))"
    by code_simp
  then have names: "map ct_name (ps_containers (ds_pod (sample_old_daemonset exp))) = [''dns'', ''kube-rbac-proxy'']"
    and "\<exists>upd. daemonsetConfigChanged (sample_old_daemonset exp) exp = Some (Some upd)"
    unfolding exp by (auto split: option.splits)
  then obtain upd where upd: "daemonsetConfigChanged (sample_old_daemonset exp) exp = Some (Some upd)" by blast
  have "noAdjacentDup (tolerationsForDNS emptyDNS)" by code_simp
  from daemonset_update_settles[OF exp _ _ this names upd] upd exp show ?thesis by auto
qed

text \<open>
  C13: Unsafe placements are not written. Whenever \<open>updateDNSDaemonSet\<close> reports a write, the
  daemonset it wrote either has the node selector and tolerations of the current one, or the
  current daemonset has no valid selector or no pods, or some schedulable node that the new
  node selector selects has all its taints tolerated.
\<close>

theorem placement_update_safe:
  assumes "run_state (updateDNSDaemonSet c pa cur des) w = (Some (Inr True), w')"
  shows "\<exists>upd v. run_state (kupdate c upd) v = (None, w') \<and>
    (ps_tolerations (ds_pod upd) = ps_tolerations (ds_pod cur)
       \<and> ps_nodeSelector (ds_pod upd) = ps_nodeSelector (ds_pod cur)
     \<or> \<not> pa_selectorValid pa (dss_selector (ds_spec cur))
     \<or> fst (run_state (pa_listPods pa (dss_selector (ds_spec cur)) (m_namespace (ds_meta cur))) w) = Inr []
     \<or> (\<exists>v0 items n. fst (run_state (pa_listNodes pa (ps_nodeSelector (ds_pod upd))) v0) = Inr items
          \<and> n \<in> set items \<and> \<not> nd_unschedulable n
          \<and> (\<forall>ta\<in>set (nd_taints n). \<exists>t\<in>set (ps_tolerations (ds_pod upd)). ToleratesTaint t ta)))"
proof -
  have wr: "run_state (writeDNSDaemonSet c x) v = (Some (Inr True), w') \<Longrightarrow> run_state (kupdate c x) v = (None, w')"
    for x v
    by (auto simp: writeDNSDaemonSet_def split: prod.splits option.splits)
  have kp: "ps_tolerations (ds_pod (keepPlacement cur x)) = ps_tolerations (ds_pod cur)"
    "ps_nodeSelector (ds_pod (keepPlacement cur x)) = ps_nodeSelector (ds_pod cur)" for x
    by (simp_all add: keepPlacement_def with_pod_def)
  obtain upd where ch: "daemonsetConfigChanged cur des = Some (Some upd)"
    using assms by (auto simp: updateDNSDaemonSet_def split: option.splits)
  obtain safe v where safe: "run_state (daemonsetUpdateIsSafe pa cur upd) w = (safe, v)" by fastforce
  show ?thesis
  proof (cases "safe = Inr True")
    case True
    then have "run_state (kupdate c upd) v = (None, w')"
      using assms ch safe wr by (auto simp: updateDNSDaemonSet_def)
    moreover have "\<not> pa_selectorValid pa (dss_selector (ds_spec cur))
     \<or> fst (run_state (pa_listPods pa (dss_selector (ds_spec cur)) (m_namespace (ds_meta cur))) w) = Inr []
     \<or> (\<exists>v0 items n. fst (run_state (pa_listNodes pa (ps_nodeSelector (ds_pod upd))) v0) = Inr items
          \<and> n \<in> set items \<and> \<not> nd_unschedulable n
          \<and> (\<forall>ta\<in>set (nd_taints n). \<exists>t\<in>set (ps_tolerations (ds_pod upd)). ToleratesTaint t ta))"
      using safe True
      by (auto simp: daemonsetUpdateIsSafe_def list_ex_iff nodeAdmits_def tolerationsTolerateTaints_iff
          split: if_splits prod.splits sum.splits) (metis fst_conv)
    ultimately show ?thesis by blast
  next
    case False
    then have "run_state (writeDNSDaemonSet c (keepPlacement cur upd)) v = (Some (Inr True), w')"
      using assms ch safe
      by (auto simp: updateDNSDaemonSet_def Let_def split: sum.splits bool.splits option.splits)
    from wr[OF this] show ?thesis using kp by blast
  qed
qed

definition sample_placement_api :: "bool placement_api" where
  "sample_placement_api = \<lparr>pa_selectorValid = (\<lambda>_. True), pa_nodeSelectorValid = (\<lambda>_. True),
     pa_listPods = (\<lambda>_ _. State (\<lambda>w. (Inr [\<lparr>pod_meta = emptyMeta, pod_containers = [], pod_conditions = []\<rparr>], w))),
     pa_listNodes = (\<lambda>_. State (\<lambda>w. (Inr [], w)))\<rparr>"

definition sample_ds_client :: "(daemonset, bool) kclient" where
  "sample_ds_client = \<lparr>kget = (\<lambda>_. State (\<lambda>w. (Inl (NotFound ''''), w))),
     kcreate = (\<lambda>_. State (\<lambda>w. (None, True))), kupdate = (\<lambda>_. State (\<lambda>w. (None, True))),
     kdelete = (\<lambda>_. State (\<lambda>w. (None, w)))\<rparr>"

theorem placement_update_safe_witness:
  "\<exists>exp. desiredDNSDaemonSet emptyDNS ''coredns:v2'' ''proxy:v2'' [] None = Inr exp
     \<and> run_state (updateDNSDaemonSet sample_ds_client sample_placement_api (sample_old_daemonset exp) exp) False
         = (Some (Inr True), True)
     \<and> (\<exists>upd v. run_state (kupdate sample_ds_client upd) v = (None, True) \<and>
          ps_tolerations (ds_pod upd) = ps_tolerations (ds_pod (sample_old_daemonset exp)))"
proof -
  obtain exp where exp: "desiredDNSDaemonSet emptyDNS ''coredns:v2'' ''proxy:v2'' [] None = Inr exp"
    by (rule desired_daemonset)
  have "(case desiredDNSDaemonSet emptyDNS ''coredns:v2'' ''proxy:v2'' [] None of Inl _ \<Rightarrow> False
    | Inr e \<Rightarrow> (case run_state (updateDNSDaemonSet sample_ds_client sample_placement_api (sample_old_daemonset e) e) False of
        (Some (Inr True), True) \<Rightarrow> True | _ \<Rightarrow> False))"
    by code_simp
  then have run: "run_state (updateDNSDaemonSet sample_ds_client sample_placement_api (sample_old_daemonset exp) exp) False
         = (Some (Inr True), True)"
    unfolding exp by (auto split: prod.splits option.splits sum.splits bool.splits)
  have "pa_selectorValid sample_placement_api x" "pa_listNodes sample_placement_api y = State (\<lambda>w. (Inr [], w))"
    "fst (run_state (pa_listPods sample_placement_api x z) False) \<noteq> Inr []" for x y z
    by (simp_all add: sample_placement_api_def)
  then show ?thesis
    using placement_update_safe[OF run] exp run by auto
qed

text \<open>
  C36: Volume names. The pod volumes of the desired daemonset have distinct names, as the API
  requires, exactly when no two transports refer to the same CA bundle.
\<close>

theorem volume_names_distinct_iff:
  "\<exists>ds. desiredDNSDaemonSet d img proxy revs prof = Inr ds
     \<and> (distinct (map vol_name (ps_volumes (ds_pod ds))) \<longleftrightarrow> distinct (bundlesInUse revs d))"
proof -
  obtain ds where ds: "desiredDNSDaemonSet d img proxy revs prof = Inr ds"
    and vols: "ps_volumes (ds_pod ds) = map (completeVolume d) (ps_volumes (ds_pod DNSDaemonSet)) @ map fst (caBundles revs d)"
    by (rule desired_daemonset)
  have base: "map vol_name (map (completeVolume d) (ps_volumes (ds_pod DNSDaemonSet)))
      = [''config-volume'', ''metrics-tls'', ''tmp-dir'']"
    by (simp add: DNSDaemonSet_def completeVolume_def)
  have "map vol_name (map fst (caBundles revs d)) = map (\<lambda>b. ''ca-'' @ b) (bundlesInUse revs d)"
    using caBundle_names[of revs d] by (simp add: comp_def)
  then have "map vol_name (ps_volumes (ds_pod ds))
      = [''config-volume'', ''metrics-tls'', ''tmp-dir''] @ map (\<lambda>b. ''ca-'' @ b) (bundlesInUse revs d)"
    using vols base by (metis map_append)
  moreover have "distinct (map (\<lambda>b. ''ca-'' @ b) bs) \<longleftrightarrow> distinct bs" for bs :: "string list"
    by (simp add: distinct_map inj_on_def)
  ultimately show ?thesis using ds by (auto simp: distinct_append)
qed





end
