(* ===== verification/Node_Resolver.thy ===== *)
theory Node_Resolver
  imports DNS_DaemonSet
begin

text \<open>
  \<open>pkg/operator/controller/controller_dns_node_resolver_daemonset.go\<close>: the daemonset that keeps
  the entry of the image registry in every node's hosts file. The shell script it runs is
  an argument. \<open>nodeResolverDaemonSetConfigChanged\<close> compares tolerations the way the DNS
  daemonset does, so it can panic (\<^const>\<open>None\<close>). The properties: an update carries the current
  image, script and environment and leaves everything else alone, and a successful ensure
  is repeated without a write.
\<close>

section \<open>The desired daemonset\<close>

definition services :: string where
  "services = ''image-registry.openshift-image-registry.svc''"

definition workloadPartitioningManagement :: string where
  "workloadPartitioningManagement = ''target.workload.openshift.io/management''"

definition resolverEnv :: "string \<Rightarrow> string \<Rightarrow> envvar list" where
  "resolverEnv clusterIP clusterDomain =
     [\<lparr>ev_name = ''SERVICES'', ev_value = services\<rparr>]
     @ (if 0 < length clusterIP then [\<lparr>ev_name = ''NAMESERVER'', ev_value = clusterIP\<rparr>] else [])
     @ (if 0 < length clusterDomain then [\<lparr>ev_name = ''CLUSTER_DOMAIN'', ev_value = clusterDomain\<rparr>] else [])"

definition desiredNodeResolverDaemonSet ::
  "string \<Rightarrow> dns \<Rightarrow> string \<Rightarrow> string \<Rightarrow> string \<Rightarrow> daemonset" where
  "desiredNodeResolverDaemonSet nodeResolverScript d clusterIP clusterDomain openshiftCLIImage =
     (let name = NodeResolverDaemonSetName in
      emptyDaemonSet\<lparr>
        ds_meta := emptyMeta\<lparr>m_name := nn_name name, m_namespace := nn_ns name, m_ownerRefs := [dnsOwnerRef d]\<rparr>,
        ds_spec := \<lparr>
          dss_selector = Some NodeResolverDaemonSetPodSelector,
          dss_template = \<lparr>
            pt_labels = ls_matchLabels NodeResolverDaemonSetPodSelector,
            pt_annotations = [(workloadPartitioningManagement,
              ''{'' @ [CHR 0x22] @ ''effect'' @ [CHR 0x22] @ '': '' @ [CHR 0x22]
              @ ''PreferredDuringScheduling'' @ [CHR 0x22] @ ''}'')],
            pt_spec = emptyPodSpec\<lparr>
              ps_containers := [emptyContainer\<lparr>
                ct_command := [''/bin/bash'', ''-c'', nodeResolverScript],
                ct_env := resolverEnv clusterIP clusterDomain,
                ct_image := openshiftCLIImage,
                ct_imagePullPolicy := ''IfNotPresent'',
                ct_name := ''dns-node-resolver'',
                ct_requests := [(''cpu'', ''5m''), (''memory'', ''21Mi'')],
                ct_privileged := Some True, ct_readOnlyRoot := Some True,
                ct_terminationMessagePolicy := ''FallbackToLogsOnError'',
                ct_volumeMounts := [
                  \<lparr>vm_name = ''hosts-file'', vm_mountPath = ''/etc/hosts'', vm_readOnly = False\<rparr>,
                  \<lparr>vm_name = ''tmp-dir'', vm_mountPath = ''/tmp'', vm_readOnly = False\<rparr>]\<rparr>],
              ps_hostNetwork := True,
              ps_nodeSelector := [(''kubernetes.io/os'', ''linux'')],
              ps_priorityClassName := ''system-node-critical'',
              ps_serviceAccountName := ''node-resolver'',
              ps_tolerations := [\<lparr>tol_key = '''', tol_operator = ''Exists'', tol_value = '''',
                                  tol_effect = '''', tol_seconds = None\<rparr>],
              ps_volumes := [
                \<lparr>vol_name = ''hosts-file'', vol_source = VHostPath ''/etc/hosts'' (Some ''File'')\<rparr>,
                \<lparr>vol_name = ''tmp-dir'', vol_source = VEmptyDir\<rparr>]\<rparr>\<rparr>,
          dss_updateStrategy = \<lparr>us_type = ''RollingUpdate'', us_rollingUpdate = Some
            \<lparr>ru_maxUnavailable = Some (StrVal ''33%''), ru_maxSurge = Some (IntVal 0)\<rparr>\<rparr>,
          dss_minReadySeconds = 0\<rparr>\<rparr>)"

section \<open>Comparison\<close>

text \<open>The containers: replaced when their number differs, otherwise the first one is brought up to date.\<close>

fun resolverContainers :: "container list \<Rightarrow> container list \<Rightarrow> bool \<times> container list" where
  "resolverContainers (cur # curs) (exp # exps) =
     (if length (cur # curs) \<noteq> length (exp # exps) then (True, exp # exps)
      else
        let command = (ct_command cur \<noteq> ct_command exp);
            image = (ct_image cur \<noteq> ct_image exp);
            env = (ct_env cur \<noteq> ct_env exp);
            c1 = (if command then cur\<lparr>ct_command := ct_command exp\<rparr> else cur);
            c2 = (if image then c1\<lparr>ct_image := ct_image exp\<rparr> else c1);
            c3 = (if env then c2\<lparr>ct_env := ct_env exp\<rparr> else c2)
        in (command \<or> image \<or> env, c3 # curs))"
| "resolverContainers current expected =
     (if length current \<noteq> length expected then (True, expected) else (False, current))"

definition nodeResolverDaemonSetConfigChanged :: "daemonset \<Rightarrow> daemonset \<Rightarrow> daemonset option option" where
  "nodeResolverDaemonSetConfigChanged current expected =
     (let strategy = (dss_updateStrategy (ds_spec current) \<noteq> dss_updateStrategy (ds_spec expected));
          (containersChanged, cts) = resolverContainers (ps_containers (ds_pod current)) (ps_containers (ds_pod expected));
          selector = (\<not> gm_eq (ps_nodeSelector (ds_pod current)) (ps_nodeSelector (ds_pod expected)));
          volumes = (\<not> volumesEqual (ps_volumes (ds_pod current)) (ps_volumes (ds_pod expected)))
      in case tolerationsEqual (ps_tolerations (ds_pod current)) (ps_tolerations (ds_pod expected)) of
           None \<Rightarrow> None
         | Some same \<Rightarrow>
             if \<not> strategy \<and> \<not> containersChanged \<and> \<not> selector \<and> same \<and> \<not> volumes then Some None
             else Some (Some (current\<lparr>ds_spec := (ds_spec current)\<lparr>
               dss_updateStrategy := (if strategy then dss_updateStrategy (ds_spec expected)
                                      else dss_updateStrategy (ds_spec current)),
               dss_template := (ds_template current)\<lparr>pt_spec := (ds_pod current)\<lparr>
                 ps_containers := cts,
                 ps_nodeSelector := (if selector then ps_nodeSelector (ds_pod expected)
                                     else ps_nodeSelector (ds_pod current)),
                 ps_tolerations := (if \<not> same then ps_tolerations (ds_pod expected)
                                    else ps_tolerations (ds_pod current)),
                 ps_volumes := (if volumes then ps_volumes (ds_pod expected)
                                else ps_volumes (ds_pod current))\<rparr>\<rparr>\<rparr>\<rparr>)))"

section \<open>Operations\<close>

definition currentNodeResolverDaemonSet ::
  "(daemonset, 'w) kclient \<Rightarrow> ('w, daemonset option \<times> goerror option) state" where
  "currentNodeResolverDaemonSet c = currentObject c NodeResolverDaemonSetName"

definition createNodeResolverDaemonSet :: "(daemonset, 'w) kclient \<Rightarrow> daemonset \<Rightarrow> ('w, goerror option) state" where
  "createNodeResolverDaemonSet c ds = do {
     r \<leftarrow> kcreate c ds;
     State_Monad.return (map_option
       (\<lambda>e. errorf (''failed to create node resolver daemonset '' @ nsname_text (ds_meta ds)) (apiErr e)) r)
   }"

definition deleteNodeResolverDaemonSet :: "(daemonset, 'w) kclient \<Rightarrow> daemonset \<Rightarrow> ('w, goerror option) state" where
  "deleteNodeResolverDaemonSet c ds = do {
     r \<leftarrow> kdelete c (meta_key (ds_meta ds));
     State_Monad.return (case r of
         None \<Rightarrow> None
       | Some e \<Rightarrow> if IsNotFound e then None
                   else Some (errorf (''failed to delete node resolver daemonset '' @ nsname_text (ds_meta ds)) (apiErr e)))
   }"

definition updateNodeResolverDaemonSet ::
  "(daemonset, 'w) kclient \<Rightarrow> daemonset \<Rightarrow> daemonset \<Rightarrow> ('w, (goerror + bool) option) state" where
  "updateNodeResolverDaemonSet c current desired =
     (case nodeResolverDaemonSetConfigChanged current desired of
        None \<Rightarrow> State_Monad.return None
      | Some None \<Rightarrow> State_Monad.return (Some (Inr False))
      | Some (Some updated) \<Rightarrow> do {
          r \<leftarrow> kupdate c updated;
          State_Monad.return (Some (case r of
              Some e \<Rightarrow> Inl (errorf (''failed to update node resolver daemonset '' @ nsname_text (ds_meta updated)) (apiErr e))
            | None \<Rightarrow> Inr True))
        })"

text \<open>
  The whole \<open>ensureNodeResolverDaemonSet\<close>. \<open>desiredNodeResolverDaemonSet\<close> always wants the
  daemonset (\<open>want\<close> is true) and never fails; the \<open>switch\<close> is kept as written.
\<close>

definition ensureNodeResolver ::
  "(daemonset, 'w) kclient \<Rightarrow> bool \<Rightarrow> daemonset \<Rightarrow> ('w, (daemonset option \<times> goerror option) option) state" where
  "ensureNodeResolver c want desired = do {
     (current, err) \<leftarrow> currentNodeResolverDaemonSet c;
     (case err of
        Some e \<Rightarrow> State_Monad.return (Some (None, Some e))
      | None \<Rightarrow>
     (case current of
        None \<Rightarrow>
          if \<not> want then State_Monad.return (Some (None, None))
          else do {
            r \<leftarrow> createNodeResolverDaemonSet c desired;
            (case r of
               Some e \<Rightarrow> State_Monad.return (Some (None, Some e))
             | None \<Rightarrow> do { x \<leftarrow> currentNodeResolverDaemonSet c; State_Monad.return (Some x) })
          }
      | Some cur \<Rightarrow>
          if \<not> want then do {
            r \<leftarrow> deleteNodeResolverDaemonSet c cur;
            (case r of
               Some e \<Rightarrow> State_Monad.return (Some (Some cur, Some e))
             | None \<Rightarrow> State_Monad.return (Some (None, None)))
          }
          else do {
            u \<leftarrow> updateNodeResolverDaemonSet c cur desired;
            (case u of
               None \<Rightarrow> State_Monad.return None
             | Some (Inl e) \<Rightarrow> State_Monad.return (Some (Some cur, Some e))
             | Some (Inr updated) \<Rightarrow>
                 if updated then do { x \<leftarrow> currentNodeResolverDaemonSet c; State_Monad.return (Some x) }
                 else State_Monad.return (Some (Some cur, None)))
          }))
   }"

definition ensureNodeResolverDaemonSet ::
  "(daemonset, 'w) kclient \<Rightarrow> string \<Rightarrow> string \<Rightarrow> dns \<Rightarrow> string \<Rightarrow> string \<Rightarrow>
   ('w, (daemonset option \<times> goerror option) option) state" where
  "ensureNodeResolverDaemonSet c script cliImage d clusterIP clusterDomain =
     ensureNodeResolver c True (desiredNodeResolverDaemonSet script d clusterIP clusterDomain cliImage)"

section \<open>Facts\<close>

text \<open>What the operator manages of the node resolver, and what the server must not change.\<close>

definition resolverCore :: "container list \<Rightarrow> (nat \<times> string list \<times> string \<times> envvar list)" where
  "resolverCore cts = (case cts of [] \<Rightarrow> (0, [], '''', [])
     | ct # _ \<Rightarrow> (length cts, ct_command ct, ct_image ct, ct_env ct))"

definition resolver_managed :: "daemonset \<Rightarrow> daemonset \<Rightarrow> bool" where
  "resolver_managed a b \<longleftrightarrow> dss_updateStrategy (ds_spec a) = dss_updateStrategy (ds_spec b)
     \<and> resolverCore (ps_containers (ds_pod a)) = resolverCore (ps_containers (ds_pod b))
     \<and> gm_eq (ps_nodeSelector (ds_pod a)) (ps_nodeSelector (ds_pod b))
     \<and> tolerationsEqual (ps_tolerations (ds_pod a)) (ps_tolerations (ds_pod b)) = Some True
     \<and> volumesEqual (ps_volumes (ds_pod a)) (ps_volumes (ds_pod b))"

definition resolver_sim :: "daemonset \<Rightarrow> daemonset \<Rightarrow> bool" where
  "resolver_sim a b \<longleftrightarrow> dss_updateStrategy (ds_spec a) = dss_updateStrategy (ds_spec b)
     \<and> resolverCore (ps_containers (ds_pod a)) = resolverCore (ps_containers (ds_pod b))
     \<and> gm_eq (ps_nodeSelector (ds_pod a)) (ps_nodeSelector (ds_pod b))
     \<and> ps_tolerations (ds_pod a) = ps_tolerations (ds_pod b)
     \<and> volumesEqual (ps_volumes (ds_pod b)) (ps_volumes (ds_pod a))"

definition ds_key :: "daemonset \<Rightarrow> nsname" where
  "ds_key ds = meta_key (ds_meta ds)"

lemma resolverContainers_same:
  "\<not> fst (resolverContainers cs es) \<longleftrightarrow> resolverCore cs = resolverCore es"
  by (cases "(cs, es)" rule: resolverContainers.cases) (auto simp: resolverCore_def Let_def split: list.splits)

lemma resolverContainers_takes:
  "resolverCore (snd (resolverContainers cs es)) = resolverCore es"
  by (cases "(cs, es)" rule: resolverContainers.cases) (auto simp: resolverCore_def Let_def split: list.splits)

lemma volumeSourcesEqual_trans:
  "volumeSourcesEqual a b \<Longrightarrow> volumeSourcesEqual b c \<Longrightarrow> volumeSourcesEqual a c"
  by (cases a; cases b; cases c)
    (auto simp: cmpConfigMapVolumeSource_def cmpSecretVolumeSource_def split: if_splits)

lemma volumesEqual_trans: "volumesEqual a b \<Longrightarrow> volumesEqual b c \<Longrightarrow> volumesEqual a c"
  unfolding volumesEqual_def
  by (rule list_all2_trans[rotated 1], assumption, assumption) (auto intro: volumeSourcesEqual_trans)

lemma resolver_changed_None:
  "nodeResolverDaemonSetConfigChanged cur exp = Some None \<longleftrightarrow> resolver_managed cur exp"
  using resolverContainers_same[of "ps_containers (ds_pod cur)" "ps_containers (ds_pod exp)"]
  by (auto simp: nodeResolverDaemonSetConfigChanged_def resolver_managed_def Let_def
      split: option.splits prod.splits)

lemma resolver_changed_Some:
  assumes "nodeResolverDaemonSetConfigChanged cur exp = Some (Some upd)"
    and tol: "tolerationsEqual (ps_tolerations (ds_pod exp)) (ps_tolerations (ds_pod exp)) = Some True"
  shows "resolver_managed upd exp \<and> ds_meta upd = ds_meta cur \<and> dss_selector (ds_spec upd) = dss_selector (ds_spec cur)
    \<and> pt_labels (ds_template upd) = pt_labels (ds_template cur)
    \<and> pt_annotations (ds_template upd) = pt_annotations (ds_template cur)
    \<and> tl (ps_containers (ds_pod upd)) = tl (if length (ps_containers (ds_pod cur)) = length (ps_containers (ds_pod exp))
          then ps_containers (ds_pod cur) else ps_containers (ds_pod exp))"
proof -
  let ?C = "ps_containers (ds_pod cur)" and ?E = "ps_containers (ds_pod exp)"
  obtain b where b: "tolerationsEqual (ps_tolerations (ds_pod cur)) (ps_tolerations (ds_pod exp)) = Some b"
    using assms(1) by (auto simp: nodeResolverDaemonSetConfigChanged_def Let_def split: option.splits prod.splits)
  have "tl (snd (resolverContainers ?C ?E)) = tl (if length ?C = length ?E then ?C else ?E)"
    by (cases "(?C, ?E)" rule: resolverContainers.cases) (auto simp: Let_def)
  then show ?thesis
    using assms(1) b tol resolverContainers_takes[of ?C ?E]
    by (auto simp: nodeResolverDaemonSetConfigChanged_def resolver_managed_def Let_def
        split: prod.splits if_splits)
qed

lemma resolver_managed_sim: "resolver_managed a b \<Longrightarrow> resolver_sim a a' \<Longrightarrow> resolver_managed a' b"
  by (auto simp: resolver_managed_def resolver_sim_def gm_eq_iff intro: volumesEqual_trans)

lemma desired_resolver:
  "ds_key (desiredNodeResolverDaemonSet s d ip cd img) = NodeResolverDaemonSetName"
  "resolverCore (ps_containers (ds_pod (desiredNodeResolverDaemonSet s d ip cd img)))
     = (1, [''/bin/bash'', ''-c'', s], img, resolverEnv ip cd)"
  "tolerationsEqual (ps_tolerations (ds_pod (desiredNodeResolverDaemonSet s d ip cd img)))
     (ps_tolerations (ds_pod (desiredNodeResolverDaemonSet s d ip cd img))) = Some True"
  by (simp_all add: desiredNodeResolverDaemonSet_def ds_key_def meta_key_def resolverCore_def Let_def
      tolerationsEqual_short)

lemma resolver_core_one:
  "resolverCore cts = (1, cmd, img, env) \<longleftrightarrow> (\<exists>ct. cts = [ct] \<and> ct_command ct = cmd \<and> ct_image ct = img \<and> ct_env ct = env)"
  by (auto simp: resolverCore_def split: list.splits)

lemma resolver_done:
  assumes api: "stores resolver_sim ds_key c"
    and run: "run_state (ensureNodeResolverDaemonSet c s img d ip cd) w = (Some (Some x, None), w')"
  shows "resolver_managed x (desiredNodeResolverDaemonSet s d ip cd img) \<and> look c NodeResolverDaemonSetName w' = Inr x"
proof -
  let ?n = NodeResolverDaemonSetName and ?D = "desiredNodeResolverDaemonSet s d ip cd img"
  note get = run_currentObject[OF stores_pure[OF api]]
  note steps = ensureNodeResolverDaemonSet_def ensureNodeResolver_def currentNodeResolverDaemonSet_def
    createNodeResolverDaemonSet_def updateNodeResolverDaemonSet_def get
  have fresh: "resolver_managed ?D ?D"
    using desired_resolver(3) by (simp add: resolver_managed_def)
  show ?thesis
  proof (cases "fst (run_state (kget c ?n) w)")
    case (Inl e)
    then obtain v where cr: "run_state (kcreate c ?D) w = (None, v)"
      and rd: "run_state (currentObject c ?n) v = ((Some x, None), w')"
      using run by (auto simp: steps split: if_splits prod.splits option.splits)
    show ?thesis
      using stores_read_back[OF api disjI1[OF cr] desired_resolver(1) rd] resolver_managed_sim[OF fresh]
      by (auto simp: look_def)
  next
    case (Inr cur)
    then obtain r where r: "nodeResolverDaemonSetConfigChanged cur ?D = Some r"
      using run by (cases "nodeResolverDaemonSetConfigChanged cur ?D") (auto simp: steps)
    show ?thesis
    proof (cases r)
      case None
      then show ?thesis using run r Inr resolver_changed_None[of cur ?D] by (auto simp: steps look_def)
    next
      case u: (Some upd)
      then obtain v where up: "run_state (kupdate c upd) w = (None, v)"
        and rd: "run_state (currentObject c ?n) v = ((Some x, None), w')"
        using run r Inr by (auto simp: steps split: prod.splits option.splits)
      have m: "resolver_managed upd ?D" "ds_meta upd = ds_meta cur"
        using resolver_changed_Some[OF _ desired_resolver(3)] r u by blast+
      then have "ds_key upd = ?n" using stores_key[OF api Inr] by (simp add: ds_key_def)
      from stores_read_back[OF api disjI2[OF up] this rd] show ?thesis
        using resolver_managed_sim[OF m(1)] by (auto simp: look_def)
    qed
  qed
qed

lemma resolver_quiet:
  assumes "stores resolver_sim ds_key c" "look c NodeResolverDaemonSetName w = Inr x"
    and "resolver_managed x (desiredNodeResolverDaemonSet s d ip cd img)"
  shows "run_state (ensureNodeResolverDaemonSet c s img d ip cd) w = (Some (Some x, None), w)"
proof -
  have "snd (run_state (kget c NodeResolverDaemonSetName) w) = w" using assms(1) by (simp add: stores_def)
  then show ?thesis
    using assms(2) run_currentObject[of c NodeResolverDaemonSetName w] assms(3)[folded resolver_changed_None]
    by (simp add: ensureNodeResolverDaemonSet_def ensureNodeResolver_def currentNodeResolverDaemonSet_def
        updateNodeResolverDaemonSet_def look_def)
qed

section \<open>Properties\<close>

text \<open>
  Updating the node resolver. When the comparison with the desired daemonset reports a
  change, the object to write runs exactly one container, with the desired script, image
  and environment; metadata, pod selector, pod labels and annotations stay as they are;
  and comparing that object again reports no change.
\<close>

theorem node_resolver_update:
  assumes "nodeResolverDaemonSetConfigChanged cur (desiredNodeResolverDaemonSet s d ip cd img) = Some (Some upd)"
  shows "(\<exists>ct. ps_containers (ds_pod upd) = [ct] \<and> ct_command ct = [''/bin/bash'', ''-c'', s]
       \<and> ct_image ct = img \<and> ct_env ct = resolverEnv ip cd)
    \<and> ds_meta upd = ds_meta cur \<and> dss_selector (ds_spec upd) = dss_selector (ds_spec cur)
    \<and> pt_labels (ds_template upd) = pt_labels (ds_template cur)
    \<and> pt_annotations (ds_template upd) = pt_annotations (ds_template cur)
    \<and> nodeResolverDaemonSetConfigChanged upd (desiredNodeResolverDaemonSet s d ip cd img) = Some None"
  using resolver_changed_Some[OF assms desired_resolver(3)]
  by (simp add: resolver_changed_None resolver_managed_def desired_resolver(2) resolver_core_one[symmetric])

theorem node_resolver_update_witness:
  "\<exists>upd. nodeResolverDaemonSetConfigChanged
       (desiredNodeResolverDaemonSet ''old script'' emptyDNS ''172.30.0.10'' '''' ''cli:v1'')
       (desiredNodeResolverDaemonSet ''new script'' emptyDNS ''172.30.0.10'' ''cluster.local'' ''cli:v2'') = Some (Some upd)
     \<and> map ct_image (ps_containers (ds_pod upd)) = [''cli:v2'']"
  (is "\<exists>upd. nodeResolverDaemonSetConfigChanged ?cur ?exp = _ \<and> _")
proof -
  have "case nodeResolverDaemonSetConfigChanged ?cur ?exp of Some (Some _) \<Rightarrow> True | _ \<Rightarrow> False"
    by code_simp
  then obtain upd where upd: "nodeResolverDaemonSetConfigChanged ?cur ?exp = Some (Some upd)"
    by (auto split: option.splits)
  show ?thesis using node_resolver_update[OF upd] upd by auto
qed

text \<open>
  The node resolver converges. On a server that keeps what it is given, an
  \<open>ensureNodeResolverDaemonSet\<close> that neither panics nor fails leaves a daemonset with one
  container that runs the script with the cluster IP and domain in its environment, and
  repeating it returns the same daemonset and writes nothing.
\<close>

theorem ensureNodeResolverDaemonSet_converges:
  assumes api: "stores resolver_sim ds_key c"
    and run: "run_state (ensureNodeResolverDaemonSet c s img d ip cd) w = (Some (Some x, None), w')"
  shows "(\<exists>ct. ps_containers (ds_pod x) = [ct] \<and> ct_command ct = [''/bin/bash'', ''-c'', s]
       \<and> ct_image ct = img \<and> ct_env ct = resolverEnv ip cd)
    \<and> run_state (ensureNodeResolverDaemonSet c s img d ip cd) w' = (Some (Some x, None), w')"
proof -
  have res: "resolver_managed x (desiredNodeResolverDaemonSet s d ip cd img)" "look c NodeResolverDaemonSetName w' = Inr x"
    using resolver_done[OF api run] by auto
  then show ?thesis
    using resolver_quiet[OF api res(2,1)] by (simp add: resolver_managed_def desired_resolver(2) resolver_core_one[symmetric])
qed

lemma resolver_sim_refl: "resolver_sim a a"
  by (simp add: resolver_sim_def)

theorem ensureNodeResolverDaemonSet_converges_witness:
  "\<exists>x w'. run_state (ensureNodeResolverDaemonSet (storeClient ds_key) ''script'' ''cli'' emptyDNS ''172.30.0.10'' ''cluster.local'') []
       = (Some (Some x, None), w')
     \<and> map ct_image (ps_containers (ds_pod x)) = [''cli'']
     \<and> run_state (ensureNodeResolverDaemonSet (storeClient ds_key) ''script'' ''cli'' emptyDNS ''172.30.0.10'' ''cluster.local'') w'
       = (Some (Some x, None), w')"
proof -
  let ?D = "desiredNodeResolverDaemonSet ''script'' emptyDNS ''172.30.0.10'' ''cluster.local'' ''cli''"
  have run: "run_state (ensureNodeResolverDaemonSet (storeClient ds_key) ''script'' ''cli'' emptyDNS ''172.30.0.10'' ''cluster.local'') []
      = (Some (Some ?D, None), [(NodeResolverDaemonSetName, ?D)])"
    using desired_resolver(1)[of "''script''" emptyDNS "''172.30.0.10''" "''cluster.local''" "''cli''"]
    by (simp add: ensureNodeResolverDaemonSet_def ensureNodeResolver_def currentNodeResolverDaemonSet_def
        createNodeResolverDaemonSet_def currentObject_def storeClient_def del: One_nat_def)
  show ?thesis
    using ensureNodeResolverDaemonSet_converges[OF storeClient_stores run, OF resolver_sim_refl] run by auto
qed

text \<open>
  C22: No change of the tolerations is lost. Whatever the sort by a function that is no order
  does with lists of any length, when the comparison of a daemonset (of CoreDNS or of the node
  resolver) finds nothing to update, the tolerations in the cluster are the expected ones up to their order.
\<close>

theorem toleration_change_detected:
  assumes "daemonsetConfigChanged cur exp = Some None \<or> nodeResolverDaemonSetConfigChanged cur exp = Some None"
  shows "mset (ps_tolerations (ds_pod cur)) = mset (ps_tolerations (ds_pod exp))"
  using assms
  by (auto simp: daemonsetConfigChanged_def nodeResolverDaemonSetConfigChanged_def Let_def
      split: option.splits prod.splits if_splits intro: tolerationsEqual_perm simp del: syncContainers.simps)

theorem toleration_change_detected_witness:
  "let ds = desiredNodeResolverDaemonSet ''script'' emptyDNS ''172.30.0.10'' ''cluster.local'' ''cli'';
       cur = ds\<lparr>ds_status := \<lparr>dst_desiredNumberScheduled = 3, dst_updatedNumberScheduled = 3, dst_numberAvailable = 2\<rparr>\<rparr> in
   nodeResolverDaemonSetConfigChanged cur ds = Some None
   \<and> mset (ps_tolerations (ds_pod cur)) = mset (ps_tolerations (ds_pod ds))"
proof -
  let ?ds = "desiredNodeResolverDaemonSet ''script'' emptyDNS ''172.30.0.10'' ''cluster.local'' ''cli''"
  let ?cur = "?ds\<lparr>ds_status := \<lparr>dst_desiredNumberScheduled = 3, dst_updatedNumberScheduled = 3, dst_numberAvailable = 2\<rparr>\<rparr>"
  have "nodeResolverDaemonSetConfigChanged ?cur ?ds = Some None" by code_simp
  then show ?thesis using toleration_change_detected[of ?cur ?ds] by (simp add: Let_def)
qed

end
