(* ===== verification/Cluster_IP.thy ===== *)
theory Cluster_IP
  imports Go_Net Kube_API
begin

text \<open>
  The DNS service's address: \<open>getClusterIPFromNetworkConfig\<close> of \<open>controller.go\<close> and the
  function it calls, \<open>cidr.Host\<close> of the vendored \<open>apparentlymart/go-cidr\<close>. The properties:
  the address is the tenth of the first service network and lies in it, and the function
  fails exactly for networks that are missing, malformed or too small.
\<close>

section \<open>cidr.Host\<close>

definition insertNumIntoIP :: "ipaddr \<Rightarrow> int \<Rightarrow> nat \<Rightarrow> ipaddr" where
  "insertNumIntoIP ip bigNum prefixLen =
     ip\<lparr>ip_val := or (ip_val ip) (push_bit (ip_bits ip - prefixLen) bigNum)\<rparr>"

definition HostBig :: "ipnet \<Rightarrow> int \<Rightarrow> goerror + ipaddr" where
  "HostBig base num =
     (let ip = net_ip base; parentLen = net_prefix base; hostLen = ip_bits ip - parentLen;
          maxHostNum = 2 ^ hostLen - 1;
          numUint64 = (if num < 0 then - num - 1 else num);
          num' = (if num < 0 then maxHostNum - numUint64 else num)
      in if numUint64 > maxHostNum
         then Inl (ErrMsg (''prefix of '' @ itoa (int parentLen)
                           @ '' does not accommodate a host numbered '' @ itoa num'))
         else Inr (insertNumIntoIP ip num' (if isTo4 ip then 32 else 128)))"

section \<open>The cluster IP\<close>

text \<open>The choice of the address for the service networks of the cluster's network configuration.\<close>

definition clusterIPFor :: "string list \<Rightarrow> goerror + string" where
  "clusterIPFor serviceNetwork =
     (case serviceNetwork of
        [] \<Rightarrow> Inl (ErrMsg ''no service networks found in cluster network config'')
      | s # _ \<Rightarrow>
          (case ParseCIDR s of
             None \<Rightarrow> Inl (ErrMsg (''invalid service cidr '' @ s @ '': invalid CIDR address: '' @ s))
           | Some serviceCIDR \<Rightarrow>
               (case HostBig serviceCIDR 10 of
                  Inl e \<Rightarrow> Inl (errorf (''invalid service cidr '' @ ipString (net_ip serviceCIDR)
                                        @ ''/'' @ itoa (int (net_prefix serviceCIDR))) e)
                | Inr dnsClusterIP \<Rightarrow> Inr (ipString dnsClusterIP))))"

definition getClusterIPFromNetworkConfig ::
  "('w, apierror + string list) state \<Rightarrow> ('w, goerror + string) state" where
  "getClusterIPFromNetworkConfig getNetwork = do {
     r \<leftarrow> getNetwork;
     State_Monad.return (case r of
         Inl e \<Rightarrow> Inl (errorf (''failed to get network 'cluster'' @ [CHR 0x27]) (apiErr e))
       | Inr serviceNetwork \<Rightarrow> clusterIPFor serviceNetwork)
   }"

section \<open>Facts\<close>

lemma or_multiple:
  fixes q k :: int
  assumes "0 \<le> k" "k < 2 ^ h"
  shows "or (q * 2 ^ h) k = q * 2 ^ h + k"
proof -
  have k: "take_bit h k = k" using assms by (simp add: take_bit_int_eq_self_iff)
  have "or (push_bit h q) (take_bit h k) = concat_bit h k q"
    by (simp add: concat_bit_def or.commute)
  also have "\<dots> = push_bit h q + take_bit h k"
    by (simp add: concat_bit_eq)
  finally show ?thesis using k by (simp add: push_bit_eq_mult)
qed

lemma ParseAddr_bits:
  assumes "ParseAddr s = Some ip"
  shows "ip_bits ip = 32 \<or> ip_bits ip = 128"
proof -
  have "ParseAddr_scan w t = Some ip \<Longrightarrow> ip_bits ip = 32 \<or> ip_bits ip = 128" for w t
    by (induction w t rule: ParseAddr_scan.induct)
      (auto simp: parseIPv4_def parseIPv6_def split: if_splits)
  then show ?thesis using assms by (auto simp: ParseAddr_def)
qed

lemma ParseCIDR_network:
  assumes "ParseCIDR s = Some net"
  shows "ip_bits (net_ip net) = 32 \<or> ip_bits (net_ip net) = 128"
    and "net_prefix net \<le> ip_bits (net_ip net)"
    and "\<exists>q. ip_val (net_ip net) = q * 2 ^ (ip_bits (net_ip net) - net_prefix net)"
proof -
  obtain ip t n where ip: "ParseAddr t = Some ip" and n: "n \<le> int (ip_bits ip)"
    and net: "net = \<lparr>net_ip = maskIP (nat n) ip, net_prefix = nat n\<rparr>"
    using assms by (auto simp: ParseCIDR_def Let_def not_less split: option.splits if_splits)
  have bits: "ip_bits (net_ip net) = ip_bits ip" by (simp add: net maskIP_def)
  show "ip_bits (net_ip net) = 32 \<or> ip_bits (net_ip net) = 128" using ParseAddr_bits[OF ip] bits by simp
  show "net_prefix net \<le> ip_bits (net_ip net)" using n by (simp add: net maskIP_def)
  show "\<exists>q. ip_val (net_ip net) = q * 2 ^ (ip_bits (net_ip net) - net_prefix net)"
    by (auto simp: net maskIP_def)
qed

lemma ten_fits: "(10::int) \<le> 2 ^ h - 1 \<longleftrightarrow> 4 \<le> h"
proof
  assume "(10::int) \<le> 2 ^ h - 1"
  then have big: "(10::int) < 2 ^ h" by simp
  show "4 \<le> h"
  proof (rule ccontr)
    assume "\<not> 4 \<le> h"
    then have "(2::int) ^ h \<le> 2 ^ 3" by (intro power_increasing) auto
    then show False using big by simp
  qed
next
  assume "4 \<le> h"
  then have "(2::int) ^ 4 \<le> 2 ^ h" by (intro power_increasing) auto
  then show "(10::int) \<le> 2 ^ h - 1" by simp
qed

section \<open>Properties\<close>

text \<open>
  C35: The tenth address. For a service network that parses and is not written as an
  IPv4-mapped IPv6 network, the cluster IP exists exactly when the prefix leaves at least
  four host bits; it is then the network's base address plus ten, of the same family, and
  it lies in the network.
\<close>

theorem cluster_ip_tenth:
  assumes net: "ParseCIDR s = Some net" and plain: "isTo4 (net_ip net) \<longleftrightarrow> ip_bits (net_ip net) = 32"
  shows "(if net_prefix net + 4 \<le> ip_bits (net_ip net)
          then \<exists>ip. clusterIPFor (s # rest) = Inr (ipString ip)
             \<and> ip_bits ip = ip_bits (net_ip net) \<and> ip_val ip = ip_val (net_ip net) + 10
             \<and> maskIP (net_prefix net) ip = net_ip net
          else \<exists>e. clusterIPFor (s # rest) = Inl e)"
proof -
  define h where "h = ip_bits (net_ip net) - net_prefix net"
  obtain q where q: "ip_val (net_ip net) = q * 2 ^ h"
    using ParseCIDR_network(3)[OF net] by (auto simp: h_def)
  have len: "net_prefix net + 4 \<le> ip_bits (net_ip net) \<longleftrightarrow> 4 \<le> h"
    using ParseCIDR_network(2)[OF net] by (auto simp: h_def)
  have host: "HostBig net 10 = (if \<not> 4 \<le> h
      then Inl (ErrMsg (''prefix of '' @ itoa (int (net_prefix net)) @ '' does not accommodate a host numbered '' @ itoa 10))
      else Inr (insertNumIntoIP (net_ip net) 10 (if isTo4 (net_ip net) then 32 else 128)))"
    using ten_fits[of h] by (auto simp: HostBig_def Let_def h_def)
  show ?thesis
  proof (cases "4 \<le> h")
    case True
    let ?ip = "(net_ip net)\<lparr>ip_val := q * 2 ^ h + 10\<rparr>"
    have lt: "(10::int) < 2 ^ h" using ten_fits[of h] True by simp
    have "insertNumIntoIP (net_ip net) 10 (if isTo4 (net_ip net) then 32 else 128) = ?ip"
      using or_multiple[of 10 h q] lt plain ParseCIDR_network(1)[OF net]
      by (auto simp: insertNumIntoIP_def q)
    then have "clusterIPFor (s # rest) = Inr (ipString ?ip)"
      using True by (simp add: clusterIPFor_def net host)
    moreover have "(q * 2 ^ h + 10) div 2 ^ h = q" using lt by simp
    then have "maskIP (net_prefix net) ?ip = net_ip net"
      by (simp add: maskIP_def h_def[symmetric] q)
    ultimately show ?thesis using True len q by (auto intro!: exI[of _ ?ip])
  qed (use len host net in \<open>auto simp: clusterIPFor_def\<close>)
qed

theorem cluster_ip_tenth_witness:
  "\<exists>ip. clusterIPFor [''172.30.0.0/16''] = Inr (ipString ip) \<and> ip_val ip = 0xAC1E000A
     \<and> ipString ip = ''172.30.0.10''"
proof -
  let ?net = "\<lparr>net_ip = \<lparr>ip_bits = 32, ip_val = 0xAC1E0000\<rparr>, net_prefix = 16\<rparr>"
  have net: "ParseCIDR ''172.30.0.0/16'' = Some ?net" by code_simp
  have "ipString \<lparr>ip_bits = 32, ip_val = 0xAC1E000A\<rparr> = ''172.30.0.10''" by code_simp
  moreover obtain ip where "clusterIPFor [''172.30.0.0/16''] = Inr (ipString ip)"
    "ip_bits ip = 32" "ip_val ip = 0xAC1E000A"
    using cluster_ip_tenth[OF net, of "[]"] by (auto simp: isTo4_def)
  moreover from this have "ip = \<lparr>ip_bits = 32, ip_val = 0xAC1E000A\<rparr>" by (cases ip) simp
  ultimately show ?thesis by metis
qed

end
