(* ===== verification/Controller.thy ===== *)
theory Controller
  imports DNS_Status Corefile CA_Bundle DNS_Service Network_Policy Cluster_Role Service_Monitor
    Node_Resolver Cluster_IP
begin

text \<open>
  \<open>pkg/operator/controller/controller.go\<close>: the reconciler of DNS resources. \<open>Reconcile\<close> reads
  the DNS, and depending on its management state and deletion timestamp publishes the
  status only, tears the operands down and releases the finalizer, or ensures every
  operand through the other theories' operations.

  The API is a record of the typed clients over one world. \<open>da_updateDNS\<close> answers with the
  object the server stored, which the Go client decodes into its argument. A panic of
  an operation (\<^const>\<open>None\<close>) is a panic of \<open>Reconcile\<close>. The log level is a process-wide
  variable, set through the action \<open>da_setLevel\<close>.
\<close>

section \<open>The reconciler\<close>

record 'w dnsapi =
  da_dns :: "(dns, 'w) kclient"
  da_updateDNS :: "dns \<Rightarrow> ('w, apierror + dns) state"
  da_statusUpdate :: "dns \<Rightarrow> ('w, apierror option) state"
  da_daemonset :: "(daemonset, 'w) kclient"
  da_configmap :: "(configmap, 'w) kclient"
  da_service :: "(service, 'w) kclient"
  da_netpol :: "(networkpolicy, 'w) kclient"
  da_clusterRole :: "(role, 'w) kclient"
  da_clusterRoleBinding :: "(rolebinding, 'w) kclient"
  da_role :: "(role, 'w) kclient"
  da_roleBinding :: "(rolebinding, 'w) kclient"
  da_serviceAccount :: "(serviceaccount, 'w) kclient"
  da_namespace :: "(namespace, 'w) kclient"
  da_serviceMonitor :: "(unstructured, 'w) kclient"
  da_placement :: "'w placement_api"
  da_listNodes :: "('w, apierror + node list) state"
  da_listCABundles :: "('w, apierror + configmap list) state"
  da_apiServer :: "('w, apierror + tlssecurityprofile option) state"
  da_network :: "('w, apierror + string list) state"
  da_setLevel :: "string \<Rightarrow> ('w, unit) state"

text \<open>
  The fields of \<open>Config\<close> and \<open>reconciler\<close>, the node resolver's script, and the two
  behaviours of the platform that the model leaves open (\<open>toU32\<close>, \<open>ppTol\<close>).
\<close>

record config =
  cfg_coreDNSImage :: string
  cfg_cliImage :: string
  cfg_proxyImage :: string
  cfg_nameResolver :: bool
  cfg_nameResolverNamespaces :: "string list"
  cfg_script :: string
  cfg_toU32 :: "int \<Rightarrow> int"
  cfg_ppTol :: "toleration list \<Rightarrow> string"

definition DNSControllerFinalizer :: string where
  "DNSControllerFinalizer = ''dns.operator.openshift.io/dns-controller''"

definition managedDNSNamespaceLabels :: "string list" where
  "managedDNSNamespaceLabels =
     [''openshift.io/cluster-monitoring'', ''openshift.io/run-level'', ''pod-security.kubernetes.io/audit'',
      ''pod-security.kubernetes.io/enforce'', ''pod-security.kubernetes.io/warn'']"

section \<open>Events\<close>

definition owningDNSRequests :: "objmeta \<Rightarrow> nsname list" where
  "owningDNSRequests m =
     (case map_of (m_labels m) OwningDNSLabel of
        Some dnsName \<Rightarrow> [\<lparr>nn_ns = '''', nn_name = dnsName\<rparr>]
      | None \<Rightarrow> [])"

definition nodePredicate :: "node \<Rightarrow> bool" where
  "nodePredicate n \<longleftrightarrow> \<not> ignoreNodeForTopologyAwareHints n"

definition nodeUpdateFunc :: "node \<Rightarrow> node \<Rightarrow> bool" where
  "nodeUpdateFunc old nu =
     (if ignoreNodeForTopologyAwareHints old \<noteq> ignoreNodeForTopologyAwareHints nu then True
      else if \<not> ignoreNodeForTopologyAwareHints nu
              \<and> nodeIsValidForTopologyAwareHints old \<noteq> nodeIsValidForTopologyAwareHints nu then True
      else False)"

section \<open>Objects that only need to exist\<close>

text \<open>Steps that return an error, run until one fails.\<close>

definition andThen :: "('w, goerror option) state \<Rightarrow> ('w, goerror option) state \<Rightarrow> ('w, goerror option) state" where
  "andThen m k = do {
     r \<leftarrow> m;
     (case r of Some e \<Rightarrow> State_Monad.return (Some e) | None \<Rightarrow> k)
   }"

text \<open>The shape of the objects that are created when they are missing and never updated.\<close>

definition getOrCreate :: "('o, 'w) kclient \<Rightarrow> nsname \<Rightarrow> string \<Rightarrow> 'o \<Rightarrow> ('w, goerror option) state" where
  "getOrCreate c n what desired = do {
     r \<leftarrow> kget c n;
     (case r of
        Inr _ \<Rightarrow> State_Monad.return None
      | Inl e \<Rightarrow>
          if \<not> IsNotFound e then State_Monad.return (Some (errorf (''failed to get '' @ what) (apiErr e)))
          else do {
            cr \<leftarrow> kcreate c desired;
            State_Monad.return (map_option (\<lambda>e. errorf (''failed to create '' @ what) (apiErr e)) cr)
          })
   }"

definition openshiftService :: service where
  "openshiftService = \<lparr>svc_meta = namedMeta ''default'' ''openshift'',
     svc_spec = emptyServiceSpec\<lparr>ss_type := ''ExternalName'',
       ss_externalName := ''kubernetes.default.svc.cluster.local''\<rparr>\<rparr>"

definition ensureExternalNameForOpenshiftService :: "'w dnsapi \<Rightarrow> ('w, goerror option) state" where
  "ensureExternalNameForOpenshiftService api =
     getOrCreate (da_service api) (meta_key (svc_meta openshiftService))
       (''external name service '' @ nsname_text (svc_meta openshiftService)) openshiftService"

definition ensureOpenshiftExternalNameServiceDeleted :: "'w dnsapi \<Rightarrow> ('w, goerror option) state" where
  "ensureOpenshiftExternalNameServiceDeleted api = do {
     r \<leftarrow> kdelete (da_service api) (meta_key (svc_meta openshiftService));
     State_Monad.return (case r of
         Some e \<Rightarrow> if \<not> IsNotFound e
                   then Some (errorf (''failed to delete external name service '' @ nsname_text (svc_meta openshiftService)) (apiErr e))
                   else None
       | None \<Rightarrow> None)
   }"

section \<open>Finalizer and deletion\<close>

text \<open>On success the caller goes on with the object as the server returned it.\<close>

definition enforceDNSFinalizer :: "'w dnsapi \<Rightarrow> dns \<Rightarrow> ('w, goerror + dns) state" where
  "enforceDNSFinalizer api d =
     (if \<not> ContainsString (m_finalizers (dns_meta d)) DNSControllerFinalizer
      then do {
        r \<leftarrow> da_updateDNS api
               (d\<lparr>dns_meta := (dns_meta d)\<lparr>m_finalizers := m_finalizers (dns_meta d) @ [DNSControllerFinalizer]\<rparr>\<rparr>);
        State_Monad.return (case r of Inl e \<Rightarrow> Inl (apiErr e) | Inr d' \<Rightarrow> Inr d')
      }
      else State_Monad.return (Inr d))"

definition withoutFinalizer :: "dns \<Rightarrow> dns" where
  "withoutFinalizer d = d\<lparr>dns_meta := (dns_meta d)\<lparr>
     m_finalizers := RemoveString (m_finalizers (dns_meta d)) DNSControllerFinalizer\<rparr>\<rparr>"

definition ensureDNSDeleted :: "'w dnsapi \<Rightarrow> dns \<Rightarrow> ('w, goerror option) state" where
  "ensureDNSDeleted api d = do {
     r \<leftarrow> ensureDNSDaemonSetDeleted (da_daemonset api) d;
     State_Monad.return (map_option (errorf (''failed to delete daemonset for dns '' @ dns_name d)) r)
   }"

section \<open>Namespace and access control\<close>

text \<open>The loop over the managed labels: a managed label is set, never removed.\<close>

fun syncLabels :: "string list \<Rightarrow> gomap \<Rightarrow> gomap \<Rightarrow> bool \<times> gomap \<Rightarrow> bool \<times> gomap" where
  "syncLabels [] existing desired st = st"
| "syncLabels (k # ks) existing desired (changed, updated) =
     (case map_of desired k of
        Some desiredVal \<Rightarrow>
          if map_of existing k \<noteq> Some desiredVal
          then syncLabels ks existing desired (True, AList.update k desiredVal updated)
          else syncLabels ks existing desired (changed, updated)
      | None \<Rightarrow> syncLabels ks existing desired (changed, updated))"

definition namespaceLabelsChanged :: "namespace \<Rightarrow> namespace \<Rightarrow> namespace option" where
  "namespaceLabelsChanged existingNamespace desiredNamespace =
     (let (changed, labels) = syncLabels managedDNSNamespaceLabels (m_labels (ns_meta existingNamespace))
            (m_labels (ns_meta desiredNamespace)) (False, m_labels (ns_meta existingNamespace))
      in if changed
         then Some (existingNamespace\<lparr>ns_meta := (ns_meta existingNamespace)\<lparr>m_labels := labels\<rparr>\<rparr>)
         else None)"

definition ensureNamespaceObject :: "(namespace, 'w) kclient \<Rightarrow> ('w, goerror option) state" where
  "ensureNamespaceObject c = do {
     r \<leftarrow> kget c DefaultDNSOperandNamespaceName;
     (case r of
        Inl e \<Rightarrow>
          if \<not> IsNotFound e
          then State_Monad.return (Some (errorf (''failed to get dns namespace '' @ [CHR 0x22] @ m_name (ns_meta DNSNamespace) @ [CHR 0x22]) (apiErr e)))
          else do {
            cr \<leftarrow> kcreate c DNSNamespace;
            State_Monad.return (map_option (\<lambda>e. errorf (''failed to create dns namespace '' @ m_name (ns_meta DNSNamespace)) (apiErr e)) cr)
          }
      | Inr existing \<Rightarrow>
          (case namespaceLabelsChanged existing DNSNamespace of
             None \<Rightarrow> State_Monad.return None
           | Some updated \<Rightarrow> do {
               u \<leftarrow> kupdate c updated;
               State_Monad.return (map_option (\<lambda>e. errorf (''failed to update dns namespace '' @ m_name (ns_meta updated)) (apiErr e)) u)
             }))
   }"

definition ensureDNSNamespace :: "'w dnsapi \<Rightarrow> bool \<Rightarrow> ('w, goerror option) state" where
  "ensureDNSNamespace api nameResolver =
     andThen (ensureNamespaceObject (da_namespace api)) (andThen
       (do { (_, err) \<leftarrow> ensureDNSClusterRole (da_clusterRole api) nameResolver;
             State_Monad.return (map_option
               (errorf (''failed to ensure dns cluster role for '' @ m_name (role_meta DNSClusterRole))) err) })
     (andThen (getOrCreate (da_clusterRoleBinding api) (meta_key (rb_meta DNSClusterRoleBinding))
        (''dns cluster role binding '' @ m_name (rb_meta DNSClusterRoleBinding)) DNSClusterRoleBinding)
     (andThen (getOrCreate (da_serviceAccount api) (meta_key (sa_meta DNSServiceAccount))
        (''dns service account '' @ nsname_text (sa_meta DNSServiceAccount)) DNSServiceAccount)
     (getOrCreate (da_serviceAccount api) (meta_key (sa_meta NodeResolverServiceAccount))
        (''serviceaccount '' @ nsname_text (sa_meta NodeResolverServiceAccount)) NodeResolverServiceAccount))))"

section \<open>Metrics\<close>

definition ensureMetricsIntegration ::
  "'w dnsapi \<Rightarrow> dns \<Rightarrow> service \<Rightarrow> ownerref \<Rightarrow> ('w, goerror option) state" where
  "ensureMetricsIntegration api d svc daemonsetRef =
     andThen (getOrCreate (da_clusterRole api) (meta_key (role_meta MetricsClusterRole))
       (''dns metrics cluster role '' @ m_name (role_meta MetricsClusterRole)) MetricsClusterRole)
     (andThen (getOrCreate (da_clusterRoleBinding api) (meta_key (rb_meta MetricsClusterRoleBinding))
       (''dns metrics cluster role binding '' @ m_name (rb_meta MetricsClusterRoleBinding)) MetricsClusterRoleBinding)
     (andThen (getOrCreate (da_role api) (meta_key (role_meta MetricsRole))
       (''dns metrics role '' @ nsname_text (role_meta MetricsRole)) MetricsRole)
     (andThen (getOrCreate (da_roleBinding api) (meta_key (rb_meta MetricsRoleBinding))
       (''dns metrics role binding '' @ nsname_text (rb_meta MetricsRoleBinding)) MetricsRoleBinding)
     (do { (_, err) \<leftarrow> ensureServiceMonitor (da_serviceMonitor api) d svc daemonsetRef;
           State_Monad.return (map_option (errorf (''failed to ensure servicemonitor for '' @ dns_name d)) err) }))))"

section \<open>Operands\<close>

definition errList :: "string \<Rightarrow> goerror option \<Rightarrow> goerror list" where
  "errList msg err = (case err of None \<Rightarrow> [] | Some e \<Rightarrow> [errorf msg e])"

definition daemonsetRefOf :: "daemonset \<Rightarrow> ownerref" where
  "daemonsetRefOf ds = \<lparr>or_apiVersion = ''apps/v1'', or_kind = ''DaemonSet'', or_name = m_name (ds_meta ds),
     or_uid = m_uid (ds_meta ds), or_controller = Some True\<rparr>"

text \<open>
  The block that runs when the daemonset exists: the errors it adds and the cluster IP to go
  on with (emptied when the service cannot be ensured), or the error that makes \<open>ensureDNS\<close>
  return at once. First the part after the configmap, with the errors so far.
\<close>

definition ensureExposure ::
  "'w dnsapi \<Rightarrow> dns \<Rightarrow> ownerref \<Rightarrow> string \<Rightarrow> goerror list \<Rightarrow> ('w, goerror + goerror list \<times> string) state" where
  "ensureExposure api d daemonsetRef clusterIP errs = do {
     (_, npErr) \<leftarrow> ensureDNSNetworkPolicy (da_netpol api) d;
     let errs1 = errs @ errList (''failed to ensure networkpolicy for dns '' @ dns_name d) npErr;
     (_, denyErr) \<leftarrow> ensureDenyAllNetworkPolicy (da_netpol api);
     (case denyErr of
        Some e \<Rightarrow> State_Monad.return (Inl e)
      | None \<Rightarrow> do {
          (haveSvc, svcErr) \<leftarrow> ensureDNSService (da_service api) (da_listNodes api) d clusterIP daemonsetRef;
          (case svcErr of
             Some e \<Rightarrow> State_Monad.return
               (Inr (errs1 @ [errorf (''failed to create service for dns '' @ dns_name d) e], ''''))
           | None \<Rightarrow>
               (case haveSvc of
                  None \<Rightarrow> State_Monad.return
                    (Inr (errs1 @ [ErrMsg (''failed to get service for dns '' @ dns_name d)], clusterIP))
                | Some svc \<Rightarrow> do {
                    mErr \<leftarrow> ensureMetricsIntegration api d svc daemonsetRef;
                    State_Monad.return (Inr (errs1 @ errList
                      (''failed to integrate metrics with openshift-monitoring for dns '' @ dns_name d) mErr, clusterIP))
                  }))
        })
   }"

definition ensureOperands ::
  "'w dnsapi \<Rightarrow> config \<Rightarrow> dns \<Rightarrow> daemonset \<Rightarrow> string \<Rightarrow> string \<Rightarrow> gomap \<Rightarrow>
   ('w, goerror + goerror list \<times> string) state" where
  "ensureOperands api cfg d ds clusterIP clusterDomain cmMap = do {
     (_, cmErr) \<leftarrow> ensureDNSConfigMap (da_configmap api) (cfg_toU32 cfg) (cfg_nameResolver cfg)
                     (cfg_nameResolverNamespaces cfg) d clusterDomain cmMap;
     ensureExposure api d (daemonsetRefOf ds) clusterIP
       (errList (''failed to create configmap for dns '' @ dns_name d) cmErr)
   }"

text \<open>The last part of \<open>ensureDNS\<close>: the node resolver, the status and the aggregate.\<close>

definition statusErr :: "string \<Rightarrow> goerror \<Rightarrow> goerror" where
  "statusErr name e = (if is_retryable e then e
     else errorf (''failed to sync status of dns '' @ [CHR 0x22] @ name @ [CHR 0x22]) e)"

definition finishDNS ::
  "'w dnsapi \<Rightarrow> config \<Rightarrow> clock \<Rightarrow> dns \<Rightarrow> daemonset option \<Rightarrow> string \<Rightarrow> string \<Rightarrow> goerror list \<Rightarrow> rresult \<Rightarrow>
   ('w, (goerror option \<times> rresult) option) state" where
  "finishDNS api cfg clk d dnsDS clusterIP clusterDomain errs result = do {
     nr \<leftarrow> ensureNodeResolverDaemonSet (da_daemonset api) (cfg_script cfg) (cfg_cliImage cfg) d clusterIP clusterDomain;
     (case nr of
        None \<Rightarrow> State_Monad.return None
      | Some (nrDS, nrErr) \<Rightarrow> do {
          let errs1 = errs @ (case nrErr of None \<Rightarrow> [] | Some e \<Rightarrow> [e]);
          (stErr, result') \<leftarrow> syncDNSStatus (da_statusUpdate api) (cfg_ppTol cfg) clk d clusterIP clusterDomain
                               dnsDS nrDS (2 * lameDuckDuration) result;
          let errs2 = errs1 @ (case stErr of None \<Rightarrow> [] | Some e \<Rightarrow> [statusErr (dns_name d) e]);
          State_Monad.return (Some (NewMaybeRetryableAggregate (map Some errs2), result'))
        })
   }"

text \<open>The middle part: the daemonset and what depends on it.\<close>

definition ensureWorkload ::
  "'w dnsapi \<Rightarrow> config \<Rightarrow> clock \<Rightarrow> dns \<Rightarrow> string \<Rightarrow> string \<Rightarrow> gomap \<Rightarrow> tlssecurityprofile option \<Rightarrow>
   goerror list \<Rightarrow> rresult \<Rightarrow> ('w, (goerror option \<times> rresult) option) state" where
  "ensureWorkload api cfg clk d clusterIP clusterDomain cmMap profile errs result = do {
     r \<leftarrow> ensureDNSDaemonSet (da_daemonset api) (da_placement api) (cfg_coreDNSImage cfg) (cfg_proxyImage cfg)
            d cmMap profile;
     (case r of
        None \<Rightarrow> State_Monad.return None
      | Some (dnsDS, Some e) \<Rightarrow>
          finishDNS api cfg clk d dnsDS clusterIP clusterDomain
            (errs @ [errorf (''failed to ensure daemonset for dns '' @ dns_name d) e]) result
      | Some (None, None) \<Rightarrow>
          finishDNS api cfg clk d None clusterIP clusterDomain
            (errs @ [ErrMsg (''failed to get daemonset for dns '' @ dns_name d)]) result
      | Some (Some ds, None) \<Rightarrow> do {
          op \<leftarrow> ensureOperands api cfg d ds clusterIP clusterDomain cmMap;
          (case op of
             Inl e \<Rightarrow> State_Monad.return (Some (Some e, result))
           | Inr (moreErrs, clusterIP') \<Rightarrow>
               finishDNS api cfg clk d (Some ds) clusterIP' clusterDomain (errs @ moreErrs) result)
        })
   }"

definition ensureDNS ::
  "'w dnsapi \<Rightarrow> config \<Rightarrow> clock \<Rightarrow> dns \<Rightarrow> rresult \<Rightarrow> ('w, (goerror option \<times> rresult) option) state" where
  "ensureDNS api cfg clk d result = do {
     ip \<leftarrow> getClusterIPFromNetworkConfig (da_network api);
     (case ip of
        Inl e \<Rightarrow> State_Monad.return (Some (Some (errorf ''failed to get cluster IP from network config'' e), result))
      | Inr clusterIP \<Rightarrow> do {
          caErr \<leftarrow> ensureCABundleConfigMaps (da_configmap api) (da_listCABundles api) d;
          let errs = errList (''failed to create ca bundle configmaps for dns '' @ dns_name d) caErr;
          cmMap \<leftarrow> caBundleRevisionMap (da_configmap api) d;
          apiServer \<leftarrow> da_apiServer api;
          (case apiServer of
             Inl e \<Rightarrow>
               if \<not> IsNotFound e
               then State_Monad.return
                 (Some (NewAggregate (map Some (errs @ [errorf ''failed to get apiserver config'' (apiErr e)])), result))
               else ensureWorkload api cfg clk d clusterIP ''cluster.local'' cmMap None errs result
           | Inr profile \<Rightarrow> ensureWorkload api cfg clk d clusterIP ''cluster.local'' cmMap profile errs result)
        })
   }"

section \<open>Reconcile\<close>

definition levelFor :: "string \<Rightarrow> string" where
  "levelFor operatorLogLevel =
     (if operatorLogLevel = ''Normal'' then ''info''
      else if operatorLogLevel = ''Debug'' then ''debug''
      else if operatorLogLevel = ''Trace'' then ''trace''
      else ''info'')"

text \<open>The branch of an unmanaged DNS.\<close>

definition reconcileUnmanaged ::
  "'w dnsapi \<Rightarrow> config \<Rightarrow> clock \<Rightarrow> dns \<Rightarrow> ('w, rresult \<times> goerror option) state" where
  "reconcileUnmanaged api cfg clk d = do {
     ip \<leftarrow> getClusterIPFromNetworkConfig (da_network api);
     (dnsDS, err1) \<leftarrow> currentDNSDaemonSet (da_daemonset api) d;
     (nrDS, err2) \<leftarrow> currentNodeResolverDaemonSet (da_daemonset api);
     (err3, result) \<leftarrow> syncDNSStatus (da_statusUpdate api) (cfg_ppTol cfg) clk d
        (case ip of Inl _ \<Rightarrow> '''' | Inr clusterIP \<Rightarrow> clusterIP) ''cluster.local'' dnsDS nrDS
        (2 * lameDuckDuration) emptyResult;
     let errs = (case ip of Inl e \<Rightarrow> [errorf ''failed to get cluster IP from network config'' e] | Inr _ \<Rightarrow> [])
                @ (case err1 of None \<Rightarrow> [] | Some e \<Rightarrow> [e])
                @ (case err2 of None \<Rightarrow> [] | Some e \<Rightarrow> [e])
                @ errList (''failed to sync status of dns '' @ [CHR 0x22] @ dns_name d @ [CHR 0x22]) err3;
     State_Monad.return (result, NewAggregate (map Some errs))
   }"

text \<open>The branch of a managed DNS that is being deleted, with the errors so far.\<close>

definition reconcileDeleted ::
  "'w dnsapi \<Rightarrow> dns \<Rightarrow> goerror list \<Rightarrow> ('w, rresult \<times> goerror option) state" where
  "reconcileDeleted api d errs = do {
     err1 \<leftarrow> ensureOpenshiftExternalNameServiceDeleted api;
     err2 \<leftarrow> ensureDNSDeleted api d;
     let errs1 = errs @ errList ''failed to delete external name for openshift service'' err1
                 @ errList (''failed to ensure deletion for dns '' @ dns_name d) err2;
     (if length errs1 = 0 \<and> ContainsString (m_finalizers (dns_meta d)) DNSControllerFinalizer
      then do {
        r \<leftarrow> da_updateDNS api (withoutFinalizer d);
        State_Monad.return (emptyResult, NewAggregate (map Some (case r of
            Inl e \<Rightarrow> [errorf (''failed to remove finalizer from dns '' @ dns_name d) (apiErr e)] | Inr _ \<Rightarrow> [])))
      }
      else State_Monad.return (emptyResult, NewAggregate (map Some errs1)))
   }"

text \<open>The branch of a managed DNS that is not being deleted.\<close>

definition reconcileManaged ::
  "'w dnsapi \<Rightarrow> config \<Rightarrow> clock \<Rightarrow> dns \<Rightarrow> goerror list \<Rightarrow> ('w, (rresult \<times> goerror option) option) state" where
  "reconcileManaged api cfg clk d errs = do {
     fin \<leftarrow> enforceDNSFinalizer api d;
     (case fin of
        Inl e \<Rightarrow> State_Monad.return (Some (emptyResult, NewAggregate (map Some
          (errs @ [errorf (''failed to enforce finalizer for dns '' @ dns_name d) e]))))
      | Inr d' \<Rightarrow> do {
          r \<leftarrow> ensureDNS api cfg clk d' emptyResult;
          (case r of
             None \<Rightarrow> State_Monad.return None
           | Some (Some e, result) \<Rightarrow>
               if is_retryable e
               then State_Monad.return (Some (\<lparr>rr_requeue = False, rr_requeueAfter = After e\<rparr>, None))
               else State_Monad.return (Some (result, NewAggregate (map Some
                 (errs @ [errorf (''failed to ensure dns '' @ dns_name d') e]))))
           | Some (None, result) \<Rightarrow> do {
               x \<leftarrow> ensureExternalNameForOpenshiftService api;
               State_Monad.return (Some (result, NewAggregate (map Some
                 (errs @ errList ''failed to ensure external name for openshift service'' x))))
             })
        })
   }"

definition Reconcile ::
  "'w dnsapi \<Rightarrow> config \<Rightarrow> clock \<Rightarrow> nsname \<Rightarrow> ('w, (rresult \<times> goerror option) option) state" where
  "Reconcile api cfg clk request =
     (if nn_name request \<noteq> DefaultDNSController then State_Monad.return (Some (emptyResult, None))
      else do {
        r \<leftarrow> kget (da_dns api) request;
        (case r of
           Inl e \<Rightarrow> State_Monad.return (Some (emptyResult, NewAggregate (map Some
             (if IsNotFound e then []
              else [errorf (''failed to get dns '' @ nn_ns request @ ''/'' @ nn_name request) (apiErr e)]))))
         | Inr d \<Rightarrow> do {
             _ \<leftarrow> da_setLevel api (levelFor (spec_operatorLogLevel (dns_spec d)));
             (if spec_managementState (dns_spec d) = Unmanaged
              then do { x \<leftarrow> reconcileUnmanaged api cfg clk d; State_Monad.return (Some x) }
              else do {
                nsErr \<leftarrow> ensureDNSNamespace api (cfg_nameResolver cfg);
                let errs = errList ''failed to ensure dns namespace'' nsErr;
                (if m_deletionTimestamp (dns_meta d) \<noteq> None
                 then do { x \<leftarrow> reconcileDeleted api d errs; State_Monad.return (Some x) }
                 else reconcileManaged api cfg clk d errs)
              })
           })
      })"

section \<open>Frames\<close>

text \<open>A client none of whose calls breaks \<open>I\<close>.\<close>

definition leaves :: "('w \<Rightarrow> bool) \<Rightarrow> ('o, 'w) kclient \<Rightarrow> bool" where
  "leaves I c \<longleftrightarrow> (\<forall>n. preserves I (kget c n)) \<and> (\<forall>x. preserves I (kcreate c x))
     \<and> (\<forall>x. preserves I (kupdate c x)) \<and> (\<forall>n. preserves I (kdelete c n))"

lemma leavesD:
  "leaves I c \<Longrightarrow> preserves I (kget c n)" "leaves I c \<Longrightarrow> preserves I (kcreate c x)"
  "leaves I c \<Longrightarrow> preserves I (kupdate c x)" "leaves I c \<Longrightarrow> preserves I (kdelete c n)"
  by (simp_all add: leaves_def)

lemma preserves_case_bool [pres_intros]:
  "preserves I m \<Longrightarrow> preserves I n \<Longrightarrow> preserves I (case b of True \<Rightarrow> m | False \<Rightarrow> n)"
  by (cases b) auto

lemma preserves_andThen [pres_intros]:
  "preserves I m \<Longrightarrow> preserves I k \<Longrightarrow> preserves I (andThen m k)"
  unfolding andThen_def by (intro pres_intros)

lemma preserves_getOrCreate [pres_intros]:
  "leaves I c \<Longrightarrow> preserves I (getOrCreate c n what des)"
  unfolding getOrCreate_def by (intro pres_intros leavesD)

lemma preserves_getClusterIP [pres_intros]:
  "preserves I m \<Longrightarrow> preserves I (getClusterIPFromNetworkConfig m)"
  unfolding getClusterIPFromNetworkConfig_def by (intro pres_intros)

lemma preserves_syncDNSStatus [pres_intros]:
  "(\<And>x. dns_meta x = dns_meta d \<Longrightarrow> dns_spec x = dns_spec d \<Longrightarrow> preserves I (su x)) \<Longrightarrow>
   preserves I (syncDNSStatus su pp clk d ip cd ds nr tol res)"
  unfolding syncDNSStatus_def by (intro pres_intros) auto

lemma preserves_ensureDNSNamespace [pres_intros]:
  assumes "leaves I (da_namespace api)" "leaves I (da_clusterRole api)" "leaves I (da_clusterRoleBinding api)"
    "leaves I (da_serviceAccount api)"
  shows "preserves I (ensureDNSNamespace api b)"
  unfolding ensureDNSNamespace_def ensureNamespaceObject_def ensureDNSClusterRole_def updateDNSClusterRole_def
  by (intro pres_intros leavesD assms)

lemma preserves_ensureMetricsIntegration [pres_intros]:
  assumes "leaves I (da_clusterRole api)" "leaves I (da_clusterRoleBinding api)" "leaves I (da_role api)"
    "leaves I (da_roleBinding api)" "leaves I (da_serviceMonitor api)"
  shows "preserves I (ensureMetricsIntegration api d svc ref)"
  unfolding ensureMetricsIntegration_def ensureServiceMonitor_def updateDNSServiceMonitor_def
  by (intro pres_intros leavesD assms)

lemma preserves_ensureDNSService [pres_intros]:
  assumes "leaves I c" "preserves I nodes"
  shows "preserves I (ensureDNSService c nodes d ip ref)"
  unfolding ensureDNSService_def currentDNSService_def updateDNSService_def shouldEnableTopologyAwareHints_def
  by (intro pres_intros leavesD assms)

lemma preserves_netpols [pres_intros]:
  assumes "leaves I c"
  shows "preserves I (ensureDNSNetworkPolicy c d)" "preserves I (ensureDenyAllNetworkPolicy c)"
  unfolding ensureDNSNetworkPolicy_def ensureDenyAllNetworkPolicy_def updateDNSNetworkPolicy_def
  by (intro pres_intros leavesD assms)+

lemma preserves_ensureNodeResolver [pres_intros]:
  assumes "leaves I c"
  shows "preserves I (ensureNodeResolverDaemonSet c s img d ip cd)"
  unfolding ensureNodeResolverDaemonSet_def ensureNodeResolver_def currentNodeResolverDaemonSet_def
    createNodeResolverDaemonSet_def deleteNodeResolverDaemonSet_def updateNodeResolverDaemonSet_def
  by (intro pres_intros leavesD assms)

lemma preserves_deletion [pres_intros]:
  assumes "leaves I (da_service api)" "leaves I (da_daemonset api)"
  shows "preserves I (ensureOpenshiftExternalNameServiceDeleted api)" "preserves I (ensureDNSDeleted api d)"
  unfolding ensureOpenshiftExternalNameServiceDeleted_def ensureDNSDeleted_def ensureDNSDaemonSetDeleted_def
  by (intro pres_intros leavesD assms)+

text \<open>Everything that happens after the configmap has been ensured.\<close>

definition spares :: "('w \<Rightarrow> bool) \<Rightarrow> 'w dnsapi \<Rightarrow> bool" where
  "spares I api \<longleftrightarrow> leaves I (da_daemonset api) \<and> leaves I (da_service api) \<and> leaves I (da_netpol api)
     \<and> leaves I (da_clusterRole api) \<and> leaves I (da_clusterRoleBinding api) \<and> leaves I (da_role api)
     \<and> leaves I (da_roleBinding api) \<and> leaves I (da_serviceMonitor api) \<and> preserves I (da_listNodes api)
     \<and> (\<forall>x. preserves I (da_statusUpdate api x))"

lemma preserves_after_configmap:
  assumes "spares I api"
  shows "preserves I (ensureExposure api d ref ip errs)"
    and "preserves I (finishDNS api cfg clk d ds ip cd errs res)"
proof -
  have s: "leaves I (da_daemonset api)" "leaves I (da_service api)" "leaves I (da_netpol api)"
    "leaves I (da_clusterRole api)" "leaves I (da_clusterRoleBinding api)" "leaves I (da_role api)"
    "leaves I (da_roleBinding api)" "leaves I (da_serviceMonitor api)" "preserves I (da_listNodes api)"
    "preserves I (da_statusUpdate api x)" for x
    using assms by (simp_all add: spares_def)
  show "preserves I (ensureExposure api d ref ip errs)"
    unfolding ensureExposure_def by (intro pres_intros s)
  show "preserves I (finishDNS api cfg clk d ds ip cd errs res)"
    unfolding finishDNS_def by (intro pres_intros s)
qed

text \<open>The whole of \<open>ensureDNS\<close>.\<close>

lemma preserves_syncCABundle [pres_intros]:
  assumes "leaves I c"
  shows "preserves I (syncCABundle c d n)"
  unfolding syncCABundle_def currentCABundleConfigMap_def updateCABundleConfigMap_def deleteConfigMap_def
  by (intro pres_intros leavesD assms)

lemma preserves_syncCABundles [pres_intros]:
  "leaves I c \<Longrightarrow> preserves I (syncCABundles c d ns errs)"
  by (induction ns arbitrary: errs) (auto intro!: pres_intros)

lemma preserves_removeCABundles [pres_intros]:
  "leaves I c \<Longrightarrow> preserves I (removeCABundles c ns cms errs)"
  by (induction cms arbitrary: errs) (auto simp: deleteConfigMap_def intro!: pres_intros leavesD)

lemma preserves_ensureCABundles [pres_intros]:
  assumes "leaves I c" "preserves I l"
  shows "preserves I (ensureCABundleConfigMaps c l d)"
  unfolding ensureCABundleConfigMaps_def by (intro pres_intros assms)

lemma preserves_caBundleRevisionMap [pres_intros]:
  assumes "leaves I c"
  shows "preserves I (caBundleRevisionMap c d)"
proof -
  have "preserves I (revisionSteps c tcs revs)" for tcs revs
    by (induction tcs arbitrary: revs) (auto simp: revisionStep_def intro!: pres_intros leavesD[OF assms])
  then show ?thesis by (simp add: caBundleRevisionMap_def)
qed

lemma preserves_ensureDNSConfigMap [pres_intros]:
  assumes "leaves I c"
  shows "preserves I (ensureDNSConfigMap c u nr ns d cd revs)"
  unfolding ensureDNSConfigMap_def currentDNSConfigMap_def updateDNSConfigMap_def
  by (intro pres_intros leavesD assms)

lemma preserves_ensureDNSDaemonSet [pres_intros]:
  assumes "leaves I c" "\<And>s n. preserves I (pa_listPods pa s n)" "\<And>s. preserves I (pa_listNodes pa s)"
  shows "preserves I (ensureDNSDaemonSet c pa img proxy d revs prof)"
  unfolding ensureDNSDaemonSet_def currentDNSDaemonSet_def createDNSDaemonSet_def updateDNSDaemonSet_def
    writeDNSDaemonSet_def daemonsetUpdateIsSafe_def
  by (intro pres_intros leavesD assms)

lemma preserves_ensureDNS [pres_intros]:
  assumes "spares I api" "leaves I (da_configmap api)" "preserves I (da_listCABundles api)"
    "preserves I (da_network api)" "preserves I (da_apiServer api)"
    "\<And>s n. preserves I (pa_listPods (da_placement api) s n)" "\<And>s. preserves I (pa_listNodes (da_placement api) s)"
  shows "preserves I (ensureDNS api cfg clk d res)"
proof -
  have "leaves I (da_daemonset api)" using assms(1) by (simp add: spares_def)
  then show ?thesis
    unfolding ensureDNS_def ensureWorkload_def ensureOperands_def
    by (intro pres_intros assms preserves_after_configmap)
qed

section \<open>Reconcile, branch by branch\<close>

lemma Reconcile_found:
  assumes "nn_name req = DefaultDNSController" "run_state (kget (da_dns api) req) w = (Inr d, w0)"
  shows "run_state (Reconcile api cfg clk req) w = run_state (do {
      _ \<leftarrow> da_setLevel api (levelFor (spec_operatorLogLevel (dns_spec d)));
      (if spec_managementState (dns_spec d) = Unmanaged
       then do { x \<leftarrow> reconcileUnmanaged api cfg clk d; State_Monad.return (Some x) }
       else do {
         nsErr \<leftarrow> ensureDNSNamespace api (cfg_nameResolver cfg);
         (if m_deletionTimestamp (dns_meta d) \<noteq> None
          then do { x \<leftarrow> reconcileDeleted api d (errList ''failed to ensure dns namespace'' nsErr); State_Monad.return (Some x) }
          else reconcileManaged api cfg clk d (errList ''failed to ensure dns namespace'' nsErr))
       }) }) w0"
  using assms by (simp add: Reconcile_def Let_def)

lemma preserves_reconcileUnmanaged:
  assumes "preserves I (da_network api)" "\<And>n. preserves I (kget (da_daemonset api) n)"
    and "\<And>x. dns_meta x = dns_meta d \<Longrightarrow> dns_spec x = dns_spec d \<Longrightarrow> preserves I (da_statusUpdate api x)"
  shows "preserves I (reconcileUnmanaged api cfg clk d)"
  unfolding reconcileUnmanaged_def currentDNSDaemonSet_def currentNodeResolverDaemonSet_def
  by (intro pres_intros assms)

lemma errList_Nil [simp]: "errList m e = [] \<longleftrightarrow> e = None"
  by (simp add: errList_def split: option.split)

text \<open>The only write to the DNS itself comes after the cleanup has succeeded.\<close>

lemma reconcileDeleted_run:
  assumes "run_state (ensureOpenshiftExternalNameServiceDeleted api) w = (e1, w1)"
    and "run_state (ensureDNSDeleted api d) w1 = (e2, w2)"
  shows "snd (run_state (reconcileDeleted api d errs) w) =
    (if errs = [] \<and> e1 = None \<and> e2 = None \<and> DNSControllerFinalizer \<in> set (m_finalizers (dns_meta d))
     then snd (run_state (da_updateDNS api (withoutFinalizer d)) w2) else w2)"
  using assms by (auto simp: reconcileDeleted_def Let_def split: prod.splits)

lemma ensureDNSDeleted_None:
  assumes "run_state (ensureDNSDeleted api d) w = (None, w')"
  obtains r where "run_state (kdelete (da_daemonset api) (DNSDaemonSetName d)) w = (r, w')"
    "\<And>e. r = Some e \<Longrightarrow> IsNotFound e"
  using assms
  by (auto simp: ensureDNSDeleted_def ensureDNSDaemonSetDeleted_def split: prod.splits option.splits if_splits)

section \<open>Success of ensureDNS\<close>

lemma aggregate_None: "NewMaybeRetryableAggregate (map Some es) = None \<longleftrightarrow> es = []"
  using maybe_retryable_Some[of es]
  by (cases es) (auto simp: NewMaybeRetryableAggregate_def NewAggregate_def split: if_splits)

lemma finishDNS_success:
  assumes "run_state (finishDNS api cfg clk d ds ip cd errs res) w = (Some (None, res'), w')"
  shows "errs = []"
  using assms
  by (auto simp: finishDNS_def aggregate_None Let_def simp del: map_append split: prod.splits option.splits)

lemma ensureExposure_success:
  assumes "run_state (ensureExposure api d ref ip errs) w = (Inr ([], ip'), w')"
  shows "errs = []"
  using assms
  by (auto simp: ensureExposure_def Let_def split: prod.splits option.splits)

lemma ensureOperands_success:
  assumes "run_state (ensureOperands api cfg d ds ip cd revs) w = (Inr ([], ip'), w')"
  obtains x w1 where "run_state (ensureDNSConfigMap (da_configmap api) (cfg_toU32 cfg) (cfg_nameResolver cfg)
      (cfg_nameResolverNamespaces cfg) d cd revs) w = ((x, None), w1)"
    "run_state (ensureExposure api d (daemonsetRefOf ds) ip []) w1 = (Inr ([], ip'), w')"
proof -
  obtain x e w1 where run: "run_state (ensureDNSConfigMap (da_configmap api) (cfg_toU32 cfg) (cfg_nameResolver cfg)
      (cfg_nameResolverNamespaces cfg) d cd revs) w = ((x, e), w1)"
    by (metis prod.exhaust)
  then have ex: "run_state (ensureExposure api d (daemonsetRefOf ds) ip
      (errList (''failed to create configmap for dns '' @ dns_name d) e)) w1 = (Inr ([], ip'), w')"
    using assms by (simp add: ensureOperands_def)
  then have "e = None" using ensureExposure_success by fastforce
  then show ?thesis using that run ex by (simp add: errList_def)
qed

lemma ensureWorkload_success:
  assumes "run_state (ensureWorkload api cfg clk d ip cd revs prof errs res) w = (Some (None, res'), w')"
  obtains ds w1 w2 ip' where "errs = []"
    "run_state (ensureDNSDaemonSet (da_daemonset api) (da_placement api) (cfg_coreDNSImage cfg) (cfg_proxyImage cfg)
       d revs prof) w = (Some (Some ds, None), w1)"
    "run_state (ensureOperands api cfg d ds ip cd revs) w1 = (Inr ([], ip'), w2)"
    "run_state (finishDNS api cfg clk d (Some ds) ip' cd [] res) w2 = (Some (None, res'), w')"
proof -
  obtain r w1 where r: "run_state (ensureDNSDaemonSet (da_daemonset api) (da_placement api) (cfg_coreDNSImage cfg)
      (cfg_proxyImage cfg) d revs prof) w = (r, w1)" by fastforce
  obtain ds where ds: "r = Some (Some ds, None)"
    using assms r
    by (auto simp: ensureWorkload_def split: prod.splits option.splits dest: finishDNS_success)
  obtain op w2 where op: "run_state (ensureOperands api cfg d ds ip cd revs) w1 = (op, w2)" by fastforce
  show ?thesis
  proof (cases op)
    case (Inl e)
    then show ?thesis using assms r ds op by (simp add: ensureWorkload_def)
  next
    case (Inr p)
    then obtain es ip' where p: "op = Inr (es, ip')" by (cases p) auto
    then have fin: "run_state (finishDNS api cfg clk d (Some ds) ip' cd (errs @ es) res) w2 = (Some (None, res'), w')"
      using assms r ds op by (simp add: ensureWorkload_def)
    then have "errs = [] \<and> es = []" using finishDNS_success by fastforce
    then show ?thesis using that r ds op p fin by auto
  qed
qed

lemma ensureDNS_success:
  assumes "run_state (ensureDNS api cfg clk d res) w = (Some (None, res'), w')"
  obtains ip revs prof w1 where
    "run_state (ensureWorkload api cfg clk d ip ''cluster.local'' revs prof [] res) w1 = (Some (None, res'), w')"
proof -
  have agg: "NewAggregate (map Some es @ [Some e]) = None \<longleftrightarrow> False" for es e
    by (auto simp: NewAggregate_def List.map_filter_def Let_def)
  obtain ip revs prof errs w1 where
    *: "run_state (ensureWorkload api cfg clk d ip ''cluster.local'' revs prof errs res) w1 = (Some (None, res'), w')"
    using assms
    by (auto simp: ensureDNS_def Let_def agg simp del: append_Cons split: prod.splits sum.splits if_splits)
  have "errs = []" using ensureWorkload_success[OF *] by blast
  then show ?thesis using that * by blast
qed

end
