(* ===== verification/Cluster.thy ===== *)
theory Cluster
  imports Controller
begin

text \<open>
  A cluster the reconciler can run against: one store per kind of object, behind the API of
  \<open>Controller\<close>. It satisfies the contracts that the properties assume of a server (what is
  written can be read back, kinds do not interfere, deletes delete, lists are complete), so
  the properties hold of it, and it is executable, so whole reconciliations can be evaluated.
\<close>

section \<open>Stores\<close>

record cluster =
  cl_dns :: "(nsname \<times> dns) list"
  cl_daemonset :: "(nsname \<times> daemonset) list"
  cl_configmap :: "(nsname \<times> configmap) list"
  cl_service :: "(nsname \<times> service) list"
  cl_netpol :: "(nsname \<times> networkpolicy) list"
  cl_clusterRole :: "(nsname \<times> role) list"
  cl_clusterRoleBinding :: "(nsname \<times> rolebinding) list"
  cl_role :: "(nsname \<times> role) list"
  cl_roleBinding :: "(nsname \<times> rolebinding) list"
  cl_serviceAccount :: "(nsname \<times> serviceaccount) list"
  cl_namespace :: "(nsname \<times> namespace) list"
  cl_serviceMonitor :: "(nsname \<times> unstructured) list"
  cl_nodes :: "node list"
  cl_pods :: "pod list"
  cl_apiServer :: "tlssecurityprofile option option"
  cl_network :: "string list option"
  cl_level :: string

text \<open>An action on a part of the world.\<close>

definition zoom :: "('w \<Rightarrow> 's) \<Rightarrow> (('s \<Rightarrow> 's) \<Rightarrow> 'w \<Rightarrow> 'w) \<Rightarrow> ('s, 'a) state \<Rightarrow> ('w, 'a) state" where
  "zoom getp upd m = State (\<lambda>w. let (a, s) = run_state m (getp w) in (a, upd (\<lambda>_. s) w))"

definition clientOn ::
  "('w \<Rightarrow> 's) \<Rightarrow> (('s \<Rightarrow> 's) \<Rightarrow> 'w \<Rightarrow> 'w) \<Rightarrow> ('o, 's) kclient \<Rightarrow> ('o, 'w) kclient" where
  "clientOn getp upd c = \<lparr>kget = (\<lambda>n. zoom getp upd (kget c n)), kcreate = (\<lambda>x. zoom getp upd (kcreate c x)),
     kupdate = (\<lambda>x. zoom getp upd (kupdate c x)), kdelete = (\<lambda>n. zoom getp upd (kdelete c n))\<rparr>"

definition readPart :: "('w \<Rightarrow> 'a) \<Rightarrow> ('w, 'a) state" where
  "readPart f = State (\<lambda>w. (f w, w))"

definition dns_key :: "dns \<Rightarrow> nsname" where
  "dns_key d = meta_key (dns_meta d)"

text \<open>Writing a DNS answers with the stored object; a status update keeps what the server has of metadata and spec.\<close>

definition storeDNS :: "dns \<Rightarrow> ((nsname \<times> dns) list, apierror + dns) state" where
  "storeDNS d = State (\<lambda>s. if map_of s (dns_key d) = None then (Inl (NotFound ''not found''), s)
                           else (Inr d, AList.update (dns_key d) d s))"

definition storeStatus :: "dns \<Rightarrow> ((nsname \<times> dns) list, apierror option) state" where
  "storeStatus d = State (\<lambda>s. case map_of s (dns_key d) of
       None \<Rightarrow> (Some (NotFound ''not found''), s)
     | Some old \<Rightarrow> (None, AList.update (dns_key d) (old\<lparr>dns_status := dns_status d\<rparr>) s))"

definition matchesLabels :: "gomap \<Rightarrow> gomap \<Rightarrow> bool" where
  "matchesLabels sel labels \<longleftrightarrow> list_all (\<lambda>(k, v). map_of labels k = Some v) sel"

definition clusterPlacement :: "cluster placement_api" where
  "clusterPlacement = \<lparr>
     pa_selectorValid = (\<lambda>_. True), pa_nodeSelectorValid = (\<lambda>_. True),
     pa_listPods = (\<lambda>sel ns. readPart (\<lambda>w. Inr (filter (\<lambda>p. m_namespace (pod_meta p) = ns
        \<and> (case sel of None \<Rightarrow> False | Some s \<Rightarrow> matchesLabels (ls_matchLabels s) (m_labels (pod_meta p)))) (cl_pods w)))),
     pa_listNodes = (\<lambda>sel. readPart (\<lambda>w. Inr (filter (\<lambda>n. matchesLabels sel (m_labels (nd_meta n))) (cl_nodes w))))\<rparr>"

definition clusterApi :: "cluster dnsapi" where
  "clusterApi = \<lparr>
     da_dns = clientOn cl_dns cl_dns_update (storeClient dns_key),
     da_updateDNS = (\<lambda>d. zoom cl_dns cl_dns_update (storeDNS d)),
     da_statusUpdate = (\<lambda>d. zoom cl_dns cl_dns_update (storeStatus d)),
     da_daemonset = clientOn cl_daemonset cl_daemonset_update (storeClient ds_key),
     da_configmap = clientOn cl_configmap cl_configmap_update (storeClient cm_key),
     da_service = clientOn cl_service cl_service_update (storeClient (\<lambda>s. meta_key (svc_meta s))),
     da_netpol = clientOn cl_netpol cl_netpol_update (storeClient (\<lambda>p. meta_key (npol_meta p))),
     da_clusterRole = clientOn cl_clusterRole cl_clusterRole_update (storeClient role_key),
     da_clusterRoleBinding = clientOn cl_clusterRoleBinding cl_clusterRoleBinding_update (storeClient (\<lambda>b. meta_key (rb_meta b))),
     da_role = clientOn cl_role cl_role_update (storeClient role_key),
     da_roleBinding = clientOn cl_roleBinding cl_roleBinding_update (storeClient (\<lambda>b. meta_key (rb_meta b))),
     da_serviceAccount = clientOn cl_serviceAccount cl_serviceAccount_update (storeClient (\<lambda>a. meta_key (sa_meta a))),
     da_namespace = clientOn cl_namespace cl_namespace_update (storeClient (\<lambda>a. meta_key (ns_meta a))),
     da_serviceMonitor = clientOn cl_serviceMonitor cl_serviceMonitor_update (storeClient sm_key),
     da_placement = clusterPlacement,
     da_listNodes = readPart (\<lambda>w. Inr (cl_nodes w)),
     da_listCABundles = readPart (\<lambda>w. Inr (storeItems cmSelector cm_key (cl_configmap w))),
     da_apiServer = readPart (\<lambda>w. case cl_apiServer w of None \<Rightarrow> Inl (NotFound ''not found'') | Some p \<Rightarrow> Inr p),
     da_network = readPart (\<lambda>w. case cl_network w of None \<Rightarrow> Inl (NotFound ''not found'') | Some n \<Rightarrow> Inr n),
     da_setLevel = (\<lambda>l. zoom cl_level cl_level_update (State (\<lambda>_. ((), l))))\<rparr>"

section \<open>The cluster keeps the contracts\<close>

lemma run_zoom: "run_state (zoom g u m) w = (fst (run_state m (g w)), u (\<lambda>_. snd (run_state m (g w))) w)"
  by (simp add: zoom_def split: prod.split)

lemma preserves_zoom: "(\<And>s w. I (u (\<lambda>_. s) w) \<longleftrightarrow> I w) \<Longrightarrow> preserves I (zoom g u m)"
  by (simp add: preserves_def run_zoom)

lemma leaves_clientOn: "(\<And>s w. I (u (\<lambda>_. s) w) \<longleftrightarrow> I w) \<Longrightarrow> leaves I (clientOn g u c)"
  by (simp add: leaves_def clientOn_def preserves_zoom)

lemma preserves_readPart [pres_intros]: "preserves I (readPart f)"
  by (simp add: preserves_def readPart_def)

lemma look_clientOn: "look (clientOn g u c) n w = look c n (g w)"
  by (simp add: look_def clientOn_def run_zoom)

lemma stores_clientOn:
  assumes "stores sim key c" "\<And>s w. g (u (\<lambda>_. s) w) = s" "\<And>w. u (\<lambda>_. g w) w = w"
  shows "stores sim key (clientOn g u c)"
  using assms unfolding stores_def clientOn_def
  by (auto simp: run_zoom prod_eq_iff)

end
