(* ===== verification/Reconciliation.thy ===== *)
theory Reconciliation
  imports Cluster
begin

text \<open>
  Properties of the reconciler as a whole (\<open>Reconcile\<close>, \<open>ensureDNS\<close> and the events that
  trigger them), with witnesses that run it on the executable cluster.
\<close>

section \<open>Sample inputs\<close>

definition sample_config :: config where
  "sample_config = \<lparr>cfg_coreDNSImage = ''coredns'', cfg_cliImage = ''cli'', cfg_proxyImage = ''proxy'',
     cfg_nameResolver = False, cfg_nameResolverNamespaces = [], cfg_script = ''script'', cfg_toU32 = id,
     cfg_ppTol = (\<lambda>_. '''')\<rparr>"

definition sample_default :: dns where
  "sample_default = emptyDNS\<lparr>dns_meta := emptyMeta\<lparr>m_name := ''default'', m_uid := ''1'',
     m_finalizers := [DNSControllerFinalizer]\<rparr>\<rparr>"

definition clusterWith :: "dns \<Rightarrow> (nsname \<times> daemonset) list \<Rightarrow> cluster" where
  "clusterWith d dss = \<lparr>cl_dns = [(dns_key d, d)], cl_daemonset = dss, cl_configmap = [],
     cl_service = [], cl_netpol = [], cl_clusterRole = [], cl_clusterRoleBinding = [], cl_role = [],
     cl_roleBinding = [], cl_serviceAccount = [], cl_namespace = [], cl_serviceMonitor = [], cl_nodes = [],
     cl_pods = [], cl_apiServer = None, cl_network = Some [''172.30.0.0/16''], cl_level = ''''\<rparr>"

definition sample_running :: "(nsname \<times> daemonset) list" where
  "sample_running = (case desiredDNSDaemonSet sample_default ''coredns'' ''proxy'' [] None of
       Inl _ \<Rightarrow> []
     | Inr ds \<Rightarrow> [(DNSDaemonSetName sample_default, ds\<lparr>ds_status := \<lparr>dst_desiredNumberScheduled = 3,
         dst_updatedNumberScheduled = 3, dst_numberAvailable = 3\<rparr>\<rparr>)])"

lemma default_request: "nn_name DefaultDNSNamespaceName = DefaultDNSController"
  by (simp add: DefaultDNSNamespaceName_def DefaultDNSName_def DefaultDNSController_def)

lemma clusterApi_get:
  "map_of (cl_dns w) n = Some d \<Longrightarrow> dns_key d = n \<Longrightarrow> run_state (kget (da_dns clusterApi) n) w = (Inr d, w)"
  by (simp add: clusterApi_def clientOn_def run_zoom storeClient_def)

section \<open>Unmanaged DNSes\<close>

text \<open>
  C9: An unmanaged DNS is left alone. When the DNS that \<open>Reconcile\<close> reads is Unmanaged, whatever
  holds of the world and survives reading (the network configuration, daemonsets), setting
  the log level and a status update of this very DNS still holds afterwards: nothing is
  created, updated or deleted.
\<close>

theorem unmanaged_writes_only_status:
  assumes "nn_name req = DefaultDNSController"
    and "run_state (kget (da_dns api) req) w = (Inr d, w0)" "I w0"
    and "spec_managementState (dns_spec d) = Unmanaged"
    and "preserves I (da_network api)" "\<forall>n. preserves I (kget (da_daemonset api) n)"
    and "\<forall>l. preserves I (da_setLevel api l)"
    and "\<forall>x. dns_meta x = dns_meta d \<and> dns_spec x = dns_spec d \<longrightarrow> preserves I (da_statusUpdate api x)"
  shows "I (snd (run_state (Reconcile api cfg clk req) w))"
proof -
  have "preserves I (reconcileUnmanaged api cfg clk d)"
    using assms(5-8) by (intro preserves_reconcileUnmanaged) auto
  then have "preserves I (do { _ \<leftarrow> da_setLevel api (levelFor (spec_operatorLogLevel (dns_spec d)));
      x \<leftarrow> reconcileUnmanaged api cfg clk d; State_Monad.return (Some x) })"
    using assms(7) by (intro pres_intros) auto
  from preservesD[OF this assms(3)] show ?thesis
    unfolding Reconcile_found[OF assms(1,2)] using assms(4) by simp
qed

theorem unmanaged_writes_only_status_witness:
  "let d = sample_default\<lparr>dns_spec := (dns_spec sample_default)\<lparr>spec_managementState := Unmanaged\<rparr>\<rparr>;
       w' = snd (run_state (Reconcile clusterApi sample_config sample_clock DefaultDNSNamespaceName) (clusterWith d []))
   in cl_daemonset w' = [] \<and> cl_configmap w' = [] \<and> cl_service w' = []"
proof -
  define d where "d = sample_default\<lparr>dns_spec := (dns_spec sample_default)\<lparr>spec_managementState := Unmanaged\<rparr>\<rparr>"
  have get: "run_state (kget (da_dns clusterApi) DefaultDNSNamespaceName) (clusterWith d []) = (Inr d, clusterWith d [])"
    by (rule clusterApi_get)
      (simp_all add: clusterWith_def d_def dns_key_def meta_key_def sample_default_def emptyDNS_def emptyMeta_def
        DefaultDNSNamespaceName_def DefaultDNSName_def)
  let ?I = "\<lambda>w. cl_daemonset w = [] \<and> cl_configmap w = [] \<and> cl_service w = []"
  have "?I (snd (run_state (Reconcile clusterApi sample_config sample_clock DefaultDNSNamespaceName) (clusterWith d [])))"
  proof (rule unmanaged_writes_only_status[where I = ?I, OF default_request get])
    show "\<forall>n. preserves ?I (kget (da_daemonset clusterApi) n)"
      by (simp add: clusterApi_def clientOn_def preserves_def run_zoom storeClient_def)
  qed (auto simp: clusterWith_def d_def clusterApi_def preserves_def run_zoom readPart_def)
  then show ?thesis by (simp add: Let_def d_def)
qed

section \<open>Deletion\<close>

text \<open>
  C7: The finalizer goes last. For a managed DNS that is being deleted, \<open>Reconcile\<close> either
  does not write the DNS at all (whatever every other client, reading and the log level leave
  true still holds), or the write that removes the finalizer is its last step, made in a world
  in which the daemonset has been deleted and the external name service too.
\<close>

theorem finalizer_released_last:
  assumes "nn_name req = DefaultDNSController"
    and "run_state (kget (da_dns api) req) w = (Inr d, w0)" "I w0"
    and "spec_managementState (dns_spec d) \<noteq> Unmanaged" "m_deletionTimestamp (dns_meta d) \<noteq> None"
    and keep: "leaves I (da_namespace api)" "leaves I (da_clusterRole api)" "leaves I (da_clusterRoleBinding api)"
      "leaves I (da_serviceAccount api)" "leaves I (da_service api)" "leaves I (da_daemonset api)"
      "\<forall>l. preserves I (da_setLevel api l)"
    and gone: "\<forall>v v' r. run_state (kdelete (da_service api) (meta_key (svc_meta openshiftService))) v = (r, v')
        \<and> (r = None \<or> (\<exists>e. r = Some e \<and> IsNotFound e)) \<longrightarrow> S v'"
      "\<forall>v v' r. run_state (kdelete (da_daemonset api) (DNSDaemonSetName d)) v = (r, v')
        \<and> (r = None \<or> (\<exists>e. r = Some e \<and> IsNotFound e)) \<longrightarrow> G v'"
    and "preserves S (kdelete (da_daemonset api) (DNSDaemonSetName d))"
  shows "I (snd (run_state (Reconcile api cfg clk req) w)) \<or>
    (\<exists>v. I v \<and> S v \<and> G v
       \<and> snd (run_state (Reconcile api cfg clk req) w) = snd (run_state (da_updateDNS api (withoutFinalizer d)) v))"
proof -
  obtain w1 where lv: "run_state (da_setLevel api (levelFor (spec_operatorLogLevel (dns_spec d)))) w0 = ((), w1)"
    by (metis old.unit.exhaust prod.exhaust)
  obtain nsErr w2 where ns: "run_state (ensureDNSNamespace api (cfg_nameResolver cfg)) w1 = (nsErr, w2)" by fastforce
  obtain e1 w3 where ext: "run_state (ensureOpenshiftExternalNameServiceDeleted api) w2 = (e1, w3)" by fastforce
  obtain e2 w4 where del: "run_state (ensureDNSDeleted api d) w3 = (e2, w4)" by fastforce
  have "preserves I (ensureDNSNamespace api (cfg_nameResolver cfg))"
    "preserves I (ensureOpenshiftExternalNameServiceDeleted api)" "preserves I (ensureDNSDeleted api d)"
    using keep by (auto intro: pres_intros)
  then have I4: "I w4"
    using assms(3) keep(7) lv ns ext del by (metis preservesD snd_conv)
  obtain y w5 where fin: "run_state (reconcileDeleted api d (errList ''failed to ensure dns namespace'' nsErr)) w2 = (y, w5)"
    by fastforce
  have run: "snd (run_state (Reconcile api cfg clk req) w) =
      (if nsErr = None \<and> e1 = None \<and> e2 = None \<and> DNSControllerFinalizer \<in> set (m_finalizers (dns_meta d))
       then snd (run_state (da_updateDNS api (withoutFinalizer d)) w4) else w4)"
    unfolding Reconcile_found[OF assms(1,2)]
    using lv ns fin reconcileDeleted_run[OF ext del, of "errList ''failed to ensure dns namespace'' nsErr"] assms(4,5)
    by simp
  show ?thesis
  proof (cases "e1 = None \<and> e2 = None")
    case True
    then obtain r where r: "run_state (kdelete (da_daemonset api) (DNSDaemonSetName d)) w3 = (r, w4)"
      "r = None \<or> (\<exists>e. r = Some e \<and> IsNotFound e)"
      using del by (metis ensureDNSDeleted_None option.exhaust)
    obtain r' where r': "run_state (kdelete (da_service api) (meta_key (svc_meta openshiftService))) w2 = (r', w3)"
      "r' = None \<or> (\<exists>e. r' = Some e \<and> IsNotFound e)"
      using ext True
      by (auto simp: ensureOpenshiftExternalNameServiceDeleted_def split: prod.splits option.splits if_splits)
    have "S w3" "G w4" using r' r gone by blast+
    then have "S w4" using preservesD[OF assms(15)] r(1) by fastforce
    then show ?thesis using run I4 \<open>G w4\<close> by (auto split: if_splits)
  qed (use run I4 in auto)
qed

theorem finalizer_released_last_witness:
  "let d = sample_default\<lparr>dns_meta := (dns_meta sample_default)\<lparr>m_deletionTimestamp := Some 5\<rparr>\<rparr>;
       run = run_state (Reconcile clusterApi sample_config sample_clock DefaultDNSNamespaceName) (clusterWith d sample_running)
   in map (m_finalizers \<circ> dns_meta \<circ> snd) (cl_dns (snd run)) = [[]]
      \<and> (\<exists>v. map_of (cl_daemonset v) (DNSDaemonSetName d) = None
           \<and> snd run = snd (run_state (da_updateDNS clusterApi (withoutFinalizer d)) v))"
proof -
  define d where "d = sample_default\<lparr>dns_meta := (dns_meta sample_default)\<lparr>m_deletionTimestamp := Some 5\<rparr>\<rparr>"
  let ?w = "clusterWith d sample_running"
  let ?run = "run_state (Reconcile clusterApi sample_config sample_clock DefaultDNSNamespaceName) ?w"
  let ?I = "\<lambda>w. cl_dns w = cl_dns ?w"
  let ?S = "\<lambda>w. map_of (cl_service w) (meta_key (svc_meta openshiftService)) = None"
  let ?G = "\<lambda>w. map_of (cl_daemonset w) (DNSDaemonSetName d) = None"
  have get: "run_state (kget (da_dns clusterApi) DefaultDNSNamespaceName) ?w = (Inr d, ?w)"
    by (rule clusterApi_get)
      (simp_all add: clusterWith_def d_def dns_key_def meta_key_def sample_default_def emptyDNS_def emptyMeta_def
        DefaultDNSNamespaceName_def DefaultDNSName_def)
  have fin: "map (m_finalizers \<circ> dns_meta \<circ> snd) (cl_dns (snd ?run)) = [[]]"
    unfolding d_def by code_simp
  have "?I (snd ?run) \<or> (\<exists>v. ?I v \<and> ?S v \<and> ?G v \<and> snd ?run = snd (run_state (da_updateDNS clusterApi (withoutFinalizer d)) v))"
  proof (rule finalizer_released_last[where I = ?I and S = ?S and G = ?G, OF default_request get])
    show "\<forall>v v' r. run_state (kdelete (da_service clusterApi) (meta_key (svc_meta openshiftService))) v = (r, v')
        \<and> (r = None \<or> (\<exists>e. r = Some e \<and> IsNotFound e)) \<longrightarrow> ?S v'"
      and "\<forall>v v' r. run_state (kdelete (da_daemonset clusterApi) (DNSDaemonSetName d)) v = (r, v')
        \<and> (r = None \<or> (\<exists>e. r = Some e \<and> IsNotFound e)) \<longrightarrow> ?G v'"
      by (auto simp: clusterApi_def clientOn_def run_zoom storeClient_def gomap_simps split: if_splits)
  qed (auto simp: clusterApi_def clientOn_def d_def sample_default_def emptyDNS_def Unmanaged_def
      intro: leaves_clientOn[unfolded clientOn_def] preserves_zoom)
  moreover have "\<not> ?I (snd ?run)"
    using arg_cong[OF fin, of "map length"]
    by (auto simp: clusterWith_def d_def sample_default_def)
  ultimately have "\<exists>v. ?G v \<and> snd ?run = snd (run_state (da_updateDNS clusterApi (withoutFinalizer d)) v)"
    by blast
  then show ?thesis using fin by (simp add: Let_def d_def)
qed

section \<open>Success means the Corefile is in place\<close>

text \<open>
  What a successful \<open>ensureDNS\<close> leaves behind. If the server keeps configmaps as written and
  the other kinds of objects do not interfere with the DNS configmap, then after \<open>ensureDNS\<close>
  returned without an error the configmap of the DNS holds exactly the desired Corefile, and the
  CA bundle revisions in it are the ones the daemonset was ensured with.
\<close>

theorem ensureDNS_success_corefile:
  assumes "stores cm_same cm_key (da_configmap api)"
    and "\<forall>r. spares (\<lambda>v. look (da_configmap api) (DNSConfigMapName d) v = r) api"
    and "run_state (ensureDNS api cfg clk d res) w = (Some (None, res'), w')"
  shows "\<exists>revs prof ds v v' cm x.
      run_state (ensureDNSDaemonSet (da_daemonset api) (da_placement api) (cfg_coreDNSImage cfg) (cfg_proxyImage cfg)
         d revs prof) v = (Some (Some ds, None), v')
    \<and> desiredDNSConfigMap (cfg_toU32 cfg) d ''cluster.local'' revs (cfg_nameResolver cfg) (cfg_nameResolverNamespaces cfg) = Inr cm
    \<and> look (da_configmap api) (DNSConfigMapName d) w' = Inr x \<and> gm_eq (cm_data x) (cm_data cm)"
proof -
  obtain ip revs prof w1 where
    "run_state (ensureWorkload api cfg clk d ip ''cluster.local'' revs prof [] res) w1 = (Some (None, res'), w')"
    using ensureDNS_success[OF assms(3)] .
  then obtain ds w2 w3 ip' where
    ds: "run_state (ensureDNSDaemonSet (da_daemonset api) (da_placement api) (cfg_coreDNSImage cfg) (cfg_proxyImage cfg)
       d revs prof) w1 = (Some (Some ds, None), w2)"
    and op: "run_state (ensureOperands api cfg d ds ip ''cluster.local'' revs) w2 = (Inr ([], ip'), w3)"
    and fin: "run_state (finishDNS api cfg clk d (Some ds) ip' ''cluster.local'' [] res) w3 = (Some (None, res'), w')"
    by (rule ensureWorkload_success)
  obtain x w4 where
    cm: "run_state (ensureDNSConfigMap (da_configmap api) (cfg_toU32 cfg) (cfg_nameResolver cfg)
      (cfg_nameResolverNamespaces cfg) d ''cluster.local'' revs) w2 = ((x, None), w4)"
    and ex: "run_state (ensureExposure api d (daemonsetRefOf ds) ip []) w4 = (Inr ([], ip'), w3)"
    using ensureOperands_success[OF op] .
  obtain y des where des: "desiredDNSConfigMap (cfg_toU32 cfg) d ''cluster.local'' revs (cfg_nameResolver cfg)
      (cfg_nameResolverNamespaces cfg) = Inr des" and same: "cm_same y des"
    and cur: "run_state (currentObject (da_configmap api) (DNSConfigMapName d)) w4 = ((Some y, None), w4)"
    using ensureDNSConfigMap_ensured[OF assms(1) cm] by blast
  have "look (da_configmap api) (DNSConfigMapName d) w4 = Inr y"
    using cur by (auto simp: currentObject_def look_def split: prod.splits sum.splits if_splits)
  then have "look (da_configmap api) (DNSConfigMapName d) w3 = Inr y"
    using preservesD[OF preserves_after_configmap(1)[OF assms(2)[rule_format, of "Inr y"], of d "daemonsetRefOf ds" ip "[]"], of w4] ex
    by simp
  then have "look (da_configmap api) (DNSConfigMapName d) w' = Inr y"
    using preservesD[OF preserves_after_configmap(2)[OF assms(2)[rule_format, of "Inr y"],
        of cfg clk d "Some ds" ip' "''cluster.local''" "[]" res], of w3] fin
    by simp
  then show ?thesis using ds des same unfolding cm_same_def by blast
qed

theorem ensureDNS_success_corefile_witness:
  "\<exists>res' w' revs cm x. run_state (ensureDNS clusterApi sample_config sample_clock sample_default emptyResult)
        (clusterWith sample_default sample_running) = (Some (None, res'), w')
     \<and> desiredDNSConfigMap id sample_default ''cluster.local'' revs False [] = Inr cm
     \<and> look (da_configmap clusterApi) (DNSConfigMapName sample_default) w' = Inr x
     \<and> gm_eq (cm_data x) (cm_data cm)"
proof -
  let ?run = "run_state (ensureDNS clusterApi sample_config sample_clock sample_default emptyResult)
        (clusterWith sample_default sample_running)"
  have "case fst ?run of Some (None, _) \<Rightarrow> True | _ \<Rightarrow> False" by code_simp
  then obtain res' where "fst ?run = Some (None, res')" by (auto split: option.splits prod.splits)
  then have run: "?run = (Some (None, res'), snd ?run)" by (simp only: prod_eq_iff fst_conv snd_conv)
  have st: "stores cm_same cm_key (da_configmap clusterApi)"
    by (simp add: clusterApi_def stores_clientOn storeClient_stores cm_same_def)
  have "look (da_configmap clusterApi) n v = look (storeClient cm_key) n (cl_configmap v)" for n v
    by (simp add: clusterApi_def look_clientOn)
  then have sp: "\<forall>r. spares (\<lambda>v. look (da_configmap clusterApi) (DNSConfigMapName sample_default) v = r) clusterApi"
    by (simp add: spares_def clusterApi_def leaves_clientOn preserves_zoom preserves_readPart)
  obtain revs cm x where "desiredDNSConfigMap id sample_default ''cluster.local'' revs False [] = Inr cm"
    and "look (da_configmap clusterApi) (DNSConfigMapName sample_default) (snd ?run) = Inr x"
    and "gm_eq (cm_data x) (cm_data cm)"
    using ensureDNS_success_corefile[OF st sp run] by (auto simp: sample_config_def)
  then show ?thesis using run by (intro exI conjI)
qed

section \<open>Degraded is retried\<close>

text \<open>
  C31: A degraded DNS is looked at again. When nothing but the Degraded condition is wrong at the
  end of \<open>ensureDNS\<close> (no earlier error, the node resolver ensured), the error survives the
  aggregation as a retryable one whose delay is twice the lame duck duration, the status is not
  written, and \<open>Reconcile\<close>'s managed branch turns it into a requeue after that delay instead of
  an error.
\<close>

theorem degraded_requeued:
  assumes "run_state (ensureNodeResolverDaemonSet (da_daemonset api) (cfg_script cfg) (cfg_cliImage cfg) d ip cd) w
      = (Some (nr, None), w1)"
    and "fst (snd (computeDNSStatusConditions (cfg_ppTol cfg) clk d ip ds nr (2 * lameDuckDuration) res)) = Some e"
  shows "\<exists>agg res'. run_state (finishDNS api cfg clk d ds ip cd [] res) w = (Some (Some agg, res'), w1)
    \<and> is_retryable agg \<and> After agg = 40 * time_Second
    \<and> (\<forall>v v' errs. run_state (enforceDNSFinalizer api d0) v = (Inr d, v')
         \<and> run_state (ensureDNS api cfg clk d emptyResult) v' = (Some (Some agg, res'), w1) \<longrightarrow>
         run_state (reconcileManaged api cfg clk d0 errs) v
           = (Some (\<lparr>rr_requeue = False, rr_requeueAfter = 40 * time_Second\<rparr>, None), w1))"
proof -
  obtain cs r' where comp: "computeDNSStatusConditions (cfg_ppTol cfg) clk d ip ds nr (2 * lameDuckDuration) res = (cs, Some e, r')"
    using assms(2) by (metis prod.collapse)
  then obtain p dg where D: "computeDNSDegradedCondition (oldCondition TypeDegraded d) (Some p) ip ds (2 * lameDuckDuration)
        (clk_now clk) (clk_degraded clk) = (dg, Some e)"
    by (cases rule: status_conditions_cases)
  have re: "is_retryable e" "After e = 2 * lameDuckDuration"
    using degraded_facts(5)[OF D] degraded_facts(3)[OF D] by auto
  have one: "NewMaybeRetryableAggregate [Some x] = Some (Retryable (Aggregate [x]) (After x))"
    if "is_retryable x" for x
    using maybe_retryable_Some[of "[x]"] that by simp
  let ?agg = "Retryable (Aggregate [Retryable (Aggregate [e]) (2 * lameDuckDuration)]) (2 * lameDuckDuration)"
  have sync: "run_state (syncDNSStatus (da_statusUpdate api) (cfg_ppTol cfg) clk d ip cd ds nr (2 * lameDuckDuration) res) w1
      = ((Some (Retryable (Aggregate [e]) (2 * lameDuckDuration)), r'), w1)"
    by (simp add: syncDNSStatus_def comp one re)
  have "run_state (finishDNS api cfg clk d ds ip cd [] res) w = (Some (Some ?agg, r'), w1)"
    by (simp add: finishDNS_def assms(1) sync statusErr_def one)
  moreover have "2 * lameDuckDuration = 40 * time_Second" by (simp add: lameDuckDuration_def)
  ultimately show ?thesis by (intro exI[of _ ?agg] exI[of _ r']) (simp add: reconcileManaged_def)
qed

definition sample_idle :: daemonset where
  "sample_idle = (snd (hd sample_running))\<lparr>ds_status := ds_status emptyDaemonSet\<rparr>"

theorem degraded_requeued_witness:
  "\<exists>agg res' w1. run_state (finishDNS clusterApi sample_config sample_clock sample_default (Some sample_idle) ''172.30.0.10'' ''cluster.local''
      [] emptyResult) (clusterWith sample_default []) = (Some (Some agg, res'), w1)
    \<and> is_retryable agg \<and> After agg = 40000000000"
proof -
  let ?run = "run_state (ensureNodeResolverDaemonSet (da_daemonset clusterApi) (cfg_script sample_config) (cfg_cliImage sample_config)
      sample_default ''172.30.0.10'' ''cluster.local'') (clusterWith sample_default [])"
  have "case fst ?run of Some (nr, None) \<Rightarrow> (case fst (snd (computeDNSStatusConditions (cfg_ppTol sample_config) sample_clock
      sample_default ''172.30.0.10'' (Some sample_idle) nr (2 * lameDuckDuration) emptyResult)) of Some _ \<Rightarrow> True | None \<Rightarrow> False) | _ \<Rightarrow> False"
    by code_simp
  then obtain nr e where "fst ?run = Some (nr, None)" and e: "fst (snd (computeDNSStatusConditions (cfg_ppTol sample_config)
      sample_clock sample_default ''172.30.0.10'' (Some sample_idle) nr (2 * lameDuckDuration) emptyResult)) = Some e"
    by (auto split: option.splits)
  then have run: "?run = (Some (nr, None), snd ?run)" by (simp only: prod_eq_iff fst_conv snd_conv)
  show ?thesis using degraded_requeued[OF run e, of sample_default] by (auto simp: time_Second_def)
qed

section \<open>Events\<close>



end
