(* ===== verification/Status_Controller.thy ===== *)
theory Status_Controller
  imports DNS_Status
begin

text \<open>
  \<open>pkg/operator/controller/status/controller.go\<close>: the controller that summarises the state of
  the operator in the ClusterOperator resource \<open>dns\<close>.

  The API is a record of actions over an arbitrary world, as in \<open>Kube_API\<close>. Creating a
  ClusterOperator answers with the object the server stored, which the Go client decodes
  into its argument. Go visits a map in an order of its own choice, a new one every time; an
  \<open>iteration\<close> holds the orders of one run and \<open>visits\<close> says that they are orders. The clock is
  explicit: every call of \<open>clock.Now()\<close> has a reading of its own. The condition types and
  statuses of \<open>configv1\<close> have the same texts as those of \<open>operatorv1\<close>.
\<close>

section \<open>Data\<close>

definition OperatorVersionName :: string where "OperatorVersionName = ''operator''"
definition CoreDNSVersionName :: string where "CoreDNSVersionName = ''coredns''"
definition OpenshiftCLIVersionName :: string where "OpenshiftCLIVersionName = ''openshift-cli''"
definition KubeRBACProxyName :: string where "KubeRBACProxyName = ''kube-rbac-proxy''"
definition UnknownVersionValue :: string where "UnknownVersionValue = ''unknown''"
definition dnsEqualConditionMessage :: string where
  "dnsEqualConditionMessage = ''Desired and current number of DNSes are equal''"

lemmas version_name_defs =
  OperatorVersionName_def CoreDNSVersionName_def OpenshiftCLIVersionName_def KubeRBACProxyName_def

record objref =
  ref_group :: string
  ref_resource :: string
  ref_namespace :: string
  ref_name :: string

record operandversion =
  ov_name :: string
  ov_version :: string

record costatus =
  cos_conditions :: "condition list"
  cos_versions :: "operandversion list"
  cos_relatedObjects :: "objref list"

record clusteroperator =
  co_meta :: objmeta
  co_status :: costatus

definition emptyClusterOperator :: clusteroperator where
  "emptyClusterOperator = \<lparr>co_meta = emptyMeta,
     co_status = \<lparr>cos_conditions = [], cos_versions = [], cos_relatedObjects = []\<rparr>\<rparr>"

record statusconfig =
  sc_operatorNamespace :: string
  sc_operatorReleaseVersion :: string
  sc_coreDNSImage :: string
  sc_openshiftCLIImage :: string
  sc_kubeRBACProxyImage :: string
  sc_quoteUnicode :: "string \<Rightarrow> string"

record 'w statusapi =
  sta_getClusterOperator :: "nsname \<Rightarrow> ('w, apierror + clusteroperator) state"
  sta_createClusterOperator :: "clusteroperator \<Rightarrow> ('w, apierror + clusteroperator) state"
  sta_updateStatus :: "clusteroperator \<Rightarrow> ('w, apierror option) state"
  sta_getNamespace :: "nsname \<Rightarrow> ('w, apierror + namespace) state"
  sta_listDNS :: "('w, apierror + dns list) state"
  sta_getDaemonSet :: "nsname \<Rightarrow> ('w, apierror + daemonset) state"
  sta_listPods :: "labelselector \<Rightarrow> string \<Rightarrow> ('w, apierror + pod list) state"
  sta_selectorErr :: "labelselector \<Rightarrow> goerror option"

text \<open>The clock readings of one run, and its orders of visiting \<open>curVersions\<close>.\<close>

record stclock =
  sck_pods :: instant
  sck_merge :: instant
  sck_upgradeable :: instant

record iteration =
  it_progressing :: "gomap \<Rightarrow> gomap"
  it_degraded :: "gomap \<Rightarrow> gomap"
  it_versions :: "gomap \<Rightarrow> gomap"

definition visits :: "iteration \<Rightarrow> bool" where
  "visits it \<longleftrightarrow> (\<forall>m. mset (it_progressing it m) = mset m \<and> mset (it_degraded it m) = mset m
     \<and> mset (it_versions it m) = mset m)"

section \<open>Quoting\<close>

text \<open>
  \<open>%q\<close>, that is \<open>strconv.Quote\<close>: exact on ASCII. How the other characters are printed depends on
  Unicode tables and is a parameter.
\<close>

definition hexDigit :: "nat \<Rightarrow> char" where
  "hexDigit n = ''0123456789abcdef'' ! n"

definition quoteChar :: "char \<Rightarrow> string" where
  "quoteChar c = (let n = of_char c :: nat in
     if n = 0x22 \<or> n = 0x5C then [CHR 0x5C, c]
     else if 0x20 \<le> n \<and> n \<noteq> 0x7F then [c]
     else if n = 7 then [CHR 0x5C, CHR ''a'']
     else if n = 8 then [CHR 0x5C, CHR ''b'']
     else if n = 12 then [CHR 0x5C, CHR ''f'']
     else if n = 10 then [CHR 0x5C, CHR ''n'']
     else if n = 13 then [CHR 0x5C, CHR ''r'']
     else if n = 9 then [CHR 0x5C, CHR ''t'']
     else if n = 11 then [CHR 0x5C, CHR ''v'']
     else [CHR 0x5C, CHR ''x'', hexDigit (n div 16), hexDigit (n mod 16)])"

definition quote :: "(string \<Rightarrow> string) \<Rightarrow> string \<Rightarrow> string" where
  "quote quoteUnicode s =
     [CHR 0x22] @ (if list_all (\<lambda>c. (of_char c :: nat) < 128) s then concat (map quoteChar s)
                   else quoteUnicode s) @ [CHR 0x22]"

section \<open>Events\<close>

definition isDNSClusterOperator :: "objmeta \<Rightarrow> bool" where
  "isDNSClusterOperator o1 \<longleftrightarrow> m_name o1 = DefaultOperatorName"

definition clusteroperatorToDNS :: "objmeta \<Rightarrow> nsname list" where
  "clusteroperatorToDNS o1 = [\<lparr>nn_ns = '''', nn_name = DefaultDNSName\<rparr>]"

section \<open>The state of the operator\<close>

definition initializeClusterOperator :: "clusteroperator \<Rightarrow> clusteroperator" where
  "initializeClusterOperator co = co\<lparr>
     co_meta := (co_meta co)\<lparr>m_name := nn_name DNSClusterOperatorName\<rparr>,
     co_status := (co_status co)\<lparr>
       cos_versions := [
         \<lparr>ov_name = OperatorVersionName, ov_version = UnknownVersionValue\<rparr>,
         \<lparr>ov_name = CoreDNSVersionName, ov_version = UnknownVersionValue\<rparr>,
         \<lparr>ov_name = OpenshiftCLIVersionName, ov_version = UnknownVersionValue\<rparr>,
         \<lparr>ov_name = KubeRBACProxyName, ov_version = UnknownVersionValue\<rparr>],
       cos_conditions := [
         newCondition TypeDegraded ConditionUnknown '''' '''',
         newCondition TypeProgressing ConditionUnknown '''' '''',
         newCondition TypeAvailable ConditionUnknown '''' '''']\<rparr>\<rparr>"

record operatorState =
  os_namespace :: "namespace option"
  os_dns :: "dns option"
  os_dnsDaemonSet :: daemonset
  os_nodeResolverDaemonSet :: daemonset
  os_dnsPodList :: "pod list"
  os_nodeResolverPodList :: "pod list"

text \<open>The field \<open>state.dns\<close>: the zero value when there is no DNS.\<close>

definition stateDNS :: "operatorState \<Rightarrow> dns" where
  "stateDNS st = (case os_dns st of None \<Rightarrow> emptyDNS | Some d \<Rightarrow> d)"

text \<open>Steps that fail with an error, and a read in which a missing object is no error.\<close>

definition bindErr :: "('w, 'e + 'a) state \<Rightarrow> ('a \<Rightarrow> ('w, 'e + 'b) state) \<Rightarrow> ('w, 'e + 'b) state" where
  "bindErr m k = do {
     r \<leftarrow> m;
     (case r of Inl e \<Rightarrow> State_Monad.return (Inl e) | Inr x \<Rightarrow> k x)
   }"

definition wrapErr :: "string \<Rightarrow> ('w, apierror + 'a) state \<Rightarrow> ('w, goerror + 'a) state" where
  "wrapErr msg m = do {
     r \<leftarrow> m;
     State_Monad.return (case r of Inl e \<Rightarrow> Inl (errorf msg (apiErr e)) | Inr x \<Rightarrow> Inr x)
   }"

definition getIfExists :: "string \<Rightarrow> ('w, apierror + 'o) state \<Rightarrow> ('w, goerror + 'o option) state" where
  "getIfExists msg m = do {
     r \<leftarrow> m;
     State_Monad.return (case r of
         Inl e \<Rightarrow> if \<not> IsNotFound e then Inl (errorf msg (apiErr e)) else Inr None
       | Inr x \<Rightarrow> Inr (Some x))
   }"

definition listPods :: "'w statusapi \<Rightarrow> labelselector \<Rightarrow> string \<Rightarrow> ('w, goerror + pod list) state" where
  "listPods api sel msg =
     (case sta_selectorErr api sel of
        Some e \<Rightarrow> State_Monad.return (Inl e)
      | None \<Rightarrow> wrapErr msg (sta_listPods api sel DefaultOperandNamespace))"

definition orZero :: "daemonset option \<Rightarrow> daemonset" where
  "orZero ds = (case ds of None \<Rightarrow> emptyDaemonSet | Some d \<Rightarrow> d)"

text \<open>The daemonset and the pods of the DNS cannot be looked up without the DNS.\<close>

definition getOperatorState :: "'w statusapi \<Rightarrow> ('w, goerror + operatorState) state" where
  "getOperatorState api =
     bindErr (getIfExists (''failed to get namespace '' @ quote id (''/'' @ DefaultOperandNamespace))
       (sta_getNamespace api DefaultDNSOperandNamespaceName)) (\<lambda>ns.
     bindErr (wrapErr ''failed to list dnses'' (sta_listDNS api)) (\<lambda>dnses.
     bindErr (getIfExists ''failed to get node-resolver daemonset''
       (sta_getDaemonSet api NodeResolverDaemonSetName)) (\<lambda>nrDS.
     bindErr (listPods api NodeResolverDaemonSetPodSelector ''failed to list node-resolver pods'') (\<lambda>nrPods.
     let st = \<lparr>os_namespace = ns, os_dns = None, os_dnsDaemonSet = emptyDaemonSet,
               os_nodeResolverDaemonSet = orZero nrDS, os_dnsPodList = [], os_nodeResolverPodList = nrPods\<rparr>
     in case dnses of
          [] \<Rightarrow> State_Monad.return (Inr st)
        | d # _ \<Rightarrow>
            bindErr (getIfExists ''failed to get dns daemonset''
              (sta_getDaemonSet api (DNSDaemonSetName d))) (\<lambda>dnsDS.
            bindErr (listPods api (DNSDaemonSetPodSelector d) ''failed to list dns pods'') (\<lambda>pods.
            State_Monad.return (Inr (st\<lparr>os_dns := Some d, os_dnsDaemonSet := orZero dnsDS,
                                       os_dnsPodList := pods\<rparr>))))))))"

section \<open>Versions\<close>

definition computeOperatorStatusVersions :: "gomap \<Rightarrow> operandversion list" where
  "computeOperatorStatusVersions newVersions = map (\<lambda>(n, v). \<lparr>ov_name = n, ov_version = v\<rparr>) newVersions"

fun computeOldVersions_loop :: "gomap \<Rightarrow> operandversion list \<Rightarrow> gomap" where
  "computeOldVersions_loop result [] = result"
| "computeOldVersions_loop result (v # vs) =
     computeOldVersions_loop (AList.update (ov_name v) (ov_version v) result) vs"

definition computeOldVersions :: "operandversion list \<Rightarrow> gomap" where
  "computeOldVersions oldVersions = computeOldVersions_loop [] oldVersions"

definition computeNewVersions :: "string \<Rightarrow> string \<Rightarrow> string \<Rightarrow> string \<Rightarrow> gomap" where
  "computeNewVersions operatorReleaseVersion coreDNSImage openshiftCLIImage kubeRBACProxyImage =
     [(OperatorVersionName, operatorReleaseVersion), (CoreDNSVersionName, coreDNSImage),
      (OpenshiftCLIVersionName, openshiftCLIImage), (KubeRBACProxyName, kubeRBACProxyImage)]"

text \<open>The loop of \<open>isUpgrading\<close> over the entries of \<open>curVersions\<close> in the order they are visited.\<close>

fun isUpgrading_loop ::
  "(string \<Rightarrow> string) \<Rightarrow> gomap \<Rightarrow> gomap \<Rightarrow> bool \<times> string list \<Rightarrow> gomap \<Rightarrow> bool \<times> string list" where
  "isUpgrading_loop qu oldVersions newVersions st [] = st"
| "isUpgrading_loop qu oldVersions newVersions (upgrading, messages) ((name, curVersion) # cur) =
     (let messages1 = (case map_of oldVersions name of
            Some oldVersion \<Rightarrow>
              if oldVersion \<noteq> curVersion
              then messages @ [''Upgraded '' @ name @ '' to '' @ quote qu curVersion @ ''.''] else messages
          | None \<Rightarrow> messages)
      in case map_of newVersions name of
           Some newVersion \<Rightarrow>
             if curVersion \<noteq> newVersion
             then isUpgrading_loop qu oldVersions newVersions
                    (True, messages1 @ [''Upgrading '' @ name @ '' to '' @ quote qu newVersion @ ''.'']) cur
             else isUpgrading_loop qu oldVersions newVersions (upgrading, messages1) cur
         | None \<Rightarrow> isUpgrading_loop qu oldVersions newVersions (upgrading, messages1) cur)"

definition isUpgrading ::
  "(string \<Rightarrow> string) \<Rightarrow> (gomap \<Rightarrow> gomap) \<Rightarrow> gomap \<Rightarrow> gomap \<Rightarrow> gomap \<Rightarrow> bool \<times> string list" where
  "isUpgrading qu visit curVersions oldVersions newVersions =
     isUpgrading_loop qu oldVersions newVersions (False, []) (visit curVersions)"

text \<open>\<open>k8s.io/kubectl/pkg/util/podutils\<close>\<close>

definition getPodReadyCondition :: "pod \<Rightarrow> podcondition option" where
  "getPodReadyCondition p = find (\<lambda>c. pc_type c = ''Ready'') (pod_conditions p)"

definition IsPodReady :: "pod \<Rightarrow> bool" where
  "IsPodReady p = (case getPodReadyCondition p of None \<Rightarrow> False | Some c \<Rightarrow> pc_status c = ConditionTrue)"

definition IsPodAvailable :: "pod \<Rightarrow> int \<Rightarrow> instant \<Rightarrow> bool" where
  "IsPodAvailable p minReadySeconds now =
     (if \<not> IsPodReady p then False
      else minReadySeconds = 0 \<or>
        (case Option.bind (getPodReadyCondition p) pc_lastTransitionTime of
           None \<Rightarrow> False
         | Some t \<Rightarrow> t + minReadySeconds * time_Second < now))"

text \<open>The number of instances of each operand that are at the new version.\<close>

definition versionNameForContainerName :: gomap where
  "versionNameForContainerName =
     [(''dns'', CoreDNSVersionName), (''kube-rbac-proxy'', KubeRBACProxyName),
      (''dns-node-resolver'', OpenshiftCLIVersionName)]"

definition availableOf :: "int smap \<Rightarrow> string \<Rightarrow> int" where
  "availableOf available n = (case map_of available n of None \<Rightarrow> 0 | Some i \<Rightarrow> i)"

fun updateAvailableFromPod :: "gomap \<Rightarrow> int smap \<Rightarrow> container list \<Rightarrow> int smap" where
  "updateAvailableFromPod newVersions available [] = available"
| "updateAvailableFromPod newVersions available (c # cs) =
     updateAvailableFromPod newVersions
       (case map_of versionNameForContainerName (ct_name c) of
          None \<Rightarrow> available
        | Some versionName \<Rightarrow>
            if ct_image c = gm_get newVersions versionName
            then AList.update versionName (availableOf available versionName + 1) available
            else available) cs"

fun updateAvailable :: "gomap \<Rightarrow> int \<Rightarrow> instant \<Rightarrow> int smap \<Rightarrow> pod list \<Rightarrow> int smap" where
  "updateAvailable newVersions minReadySeconds now available [] = available"
| "updateAvailable newVersions minReadySeconds now available (p # ps) =
     updateAvailable newVersions minReadySeconds now
       (if \<not> IsPodAvailable p minReadySeconds now then available
        else updateAvailableFromPod newVersions available (pod_containers p)) ps"

definition computeCurrentVersions ::
  "instant \<Rightarrow> gomap \<Rightarrow> gomap \<Rightarrow> daemonset \<Rightarrow> daemonset \<Rightarrow> pod list \<Rightarrow> pod list \<Rightarrow> gomap" where
  "computeCurrentVersions now oldVersions newVersions dnsDaemonSet nodeResolverDaemonSet dnsPods nodeResolverPods =
     (let available1 = updateAvailable newVersions (dss_minReadySeconds (ds_spec dnsDaemonSet)) now [] dnsPods;
          available = updateAvailable newVersions (dss_minReadySeconds (ds_spec nodeResolverDaemonSet)) now
                        available1 nodeResolverPods;
          desiredDNS = dst_desiredNumberScheduled (ds_status dnsDaemonSet);
          coreDNSLevel = availableOf available CoreDNSVersionName \<ge> desiredDNS;
          kubeRBACProxyLevel = availableOf available KubeRBACProxyName \<ge> desiredDNS;
          desiredNR = dst_desiredNumberScheduled (ds_status nodeResolverDaemonSet);
          openshiftCLILevel = availableOf available OpenshiftCLIVersionName \<ge> desiredNR
      in [(OperatorVersionName,
             if coreDNSLevel \<and> kubeRBACProxyLevel \<and> openshiftCLILevel
             then gm_get newVersions OperatorVersionName else gm_get oldVersions OperatorVersionName),
          (CoreDNSVersionName,
             if coreDNSLevel \<and> kubeRBACProxyLevel
             then gm_get newVersions CoreDNSVersionName else gm_get oldVersions CoreDNSVersionName),
          (OpenshiftCLIVersionName,
             if openshiftCLILevel
             then gm_get newVersions OpenshiftCLIVersionName else gm_get oldVersions OpenshiftCLIVersionName),
          (KubeRBACProxyName,
             if coreDNSLevel \<and> kubeRBACProxyLevel
             then gm_get newVersions KubeRBACProxyName else gm_get oldVersions KubeRBACProxyName)])"

section \<open>Conditions\<close>

fun checkDNSAvailable_loop :: "condition list \<Rightarrow> bool" where
  "checkDNSAvailable_loop [] = False"
| "checkDNSAvailable_loop (c # cs) =
     (if c_type c = TypeAvailable \<and> c_status c = ConditionTrue then True else checkDNSAvailable_loop cs)"

definition checkDNSAvailable :: "dns \<Rightarrow> bool" where
  "checkDNSAvailable d = checkDNSAvailable_loop (st_conditions (dns_status d))"

fun upgradeableOf :: "bool \<times> string \<Rightarrow> condition list \<Rightarrow> bool \<times> string" where
  "upgradeableOf st [] = st"
| "upgradeableOf st (c # cs) =
     upgradeableOf (if c_type c = TypeUpgradeable then (c_status c = ConditionTrue, c_message c) else st) cs"

definition computeOperatorUpgradeableCondition :: "dns \<Rightarrow> condition" where
  "computeOperatorUpgradeableCondition d =
     (let (upgradeable, message) = upgradeableOf (True, '''') (st_conditions (dns_status d))
      in if \<not> upgradeable
         then newCondition TypeUpgradeable ConditionFalse ''DNSNotUpgradeable''
                (if length message > 0 then ''DNS '' @ dns_name d @ '' is not upgradeable: '' @ message
                 else ''DNS '' @ dns_name d @ '' is not upgradeable'')
         else newCondition TypeUpgradeable ConditionTrue ''DNSUpgradeable''
                (if length message > 0 then ''DNS '' @ dns_name d @ '' is upgradeable: '' @ message
                 else ''DNS '' @ dns_name d @ '' is upgradeable''))"

definition degradedMessages :: "condition list \<Rightarrow> string list" where
  "degradedMessages conds =
     map c_message (filter (\<lambda>c. c_type c = TypeDegraded \<and> c_status c = ConditionTrue) conds)"

definition missingDNS :: string where
  "missingDNS = ''DNS '' @ quote id ''default'' @ '' does not exist''"

definition computeOperatorDegradedCondition ::
  "(string \<Rightarrow> string) \<Rightarrow> (gomap \<Rightarrow> gomap) \<Rightarrow> dns option \<Rightarrow> gomap \<Rightarrow> gomap \<Rightarrow> gomap \<Rightarrow> condition" where
  "computeOperatorDegradedCondition qu visit haveDNS oldVersions newVersions curVersions =
     (case haveDNS of
        None \<Rightarrow> newCondition TypeDegraded ConditionTrue ''DNSDoesNotExist'' (missingDNS @ ''.'')
      | Some d \<Rightarrow>
          let upgrading = fst (isUpgrading qu visit curVersions oldVersions newVersions);
              messages = degradedMessages (st_conditions (dns_status d))
          in if \<not> upgrading \<and> messages \<noteq> []
             then newCondition TypeDegraded ConditionTrue ''DNSDegraded''
                    (''DNS '' @ dns_name d @ '' is degraded: '' @ join nl messages)
             else newCondition TypeDegraded ConditionFalse ''DNSNotDegraded'' '''')"

text \<open>
  The first Progressing condition of the DNS decides: the status, the reasons and the
  messages it contributes.
\<close>

fun progressingOf ::
  "(string \<Rightarrow> string) \<Rightarrow> string \<Rightarrow> condition list \<Rightarrow> string \<times> string list \<times> string list" where
  "progressingOf qu name [] =
     (ConditionUnknown, [''DNSDoesNotReportProgressingStatus''],
      [''DNS '' @ quote qu name @ '' is not reporting a Progressing status condition''])"
| "progressingOf qu name (c # cs) =
     (if c_type c \<noteq> TypeProgressing then progressingOf qu name cs
      else if c_status c = ConditionTrue then
        (ConditionTrue, [''DNSReportsProgressingIsTrue''],
         [''DNS '' @ quote qu name @ '' reports Progressing=True: '' @ quote qu (c_message c)])
      else if c_status c = ConditionUnknown then
        (ConditionUnknown, [''DNSReportsProgressingIsUnknown''],
         [''DNS '' @ quote qu name @ '' reports Progressing=Unknown: '' @ quote qu (c_message c)])
      else (ConditionUnknown, [], []))"

definition computeOperatorProgressingCondition ::
  "(string \<Rightarrow> string) \<Rightarrow> (gomap \<Rightarrow> gomap) \<Rightarrow> dns option \<Rightarrow> gomap \<Rightarrow> gomap \<Rightarrow> gomap \<Rightarrow> condition" where
  "computeOperatorProgressingCondition qu visit haveDNS oldVersions newVersions curVersions =
     (let (status1, reasons1, messages1) =
            (case haveDNS of
               None \<Rightarrow> (ConditionTrue, [''DNSDoesNotExist''], [missingDNS])
             | Some d \<Rightarrow> progressingOf qu (dns_name d) (st_conditions (dns_status d)));
          (upgrading, upgradingMessages) = isUpgrading qu visit curVersions oldVersions newVersions;
          status = (if upgrading then ConditionTrue else status1);
          messages = (if upgrading then messages1 @ [join nl upgradingMessages] else messages1);
          progressingReasons = (if upgrading then reasons1 @ [''Upgrading''] else reasons1)
      in if length progressingReasons \<noteq> 0
         then newCondition TypeProgressing status (join ''And'' progressingReasons) (join nl messages)
         else newCondition TypeProgressing ConditionFalse ''AsExpected'' dnsEqualConditionMessage)"

definition computeOperatorAvailableCondition :: "dns option \<Rightarrow> condition" where
  "computeOperatorAvailableCondition haveDNS =
     (case haveDNS of
        None \<Rightarrow> newCondition TypeAvailable ConditionFalse ''DNSDoesNotExist'' (missingDNS @ ''.'')
      | Some d \<Rightarrow>
          if \<not> checkDNSAvailable d
          then newCondition TypeAvailable ConditionFalse ''DNSUnavailable''
                 (''DNS '' @ quote id ''default'' @ '' is unavailable.'')
          else newCondition TypeAvailable ConditionTrue ''AsExpected''
                 (''DNS '' @ quote id ''default'' @ '' is available.''))"

text \<open>
  \<open>mergeConditions\<close>: the inner loop updates the first condition of the type in place, and
  answers with \<^const>\<open>None\<close> when there is none; new conditions are appended at the end.
\<close>

fun updateCondition :: "instant \<Rightarrow> condition \<Rightarrow> condition list \<Rightarrow> condition list option" where
  "updateCondition now update [] = None"
| "updateCondition now update (c # cs) =
     (if c_type c = c_type update
      then Some (c\<lparr>c_lastTransitionTime :=
                     (if c_status c \<noteq> c_status update then now else c_lastTransitionTime c),
                   c_status := c_status update, c_reason := c_reason update,
                   c_message := c_message update\<rparr> # cs)
      else map_option ((#) c) (updateCondition now update cs))"

fun mergeConditions_loop ::
  "instant \<Rightarrow> condition list \<Rightarrow> condition list \<Rightarrow> condition list \<Rightarrow> condition list" where
  "mergeConditions_loop now conditions additions [] = conditions @ additions"
| "mergeConditions_loop now conditions additions (update # updates) =
     (case updateCondition now update conditions of
        Some conditions' \<Rightarrow> mergeConditions_loop now conditions' additions updates
      | None \<Rightarrow> mergeConditions_loop now conditions
                  (additions @ [update\<lparr>c_lastTransitionTime := now\<rparr>]) updates)"

definition mergeConditions :: "instant \<Rightarrow> condition list \<Rightarrow> condition list \<Rightarrow> condition list" where
  "mergeConditions now conditions updates = mergeConditions_loop now conditions [] updates"

text \<open>Each list is sorted stably by one field and then compared, as in \<^const>\<open>ConditionsEqual\<close>.\<close>

definition operatorStatusesEqual :: "costatus \<Rightarrow> costatus \<Rightarrow> bool" where
  "operatorStatusesEqual a b =
     (if sort_key c_type (cos_conditions a) \<noteq> sort_key c_type (cos_conditions b) then False
      else if sort_key ref_name (cos_relatedObjects a) \<noteq> sort_key ref_name (cos_relatedObjects b) then False
      else if sort_key ov_name (cos_versions a) \<noteq> sort_key ov_name (cos_versions b) then False
      else True)"

section \<open>Reconcile\<close>

definition relatedObjects :: "string \<Rightarrow> namespace option \<Rightarrow> objref list" where
  "relatedObjects operatorNamespace haveNamespace =
     [\<lparr>ref_group = '''', ref_resource = ''namespaces'', ref_namespace = '''', ref_name = operatorNamespace\<rparr>,
      \<lparr>ref_group = ''operator.openshift.io'', ref_resource = ''dnses'', ref_namespace = '''', ref_name = ''default''\<rparr>,
      \<lparr>ref_group = ''rbac.authorization.k8s.io'', ref_resource = ''clusterroles'', ref_namespace = '''',
       ref_name = ''openshift-dns-operator''\<rparr>,
      \<lparr>ref_group = ''rbac.authorization.k8s.io'', ref_resource = ''clusterrolebindings'', ref_namespace = '''',
       ref_name = ''openshift-dns-operator''\<rparr>,
      \<lparr>ref_group = ''networking.k8s.io'', ref_resource = ''networkpolicies'', ref_namespace = operatorNamespace,
       ref_name = ''''\<rparr>] @
     (case haveNamespace of
        None \<Rightarrow> []
      | Some ns \<Rightarrow>
          [\<lparr>ref_group = '''', ref_resource = ''namespaces'', ref_namespace = '''', ref_name = m_name (ns_meta ns)\<rparr>,
           \<lparr>ref_group = ''networking.k8s.io'', ref_resource = ''networkpolicies'',
            ref_namespace = m_name (ns_meta ns), ref_name = ''''\<rparr>])"

text \<open>The part of \<open>Reconcile\<close> between the reads and the write: the new status.\<close>

definition newVersionsOf :: "statusconfig \<Rightarrow> gomap" where
  "newVersionsOf cfg = computeNewVersions (sc_operatorReleaseVersion cfg) (sc_coreDNSImage cfg)
     (sc_openshiftCLIImage cfg) (sc_kubeRBACProxyImage cfg)"

definition curVersionsOf :: "statusconfig \<Rightarrow> instant \<Rightarrow> operatorState \<Rightarrow> operandversion list \<Rightarrow> gomap" where
  "curVersionsOf cfg now st versions = computeCurrentVersions now (computeOldVersions versions) (newVersionsOf cfg)
     (os_dnsDaemonSet st) (os_nodeResolverDaemonSet st) (os_dnsPodList st) (os_nodeResolverPodList st)"

definition computeStatus ::
  "statusconfig \<Rightarrow> iteration \<Rightarrow> stclock \<Rightarrow> operatorState \<Rightarrow> costatus \<Rightarrow> costatus" where
  "computeStatus cfg it clk st s =
     (let oldVersions = computeOldVersions (cos_versions s);
          newVersions = newVersionsOf cfg;
          curVersions = curVersionsOf cfg (sck_pods clk) st (cos_versions s);
          progressing = computeOperatorProgressingCondition (sc_quoteUnicode cfg) (it_progressing it)
            (os_dns st) oldVersions newVersions curVersions;
          conditions1 = mergeConditions (sck_merge clk) (cos_conditions s)
            [computeOperatorAvailableCondition (os_dns st), progressing,
             computeOperatorDegradedCondition (sc_quoteUnicode cfg) (it_degraded it) (os_dns st)
               oldVersions newVersions curVersions]
      in \<lparr>cos_conditions = mergeConditions (sck_upgradeable clk) conditions1
            [computeOperatorUpgradeableCondition (stateDNS st)],
          cos_versions = computeOperatorStatusVersions (it_versions it curVersions),
          cos_relatedObjects = relatedObjects (sc_operatorNamespace cfg) (os_namespace st)\<rparr>)"

definition coText :: string where
  "coText = ''clusteroperator '' @ quote id (nn_name DNSClusterOperatorName)"

definition getOrCreateClusterOperator :: "'w statusapi \<Rightarrow> ('w, goerror + clusteroperator) state" where
  "getOrCreateClusterOperator api = do {
     r \<leftarrow> sta_getClusterOperator api DNSClusterOperatorName;
     (case r of
        Inr co \<Rightarrow> State_Monad.return (Inr co)
      | Inl e \<Rightarrow>
          if IsNotFound e
          then wrapErr (''failed to create '' @ coText)
                 (sta_createClusterOperator api (initializeClusterOperator emptyClusterOperator))
          else State_Monad.return (Inl (errorf (''failed to get '' @ coText) (apiErr e))))
   }"

definition reconcileStatus ::
  "'w statusapi \<Rightarrow> statusconfig \<Rightarrow> iteration \<Rightarrow> stclock \<Rightarrow> nsname \<Rightarrow> ('w, rresult \<times> goerror option) state" where
  "reconcileStatus api cfg it clk request = do {
     r \<leftarrow> bindErr (getOrCreateClusterOperator api) (\<lambda>co. do {
       st \<leftarrow> getOperatorState api;
       (case st of
          Inl e \<Rightarrow> State_Monad.return (Inl (errorf ''failed to get operator state'' e))
        | Inr state \<Rightarrow>
            let status = computeStatus cfg it clk state (co_status co)
            in if \<not> operatorStatusesEqual (co_status co) status
               then do {
                 u \<leftarrow> sta_updateStatus api (co\<lparr>co_status := status\<rparr>);
                 State_Monad.return (case u of
                     Some e \<Rightarrow> Inl (errorf (''failed to update '' @ coText) (apiErr e))
                   | None \<Rightarrow> Inr ())
               }
               else State_Monad.return (Inr ()))
     });
     State_Monad.return (emptyResult, case r of Inl e \<Rightarrow> Some e | Inr _ \<Rightarrow> None)
   }"

section \<open>Facts about versions\<close>

lemma version_names_distinct [simp]:
  "OperatorVersionName \<noteq> CoreDNSVersionName" "OperatorVersionName \<noteq> OpenshiftCLIVersionName"
  "OperatorVersionName \<noteq> KubeRBACProxyName" "CoreDNSVersionName \<noteq> OpenshiftCLIVersionName"
  "CoreDNSVersionName \<noteq> KubeRBACProxyName" "OpenshiftCLIVersionName \<noteq> KubeRBACProxyName"
  "CoreDNSVersionName \<noteq> OperatorVersionName" "OpenshiftCLIVersionName \<noteq> OperatorVersionName"
  "KubeRBACProxyName \<noteq> OperatorVersionName" "OpenshiftCLIVersionName \<noteq> CoreDNSVersionName"
  "KubeRBACProxyName \<noteq> CoreDNSVersionName" "KubeRBACProxyName \<noteq> OpenshiftCLIVersionName"
  by (simp_all add: version_name_defs)

text \<open>The names of the components whose versions are reported.\<close>

definition versionNames :: "string list" where
  "versionNames = [OperatorVersionName, CoreDNSVersionName, OpenshiftCLIVersionName, KubeRBACProxyName]"

text \<open>The containers of available pods that run the new version of a component.\<close>

definition runsNew :: "gomap \<Rightarrow> string \<Rightarrow> container \<Rightarrow> bool" where
  "runsNew newVersions n c \<longleftrightarrow> map_of versionNameForContainerName (ct_name c) = Some n \<and> ct_image c = gm_get newVersions n"

definition instancesAt :: "gomap \<Rightarrow> string \<Rightarrow> int \<Rightarrow> instant \<Rightarrow> pod list \<Rightarrow> int" where
  "instancesAt newVersions n minReady now pods = int (length (filter (runsNew newVersions n)
     (concat (map pod_containers (filter (\<lambda>p. IsPodAvailable p minReady now) pods)))))"

lemma availableOf_update:
  "availableOf (AList.update k v m) n = (if n = k then v else availableOf m n)"
  by (simp add: availableOf_def gomap_simps)

lemma availableOf_pod:
  "availableOf (updateAvailableFromPod new av cs) n = availableOf av n + int (length (filter (runsNew new n) cs))"
  by (induction cs arbitrary: av) (auto simp: runsNew_def availableOf_update split: option.split)

lemma availableOf_pods:
  "availableOf (updateAvailable new m now av ps) n = availableOf av n + instancesAt new n m now ps"
  by (induction ps arbitrary: av) (auto simp: instancesAt_def availableOf_pod)

text \<open>When the operands of a daemonset are at the new version.\<close>

definition instances :: "gomap \<Rightarrow> instant \<Rightarrow> daemonset \<Rightarrow> daemonset \<Rightarrow> pod list \<Rightarrow> pod list \<Rightarrow> string \<Rightarrow> int" where
  "instances new now dnsDS nrDS dnsPods nrPods n =
     instancesAt new n (dss_minReadySeconds (ds_spec dnsDS)) now dnsPods
     + instancesAt new n (dss_minReadySeconds (ds_spec nrDS)) now nrPods"

definition dnsAtLevel :: "gomap \<Rightarrow> instant \<Rightarrow> daemonset \<Rightarrow> daemonset \<Rightarrow> pod list \<Rightarrow> pod list \<Rightarrow> bool" where
  "dnsAtLevel new now dnsDS nrDS dnsPods nrPods \<longleftrightarrow>
     (\<forall>n\<in>{CoreDNSVersionName, KubeRBACProxyName}.
        dst_desiredNumberScheduled (ds_status dnsDS) \<le> instances new now dnsDS nrDS dnsPods nrPods n)"

definition resolverAtLevel :: "gomap \<Rightarrow> instant \<Rightarrow> daemonset \<Rightarrow> daemonset \<Rightarrow> pod list \<Rightarrow> pod list \<Rightarrow> bool" where
  "resolverAtLevel new now dnsDS nrDS dnsPods nrPods \<longleftrightarrow>
     dst_desiredNumberScheduled (ds_status nrDS)
       \<le> instances new now dnsDS nrDS dnsPods nrPods OpenshiftCLIVersionName"

lemma computeCurrentVersions_eq:
  "computeCurrentVersions now old new dnsDS nrDS dnsPods nrPods =
     (let dnsLevel = dnsAtLevel new now dnsDS nrDS dnsPods nrPods;
          nrLevel = resolverAtLevel new now dnsDS nrDS dnsPods nrPods;
          pick = (\<lambda>b n. gm_get (if b then new else old) n)
      in [(OperatorVersionName, pick (dnsLevel \<and> nrLevel) OperatorVersionName),
          (CoreDNSVersionName, pick dnsLevel CoreDNSVersionName),
          (OpenshiftCLIVersionName, pick nrLevel OpenshiftCLIVersionName),
          (KubeRBACProxyName, pick dnsLevel KubeRBACProxyName)])"
proof -
  have "availableOf [] n = 0" for n by (simp add: availableOf_def)
  then show ?thesis
    by (auto simp: computeCurrentVersions_def availableOf_pods Let_def dnsAtLevel_def resolverAtLevel_def
        instances_def)
qed

text \<open>Whether an upgrade is under way does not depend on the order of the visit.\<close>

lemma isUpgrading_loop_fst:
  "fst (isUpgrading_loop qu old new (b, ms) cur) \<longleftrightarrow>
     b \<or> (\<exists>n v nv. (n, v) \<in> set cur \<and> map_of new n = Some nv \<and> v \<noteq> nv)"
proof (induction cur arbitrary: b ms)
  case (Cons e cur)
  obtain n v where e: "e = (n, v)" by (cases e)
  have "fst (isUpgrading_loop qu old new (b, ms) (e # cur)) \<longleftrightarrow>
      (b \<or> (\<exists>nv. map_of new n = Some nv \<and> v \<noteq> nv)) \<or>
      (\<exists>n v nv. (n, v) \<in> set cur \<and> map_of new n = Some nv \<and> v \<noteq> nv)"
    by (cases "map_of new n") (simp_all add: e Let_def Cons.IH)
  then show ?case by (auto simp: e)
qed simp

lemma isUpgrading_iff:
  assumes "mset (visit cur) = mset cur"
  shows "fst (isUpgrading qu visit cur old new) \<longleftrightarrow> (\<exists>n v nv. (n, v) \<in> set cur \<and> map_of new n = Some nv \<and> v \<noteq> nv)"
proof -
  have "set (visit cur) = set cur" using assms by (metis set_mset_mset)
  then show ?thesis by (simp add: isUpgrading_def isUpgrading_loop_fst)
qed

lemma newVersionsOf_get:
  "map_of (newVersionsOf cfg) n = (if n \<in> set versionNames then Some (gm_get (newVersionsOf cfg) n) else None)"
  by (auto simp: newVersionsOf_def computeNewVersions_def versionNames_def gm_get_def)


section \<open>Facts about conditions\<close>

lemma checkDNSAvailable_iff:
  "checkDNSAvailable d \<longleftrightarrow> (\<exists>c\<in>set (st_conditions (dns_status d)). c_type c = TypeAvailable \<and> c_status c = ConditionTrue)"
proof -
  have "checkDNSAvailable_loop cs \<longleftrightarrow> (\<exists>c\<in>set cs. c_type c = TypeAvailable \<and> c_status c = ConditionTrue)" for cs
    by (induction cs) auto
  then show ?thesis by (simp add: checkDNSAvailable_def)
qed

text \<open>The first condition of a type.\<close>

definition conditionOf :: "string \<Rightarrow> condition list \<Rightarrow> condition option" where
  "conditionOf t cs = find (\<lambda>c. c_type c = t) cs"

lemma conditionOf_simps [simp]:
  "conditionOf t [] = None"
  "conditionOf t (c # cs) = (if c_type c = t then Some c else conditionOf t cs)"
  by (simp_all add: conditionOf_def)

lemma conditionOf_append:
  "conditionOf t (xs @ ys) = (case conditionOf t xs of None \<Rightarrow> conditionOf t ys | Some c \<Rightarrow> Some c)"
  by (induction xs) auto

lemma conditionOf_None: "conditionOf t cs = None \<longleftrightarrow> t \<notin> c_type ` set cs"
  by (induction cs) auto

lemma conditionOf_type: "conditionOf t cs = Some c \<Longrightarrow> c_type c = t"
  by (induction cs) (auto split: if_splits)

lemma progressingOf_status:
  "fst (progressingOf qu n cs) = ConditionTrue \<longleftrightarrow> (\<exists>c. conditionOf TypeProgressing cs = Some c \<and> c_status c = ConditionTrue)"
  "fst (snd (progressingOf qu n cs)) = [] \<longleftrightarrow>
     (\<exists>c. conditionOf TypeProgressing cs = Some c \<and> c_status c \<noteq> ConditionTrue \<and> c_status c \<noteq> ConditionUnknown)"
  by (induction cs) (auto simp: condition_consts)

section \<open>Merging\<close>

text \<open>What a condition becomes when an update of its type is merged into it.\<close>

definition merged :: "instant \<Rightarrow> condition option \<Rightarrow> condition \<Rightarrow> condition" where
  "merged now old u = u\<lparr>c_lastTransitionTime := (case old of
       Some c \<Rightarrow> if c_status c = c_status u then c_lastTransitionTime c else now
     | None \<Rightarrow> now)\<rparr>"

lemma merged_type [simp]: "c_type (merged now old u) = c_type u" "c_status (merged now old u) = c_status u"
  by (simp_all add: merged_def)

lemma updateCondition_None: "updateCondition now u cs = None \<longleftrightarrow> conditionOf (c_type u) cs = None"
  by (induction cs) auto

lemma updateCondition_Some:
  "updateCondition now u cs = Some cs' \<Longrightarrow>
     conditionOf t cs' = (if t = c_type u then Some (merged now (conditionOf t cs) u) else conditionOf t cs)
     \<and> map c_type cs' = map c_type cs"
proof (induction cs arbitrary: cs')
  case (Cons c cs)
  show ?case
  proof (cases "c_type c = c_type u")
    case True
    then have "cs' = merged now (Some c) u # cs"
      using Cons.prems by (auto simp: merged_def intro!: condition.equality)
    then show ?thesis using True by auto
  next
    case False
    then obtain ds where "updateCondition now u cs = Some ds" "cs' = c # ds"
      using Cons.prems by auto
    then show ?thesis using False Cons.IH by auto
  qed
qed simp

lemma conditionOf_updateCondition:
  assumes "updateCondition now u cs = Some cs'"
  shows "conditionOf t cs' = (if t = c_type u then Some (merged now (conditionOf t cs) u) else conditionOf t cs)"
  using updateCondition_Some[OF assms] by blast

lemma conditionOf_merge_loop:
  assumes "distinct (map c_type us)" "\<forall>u\<in>set us. c_type u \<notin> c_type ` set adds"
  shows "conditionOf t (mergeConditions_loop now cs adds us) =
     (case conditionOf t us of
        Some u \<Rightarrow> Some (merged now (conditionOf t cs) u)
      | None \<Rightarrow> conditionOf t (cs @ adds))"
  using assms
proof (induction us arbitrary: cs adds)
  case (Cons u us)
  show ?case
  proof (cases "updateCondition now u cs")
    case None
    then have miss: "conditionOf (c_type u) cs = None" by (simp add: updateCondition_None)
    have "conditionOf t us = None" if "t = c_type u"
      using Cons.prems(1) that by (simp add: conditionOf_None)
    moreover have "conditionOf (c_type u) adds = None"
      using Cons.prems(2) by (simp add: conditionOf_None)
    moreover have "\<forall>x\<in>set us. c_type x \<notin> c_type ` set (adds @ [u\<lparr>c_lastTransitionTime := now\<rparr>])"
      using Cons.prems by (force simp: image_iff)
    then have "conditionOf t (mergeConditions_loop now cs adds (u # us)) = (case conditionOf t us of
        Some u \<Rightarrow> Some (merged now (conditionOf t cs) u)
      | None \<Rightarrow> conditionOf t (cs @ adds @ [u\<lparr>c_lastTransitionTime := now\<rparr>]))"
      using None Cons.IH[of "adds @ [u\<lparr>c_lastTransitionTime := now\<rparr>]" cs] Cons.prems(1) by simp
    ultimately show ?thesis
      using miss by (auto simp: conditionOf_append merged_def split: option.splits)
  next
    case (Some cs')
    note upd = conditionOf_updateCondition[OF Some]
    have "conditionOf t us = None" if "t = c_type u"
      using Cons.prems(1) that by (simp add: conditionOf_None)
    then show ?thesis
      using Some Cons.IH[of adds cs'] Cons.prems
      by (auto simp: conditionOf_append upd split: option.splits)
  qed
qed (simp split: option.split)

lemma conditionOf_mergeConditions:
  "distinct (map c_type us) \<Longrightarrow>
   conditionOf t (mergeConditions now cs us) =
     (case conditionOf t us of
        Some u \<Rightarrow> Some (merged now (conditionOf t cs) u)
      | None \<Rightarrow> conditionOf t cs)"
  by (simp add: mergeConditions_def conditionOf_merge_loop split: option.split)

lemma types_merge_loop:
  assumes "distinct (map c_type us)"
  shows "map c_type (mergeConditions_loop now cs adds us) =
     map c_type cs @ map c_type adds @ filter (\<lambda>t. t \<notin> c_type ` set cs) (map c_type us)"
  using assms
proof (induction us arbitrary: cs adds)
  case (Cons u us)
  show ?case
  proof (cases "updateCondition now u cs")
    case None
    then have "c_type u \<notin> c_type ` set cs" by (simp add: updateCondition_None conditionOf_None)
    then show ?thesis using None Cons by simp
  next
    case (Some cs')
    have ty: "map c_type cs' = map c_type cs" using updateCondition_Some[OF Some] by blast
    have "c_type u \<in> c_type ` set cs"
      using Some updateCondition_None[of now u cs] by (simp add: conditionOf_None)
    moreover have "c_type ` set cs' = c_type ` set cs" using ty by (metis set_map)
    ultimately show ?thesis using Some Cons ty by simp
  qed
qed simp

lemma types_mergeConditions:
  "distinct (map c_type us) \<Longrightarrow>
   map c_type (mergeConditions now cs us) = map c_type cs @ filter (\<lambda>t. t \<notin> c_type ` set cs) (map c_type us)"
  by (simp add: mergeConditions_def types_merge_loop)


text \<open>Merging updates that are already there changes nothing.\<close>

definition carries :: "condition list \<Rightarrow> condition \<Rightarrow> bool" where
  "carries cs u \<longleftrightarrow> (\<exists>t. conditionOf (c_type u) cs = Some (u\<lparr>c_lastTransitionTime := t\<rparr>))"

lemma updateCondition_carried: "carries cs u \<Longrightarrow> updateCondition now u cs = Some cs"
  by (induction cs) (auto simp: carries_def split: if_splits)

lemma merge_carried: "\<forall>u\<in>set us. carries cs u \<Longrightarrow> mergeConditions now cs us = cs"
proof -
  have "\<forall>u\<in>set us. carries cs u \<Longrightarrow> mergeConditions_loop now cs [] us = cs"
    by (induction us) (auto simp: updateCondition_carried)
  then show "\<forall>u\<in>set us. carries cs u \<Longrightarrow> ?thesis" by (simp add: mergeConditions_def)
qed

lemma carries_merge:
  assumes "distinct (map c_type us)"
  shows "u \<in> set us \<Longrightarrow> carries (mergeConditions now cs us) u"
    and "c_type v \<notin> c_type ` set us \<Longrightarrow> carries cs v \<Longrightarrow> carries (mergeConditions now cs us) v"
proof -
  have "u \<in> set us \<Longrightarrow> conditionOf (c_type u) us = Some u"
    using assms by (induction us) auto
  then show "u \<in> set us \<Longrightarrow> carries (mergeConditions now cs us) u"
    using assms by (auto simp: carries_def conditionOf_mergeConditions merged_def)
  show "c_type v \<notin> c_type ` set us \<Longrightarrow> carries cs v \<Longrightarrow> carries (mergeConditions now cs us) v"
    using assms conditionOf_None[of "c_type v" us]
    by (simp add: carries_def conditionOf_mergeConditions)
qed

lemma operator_condition_types [simp]:
  "c_type (computeOperatorAvailableCondition h) = TypeAvailable"
  "c_type (computeOperatorDegradedCondition qu visit h old new cur) = TypeDegraded"
  "c_type (computeOperatorProgressingCondition qu visit h old new cur) = TypeProgressing"
  "c_type (computeOperatorUpgradeableCondition d) = TypeUpgradeable"
  by (simp_all add: computeOperatorAvailableCondition_def computeOperatorDegradedCondition_def
      computeOperatorProgressingCondition_def computeOperatorUpgradeableCondition_def Let_def
      split: option.split prod.split)

section \<open>Stable states\<close>

text \<open>Every operand runs the version the operator is configured with.\<close>

definition atLevel :: "statusconfig \<Rightarrow> instant \<Rightarrow> operatorState \<Rightarrow> bool" where
  "atLevel cfg now st \<longleftrightarrow>
     dnsAtLevel (newVersionsOf cfg) now (os_dnsDaemonSet st) (os_nodeResolverDaemonSet st) (os_dnsPodList st)
       (os_nodeResolverPodList st)
     \<and> resolverAtLevel (newVersionsOf cfg) now (os_dnsDaemonSet st) (os_nodeResolverDaemonSet st) (os_dnsPodList st)
       (os_nodeResolverPodList st)"

lemma curVersions_atLevel:
  assumes "atLevel cfg now st"
  shows "curVersionsOf cfg now st vs = newVersionsOf cfg"
  using assms
  by (simp add: atLevel_def curVersionsOf_def computeCurrentVersions_eq newVersionsOf_def computeNewVersions_def
      gm_get_def)

lemma newVersions_level:
  assumes "mset (visit (newVersionsOf cfg)) = mset (newVersionsOf cfg)"
  shows "\<not> fst (isUpgrading qu visit (newVersionsOf cfg) old (newVersionsOf cfg))"
proof -
  have "map_of (newVersionsOf cfg) n = Some v" if "(n, v) \<in> set (newVersionsOf cfg)" for n v
    using that by (auto simp: newVersionsOf_def computeNewVersions_def)
  then show ?thesis by (auto simp: isUpgrading_iff[where visit = visit, OF assms])
qed

lemma conditions_atLevel:
  assumes "visits it"
  shows "computeOperatorProgressingCondition qu (it_progressing it) h old (newVersionsOf cfg) (newVersionsOf cfg)
      = computeOperatorProgressingCondition qu id h [] (newVersionsOf cfg) (newVersionsOf cfg)"
    and "computeOperatorDegradedCondition qu (it_degraded it) h old (newVersionsOf cfg) (newVersionsOf cfg)
      = computeOperatorDegradedCondition qu id h [] (newVersionsOf cfg) (newVersionsOf cfg)"
  using assms newVersions_level[of "it_progressing it" cfg qu old] newVersions_level[of "it_degraded it" cfg qu old]
    newVersions_level[of id cfg qu "[]"]
  by (auto simp: computeOperatorProgressingCondition_def computeOperatorDegradedCondition_def visits_def
      split: option.split prod.split)

lemma sort_versions:
  assumes "mset (visit m) = mset m" "mset (visit' m) = mset m" "distinct (map fst m)"
  shows "sort_key ov_name (computeOperatorStatusVersions (visit m))
    = sort_key ov_name (computeOperatorStatusVersions (visit' m))"
proof (rule sort_key_inj_key_eq)
  show "mset (computeOperatorStatusVersions (visit m))
      = mset (sort_key ov_name (computeOperatorStatusVersions (visit' m)))"
    using assms(1,2) by (simp add: computeOperatorStatusVersions_def)
  have "set (visit m) = set m" using assms(1) by (metis set_mset_mset)
  then have "set (computeOperatorStatusVersions (visit m)) = (\<lambda>(n, v). \<lparr>ov_name = n, ov_version = v\<rparr>) ` set m"
    by (simp add: computeOperatorStatusVersions_def)
  moreover have "inj_on fst (set m)" using assms(3) by (simp add: distinct_map)
  ultimately show "inj_on ov_name (set (computeOperatorStatusVersions (visit m)))"
    by (force simp: inj_on_def)
qed simp

lemma status_settled:
  assumes "visits it" "visits it'" "atLevel cfg (sck_pods clk) st" "atLevel cfg (sck_pods clk') st"
  shows "operatorStatusesEqual (computeStatus cfg it clk st s) (computeStatus cfg it' clk' st (computeStatus cfg it clk st s))"
proof -
  let ?q = "sc_quoteUnicode cfg" and ?new = "newVersionsOf cfg"
  let ?us = "[computeOperatorAvailableCondition (os_dns st),
     computeOperatorProgressingCondition ?q id (os_dns st) [] ?new ?new,
     computeOperatorDegradedCondition ?q id (os_dns st) [] ?new ?new]"
  let ?u = "computeOperatorUpgradeableCondition (stateDNS st)"
  have conds: "cos_conditions (computeStatus cfg i c st x)
      = mergeConditions (sck_upgradeable c) (mergeConditions (sck_merge c) (cos_conditions x) ?us) [?u]"
    if "visits i" "atLevel cfg (sck_pods c) st" for i c x
    using that by (simp add: computeStatus_def curVersions_atLevel conditions_atLevel Let_def)
  let ?cs = "cos_conditions (computeStatus cfg it clk st s)"
  have "\<forall>v\<in>set ?us. carries ?cs v" "carries ?cs ?u"
    unfolding conds[OF assms(1,3)]
    by (auto intro: carries_merge(1) carries_merge(2)[OF _ _ carries_merge(1)])
  then have "cos_conditions (computeStatus cfg it' clk' st (computeStatus cfg it clk st s)) = ?cs"
    using assms by (simp add: conds[of it' clk'] merge_carried)
  moreover have "distinct (map fst ?new)" by (simp add: newVersionsOf_def computeNewVersions_def)
  ultimately show ?thesis
    using assms sort_versions[of "it_versions it" ?new "it_versions it'"]
    by (simp add: operatorStatusesEqual_def computeStatus_def Let_def curVersions_atLevel visits_def)
qed

end
