(* ===== verification/Status_Reports.thy ===== *)
theory Status_Reports
  imports Status_Controller
begin

text \<open>
  Properties of the status controller: which versions and conditions it reports, how it
  merges them into the ClusterOperator, what is in the cluster after it has run, and when
  it stops writing.
\<close>

section \<open>Properties\<close>

text \<open>Sample inputs for the witnesses: one pod of each daemonset, at the new version.\<close>

definition sample_status_config :: statusconfig where
  "sample_status_config = \<lparr>sc_operatorNamespace = ''openshift-dns-operator'', sc_operatorReleaseVersion = ''4.20'',
     sc_coreDNSImage = ''coredns'', sc_openshiftCLIImage = ''cli'', sc_kubeRBACProxyImage = ''proxy'',
     sc_quoteUnicode = id\<rparr>"

definition sample_container :: "string \<Rightarrow> string \<Rightarrow> container" where
  "sample_container n img = \<lparr>ct_name = n, ct_image = img, ct_command = [], ct_args = [], ct_env = [],
     ct_volumeMounts = [], ct_readinessProbe = None, ct_livenessProbe = None, ct_ports = [], ct_requests = [],
     ct_privileged = None, ct_readOnlyRoot = None, ct_imagePullPolicy = '''', ct_terminationMessagePolicy = ''''\<rparr>"

definition sample_pod :: "(string \<times> string) list \<Rightarrow> pod" where
  "sample_pod cs = \<lparr>pod_meta = emptyMeta, pod_containers = map (\<lambda>(n, i). sample_container n i) cs,
     pod_conditions = [\<lparr>pc_type = ''Ready'', pc_status = ConditionTrue, pc_lastTransitionTime = Some 1\<rparr>]\<rparr>"

definition sample_one :: daemonset where
  "sample_one = emptyDaemonSet\<lparr>ds_status := \<lparr>dst_desiredNumberScheduled = 1,
     dst_updatedNumberScheduled = 1, dst_numberAvailable = 1\<rparr>\<rparr>"

definition sample_dns_pods :: "pod list" where
  "sample_dns_pods = [sample_pod [(''dns'', ''coredns''), (''kube-rbac-proxy'', ''proxy'')]]"

definition sample_nr_pods :: "pod list" where
  "sample_nr_pods = [sample_pod [(''dns-node-resolver'', ''cli'')]]"

text \<open>
  C10: The operator version is bumped last. The reported version of a component is always its old or its
  new one. The operator's own version changes only when every operand is reported at its new version and
  the available pods run at least as many new \<open>dns\<close> and \<open>kube-rbac-proxy\<close> containers as the DNS daemonset
  wants pods and as many new \<open>dns-node-resolver\<close> containers as the node resolver wants; and when they do,
  every component is reported at its new version.
\<close>

theorem operator_version_last:
  assumes "cur = computeCurrentVersions now old new dnsDS nrDS dnsPods nrPods"
    and "ready \<longleftrightarrow> (\<forall>n\<in>{CoreDNSVersionName, KubeRBACProxyName}.
          dst_desiredNumberScheduled (ds_status dnsDS) \<le> instances new now dnsDS nrDS dnsPods nrPods n)
        \<and> dst_desiredNumberScheduled (ds_status nrDS) \<le> instances new now dnsDS nrDS dnsPods nrPods OpenshiftCLIVersionName"
  shows "map fst cur = versionNames
    \<and> (\<forall>n\<in>set versionNames. gm_get cur n = gm_get old n \<or> gm_get cur n = gm_get new n)
    \<and> (gm_get cur OperatorVersionName \<noteq> gm_get old OperatorVersionName \<longrightarrow> ready)
    \<and> (ready \<longrightarrow> (\<forall>n\<in>set versionNames. gm_get cur n = gm_get new n))"
proof -
  have ready: "ready \<longleftrightarrow> dnsAtLevel new now dnsDS nrDS dnsPods nrPods \<and> resolverAtLevel new now dnsDS nrDS dnsPods nrPods"
    using assms(2) by (simp add: dnsAtLevel_def resolverAtLevel_def)
  show ?thesis
    unfolding assms(1) computeCurrentVersions_eq ready
    by (simp add: versionNames_def Let_def gm_get_def)
qed

theorem operator_version_last_witness:
  "let old = computeOldVersions (cos_versions (co_status (initializeClusterOperator emptyClusterOperator)));
       new = newVersionsOf sample_status_config;
       cur = computeCurrentVersions 5 old new sample_one sample_one sample_dns_pods sample_nr_pods
   in gm_get old OperatorVersionName = ''unknown'' \<and> gm_get cur OperatorVersionName = ''4.20''
      \<and> gm_get cur KubeRBACProxyName = ''proxy''
      \<and> 1 \<le> instances new 5 sample_one sample_one sample_dns_pods sample_nr_pods OpenshiftCLIVersionName"
proof -
  define old where "old = computeOldVersions (cos_versions (co_status (initializeClusterOperator emptyClusterOperator)))"
  define new where "new = newVersionsOf sample_status_config"
  define cur where "cur = computeCurrentVersions 5 old new sample_one sample_one sample_dns_pods sample_nr_pods"
  have vals: "gm_get old OperatorVersionName = ''unknown'' \<and> gm_get cur OperatorVersionName = ''4.20''
      \<and> gm_get new KubeRBACProxyName = ''proxy''"
    unfolding cur_def old_def new_def by code_simp
  then have ne: "gm_get cur OperatorVersionName \<noteq> gm_get old OperatorVersionName" by simp
  have des: "dst_desiredNumberScheduled (ds_status sample_one) = 1" by (simp add: sample_one_def)
  note claim = operator_version_last[OF cur_def refl, unfolded des]
  have ready: "(\<forall>n\<in>{CoreDNSVersionName, KubeRBACProxyName}. 1 \<le> instances new 5 sample_one sample_one sample_dns_pods sample_nr_pods n)
      \<and> 1 \<le> instances new 5 sample_one sample_one sample_dns_pods sample_nr_pods OpenshiftCLIVersionName"
    using claim ne by blast
  then have "\<forall>n\<in>set versionNames. gm_get cur n = gm_get new n" using claim by blast
  then have "gm_get cur KubeRBACProxyName = ''proxy''" using vals by (simp only: versionNames_def list.set ball_simps insert_iff simp_thms)
  with vals ready show ?thesis unfolding Let_def old_def[symmetric] new_def[symmetric] cur_def[symmetric] by (simp only: simp_thms)
qed

lemma reported_progressing:
  "(case progressingOf qu n cs of (s, reasons, _) \<Rightarrow> if reasons = [] then ConditionFalse else s) =
     (case conditionOf TypeProgressing cs of
        None \<Rightarrow> ConditionUnknown
      | Some c \<Rightarrow> if c_status c = ConditionTrue \<or> c_status c = ConditionUnknown then c_status c else ConditionFalse)"
  by (induction cs) auto

text \<open>
  C29: What the ClusterOperator's conditions mean. Whatever order Go visits the versions in: Available is True
  exactly when there is a DNS with an Available=True condition; Degraded is True exactly when there is no
  DNS, or no component is being upgraded and the DNS has a Degraded=True condition; Progressing is True
  exactly when there is no DNS, a component is being upgraded, or the first Progressing condition of the
  DNS is True, and it is False exactly when no component is being upgraded and that condition is present
  and neither True nor Unknown.
\<close>

theorem operator_conditions_iff:
  assumes "visits it"
  shows "let conds = (\<lambda>d. st_conditions (dns_status d));
       behind = (\<exists>n v nv. (n, v) \<in> set cur \<and> map_of new n = Some nv \<and> v \<noteq> nv);
       reports = (\<lambda>t s. \<exists>d. have_dns = Some d \<and> (\<exists>c\<in>set (conds d). c_type c = t \<and> c_status c = s));
       progressing = (case have_dns of None \<Rightarrow> None | Some d \<Rightarrow> conditionOf TypeProgressing (conds d));
       degr = computeOperatorDegradedCondition qu (it_degraded it) have_dns old new cur;
       prog = computeOperatorProgressingCondition qu (it_progressing it) have_dns old new cur
     in (c_status (computeOperatorAvailableCondition have_dns) = ConditionTrue \<longleftrightarrow> reports TypeAvailable ConditionTrue)
      \<and> (c_status degr = ConditionTrue \<longleftrightarrow> have_dns = None \<or> \<not> behind \<and> reports TypeDegraded ConditionTrue)
      \<and> (c_status prog = ConditionTrue \<longleftrightarrow> have_dns = None \<or> behind \<or> map_option c_status progressing = Some ConditionTrue)
      \<and> (c_status prog = ConditionFalse \<longleftrightarrow> \<not> behind \<and> (\<exists>c. progressing = Some c \<and> c_status c \<notin> {ConditionTrue, ConditionUnknown}))"
proof -
  let ?behind = "\<exists>n v nv. (n, v) \<in> set cur \<and> map_of new n = Some nv \<and> v \<noteq> nv"
  have up: "fst (isUpgrading qu (it_progressing it) cur old new) \<longleftrightarrow> ?behind"
    "fst (isUpgrading qu (it_degraded it) cur old new) \<longleftrightarrow> ?behind"
    using assms by (simp_all add: isUpgrading_iff visits_def)
  have avail: "c_status (computeOperatorAvailableCondition have_dns) = ConditionTrue \<longleftrightarrow>
      (\<exists>d. have_dns = Some d \<and> checkDNSAvailable d)"
    by (auto simp: computeOperatorAvailableCondition_def split: option.split)
  have degr: "c_status (computeOperatorDegradedCondition qu (it_degraded it) have_dns old new cur) = ConditionTrue \<longleftrightarrow>
      have_dns = None \<or> \<not> ?behind \<and> (\<exists>d. have_dns = Some d \<and> degradedMessages (st_conditions (dns_status d)) \<noteq> [])"
    by (auto simp: computeOperatorDegradedCondition_def Let_def up split: option.split)
  have messages: "degradedMessages cs \<noteq> [] \<longleftrightarrow> (\<exists>c\<in>set cs. c_type c = TypeDegraded \<and> c_status c = ConditionTrue)" for cs
    by (auto simp: degradedMessages_def filter_empty_conv)
  have prog: "c_status (computeOperatorProgressingCondition qu (it_progressing it) have_dns old new cur) =
      (if ?behind \<or> have_dns = None then ConditionTrue
       else (case progressingOf qu (dns_name (the have_dns)) (st_conditions (dns_status (the have_dns))) of
         (s, reasons, _) \<Rightarrow> if reasons = [] then ConditionFalse else s))"
    using up(1) by (auto simp: computeOperatorProgressingCondition_def split: option.split prod.splits)
  show ?thesis
    unfolding Let_def avail degr prog messages reported_progressing
    by (cases have_dns) (auto simp: checkDNSAvailable_iff condition_consts split: option.split)
qed

definition sample_iteration :: iteration where
  "sample_iteration = \<lparr>it_progressing = rev, it_degraded = id, it_versions = id\<rparr>"

lemma sample_iteration_visits: "visits sample_iteration"
  by (simp add: visits_def sample_iteration_def)

definition sample_available :: dns where
  "sample_available = emptyDNS\<lparr>dns_status := (dns_status emptyDNS)\<lparr>st_conditions :=
     [newCondition TypeAvailable ConditionTrue '''' '''', newCondition TypeProgressing ConditionFalse '''' '''',
      newCondition TypeDegraded ConditionTrue '''' ''no pods'']\<rparr>\<rparr>"

theorem operator_conditions_iff_witness:
  "c_status (computeOperatorAvailableCondition (Some sample_available)) = ConditionTrue
   \<and> c_status (computeOperatorDegradedCondition id (it_degraded sample_iteration) (Some sample_available) [] [] []) = ConditionTrue
   \<and> c_status (computeOperatorProgressingCondition id (it_progressing sample_iteration) (Some sample_available) [] [] []) = ConditionFalse"
  using operator_conditions_iff[OF sample_iteration_visits, of "[]" "[]" "Some sample_available" id "[]"]
  by (simp add: sample_available_def Let_def) (simp add: condition_consts)

text \<open>
  Merging conditions. When the updates have different types, the merged list has the old types in their
  order followed by the new ones, the first condition of each updated type carries the update, with the old
  transition time exactly when the status is the same and the time of the merge otherwise, and the first
  condition of every other type is untouched.
\<close>

theorem merge_conditions_spec:
  assumes "distinct (map c_type us)"
  shows "map c_type (mergeConditions now cs us) = map c_type cs @ filter (\<lambda>t. t \<notin> c_type ` set cs) (map c_type us)
    \<and> (\<forall>t. conditionOf t (mergeConditions now cs us) =
        (case conditionOf t us of
           None \<Rightarrow> conditionOf t cs
         | Some u \<Rightarrow> Some (u\<lparr>c_lastTransitionTime :=
             (case conditionOf t cs of
                Some c \<Rightarrow> if c_status c = c_status u then c_lastTransitionTime c else now
              | None \<Rightarrow> now)\<rparr>)))"
  using assms types_mergeConditions conditionOf_mergeConditions
  by (simp add: merged_def split: option.split)

theorem merge_conditions_spec_witness:
  "mergeConditions 9 [(newCondition TypeAvailable ConditionFalse '''' '''')\<lparr>c_lastTransitionTime := 3\<rparr>]
     [newCondition TypeDegraded ConditionFalse '''' '''', newCondition TypeAvailable ConditionFalse ''r'' ''m'']
   = [(newCondition TypeAvailable ConditionFalse ''r'' ''m'')\<lparr>c_lastTransitionTime := 3\<rparr>,
      (newCondition TypeDegraded ConditionFalse '''' '''')\<lparr>c_lastTransitionTime := 9\<rparr>]"
  (is "mergeConditions 9 ?cs ?us = ?r")
proof -
  have "map c_type (mergeConditions 9 ?cs ?us) = [TypeAvailable, TypeDegraded]"
    using merge_conditions_spec[of ?us 9 ?cs] by simp
  then obtain a b where ab: "mergeConditions 9 ?cs ?us = [a, b]" "c_type a = TypeAvailable" "c_type b = TypeDegraded"
    by (auto simp: map_eq_Cons_conv)
  have "conditionOf TypeAvailable [a, b] = Some (hd ?r) \<and> conditionOf TypeDegraded [a, b] = Some (last ?r)"
    using merge_conditions_spec[of ?us 9 ?cs, THEN conjunct2, THEN spec, of TypeAvailable]
      merge_conditions_spec[of ?us 9 ?cs, THEN conjunct2, THEN spec, of TypeDegraded] unfolding ab(1) by simp
  then show ?thesis using ab by simp
qed

section \<open>Publishing\<close>

text \<open>
  What the controller relies on: reading changes nothing, a created ClusterOperator reads as the server
  answered, and a successful status update stores the status.
\<close>

definition keepsStatus :: "'w statusapi \<Rightarrow> bool" where
  "keepsStatus api \<longleftrightarrow>
     (\<forall>n w. snd (run_state (sta_getClusterOperator api n) w) = w) \<and>
     (\<forall>w. snd (run_state (getOperatorState api) w) = w) \<and>
     (\<forall>co co' w w'. run_state (sta_createClusterOperator api co) w = (Inr co', w') \<longrightarrow>
        fst (run_state (sta_getClusterOperator api DNSClusterOperatorName) w') = Inr co') \<and>
     (\<forall>co w w'. run_state (sta_updateStatus api co) w = (None, w') \<longrightarrow>
        (\<exists>co'. fst (run_state (sta_getClusterOperator api DNSClusterOperatorName) w') = Inr co'
             \<and> co_status co' = co_status co))"

lemma conditionOf_filter: "conditionOf t cs = (case filter (\<lambda>c. c_type c = t) cs of [] \<Rightarrow> None | c # _ \<Rightarrow> Some c)"
  by (induction cs) auto

lemma carries_sorted:
  assumes "sort_key c_type cs = sort_key c_type ds"
  shows "carries cs u \<longleftrightarrow> carries ds u"
proof -
  have "filter (\<lambda>c. c_type c = t) cs = filter (\<lambda>c. c_type c = t) ds" for t
    using assms sort_key_stable[of c_type t cs] sort_key_stable[of c_type t ds] by simp
  then show ?thesis by (simp add: carries_def conditionOf_filter)
qed

lemma computeStatus_carries:
  assumes "u \<in> {computeOperatorAvailableCondition (os_dns st),
      computeOperatorProgressingCondition (sc_quoteUnicode cfg) (it_progressing it) (os_dns st)
        (computeOldVersions (cos_versions s)) (newVersionsOf cfg) (curVersionsOf cfg (sck_pods clk) st (cos_versions s)),
      computeOperatorDegradedCondition (sc_quoteUnicode cfg) (it_degraded it) (os_dns st)
        (computeOldVersions (cos_versions s)) (newVersionsOf cfg) (curVersionsOf cfg (sck_pods clk) st (cos_versions s)),
      computeOperatorUpgradeableCondition (stateDNS st)}"
  shows "carries (cos_conditions (computeStatus cfg it clk st s)) u"
  using assms unfolding computeStatus_def Let_def
  by (auto intro: carries_merge(1) carries_merge(2)[OF _ _ carries_merge(1)])

lemma operatorStatusesEqualD:
  assumes "operatorStatusesEqual a b"
  shows "sort_key c_type (cos_conditions a) = sort_key c_type (cos_conditions b)"
    "mset (cos_versions a) = mset (cos_versions b)" "mset (cos_relatedObjects a) = mset (cos_relatedObjects b)"
proof -
  have eqs: "sort_key c_type (cos_conditions a) = sort_key c_type (cos_conditions b)"
    "sort_key ref_name (cos_relatedObjects a) = sort_key ref_name (cos_relatedObjects b)"
    "sort_key ov_name (cos_versions a) = sort_key ov_name (cos_versions b)"
    using assms by (simp_all only: operatorStatusesEqual_def split: if_splits)
  then show "sort_key c_type (cos_conditions a) = sort_key c_type (cos_conditions b)" by simp
  show "mset (cos_versions a) = mset (cos_versions b)" "mset (cos_relatedObjects a) = mset (cos_relatedObjects b)"
    using arg_cong[OF eqs(3), of mset] arg_cong[OF eqs(2), of mset] by simp_all
qed

lemma getOrCreate_reads:
  assumes "keepsStatus api" "run_state (getOrCreateClusterOperator api) w = (Inr co, w')"
  shows "fst (run_state (sta_getClusterOperator api DNSClusterOperatorName) w') = Inr co"
  using assms
  by (auto simp: getOrCreateClusterOperator_def keepsStatus_def wrapErr_def split: prod.splits sum.splits if_splits)
    (metis fst_conv snd_conv)+

lemma keepsStatus_update:
  assumes "keepsStatus api" "run_state (sta_updateStatus api co) w = (None, w')"
  obtains co' where "fst (run_state (sta_getClusterOperator api DNSClusterOperatorName) w') = Inr co'"
    "co_status co' = co_status co"
  using assms unfolding keepsStatus_def by blast

lemma reconcileStatus_success:
  assumes "keepsStatus api" "run_state (reconcileStatus api cfg it clk req) w = ((res, None), w')"
  obtains co v st pub where "run_state (getOrCreateClusterOperator api) w = (Inr co, v)"
    "fst (run_state (getOperatorState api) v) = Inr st"
    "fst (run_state (sta_getClusterOperator api DNSClusterOperatorName) w') = Inr pub"
    "operatorStatusesEqual (co_status pub) (computeStatus cfg it clk st (co_status co))"
proof -
  obtain co v where co: "run_state (getOrCreateClusterOperator api) w = (Inr co, v)"
    using assms(2) by (auto simp: reconcileStatus_def bindErr_def split: prod.splits sum.splits)
  obtain r v1 where rv: "run_state (getOperatorState api) v = (r, v1)" by (metis prod.exhaust)
  then have v1: "v1 = v" using assms(1) unfolding keepsStatus_def by (metis snd_conv)
  then obtain st where st: "run_state (getOperatorState api) v = (Inr st, v)"
    using assms(2) co rv by (cases r) (auto simp: reconcileStatus_def bindErr_def)
  let ?new = "computeStatus cfg it clk st (co_status co)"
  show ?thesis
  proof (cases "operatorStatusesEqual (co_status co) ?new")
    case True
    then have "w' = v" using assms(2) co st by (simp add: reconcileStatus_def bindErr_def)
    then show ?thesis using that[OF co _ _ True] st getOrCreate_reads[OF assms(1) co] by simp
  next
    case False
    then have "run_state (sta_updateStatus api (co\<lparr>co_status := ?new\<rparr>)) v = (None, w')"
      using assms(2) co st by (auto simp: reconcileStatus_def bindErr_def Let_def split: prod.splits option.splits)
    with assms(1) obtain pub where
      pub: "fst (run_state (sta_getClusterOperator api DNSClusterOperatorName) w') = Inr pub"
        "co_status pub = co_status (co\<lparr>co_status := ?new\<rparr>)"
      by (rule keepsStatus_update)
    have "operatorStatusesEqual (co_status pub) ?new" by (simp add: pub(2) operatorStatusesEqual_def)
    then show ?thesis using that[OF co _ pub(1)] st by simp
  qed
qed

text \<open>
  C11: What is published. When the status controller succeeds against a server that keeps what it is given, the
  ClusterOperator in the cluster carries the Available, Progressing, Degraded and Upgradeable conditions computed
  from the state that was read, lists exactly the computed versions (in some order) and refers to the related
  objects: also when nothing was written because the status was considered equal.
\<close>

theorem status_published:
  assumes "keepsStatus api" "run_state (reconcileStatus api cfg it clk req) w = ((res, None), w')"
  shows "\<exists>co v st pub. run_state (getOrCreateClusterOperator api) w = (Inr co, v)
    \<and> fst (run_state (getOperatorState api) v) = Inr st
    \<and> fst (run_state (sta_getClusterOperator api DNSClusterOperatorName) w') = Inr pub
    \<and> (let old = computeOldVersions (cos_versions (co_status co)); new = newVersionsOf cfg;
           cur = curVersionsOf cfg (sck_pods clk) st (cos_versions (co_status co))
       in (\<forall>u\<in>{computeOperatorAvailableCondition (os_dns st),
              computeOperatorProgressingCondition (sc_quoteUnicode cfg) (it_progressing it) (os_dns st) old new cur,
              computeOperatorDegradedCondition (sc_quoteUnicode cfg) (it_degraded it) (os_dns st) old new cur,
              computeOperatorUpgradeableCondition (stateDNS st)}.
            \<exists>t. conditionOf (c_type u) (cos_conditions (co_status pub)) = Some (u\<lparr>c_lastTransitionTime := t\<rparr>))
        \<and> mset (cos_versions (co_status pub)) = mset (computeOperatorStatusVersions (it_versions it cur))
        \<and> mset (cos_relatedObjects (co_status pub)) = mset (relatedObjects (sc_operatorNamespace cfg) (os_namespace st)))"
proof -
  obtain co v st pub where co: "run_state (getOrCreateClusterOperator api) w = (Inr co, v)"
    and st: "fst (run_state (getOperatorState api) v) = Inr st"
    and pub: "fst (run_state (sta_getClusterOperator api DNSClusterOperatorName) w') = Inr pub"
    and eq: "operatorStatusesEqual (co_status pub) (computeStatus cfg it clk st (co_status co))"
    using reconcileStatus_success[OF assms] .
  note eqs = operatorStatusesEqualD[OF eq]
  have carried: "\<forall>u\<in>{computeOperatorAvailableCondition (os_dns st),
      computeOperatorProgressingCondition (sc_quoteUnicode cfg) (it_progressing it) (os_dns st)
        (computeOldVersions (cos_versions (co_status co))) (newVersionsOf cfg)
        (curVersionsOf cfg (sck_pods clk) st (cos_versions (co_status co))),
      computeOperatorDegradedCondition (sc_quoteUnicode cfg) (it_degraded it) (os_dns st)
        (computeOldVersions (cos_versions (co_status co))) (newVersionsOf cfg)
        (curVersionsOf cfg (sck_pods clk) st (cos_versions (co_status co))),
      computeOperatorUpgradeableCondition (stateDNS st)}. carries (cos_conditions (co_status pub)) u"
    using computeStatus_carries[where s = "co_status co"] unfolding carries_sorted[OF eqs(1)] by (intro ballI)
  have parts: "cos_versions (computeStatus cfg it clk st (co_status co)) = computeOperatorStatusVersions (it_versions it (curVersionsOf cfg (sck_pods clk) st (cos_versions (co_status co))))"
    "cos_relatedObjects (computeStatus cfg it clk st (co_status co)) = relatedObjects (sc_operatorNamespace cfg) (os_namespace st)"
    by (simp_all add: computeStatus_def Let_def)
  show ?thesis
    unfolding Let_def
    using co st pub carried[unfolded carries_def] eqs(2,3)[unfolded parts]
    by (intro exI[of _ co] exI[of _ v] exI[of _ st] exI[of _ pub] conjI)
qed


text \<open>
  A server for the witnesses: at most one ClusterOperator, which loses its status when it is created (the
  status is a subresource), and fixed readings of everything else.
\<close>

definition sample_status_api :: "clusteroperator option statusapi" where
  "sample_status_api = \<lparr>
     sta_getClusterOperator = (\<lambda>n. State (\<lambda>w. (case w of None \<Rightarrow> Inl (NotFound ''not found'') | Some co \<Rightarrow> Inr co, w))),
     sta_createClusterOperator = (\<lambda>co. State (\<lambda>w. case w of
         None \<Rightarrow> (let co' = co\<lparr>co_status := co_status emptyClusterOperator\<rparr> in (Inr co', Some co'))
       | Some _ \<Rightarrow> (Inl (APIError ''already exists''), w))),
     sta_updateStatus = (\<lambda>co. State (\<lambda>w. case w of
         None \<Rightarrow> (Some (NotFound ''not found''), w)
       | Some old \<Rightarrow> (None, Some (old\<lparr>co_status := co_status co\<rparr>)))),
     sta_getNamespace = (\<lambda>n. State (\<lambda>w. (Inl (NotFound ''not found''), w))),
     sta_listDNS = State (\<lambda>w. (Inr [sample_available], w)),
     sta_getDaemonSet = (\<lambda>n. State (\<lambda>w. (Inr sample_one, w))),
     sta_listPods = (\<lambda>sel ns. State (\<lambda>w. (Inr (if sel = NodeResolverDaemonSetPodSelector then sample_nr_pods
                                                    else sample_dns_pods), w))),
     sta_selectorErr = (\<lambda>_. None)\<rparr>"

definition sample_state :: operatorState where
  "sample_state = \<lparr>os_namespace = None, os_dns = Some sample_available, os_dnsDaemonSet = sample_one,
     os_nodeResolverDaemonSet = sample_one, os_dnsPodList = sample_dns_pods, os_nodeResolverPodList = sample_nr_pods\<rparr>"

lemma sample_getOperatorState: "run_state (getOperatorState sample_status_api) w = (Inr sample_state, w)"
proof -
  have "DNSDaemonSetPodSelector sample_available \<noteq> NodeResolverDaemonSetPodSelector"
    by (simp add: DNSDaemonSetPodSelector_def NodeResolverDaemonSetPodSelector_def name_defs)
  then show ?thesis
    by (simp add: getOperatorState_def sample_status_api_def bindErr_def getIfExists_def wrapErr_def listPods_def
        sample_state_def orZero_def)
qed

lemma sample_keepsStatus: "keepsStatus sample_status_api"
  unfolding keepsStatus_def
  by (auto simp: sample_getOperatorState) (auto simp: sample_status_api_def Let_def split: option.splits)

definition sample_stclock :: stclock where
  "sample_stclock = \<lparr>sck_pods = 5, sck_merge = 6, sck_upgradeable = 7\<rparr>"

theorem status_published_witness:
  "\<exists>res w' pub t. run_state (reconcileStatus sample_status_api sample_status_config sample_iteration sample_stclock
        DefaultDNSNamespaceName) None = ((res, None), w')
     \<and> fst (run_state (sta_getClusterOperator sample_status_api DNSClusterOperatorName) w') = Inr pub
     \<and> conditionOf TypeAvailable (cos_conditions (co_status pub)) =
         Some ((computeOperatorAvailableCondition (Some sample_available))\<lparr>c_lastTransitionTime := t\<rparr>)"
proof -
  let ?run = "run_state (reconcileStatus sample_status_api sample_status_config sample_iteration sample_stclock
        DefaultDNSNamespaceName) None"
  have "snd (fst ?run) = None" by code_simp
  then have run: "?run = ((fst (fst ?run), None), snd ?run)" by (simp only: prod_eq_iff fst_conv snd_conv)
  have dns: "os_dns st = Some sample_available" if "fst (run_state (getOperatorState sample_status_api) v) = Inr st" for v st
    using that by (auto simp: sample_getOperatorState sample_state_def)
  show ?thesis
    using status_published[OF sample_keepsStatus run] dns run
    unfolding Let_def by (metis insertI1 operator_condition_types(1))
qed

text \<open>
  C30: An operator at level is quiet. If the ClusterOperator carries a status that was computed from the state
  the controller reads now, and every operand runs the configured version at both times, then reconciling again
  makes no write and returns no error, whatever orders Go visits the versions in and whatever the time is.
\<close>

theorem status_settles:
  assumes "visits it" "visits it'" "atLevel cfg (sck_pods clk) st" "atLevel cfg (sck_pods clk') st"
    and "run_state (sta_getClusterOperator api DNSClusterOperatorName) w = (Inr co, w)"
    and "run_state (getOperatorState api) w = (Inr st, w)"
    and "co_status co = computeStatus cfg it clk st s"
  shows "run_state (reconcileStatus api cfg it' clk' req) w = ((emptyResult, None), w)"
  using assms(5-7) status_settled[OF assms(1-4), of s]
  by (simp add: reconcileStatus_def bindErr_def getOrCreateClusterOperator_def)

theorem status_settles_witness:
  "let s = computeStatus sample_status_config sample_iteration sample_stclock sample_state (co_status emptyClusterOperator);
       w = Some (emptyClusterOperator\<lparr>co_status := s\<rparr>)
   in run_state (reconcileStatus sample_status_api sample_status_config sample_iteration
        \<lparr>sck_pods = 50, sck_merge = 60, sck_upgradeable = 70\<rparr> DefaultDNSNamespaceName) w = ((emptyResult, None), w)"
proof -
  have "atLevel sample_status_config 5 sample_state" "atLevel sample_status_config 50 sample_state" by code_simp+
  then have lv: "atLevel sample_status_config (sck_pods sample_stclock) sample_state"
    "atLevel sample_status_config (sck_pods \<lparr>sck_pods = 50, sck_merge = 60, sck_upgradeable = 70\<rparr>) sample_state"
    by (simp_all add: sample_stclock_def)
  show ?thesis
    unfolding Let_def
    by (rule status_settles[where s = "co_status emptyClusterOperator", OF sample_iteration_visits sample_iteration_visits lv _ sample_getOperatorState])
      (simp add: sample_status_api_def, simp)
qed


end
