(* ===== verification/Interference.thy ===== *)
theory Interference
  imports Cluster
begin

text \<open>
  A reconciliation is not alone: between two of its calls users and the API server change the cluster,
  and any call may fail, before or after it has taken effect. Here the API of a world is turned into one in
  which this happens according to a plan, and the locale \<open>steady\<close> collects what follows for an assertion that
  nothing others do can break: whatever keeps it when undisturbed, keeps it in every fair plan. A crash
  is a plan in which every call after some point fails.
\<close>

section \<open>Disturbed calls\<close>

text \<open>
  What happens around one call: what others have done to the world since the last one, whether the call
  fails, and if so, whether the server had carried it out nevertheless (a lost answer).
\<close>

record 'w disturbance =
  db_others :: "'w \<Rightarrow> 'w"
  db_error :: "apierror option"
  db_carriedOut :: bool

record 'w disturbed =
  dw_world :: 'w
  dw_plan :: "'w disturbance list"

definition disturb :: "(apierror \<Rightarrow> 'a) \<Rightarrow> ('w, 'a) state \<Rightarrow> ('w disturbed, 'a) state" where
  "disturb failed m = State (\<lambda>s. case dw_plan s of
       [] \<Rightarrow> (case run_state m (dw_world s) of (a, w) \<Rightarrow> (a, \<lparr>dw_world = w, dw_plan = []\<rparr>))
     | p # ps \<Rightarrow>
         let w = db_others p (dw_world s); (a, w') = run_state m w in
         (case db_error p of
            None \<Rightarrow> (a, \<lparr>dw_world = w', dw_plan = ps\<rparr>)
          | Some e \<Rightarrow> (failed e, \<lparr>dw_world = (if db_carriedOut p then w' else w), dw_plan = ps\<rparr>)))"

definition disturbClient :: "('o, 'w) kclient \<Rightarrow> ('o, 'w disturbed) kclient" where
  "disturbClient c = \<lparr>kget = (\<lambda>n. disturb Inl (kget c n)), kcreate = (\<lambda>x. disturb Some (kcreate c x)),
     kupdate = (\<lambda>x. disturb Some (kupdate c x)), kdelete = (\<lambda>n. disturb Some (kdelete c n))\<rparr>"

definition disturbPlacement :: "'w placement_api \<Rightarrow> 'w disturbed placement_api" where
  "disturbPlacement pa = \<lparr>pa_selectorValid = pa_selectorValid pa, pa_nodeSelectorValid = pa_nodeSelectorValid pa,
     pa_listPods = (\<lambda>sel ns. disturb Inl (pa_listPods pa sel ns)), pa_listNodes = (\<lambda>sel. disturb Inl (pa_listNodes pa sel))\<rparr>"

text \<open>Setting the log level is not a call of the API.\<close>

definition disturbApi :: "'w dnsapi \<Rightarrow> 'w disturbed dnsapi" where
  "disturbApi api = \<lparr>
     da_dns = disturbClient (da_dns api),
     da_updateDNS = (\<lambda>d. disturb Inl (da_updateDNS api d)),
     da_statusUpdate = (\<lambda>d. disturb Some (da_statusUpdate api d)),
     da_daemonset = disturbClient (da_daemonset api),
     da_configmap = disturbClient (da_configmap api),
     da_service = disturbClient (da_service api),
     da_netpol = disturbClient (da_netpol api),
     da_clusterRole = disturbClient (da_clusterRole api),
     da_clusterRoleBinding = disturbClient (da_clusterRoleBinding api),
     da_role = disturbClient (da_role api),
     da_roleBinding = disturbClient (da_roleBinding api),
     da_serviceAccount = disturbClient (da_serviceAccount api),
     da_namespace = disturbClient (da_namespace api),
     da_serviceMonitor = disturbClient (da_serviceMonitor api),
     da_placement = disturbPlacement (da_placement api),
     da_listNodes = disturb Inl (da_listNodes api),
     da_listCABundles = disturb Inl (da_listCABundles api),
     da_apiServer = disturb Inl (da_apiServer api),
     da_network = disturb Inl (da_network api),
     da_setLevel = (\<lambda>l. zoom dw_world dw_world_update (da_setLevel api l))\<rparr>"

lemma disturbed_get: "kget (da_dns (disturbApi api)) n = disturb Inl (kget (da_dns api) n)"
  by (simp add: disturbApi_def disturbClient_def)

lemma disturbed_delete: "kdelete (da_daemonset (disturbApi api)) n = disturb Some (kdelete (da_daemonset api) n)"
  by (simp add: disturbApi_def disturbClient_def)

text \<open>
  A plan in which others only do what \<open>rely\<close> allows, any number of times between two calls, and in which no
  failure claims that an object was not found.
\<close>

definition fairPlan :: "('w \<Rightarrow> 'w \<Rightarrow> bool) \<Rightarrow> 'w disturbance list \<Rightarrow> bool" where
  "fairPlan rely ps \<longleftrightarrow> (\<forall>p\<in>set ps. (\<forall>w. rely\<^sup>*\<^sup>* w (db_others p w)) \<and> (\<forall>e. db_error p = Some e \<longrightarrow> \<not> IsNotFound e))"

lemma fairPlan_Cons:
  "fairPlan rely (p # ps) \<longleftrightarrow> (\<forall>w. rely\<^sup>*\<^sup>* w (db_others p w)) \<and> (\<forall>e. db_error p = Some e \<longrightarrow> \<not> IsNotFound e) \<and> fairPlan rely ps"
  by (auto simp: fairPlan_def)

text \<open>A state of a fair run, with \<open>I\<close> in the world behind the API.\<close>

definition during :: "('w \<Rightarrow> 'w \<Rightarrow> bool) \<Rightarrow> ('w \<Rightarrow> bool) \<Rightarrow> 'w disturbed \<Rightarrow> bool" where
  "during rely I s \<longleftrightarrow> fairPlan rely (dw_plan s) \<and> I (dw_world s)"

lemma during_imp: "during rely I s \<Longrightarrow> (\<And>w. I w \<Longrightarrow> J w) \<Longrightarrow> during rely J s"
  by (simp add: during_def)

section \<open>What others cannot break\<close>

locale steady =
  fixes rely :: "'w \<Rightarrow> 'w \<Rightarrow> bool" and I :: "'w \<Rightarrow> bool"
  assumes steady: "rely w w' \<Longrightarrow> I w \<Longrightarrow> I w'"
begin

lemma steady_many: "rely\<^sup>*\<^sup>* w w' \<Longrightarrow> I w \<Longrightarrow> I w'"
  by (induction rule: rtranclp_induct) (auto dest: steady)

lemma preserves_disturb:
  assumes "preserves I m"
  shows "preserves (during rely I) (disturb failed m)"
proof -
  have "during rely I (snd (run_state (disturb failed m) s))" if s: "during rely I s" for s
  proof (cases "dw_plan s")
    case Nil
    then show ?thesis using s assms by (auto simp: disturb_def during_def preserves_def fairPlan_def split: prod.splits)
  next
    case (Cons p ps)
    then have "I (db_others p (dw_world s))" "fairPlan rely ps"
      using s steady_many by (auto simp: during_def fairPlan_Cons)
    then show ?thesis
      using Cons assms by (auto simp: disturb_def during_def preserves_def Let_def split: prod.splits option.splits)
  qed
  then show ?thesis by (simp add: preserves_def)
qed

lemma leaves_disturb: "leaves I c \<Longrightarrow> leaves (during rely I) (disturbClient c)"
  by (simp add: leaves_def disturbClient_def preserves_disturb)

lemma preserves_local: "preserves I m \<Longrightarrow> preserves (during rely I) (zoom dw_world dw_world_update m)"
  by (simp add: preserves_def during_def run_zoom)

lemma spares_disturb: "spares I api \<Longrightarrow> spares (during rely I) (disturbApi api)"
  by (simp add: spares_def disturbApi_def leaves_disturb preserves_disturb)

lemma ensureDNS_disturb:
  assumes "spares I api" "leaves I (da_configmap api)" "preserves I (da_listCABundles api)"
    "preserves I (da_network api)" "preserves I (da_apiServer api)"
    "\<And>s n. preserves I (pa_listPods (da_placement api) s n)" "\<And>s. preserves I (pa_listNodes (da_placement api) s)"
  shows "preserves (during rely I) (ensureDNS (disturbApi api) cfg clk d res)"
  using assms spares_disturb[OF assms(1)]
  by (intro preserves_ensureDNS) (simp_all add: disturbApi_def disturbPlacement_def leaves_disturb preserves_disturb)

lemma namespace_disturb:
  assumes "leaves I (da_namespace api)" "leaves I (da_clusterRole api)" "leaves I (da_clusterRoleBinding api)"
    "leaves I (da_serviceAccount api)"
  shows "preserves (during rely I) (ensureDNSNamespace (disturbApi api) b)"
  using assms by (intro preserves_ensureDNSNamespace) (simp_all add: disturbApi_def leaves_disturb)

end

text \<open>An answer without an error, or one that an object was not found, comes from the server itself.\<close>

lemma disturb_Inr:
  assumes "run_state (disturb Inl m) s = (Inr a, s')" "fairPlan rely (dw_plan s)"
  obtains w where "rely\<^sup>*\<^sup>* (dw_world s) w" "run_state m w = (Inr a, dw_world s')" "fairPlan rely (dw_plan s')"
proof (cases "dw_plan s")
  case Nil
  then show ?thesis using assms that[of "dw_world s"] by (auto simp: disturb_def fairPlan_def split: prod.splits)
next
  case (Cons p ps)
  then show ?thesis
    using assms that[of "db_others p (dw_world s)"]
    by (auto simp: disturb_def fairPlan_Cons Let_def split: prod.splits option.splits)
qed

lemma disturb_answered:
  assumes "run_state (disturb Some m) s = (r, s')" "fairPlan rely (dw_plan s)" "\<And>e. r = Some e \<Longrightarrow> IsNotFound e"
  obtains w where "rely\<^sup>*\<^sup>* (dw_world s) w" "run_state m w = (r, dw_world s')" "fairPlan rely (dw_plan s')"
proof (cases "dw_plan s")
  case Nil
  then show ?thesis using assms that[of "dw_world s"] by (auto simp: disturb_def fairPlan_def split: prod.splits)
next
  case (Cons p ps)
  then show ?thesis
    using assms that[of "db_others p (dw_world s)"]
    by (auto simp: disturb_def fairPlan_Cons Let_def split: prod.splits option.splits)
qed

end
