(* ===== verification/Operator.thy ===== *)
theory Operator
  imports Reconciliation Status_Reports Interference
begin

text \<open>
  \<open>pkg/operator/operator.go\<close>: how the parts are put together. Both controllers get their images
  from one configuration, a periodic task makes sure that the default DNS exists, and the
  controllers run whenever they are triggered.

  The last part is a state machine over the cluster of \<open>Cluster\<close>. Its steps are the runs of
  the operator's own operations and what users and the API server do to DNS resources; a
  reachable state is what any interleaving of such steps leads to. A run of \<open>Reconcile\<close> there is not
  atomic: others act between its API calls, as \<open>Interference\<close> has it, and its calls may fail, with or without effect.
\<close>

section \<open>Configuration\<close>

record operatorconfig =
  oc_OperatorReleaseVersion :: string
  oc_OperatorNamespace :: string
  oc_CoreDNSImage :: string
  oc_OpenshiftCLIImage :: string
  oc_KubeRBACProxyImage :: string
  oc_MetricsBindAddress :: string
  oc_MetricsCertDir :: string
  oc_MetricsTLSOpts :: "(tlsconf \<Rightarrow> tlsconf) list"

definition DefaultDNSNameResolverNamespace :: string where
  "DefaultDNSNameResolverNamespace = ''openshift-ovn-kubernetes''"

text \<open>
  What \<open>New\<close> hands to the two controllers. The feature gate, the script of the node resolver
  and the behaviours of the platform are arguments.
\<close>

definition controllerConfig ::
  "operatorconfig \<Rightarrow> bool \<Rightarrow> string \<Rightarrow> (int \<Rightarrow> int) \<Rightarrow> (toleration list \<Rightarrow> string) \<Rightarrow> config" where
  "controllerConfig oc dnsNameResolverEnabled script toU32 ppTol =
     \<lparr>cfg_coreDNSImage = oc_CoreDNSImage oc, cfg_cliImage = oc_OpenshiftCLIImage oc,
      cfg_proxyImage = oc_KubeRBACProxyImage oc, cfg_nameResolver = dnsNameResolverEnabled,
      cfg_nameResolverNamespaces = [DefaultDNSNameResolverNamespace], cfg_script = script,
      cfg_toU32 = toU32, cfg_ppTol = ppTol\<rparr>"

definition statusControllerConfig :: "operatorconfig \<Rightarrow> (string \<Rightarrow> string) \<Rightarrow> statusconfig" where
  "statusControllerConfig oc quoteUnicode =
     \<lparr>sc_operatorNamespace = oc_OperatorNamespace oc, sc_operatorReleaseVersion = oc_OperatorReleaseVersion oc,
      sc_coreDNSImage = oc_CoreDNSImage oc, sc_openshiftCLIImage = oc_OpenshiftCLIImage oc,
      sc_kubeRBACProxyImage = oc_KubeRBACProxyImage oc, sc_quoteUnicode = quoteUnicode\<rparr>"

section \<open>The default DNS\<close>

definition defaultDNS :: dns where
  "defaultDNS = emptyDNS\<lparr>dns_meta := emptyMeta\<lparr>m_name := DefaultDNSController\<rparr>\<rparr>"

definition ensureDefaultDNS :: "(dns, 'w) kclient \<Rightarrow> ('w, goerror option) state" where
  "ensureDefaultDNS c = do {
     r \<leftarrow> kget c \<lparr>nn_ns = '''', nn_name = dns_name defaultDNS\<rparr>;
     (case r of
        Inr _ \<Rightarrow> State_Monad.return None
      | Inl e \<Rightarrow>
          if \<not> IsNotFound e then State_Monad.return (Some (apiErr e))
          else do {
            cr \<leftarrow> kcreate c defaultDNS;
            State_Monad.return (map_option (\<lambda>e. errorf ''failed to create default dns'' (apiErr e)) cr)
          })
   }"

lemma defaultDNS_key: "dns_key defaultDNS = DefaultDNSNamespaceName"
  by (simp add: dns_key_def defaultDNS_def meta_key_def DefaultDNSNamespaceName_def DefaultDNSController_def
      DefaultDNSName_def emptyDNS_def emptyMeta_def)

lemma defaultDNS_request: "\<lparr>nn_ns = '''', nn_name = dns_name defaultDNS\<rparr> = DefaultDNSNamespaceName"
  by (simp add: defaultDNS_def dns_name_def DefaultDNSNamespaceName_def DefaultDNSController_def DefaultDNSName_def)

text \<open>
  The default DNS exists after \<open>ensureDefaultDNS\<close> has succeeded, one that existed before is left
  as it is, and running it again changes nothing.
\<close>

theorem default_dns_ensured:
  assumes "stores sim dns_key c" "run_state (ensureDefaultDNS c) w = (None, w')"
  shows "(\<exists>d. look c DefaultDNSNamespaceName w' = Inr d \<and> dns_name d = DefaultDNSController)
    \<and> (\<forall>d. look c DefaultDNSNamespaceName w = Inr d \<longrightarrow> w' = w)
    \<and> run_state (ensureDefaultDNS c) w' = (None, w')"
proof -
  have pure: "snd (run_state (kget c n) v) = v" for n v using assms(1) by (simp add: stores_def)
  have get: "run_state (kget c n) v = (look c n v, v)" for n v
    using pure[of n v] by (simp add: look_def prod_eq_iff)
  have own: "look c n v = Inr d \<Longrightarrow> dns_key d = n" for n v d
    using assms(1) by (auto simp: stores_def look_def)
  have made: "run_state (kcreate c defaultDNS) v = (None, v') \<Longrightarrow> \<exists>d. look c DefaultDNSNamespaceName v' = Inr d" for v v'
    using assms(1) defaultDNS_key unfolding stores_def look_def by metis
  have run: "run_state (ensureDefaultDNS c) v = (case look c DefaultDNSNamespaceName v of
      Inr _ \<Rightarrow> (None, v)
    | Inl e \<Rightarrow> if \<not> IsNotFound e then (Some (apiErr e), v)
        else (case run_state (kcreate c defaultDNS) v of (r, v') \<Rightarrow>
          (map_option (\<lambda>e. errorf ''failed to create default dns'' (apiErr e)) r, v')))" for v
    by (simp add: ensureDefaultDNS_def defaultDNS_request get split: sum.split prod.split)
  obtain d where d: "look c DefaultDNSNamespaceName w' = Inr d"
    using assms(2) made[of w w'] by (auto simp: run split: sum.splits prod.splits if_splits)
  have "dns_name d = DefaultDNSController"
    using own[OF d] by (simp add: dns_key_def meta_key_def dns_name_def DefaultDNSNamespaceName_def
        DefaultDNSController_def DefaultDNSName_def)
  moreover have "look c DefaultDNSNamespaceName w = Inr x \<Longrightarrow> w' = w" for x
    using assms(2) by (simp add: run)
  ultimately show ?thesis using d by (simp add: run)
qed

definition emptyCluster :: cluster where
  "emptyCluster = (clusterWith defaultDNS [])\<lparr>cl_dns := []\<rparr>"

theorem default_dns_ensured_witness:
  "\<exists>w'. run_state (ensureDefaultDNS (da_dns clusterApi)) emptyCluster = (None, w')
     \<and> look (da_dns clusterApi) DefaultDNSNamespaceName emptyCluster = Inl (NotFound ''not found'')
     \<and> (\<exists>d. look (da_dns clusterApi) DefaultDNSNamespaceName w' = Inr d)"
proof -
  let ?run = "run_state (ensureDefaultDNS (da_dns clusterApi)) emptyCluster"
  have "fst ?run = None" by code_simp
  then have run: "?run = (None, snd ?run)" by (simp only: prod_eq_iff fst_conv snd_conv)
  have "stores (\<lambda>_ _. True) dns_key (da_dns clusterApi)"
    by (simp add: clusterApi_def stores_clientOn storeClient_stores)
  from default_dns_ensured[OF this run] have "\<exists>d. look (da_dns clusterApi) DefaultDNSNamespaceName (snd ?run) = Inr d"
    by blast
  moreover have "look (da_dns clusterApi) DefaultDNSNamespaceName emptyCluster = Inl (NotFound ''not found'')" by code_simp
  ultimately show ?thesis using run by (intro exI[of _ "snd ?run"] conjI)
qed

section \<open>The operator in its cluster\<close>

text \<open>
  What others do: a user creating, editing or deleting a DNS, the API server removing a DNS that is
  marked as deleted and has no finalizers, and any change to the rest of the cluster that does not
  create a daemonset.
\<close>

inductive outside :: "cluster \<Rightarrow> cluster \<Rightarrow> bool" where
  user_create: "map_of (cl_dns w) (dns_key d) = None \<Longrightarrow>
    outside w (w\<lparr>cl_dns := AList.update (dns_key d) d (cl_dns w)\<rparr>)"
| user_edit: "map_of (cl_dns w) n = Some d \<Longrightarrow>
    outside w (w\<lparr>cl_dns := AList.update n (d\<lparr>dns_spec := spec\<rparr>) (cl_dns w)\<rparr>)"
| user_delete: "map_of (cl_dns w) n = Some d \<Longrightarrow>
    outside w (w\<lparr>cl_dns := (if m_finalizers (dns_meta d) = [] then AList.delete n (cl_dns w)
      else AList.update n (d\<lparr>dns_meta := (dns_meta d)\<lparr>m_deletionTimestamp := Some t\<rparr>\<rparr>) (cl_dns w))\<rparr>)"
| collect: "map_of (cl_dns w) n = Some d \<Longrightarrow> m_deletionTimestamp (dns_meta d) \<noteq> None \<Longrightarrow> m_finalizers (dns_meta d) = [] \<Longrightarrow>
    outside w (w\<lparr>cl_dns := AList.delete n (cl_dns w)\<rparr>)"
| environment: "cl_dns w' = cl_dns w \<Longrightarrow> \<forall>n. map_of (cl_daemonset w) n = None \<longrightarrow> map_of (cl_daemonset w') n = None \<Longrightarrow>
    outside w w'"

definition runsDNS :: "cluster \<Rightarrow> bool" where
  "runsDNS w \<longleftrightarrow> map_of (cl_daemonset w) (DNSDaemonSetName defaultDNS) \<noteq> None"

definition hasFinalizer :: "cluster \<Rightarrow> bool" where
  "hasFinalizer w \<longleftrightarrow> (case map_of (cl_dns w) DefaultDNSNamespaceName of
     None \<Rightarrow> False | Some d \<Rightarrow> DNSControllerFinalizer \<in> set (m_finalizers (dns_meta d)))"

definition owned :: "cluster \<Rightarrow> bool" where
  "owned w \<longleftrightarrow> (runsDNS w \<longrightarrow> hasFinalizer w)"

lemma clusterApi_get_Inr:
  assumes "run_state (kget (da_dns clusterApi) n) w = (Inr d, w')"
  shows "w' = w" "map_of (cl_dns w) n = Some d" "dns_key d = n"
  using assms by (auto simp: clusterApi_def clientOn_def run_zoom storeClient_def split: option.splits if_splits)

lemma clusterApi_get_pure: "snd (run_state (kget (da_dns clusterApi) n) w) = w"
  by (simp add: clusterApi_def clientOn_def run_zoom storeClient_def)

lemma statusUpdate_hasFinalizer: "hasFinalizer (snd (run_state (da_statusUpdate clusterApi x) w)) = hasFinalizer w"
  by (auto simp: clusterApi_def run_zoom storeStatus_def hasFinalizer_def gomap_simps split: option.splits)

lemma statusUpdate_owned: "preserves owned (da_statusUpdate clusterApi x)"
proof -
  have "runsDNS (snd (run_state (da_statusUpdate clusterApi x) w)) = runsDNS w" for w
    by (simp add: clusterApi_def run_zoom runsDNS_def)
  then show ?thesis by (simp add: preserves_def owned_def statusUpdate_hasFinalizer)
qed

text \<open>Everything but a write to the DNS itself keeps a predicate of the DNS resources.\<close>

lemma clusterApi_frame:
  assumes "\<And>w w'. cl_dns w' = cl_dns w \<Longrightarrow> I w' = I w" "\<And>x. preserves I (da_statusUpdate clusterApi x)"
  shows "spares I clusterApi" "leaves I (da_configmap clusterApi)" "leaves I (da_namespace clusterApi)"
    "leaves I (da_serviceAccount clusterApi)" "preserves I (da_setLevel clusterApi l)"
    "preserves I (da_listCABundles clusterApi)" "preserves I (da_network clusterApi)" "preserves I (da_apiServer clusterApi)"
    "preserves I (pa_listPods (da_placement clusterApi) s n)" "preserves I (pa_listNodes (da_placement clusterApi) ls)"
proof -
  have st: "preserves I (zoom cl_dns cl_dns_update (storeStatus x))" for x
    using assms(2)[of x] by (simp add: clusterApi_def)
  have upd: "I (cl_daemonset_update f0 w) = I w"
    "I (cl_configmap_update f1 w) = I w"
    "I (cl_service_update f2 w) = I w"
    "I (cl_netpol_update f3 w) = I w"
    "I (cl_clusterRole_update f4 w) = I w"
    "I (cl_clusterRoleBinding_update f5 w) = I w"
    "I (cl_role_update f6 w) = I w"
    "I (cl_roleBinding_update f7 w) = I w"
    "I (cl_serviceAccount_update f8 w) = I w"
    "I (cl_namespace_update f9 w) = I w"
    "I (cl_serviceMonitor_update f10 w) = I w"
    "I (cl_level_update f11 w) = I w"
    for w f0 f1 f2 f3 f4 f5 f6 f7 f8 f9 f10 f11
    by (rule assms(1), simp)+
  show "spares I clusterApi" "leaves I (da_configmap clusterApi)" "leaves I (da_namespace clusterApi)"
    "leaves I (da_serviceAccount clusterApi)" "preserves I (da_setLevel clusterApi l)"
    "preserves I (da_listCABundles clusterApi)" "preserves I (da_network clusterApi)" "preserves I (da_apiServer clusterApi)"
    "preserves I (pa_listPods (da_placement clusterApi) s n)" "preserves I (pa_listNodes (da_placement clusterApi) ls)"
    by (simp_all add: spares_def clusterApi_def clusterPlacement_def leaves_clientOn preserves_zoom preserves_readPart upd st)
qed

lemma clusterApi_frame_owned:
  "leaves owned (da_namespace clusterApi)" "leaves owned (da_clusterRole clusterApi)"
  "leaves owned (da_clusterRoleBinding clusterApi)" "leaves owned (da_serviceAccount clusterApi)"
  "leaves owned (da_service clusterApi)" "preserves owned (da_setLevel clusterApi l)"
  "preserves owned (da_network clusterApi)" "preserves owned (kget (da_daemonset clusterApi) n)"
  "preserves owned (kdelete (da_daemonset clusterApi) n)"
proof -
  have upd: "owned (cl_namespace_update f0 w) = owned w"
    "owned (cl_clusterRole_update f1 w) = owned w"
    "owned (cl_clusterRoleBinding_update f2 w) = owned w"
    "owned (cl_serviceAccount_update f3 w) = owned w"
    "owned (cl_service_update f4 w) = owned w"
    "owned (cl_level_update f5 w) = owned w"
    for w f0 f1 f2 f3 f4 f5
    by (simp_all add: owned_def runsDNS_def hasFinalizer_def)
  show "leaves owned (da_namespace clusterApi)" "leaves owned (da_clusterRole clusterApi)"
    "leaves owned (da_clusterRoleBinding clusterApi)" "leaves owned (da_serviceAccount clusterApi)"
    "leaves owned (da_service clusterApi)" "preserves owned (da_setLevel clusterApi l)"
    "preserves owned (da_network clusterApi)"
    by (simp_all add: clusterApi_def leaves_clientOn preserves_zoom preserves_readPart upd)
  have "owned (snd (run_state (kdelete (da_daemonset clusterApi) n) w))" if "owned w" for w
    using that by (auto simp: clusterApi_def clientOn_def run_zoom storeClient_def owned_def runsDNS_def hasFinalizer_def gomap_simps)
  then show "preserves owned (kdelete (da_daemonset clusterApi) n)" by (simp add: preserves_def)
  have "snd (run_state (kget (da_daemonset clusterApi) n) w) = w" for w
    by (simp add: clusterApi_def clientOn_def run_zoom storeClient_def)
  then show "preserves owned (kget (da_daemonset clusterApi) n)" by (simp add: preserves_def)
qed

lemma outside_owned:
  assumes "outside w w'" "owned w"
  shows "owned w'"
  using assms
proof (induction rule: outside.induct)
  case (environment w' w)
  then show ?case by (auto simp: owned_def runsDNS_def hasFinalizer_def)
qed (auto simp: owned_def runsDNS_def hasFinalizer_def gomap_simps split: option.splits)

lemma deleted_daemonset:
  assumes "run_state (kdelete (da_daemonset clusterApi) n) w = (r, w')" "\<And>e. r = Some e \<Longrightarrow> IsNotFound e"
  shows "map_of (cl_daemonset w') n = None"
  using assms by (auto simp: clusterApi_def clientOn_def run_zoom storeClient_def gomap_simps split: if_splits)

section \<open>A reconciliation among others\<close>

text \<open>What may happen between two calls of a reconciliation: the steps of others, and the loop of the default DNS.\<close>

definition meanwhile :: "cluster \<Rightarrow> cluster \<Rightarrow> bool" where
  "meanwhile w w' \<longleftrightarrow> outside w w' \<or> w' = snd (run_state (ensureDefaultDNS (da_dns clusterApi)) w)"

lemma meanwhile_cases:
  assumes "meanwhile w w'"
  obtains "outside w w'" | "w' = snd (run_state (ensureDefaultDNS (da_dns clusterApi)) w)"
  using assms by (auto simp: meanwhile_def)

lemma default_keeps:
  "cl_daemonset (snd (run_state (ensureDefaultDNS (da_dns clusterApi)) w)) = cl_daemonset w"
  "hasFinalizer w \<Longrightarrow> hasFinalizer (snd (run_state (ensureDefaultDNS (da_dns clusterApi)) w))"
  by (auto simp: ensureDefaultDNS_def clusterApi_def clientOn_def run_zoom storeClient_def hasFinalizer_def gomap_simps
      defaultDNS_key split: option.splits if_splits)

lemma outside_keeps:
  assumes "outside w w'"
  shows "map_of (cl_daemonset w) n = None \<Longrightarrow> map_of (cl_daemonset w') n = None" "hasFinalizer w \<Longrightarrow> hasFinalizer w'"
  using assms by (induction rule: outside.induct) (auto simp: hasFinalizer_def gomap_simps split: option.splits)

text \<open>The three assertions that hold a reconciliation together are stable.\<close>

interpretation finalized: steady meanwhile hasFinalizer
proof
  show "hasFinalizer w'" if "meanwhile w w'" "hasFinalizer w" for w w'
    using that by (cases rule: meanwhile_cases) (simp_all add: outside_keeps(2) default_keeps(2))
qed

interpretation unowned: steady meanwhile "\<lambda>w. map_of (cl_daemonset w) n = None" for n
proof
  show "map_of (cl_daemonset w') n = None" if "meanwhile w w'" "map_of (cl_daemonset w) n = None" for w w'
    using that by (cases rule: meanwhile_cases) (simp_all add: outside_keeps(1) default_keeps(1))
qed

interpretation holding: steady meanwhile owned
proof
  show "owned w'" if "meanwhile w w'" "owned w" for w w'
    using that(1)
  proof (cases rule: meanwhile_cases)
    case 1
    then show ?thesis using that(2) by (rule outside_owned)
  next
    case 2
    then show ?thesis using that(2) default_keeps(2)[of w] by (simp add: owned_def runsDNS_def default_keeps(1))
  qed
qed

lemma cluster_frame_finalizer:
  "spares hasFinalizer clusterApi" "leaves hasFinalizer (da_configmap clusterApi)" "leaves hasFinalizer (da_namespace clusterApi)"
  "leaves hasFinalizer (da_serviceAccount clusterApi)" "preserves hasFinalizer (da_listCABundles clusterApi)"
  "preserves hasFinalizer (da_network clusterApi)" "preserves hasFinalizer (da_apiServer clusterApi)"
  "preserves hasFinalizer (pa_listPods (da_placement clusterApi) s n)" "preserves hasFinalizer (pa_listNodes (da_placement clusterApi) ls)"
  "preserves hasFinalizer (da_setLevel clusterApi l)"
proof -
  have "preserves hasFinalizer (da_statusUpdate clusterApi x)" for x
    by (simp add: preserves_def statusUpdate_hasFinalizer)
  moreover have "cl_dns w' = cl_dns w \<Longrightarrow> hasFinalizer w' = hasFinalizer w" for w w'
    by (simp add: hasFinalizer_def)
  ultimately show "spares hasFinalizer clusterApi" "leaves hasFinalizer (da_configmap clusterApi)" "leaves hasFinalizer (da_namespace clusterApi)"
    "leaves hasFinalizer (da_serviceAccount clusterApi)" "preserves hasFinalizer (da_listCABundles clusterApi)"
    "preserves hasFinalizer (da_network clusterApi)" "preserves hasFinalizer (da_apiServer clusterApi)"
    "preserves hasFinalizer (pa_listPods (da_placement clusterApi) s n)" "preserves hasFinalizer (pa_listNodes (da_placement clusterApi) ls)"
    "preserves hasFinalizer (da_setLevel clusterApi l)"
    by (intro clusterApi_frame; blast)+
qed

text \<open>The rest of a reconciliation after the finalizer has been enforced.\<close>

lemma managed_rest:
  "preserves (during meanwhile hasFinalizer) (do {
     r \<leftarrow> ensureDNS (disturbApi clusterApi) cfg clk d emptyResult;
     (case r of
        None \<Rightarrow> State_Monad.return None
      | Some (Some e, result) \<Rightarrow>
          if is_retryable e
          then State_Monad.return (Some (\<lparr>rr_requeue = False, rr_requeueAfter = After e\<rparr>, None))
          else State_Monad.return (Some (result, NewAggregate (map Some
            (errs @ [errorf (''failed to ensure dns '' @ dns_name d) e]))))
      | Some (None, result) \<Rightarrow> do {
          x \<leftarrow> ensureExternalNameForOpenshiftService (disturbApi clusterApi);
          State_Monad.return (Some (result, NewAggregate (map Some
            (errs @ errList ''failed to ensure external name for openshift service'' x))))
        })
   })"
proof -
  have "preserves (during meanwhile hasFinalizer) (ensureExternalNameForOpenshiftService (disturbApi clusterApi))"
    using finalized.spares_disturb[OF cluster_frame_finalizer(1)]
    unfolding ensureExternalNameForOpenshiftService_def spares_def by (intro preserves_getOrCreate) simp
  then show ?thesis
    by (intro pres_intros finalized.ensureDNS_disturb cluster_frame_finalizer)
qed

lemma update_finalized:
  assumes "dns_key x = DefaultDNSNamespaceName" "DNSControllerFinalizer \<in> set (m_finalizers (dns_meta x))"
  shows "preserves owned (da_updateDNS clusterApi x)"
    "run_state (da_updateDNS clusterApi x) w = (Inr d, w') \<Longrightarrow> hasFinalizer w'"
  using assms
  by (auto simp: preserves_def clusterApi_def run_zoom storeDNS_def owned_def runsDNS_def hasFinalizer_def gomap_simps
      split: if_splits)

lemma enforce_disturbed:
  assumes "during meanwhile owned s" "dns_key d = DefaultDNSNamespaceName"
    and "DNSControllerFinalizer \<in> set (m_finalizers (dns_meta d)) \<longrightarrow> hasFinalizer (dw_world s)"
    and "run_state (enforceDNSFinalizer (disturbApi clusterApi) d) s = (r, s')"
  shows "during meanwhile owned s'" "r = Inr d' \<Longrightarrow> during meanwhile hasFinalizer s'"
proof -
  let ?x = "d\<lparr>dns_meta := (dns_meta d)\<lparr>m_finalizers := m_finalizers (dns_meta d) @ [DNSControllerFinalizer]\<rparr>\<rparr>"
  have x: "dns_key ?x = DefaultDNSNamespaceName" "DNSControllerFinalizer \<in> set (m_finalizers (dns_meta ?x))"
    using assms(2) by (simp_all add: dns_key_def meta_key_def)
  have run: "(r, s') = (if DNSControllerFinalizer \<notin> set (m_finalizers (dns_meta d))
      then (case run_state (disturb Inl (da_updateDNS clusterApi ?x)) s of
        (a, s') \<Rightarrow> (case a of Inl e \<Rightarrow> Inl (apiErr e) | Inr d' \<Rightarrow> Inr d', s')) else (Inr d, s))"
    using assms(4) by (simp add: enforceDNSFinalizer_def disturbApi_def split: prod.splits if_splits)
  have "preserves (during meanwhile owned) (disturb Inl (da_updateDNS clusterApi ?x))"
    by (rule holding.preserves_disturb[OF update_finalized(1)[OF x]])
  then show "during meanwhile owned s'"
    using run assms(1) by (auto dest: preservesD split: if_splits prod.splits)
  show "during meanwhile hasFinalizer s'" if "r = Inr d'"
  proof (cases "DNSControllerFinalizer \<in> set (m_finalizers (dns_meta d))")
    case True
    then show ?thesis using run assms(1,3) by (simp add: during_def)
  next
    case False
    then have "run_state (disturb Inl (da_updateDNS clusterApi ?x)) s = (Inr d', s')"
      using run that by (auto split: prod.splits sum.splits)
    then show ?thesis
      using assms(1) update_finalized(2)[OF x] by (auto simp: during_def elim!: disturb_Inr)
  qed
qed

lemma managed_owned:
  assumes "during meanwhile owned s" "dns_key d = DefaultDNSNamespaceName"
    and "DNSControllerFinalizer \<in> set (m_finalizers (dns_meta d)) \<longrightarrow> hasFinalizer (dw_world s)"
  shows "during meanwhile owned (snd (run_state (reconcileManaged (disturbApi clusterApi) cfg clk d errs) s))"
proof -
  obtain r s' where fin: "run_state (enforceDNSFinalizer (disturbApi clusterApi) d) s = (r, s')" by fastforce
  note e = enforce_disturbed[OF assms fin]
  show ?thesis
  proof (cases r)
    case (Inl x)
    then show ?thesis using e(1) fin by (simp add: reconcileManaged_def)
  next
    case (Inr d')
    have "during meanwhile hasFinalizer (snd (run_state (reconcileManaged (disturbApi clusterApi) cfg clk d errs) s))"
      using preservesD[OF managed_rest e(2)[OF Inr], of cfg clk d' errs] by (simp add: reconcileManaged_def fin Inr)
    then show ?thesis by (rule during_imp) (simp add: owned_def)
  qed
qed

lemma deleted_owned:
  assumes "during meanwhile owned s" "DNSDaemonSetName d = DNSDaemonSetName defaultDNS"
  shows "during meanwhile owned (snd (run_state (reconcileDeleted (disturbApi clusterApi) d errs) s))"
proof -
  let ?api = "disturbApi clusterApi" and ?none = "\<lambda>w. map_of (cl_daemonset w) (DNSDaemonSetName d) = None"
  obtain e1 s1 where ext: "run_state (ensureOpenshiftExternalNameServiceDeleted ?api) s = (e1, s1)" by fastforce
  obtain e2 s2 where del: "run_state (ensureDNSDeleted ?api d) s1 = (e2, s2)" by fastforce
  have "preserves (during meanwhile owned) (ensureOpenshiftExternalNameServiceDeleted ?api)"
    "preserves (during meanwhile owned) (ensureDNSDeleted ?api d)"
    unfolding ensureOpenshiftExternalNameServiceDeleted_def ensureDNSDeleted_def ensureDNSDaemonSetDeleted_def disturbApi_def
    by (simp_all add: disturbClient_def)
      (intro pres_intros holding.preserves_disturb leavesD clusterApi_frame_owned)+
  then have s2: "during meanwhile owned s2" using assms(1) ext del by (metis preservesD snd_conv)
  have "during meanwhile owned (snd (run_state (da_updateDNS ?api x) s2))" if none: "e2 = None" for x
  proof -
    obtain r where "run_state (disturb Some (kdelete (da_daemonset clusterApi) (DNSDaemonSetName d))) s1 = (r, s2)"
      "\<And>e. r = Some e \<Longrightarrow> IsNotFound e"
      using ensureDNSDeleted_None[of ?api d s1 s2] del none unfolding disturbed_delete by blast
    moreover have "fairPlan meanwhile (dw_plan s1)"
      using assms(1) ext \<open>preserves _ (ensureOpenshiftExternalNameServiceDeleted ?api)\<close>
      by (metis during_def preservesD snd_conv)
    ultimately have "during meanwhile ?none s2"
      by (elim disturb_answered) (auto simp: during_def dest: deleted_daemonset)
    moreover have "preserves ?none (da_updateDNS clusterApi x)"
      by (simp add: preserves_def clusterApi_def run_zoom)
    ultimately have "during meanwhile ?none (snd (run_state (da_updateDNS ?api x) s2))"
      using preservesD[OF unowned.preserves_disturb] by (simp add: disturbApi_def)
    then show ?thesis by (rule during_imp) (simp add: owned_def runsDNS_def assms(2))
  qed
  then show ?thesis using s2 by (simp add: reconcileDeleted_run[OF ext del])
qed

lemma disturbed_frame_owned:
  "preserves (during meanwhile owned) (ensureDNSNamespace (disturbApi clusterApi) b)"
  "preserves (during meanwhile owned) (da_setLevel (disturbApi clusterApi) l)"
  "preserves (during meanwhile owned) (reconcileUnmanaged (disturbApi clusterApi) cfg clk d)"
  "preserves (during meanwhile hasFinalizer) (ensureDNSNamespace (disturbApi clusterApi) b)"
  "preserves (during meanwhile hasFinalizer) (da_setLevel (disturbApi clusterApi) l)"
proof -
  show "preserves (during meanwhile owned) (ensureDNSNamespace (disturbApi clusterApi) b)"
    by (intro holding.namespace_disturb clusterApi_frame_owned)
  show "preserves (during meanwhile owned) (da_setLevel (disturbApi clusterApi) l)"
    by (simp add: disturbApi_def holding.preserves_local clusterApi_frame_owned)
  show "preserves (during meanwhile owned) (reconcileUnmanaged (disturbApi clusterApi) cfg clk d)"
    by (rule preserves_reconcileUnmanaged)
      (simp_all add: disturbApi_def disturbClient_def holding.preserves_disturb clusterApi_frame_owned statusUpdate_owned)
  show "preserves (during meanwhile hasFinalizer) (ensureDNSNamespace (disturbApi clusterApi) b)"
    using cluster_frame_finalizer(1) unfolding spares_def
    by (intro finalized.namespace_disturb cluster_frame_finalizer) simp_all
  show "preserves (during meanwhile hasFinalizer) (da_setLevel (disturbApi clusterApi) l)"
    by (simp add: disturbApi_def finalized.preserves_local cluster_frame_finalizer)
qed

text \<open>What is known of a DNS that was read: it was there, with its finalizers.\<close>

lemma read_dns:
  assumes "run_state (kget (da_dns (disturbApi clusterApi)) DefaultDNSNamespaceName) s = (Inr d, s')" "during meanwhile owned s"
  shows "dns_key d = DefaultDNSNamespaceName" "during meanwhile owned s'"
    "DNSControllerFinalizer \<in> set (m_finalizers (dns_meta d)) \<Longrightarrow> during meanwhile hasFinalizer s'"
proof -
  obtain w where w: "meanwhile\<^sup>*\<^sup>* (dw_world s) w" "run_state (kget (da_dns clusterApi) DefaultDNSNamespaceName) w = (Inr d, dw_world s')"
    "fairPlan meanwhile (dw_plan s')"
    using assms by (auto simp: disturbApi_def disturbClient_def during_def elim!: disturb_Inr)
  note get = clusterApi_get_Inr[OF w(2)]
  show "dns_key d = DefaultDNSNamespaceName" by (rule get(3))
  show "during meanwhile owned s'"
    using holding.steady_many[OF w(1)] assms(2) w(3) get(1) by (simp add: during_def)
  show "during meanwhile hasFinalizer s'" if "DNSControllerFinalizer \<in> set (m_finalizers (dns_meta d))"
    using get(1,2) w(3) that by (simp add: during_def hasFinalizer_def)
qed

lemma reconcile_disturbed_owned:
  assumes "during meanwhile owned s"
  shows "during meanwhile owned (snd (run_state (Reconcile (disturbApi clusterApi) cfg clk \<lparr>nn_ns = '''', nn_name = n\<rparr>) s))"
proof (cases "n = DefaultDNSController")
  case False
  then show ?thesis using assms by (simp add: Reconcile_def)
next
  case True
  let ?api = "disturbApi clusterApi" and ?req = "\<lparr>nn_ns = '''', nn_name = n\<rparr>"
  have req: "?req = DefaultDNSNamespaceName" "nn_name ?req = DefaultDNSController"
    using True by (simp_all add: DefaultDNSNamespaceName_def DefaultDNSName_def DefaultDNSController_def)
  obtain r s0 where get: "run_state (kget (da_dns ?api) DefaultDNSNamespaceName) s = (r, s0)" by fastforce
  show ?thesis
  proof (cases r)
    case (Inl e)
    have "preserves owned (kget (da_dns clusterApi) m)" for m by (simp add: preserves_def clusterApi_get_pure)
    then have "during meanwhile owned s0"
      using preservesD[OF holding.preserves_disturb assms, of "kget (da_dns clusterApi) DefaultDNSNamespaceName" Inl] get
      by (simp add: disturbed_get)
    then show ?thesis using get Inl req by (simp add: Reconcile_def)
  next
    case (Inr d)
    note d = read_dns[OF get[unfolded Inr] assms]
    obtain s1 where lv: "run_state (da_setLevel ?api (levelFor (spec_operatorLogLevel (dns_spec d)))) s0 = ((), s1)"
      by (metis old.unit.exhaust prod.exhaust)
    obtain nsErr s2 where ns: "run_state (ensureDNSNamespace ?api (cfg_nameResolver cfg)) s1 = (nsErr, s2)" by fastforce
    have s: "during meanwhile owned s1" "during meanwhile owned s2"
      using d(2) lv ns disturbed_frame_owned(1,2) by (metis preservesD snd_conv)+
    have fin: "DNSControllerFinalizer \<in> set (m_finalizers (dns_meta d)) \<longrightarrow> hasFinalizer (dw_world s2)"
      using d(3) lv ns disturbed_frame_owned(4,5) by (metis during_def preservesD snd_conv)
    have name: "DNSDaemonSetName d = DNSDaemonSetName defaultDNS"
      using d(1) defaultDNS_key by (simp add: DNSDaemonSetName_def dns_name_def dns_key_def meta_key_def DefaultDNSNamespaceName_def)
    show ?thesis
      using preservesD[OF disturbed_frame_owned(3) s(1), of cfg clk d] managed_owned[OF s(2) d(1) fin]
        deleted_owned[OF s(2) name, of "errList ''failed to ensure dns namespace'' nsErr"]
      unfolding Reconcile_found[OF req(2) get[unfolded Inr req(1)[symmetric]]] by (auto simp: lv ns split: prod.splits)
  qed
qed

section \<open>No orphaned daemonset\<close>

text \<open>
  A run of \<open>Reconcile\<close> in the cluster, with what others do between its calls and which of the calls fail. A run that
  panics leaves what it had done so far.
\<close>

definition reconcileAmong :: "cluster disturbance list \<Rightarrow> config \<Rightarrow> clock \<Rightarrow> string \<Rightarrow> cluster \<Rightarrow> cluster" where
  "reconcileAmong plan cfg clk n w = dw_world (snd (run_state
     (Reconcile (disturbApi clusterApi) cfg clk \<lparr>nn_ns = '''', nn_name = n\<rparr>) \<lparr>dw_world = w, dw_plan = plan\<rparr>))"

text \<open>
  The steps: a run of \<open>Reconcile\<close> for any request, among others and with failing calls, a run of
  \<open>ensureDefaultDNS\<close>, and what others do.
\<close>

inductive step :: "config \<Rightarrow> cluster \<Rightarrow> cluster \<Rightarrow> bool" for cfg :: config where
  reconcile: "fairPlan meanwhile plan \<Longrightarrow> step cfg w (reconcileAmong plan cfg clk n w)"
| ensure_default: "step cfg w (snd (run_state (ensureDefaultDNS (da_dns clusterApi)) w))"
| others: "outside w w' \<Longrightarrow> step cfg w w'"

inductive reachable :: "config \<Rightarrow> cluster \<Rightarrow> bool" for cfg :: config where
  init: "cl_daemonset w = [] \<Longrightarrow> reachable cfg w"
| step: "reachable cfg w \<Longrightarrow> step cfg w w' \<Longrightarrow> reachable cfg w'"

lemma step_owned: "step cfg w w' \<Longrightarrow> owned w \<Longrightarrow> owned w'"
proof (induction rule: step.induct)
  case (reconcile plan w clk n)
  then have "during meanwhile owned \<lparr>dw_world = w, dw_plan = plan\<rparr>" by (simp add: during_def)
  from reconcile_disturbed_owned[OF this] show ?case by (simp add: reconcileAmong_def during_def)
next
  case (ensure_default w)
  have "meanwhile w (snd (run_state (ensureDefaultDNS (da_dns clusterApi)) w))" by (simp add: meanwhile_def)
  then show ?case using ensure_default by (rule holding.steady)
next
  case (others w w')
  then show ?case by (simp add: outside_owned)
qed

lemma reachable_owned: "reachable cfg w \<Longrightarrow> owned w"
proof (induction rule: reachable.induct)
  case (init w)
  then show ?case by (simp add: owned_def runsDNS_def)
next
  case (step w w')
  then show ?case using step_owned by blast
qed

text \<open>
  C1: No orphaned daemonset. In every state that the operator can reach together with its users and the API
  server, a daemonset for the default DNS exists only while the DNS itself exists and carries the
  operator's finalizer. So a deleted DNS never disappears before its daemonset has. Others may act between any two calls
  of a reconciliation, and any call may fail, with or without having taken effect; in particular the
  operator may crash anywhere.
\<close>

theorem no_orphaned_daemonset:
  assumes "reachable cfg w" "map_of (cl_daemonset w) (DNSDaemonSetName defaultDNS) = Some ds"
  shows "\<exists>d. map_of (cl_dns w) DefaultDNSNamespaceName = Some d
    \<and> DNSControllerFinalizer \<in> set (m_finalizers (dns_meta d))"
  using reachable_owned[OF assms(1)] assms(2)
  by (auto simp: owned_def runsDNS_def hasFinalizer_def split: option.splits)

text \<open>
  A first reconciliation in the middle of which a user deletes the DNS and the answer to a call is lost.
\<close>

definition quiet :: "cluster disturbance" where
  "quiet = \<lparr>db_others = id, db_error = None, db_carriedOut = False\<rparr>"

definition userDeletes :: "cluster \<Rightarrow> cluster" where
  "userDeletes w = (case map_of (cl_dns w) DefaultDNSNamespaceName of
     None \<Rightarrow> w
   | Some d \<Rightarrow> w\<lparr>cl_dns := (if m_finalizers (dns_meta d) = [] then AList.delete DefaultDNSNamespaceName (cl_dns w)
       else AList.update DefaultDNSNamespaceName (d\<lparr>dns_meta := (dns_meta d)\<lparr>m_deletionTimestamp := Some 7\<rparr>\<rparr>) (cl_dns w))\<rparr>)"

definition sample_plan :: "cluster disturbance list" where
  "sample_plan = replicate 16 quiet
     @ [quiet\<lparr>db_others := userDeletes, db_error := Some (APIError ''timeout''), db_carriedOut := True\<rparr>]"

lemma sample_plan_fair: "fairPlan meanwhile sample_plan"
proof -
  have "meanwhile\<^sup>*\<^sup>* w (userDeletes w)" for w
  proof (cases "map_of (cl_dns w) DefaultDNSNamespaceName")
    case (Some d)
    then have "outside w (userDeletes w)" using outside.user_delete[OF Some, of 7] by (simp add: userDeletes_def)
    then show ?thesis by (simp add: meanwhile_def r_into_rtranclp)
  qed (simp add: userDeletes_def)
  then show ?thesis by (auto simp: fairPlan_def sample_plan_def quiet_def)
qed

definition firstRun :: cluster where
  "firstRun = reconcileAmong sample_plan sample_config sample_clock DefaultDNSController (clusterWith sample_default [])"

theorem no_orphaned_daemonset_witness:
  "reachable sample_config firstRun
   \<and> (\<exists>ds. map_of (cl_daemonset firstRun) (DNSDaemonSetName defaultDNS) = Some ds)
   \<and> (\<exists>d. map_of (cl_dns firstRun) DefaultDNSNamespaceName = Some d
          \<and> DNSControllerFinalizer \<in> set (m_finalizers (dns_meta d)))"
proof -
  have "reachable sample_config (clusterWith sample_default [])"
    by (rule reachable.init) (simp add: clusterWith_def)
  then have reach: "reachable sample_config firstRun"
    unfolding firstRun_def by (rule reachable.step[OF _ step.reconcile[OF sample_plan_fair]])
  have "map_of (cl_daemonset firstRun) (DNSDaemonSetName defaultDNS) \<noteq> None" by code_simp
  then obtain ds where "map_of (cl_daemonset firstRun) (DNSDaemonSetName defaultDNS) = Some ds" by auto
  with no_orphaned_daemonset[OF reach this] reach show ?thesis by blast
qed

end
