(* ===== verification/Watches.thy ===== *)
theory Watches
  imports Controller Status_Controller
begin

text \<open>
  Which events make a controller run: the watches that \<open>New\<close> registers in \<open>controller.go\<close> and in
  \<open>status/controller.go\<close>, with the predicates and the event handlers of the controller runtime
  (\<open>sigs.k8s.io/controller-runtime/pkg/handler\<close> and \<open>predicate\<close>) that they use.

  An event carries one object, or two for an update. Requests are put into a queue that does
  not keep duplicates, so only the set of the requests of an event matters. Whether a kind is
  namespaced is the answer of the API server (\<open>RESTMapping\<close>), so it is a parameter:
  \<open>dnsScope v\<close> says for version \<open>v\<close> of the DNS resource whether it is cluster-scoped, or \<^const>\<open>None\<close>
  when there is no such version.
\<close>

section \<open>Events\<close>

datatype kobject =
    is_ODNS: ODNS dns
  | is_ODaemonSet: ODaemonSet daemonset
  | is_OService: OService service
  | is_OConfigMap: OConfigMap configmap
  | is_ONetworkPolicy: ONetworkPolicy networkpolicy
  | is_OAPIServer: OAPIServer objmeta
  | is_ONode: ONode node
  | is_OClusterOperator: OClusterOperator clusteroperator

fun obj_meta :: "kobject \<Rightarrow> objmeta" where
  "obj_meta (ODNS d) = dns_meta d"
| "obj_meta (ODaemonSet ds) = ds_meta ds"
| "obj_meta (OService s) = svc_meta s"
| "obj_meta (OConfigMap c) = cm_meta c"
| "obj_meta (ONetworkPolicy p) = npol_meta p"
| "obj_meta (OAPIServer m) = m"
| "obj_meta (ONode n) = nd_meta n"
| "obj_meta (OClusterOperator c) = co_meta c"

datatype kevent = Created kobject | Updated kobject kobject | Deleted kobject | Generic kobject

fun eventObjects :: "kevent \<Rightarrow> kobject list" where
  "eventObjects (Created o1) = [o1]"
| "eventObjects (Updated old new) = [old, new]"
| "eventObjects (Deleted o1) = [o1]"
| "eventObjects (Generic o1) = [o1]"

section \<open>Handlers and predicates of the controller runtime\<close>

text \<open>The object of an event; of an update, the new one.\<close>

definition enqueueRequestForObject :: "kevent \<Rightarrow> nsname list" where
  "enqueueRequestForObject ev = [meta_key (obj_meta (last (eventObjects ev)))]"

text \<open>\<open>schema.ParseGroupVersion\<close>: group and version, or \<^const>\<open>None\<close> for more than one slash.\<close>

definition ParseGroupVersion :: "string \<Rightarrow> (string \<times> string) option" where
  "ParseGroupVersion gv =
     (if gv = '''' \<or> gv = ''/'' then Some ('''', '''')
      else let slashes = length (filter (\<lambda>c. c = CHR ''/'') gv) in
        if slashes = 0 then Some ('''', gv)
        else if slashes = 1
        then Some (takeWhile (\<lambda>c. c \<noteq> CHR ''/'') gv, drop 1 (dropWhile (\<lambda>c. c \<noteq> CHR ''/'') gv))
        else None)"

text \<open>The loop stops at a reference that it cannot parse or map.\<close>

fun ownerRequests :: "(string \<Rightarrow> bool option) \<Rightarrow> string \<Rightarrow> ownerref list \<Rightarrow> nsname list" where
  "ownerRequests dnsScope ns [] = []"
| "ownerRequests dnsScope ns (ref # refs) =
     (case ParseGroupVersion (or_apiVersion ref) of
        None \<Rightarrow> []
      | Some (grp, version) \<Rightarrow>
          if or_kind ref = ''DNS'' \<and> grp = ''operator.openshift.io'' then
            (case dnsScope version of
               None \<Rightarrow> []
             | Some root \<Rightarrow>
                 \<lparr>nn_ns = (if \<not> root then ns else ''''), nn_name = or_name ref\<rparr> # ownerRequests dnsScope ns refs)
          else ownerRequests dnsScope ns refs)"

definition enqueueRequestForOwner :: "(string \<Rightarrow> bool option) \<Rightarrow> kevent \<Rightarrow> nsname list" where
  "enqueueRequestForOwner dnsScope ev = remdups (concat (map
     (\<lambda>o1. ownerRequests dnsScope (m_namespace (obj_meta o1)) (m_ownerRefs (obj_meta o1))) (eventObjects ev)))"

definition enqueueRequestsFromMapFunc :: "(kobject \<Rightarrow> nsname list) \<Rightarrow> kevent \<Rightarrow> nsname list" where
  "enqueueRequestsFromMapFunc fn ev = remdups (concat (map fn (eventObjects ev)))"

definition predicateFuncs :: "(kobject \<Rightarrow> bool) \<Rightarrow> kevent \<Rightarrow> bool" where
  "predicateFuncs filt ev = filt (last (eventObjects ev))"

text \<open>\<open>c.Watch(source.Kind(cache, kind, handler, predicate))\<close>: the kind selects the events.\<close>

definition watch :: "(kobject \<Rightarrow> bool) \<Rightarrow> (kevent \<Rightarrow> nsname list) \<Rightarrow> (kevent \<Rightarrow> bool) \<Rightarrow> kevent \<Rightarrow> nsname list" where
  "watch kind handler pred ev = (if list_all kind (eventObjects ev) \<and> pred ev then handler ev else [])"

section \<open>The watches of the DNS controller\<close>

definition objectToDNS :: "kobject \<Rightarrow> nsname list" where
  "objectToDNS o1 = [DefaultDNSNamespaceName]"

definition isInNS :: "string \<Rightarrow> kobject \<Rightarrow> bool" where
  "isInNS namespace o1 \<longleftrightarrow> m_namespace (obj_meta o1) = namespace"

fun nodeEvents :: "kevent \<Rightarrow> bool" where
  "nodeEvents (Created (ONode n)) = nodePredicate n"
| "nodeEvents (Deleted (ONode n)) = nodePredicate n"
| "nodeEvents (Updated (ONode old) (ONode nu)) = nodeUpdateFunc old nu"
| "nodeEvents (Generic (ONode n)) = nodePredicate n"
| "nodeEvents _ = False"

definition controllerRequests :: "(string \<Rightarrow> bool option) \<Rightarrow> kevent \<Rightarrow> nsname list" where
  "controllerRequests dnsScope ev =
     watch is_ODNS enqueueRequestForObject (\<lambda>_. True) ev
     @ watch is_ODaemonSet (enqueueRequestForOwner dnsScope) (\<lambda>_. True) ev
     @ watch is_OService (enqueueRequestForOwner dnsScope) (\<lambda>_. True) ev
     @ watch is_OConfigMap (enqueueRequestForOwner dnsScope) (\<lambda>_. True) ev
     @ watch is_ONetworkPolicy (enqueueRequestsFromMapFunc (\<lambda>o1. owningDNSRequests (obj_meta o1)))
         (predicateFuncs (isInNS (nn_name DefaultDNSOperandNamespaceName))) ev
     @ watch is_OConfigMap (enqueueRequestsFromMapFunc objectToDNS)
         (predicateFuncs (isInNS GlobalUserSpecifiedConfigNamespace)) ev
     @ watch is_OAPIServer (enqueueRequestsFromMapFunc objectToDNS) (\<lambda>_. True) ev
     @ watch is_ONode (enqueueRequestsFromMapFunc objectToDNS) nodeEvents ev"

section \<open>The watches of the status controller\<close>

definition statusRequests :: "(string \<Rightarrow> bool option) \<Rightarrow> kevent \<Rightarrow> nsname list" where
  "statusRequests dnsScope ev =
     watch is_ODNS enqueueRequestForObject (\<lambda>_. True) ev
     @ watch is_ODaemonSet (enqueueRequestForOwner dnsScope) (\<lambda>_. True) ev
     @ watch is_OClusterOperator (enqueueRequestsFromMapFunc (\<lambda>o1. clusteroperatorToDNS (obj_meta o1)))
         (predicateFuncs (\<lambda>o1. isDNSClusterOperator (obj_meta o1))) ev"

section \<open>Facts\<close>

lemma owned_request:
  assumes "dnsScope ''v1'' = Some True"
  shows "ownerRequests dnsScope ns [dnsOwnerRef d] = [\<lparr>nn_ns = '''', nn_name = dns_name d\<rparr>]"
proof -
  have "ParseGroupVersion ''operator.openshift.io/v1'' = Some (''operator.openshift.io'', ''v1'')"
    by (simp add: ParseGroupVersion_def)
  then show ?thesis using assms by (simp add: dnsOwnerRef_def)
qed

lemma enqueued_owner:
  assumes "dnsScope ''v1'' = Some True" "o1 \<in> set (eventObjects ev)" "m_ownerRefs (obj_meta o1) = [dnsOwnerRef d]"
  shows "\<lparr>nn_ns = '''', nn_name = dns_name d\<rparr> \<in> set (enqueueRequestForOwner dnsScope ev)"
  using assms owned_request[where dnsScope = dnsScope, OF assms(1), of "m_namespace (obj_meta o1)" d]
  by (force simp: enqueueRequestForOwner_def)

text \<open>
  The objects that the operator creates for a DNS and watches: both daemonsets, the Corefile
  configmap, the copies of CA bundles, the service and the network policy.
\<close>

inductive operand :: "dns \<Rightarrow> kobject \<Rightarrow> bool" for d :: dns where
  daemonset: "desiredDNSDaemonSet d img proxy revs prof = Inr ds \<Longrightarrow> operand d (ODaemonSet ds)"
| node_resolver: "operand d (ODaemonSet (desiredNodeResolverDaemonSet script d ip cd img))"
| corefile: "desiredDNSConfigMap toU32 d cd revs nameResolver ns = Inr cm \<Longrightarrow> operand d (OConfigMap cm)"
| ca_bundle: "desiredCABundleConfigMap d src (CABundleConfigMapName n) = Some cm \<Longrightarrow> operand d (OConfigMap cm)"
| dns_service: "operand d (OService (desiredDNSService d ip hints ref))"
| dns_policy: "operand d (ONetworkPolicy (desiredDNSNetworkPolicy d))"

text \<open>An event about one object: what an update replaces has the same kind and the same namespace.\<close>

definition concerns :: "kevent \<Rightarrow> kobject \<Rightarrow> bool" where
  "concerns ev o1 \<longleftrightarrow> o1 \<in> set (eventObjects ev)
     \<and> list_all (\<lambda>x. m_namespace (obj_meta x) = m_namespace (obj_meta o1)
          \<and> is_ODaemonSet x = is_ODaemonSet o1 \<and> is_OService x = is_OService o1
          \<and> is_OConfigMap x = is_OConfigMap o1 \<and> is_ONetworkPolicy x = is_ONetworkPolicy o1) (eventObjects ev)"

lemma concernsD:
  assumes "concerns ev o1" "x \<in> set (eventObjects ev)"
  shows "m_namespace (obj_meta x) = m_namespace (obj_meta o1)
    \<and> is_ODaemonSet x = is_ODaemonSet o1 \<and> is_OService x = is_OService o1
    \<and> is_OConfigMap x = is_OConfigMap o1 \<and> is_ONetworkPolicy x = is_ONetworkPolicy o1"
  using assms unfolding concerns_def list_all_iff by blast

lemma operand_owner:
  assumes "operand d o1"
  shows "m_ownerRefs (obj_meta o1) = [dnsOwnerRef d]"
  using assms
proof (cases rule: operand.cases)
  case (daemonset img proxy revs prof ds)
  then show ?thesis by (auto simp: desiredDNSDaemonSet_def Let_def split: prod.splits if_splits)
next
  case (corefile toU32 cd revs nameResolver ns cm)
  then have "m_ownerRefs (cm_meta cm) = [dnsOwnerRef d]"
    by (auto simp: desiredDNSConfigMap_def Let_def sanitize_Inr dnsOwnerRef_def dns_name_def split: sum.splits)
  then show ?thesis using corefile by simp
next
  case (ca_bundle src n cm)
  then show ?thesis by (auto simp: desiredCABundleConfigMap_def split: option.splits if_splits)
qed (simp_all add: desiredNodeResolverDaemonSet_def desiredDNSService_def desiredDNSNetworkPolicy_def Let_def)

lemma operand_request:
  assumes "dnsScope ''v1'' = Some True" "operand d o1" "concerns ev o1"
  shows "\<lparr>nn_ns = '''', nn_name = dns_name d\<rparr> \<in> set (controllerRequests dnsScope ev)"
proof -
  have o1: "o1 \<in> set (eventObjects ev)" using assms(3) by (simp add: concerns_def)
  note own = enqueued_owner[where dnsScope = dnsScope, OF assms(1) o1 operand_owner[OF assms(2)]]
  have same: "m_namespace (obj_meta x) = m_namespace (obj_meta o1)" "is_ODaemonSet x = is_ODaemonSet o1"
    "is_OService x = is_OService o1" "is_OConfigMap x = is_OConfigMap o1" "is_ONetworkPolicy x = is_ONetworkPolicy o1"
    if "x \<in> set (eventObjects ev)" for x
    using concernsD[OF assms(3) that] by blast+
  show ?thesis
  proof (cases "is_ONetworkPolicy o1")
    case False
    then have "is_ODaemonSet o1 \<or> is_OService o1 \<or> is_OConfigMap o1"
      using assms(2) by (auto elim: operand.cases)
    then show ?thesis using own same by (auto simp: controllerRequests_def watch_def list_all_iff)
  next
    case True
    then have p: "o1 = ONetworkPolicy (desiredDNSNetworkPolicy d)" using assms(2) by (auto elim: operand.cases)
    then have "owningDNSRequests (obj_meta o1) = [\<lparr>nn_ns = '''', nn_name = dns_name d\<rparr>]"
      by (simp add: desiredDNSNetworkPolicy_def owningDNSRequests_def Let_def gomap_simps DNSDaemonSetLabel_def)
    then have req: "\<lparr>nn_ns = '''', nn_name = dns_name d\<rparr> \<in> set (enqueueRequestsFromMapFunc (\<lambda>o1. owningDNSRequests (obj_meta o1)) ev)"
      using o1 by (force simp: enqueueRequestsFromMapFunc_def)
    have ne: "eventObjects ev \<noteq> []" by (cases ev) simp_all
    have "m_namespace (obj_meta o1) = nn_name DefaultDNSOperandNamespaceName"
      by (simp add: p desiredDNSNetworkPolicy_def Let_def DNSNetworkPolicyName_def DefaultDNSOperandNamespaceName_def DefaultOperandNamespace_def)
    then have "predicateFuncs (isInNS (nn_name DefaultDNSOperandNamespaceName)) ev"
      using same(1)[OF last_in_set[OF ne]] by (simp add: predicateFuncs_def isInNS_def)
    then show ?thesis using True req same(5) by (auto simp: controllerRequests_def watch_def list_all_iff)
  qed
qed

section \<open>Properties\<close>

text \<open>
  C18: Tampering with an operand is noticed. Whatever happens to an object that the operator creates for a DNS and
  watches (the daemonsets, the Corefile, a CA bundle copy, the service, the network policy): when it is created,
  deleted, changed into something else or something else is changed into it, the DNS controller gets a request for
  that DNS, even when the change removes the owner reference or the label that tells whose it is. A daemonset event
  makes the status controller run too.
\<close>

theorem operands_watched:
  assumes "dnsScope ''v1'' = Some True" "operand d o1" "concerns ev o1"
  shows "\<lparr>nn_ns = '''', nn_name = dns_name d\<rparr> \<in> set (controllerRequests dnsScope ev)
    \<and> (is_ODaemonSet o1 \<longrightarrow> \<lparr>nn_ns = '''', nn_name = dns_name d\<rparr> \<in> set (statusRequests dnsScope ev))"
proof -
  have o1: "o1 \<in> set (eventObjects ev)" using assms(3) by (simp add: concerns_def)
  have "list_all is_ODaemonSet (eventObjects ev)" if "is_ODaemonSet o1"
    using concernsD[OF assms(3)] that unfolding list_all_iff by blast
  then have "is_ODaemonSet o1 \<longrightarrow> \<lparr>nn_ns = '''', nn_name = dns_name d\<rparr> \<in> set (statusRequests dnsScope ev)"
    using enqueued_owner[where dnsScope = dnsScope, OF assms(1) o1 operand_owner[OF assms(2)]]
    by (simp add: statusRequests_def watch_def)
  then show ?thesis using operand_request[where dnsScope = dnsScope, OF assms] by blast
qed

theorem operands_watched_witness:
  "let svc = desiredDNSService (emptyDNS\<lparr>dns_meta := emptyMeta\<lparr>m_name := ''default''\<rparr>\<rparr>) '''' False
               (dnsOwnerRef emptyDNS);
       stripped = svc\<lparr>svc_meta := (svc_meta svc)\<lparr>m_ownerRefs := []\<rparr>\<rparr>
   in \<lparr>nn_ns = '''', nn_name = ''default''\<rparr> \<in> set (controllerRequests (\<lambda>_. Some True) (Updated (OService svc) (OService stripped)))"
proof -
  define d where "d = emptyDNS\<lparr>dns_meta := emptyMeta\<lparr>m_name := ''default''\<rparr>\<rparr>"
  define svc where "svc = desiredDNSService d '''' False (dnsOwnerRef emptyDNS)"
  define stripped where "stripped = svc\<lparr>svc_meta := (svc_meta svc)\<lparr>m_ownerRefs := []\<rparr>\<rparr>"
  have "operand d (OService svc)" unfolding svc_def by (rule operand.dns_service)
  moreover have "concerns (Updated (OService svc) (OService stripped)) (OService svc)"
    by (simp add: concerns_def stripped_def)
  ultimately have "\<lparr>nn_ns = '''', nn_name = dns_name d\<rparr> \<in> set (controllerRequests (\<lambda>_. Some True) (Updated (OService svc) (OService stripped)))"
    using operands_watched[of "\<lambda>_. Some True"] by blast
  moreover have "dns_name d = ''default''" by (simp add: d_def dns_name_def)
  ultimately show ?thesis unfolding Let_def d_def[symmetric] svc_def[symmetric] stripped_def[symmetric] by (simp only:)
qed

end
