(* ===== verification/Command_Line.thy ===== *)
theory Command_Line
  imports Prelude
begin

text \<open>
  The command line: Go's \<open>flag\<close> package as \<open>main\<close> of \<open>cmd/dns-operator/main.go\<close> uses it. \<open>flag.Parse\<close> takes one
  argument after the other until one is not a flag; each flag takes its value from the same argument, from the
  next one or, when it is a switch, from nowhere. The flags are an argument, since
  the logger and the client of the controller runtime register some of their own. The lemmas
  show that the parser ends, and that it reads back what a list of settings is written as, the last setting of a flag counting.
\<close>

section \<open>Parsing\<close>

text \<open>A registered flag: \<open>Set\<close> of its value answers with an error or not.\<close>

record flagspec =
  fl_name :: string
  fl_isBool :: bool
  fl_accepts :: "string \<Rightarrow> bool"

datatype flagerror = ErrHelp | BadSyntax string | NotDefined string | NeedsArgument string | InvalidValue string string

definition findFlag :: "flagspec list \<Rightarrow> string \<Rightarrow> flagspec option" where
  "findFlag formal name = List.find (\<lambda>fl. fl_name fl = name) formal"

text \<open>The name and the value of an argument: the first equals sign, which cannot come first, separates them.\<close>

definition cutEquals :: "string \<Rightarrow> string \<times> string option" where
  "cutEquals name = (case dropWhile (\<lambda>c. c \<noteq> CHR ''='') (tl name) of
     [] \<Rightarrow> (name, None)
   | _ # v \<Rightarrow> (hd name # takeWhile (\<lambda>c. c \<noteq> CHR ''='') (tl name), Some v))"

type_synonym flagvalues = "(string \<times> string) list"

definition setFlag :: "flagspec \<Rightarrow> string \<Rightarrow> string list \<Rightarrow> flagvalues \<Rightarrow> flagerror + bool \<times> string list \<times> flagvalues" where
  "setFlag fl v rest vals =
     (if fl_accepts fl v then Inr (True, rest, AList.update (fl_name fl) v vals) else Inl (InvalidValue (fl_name fl) v))"

definition parseOne :: "flagspec list \<Rightarrow> string list \<Rightarrow> flagvalues \<Rightarrow> flagerror + bool \<times> string list \<times> flagvalues" where
  "parseOne formal args vals = (case args of
     [] \<Rightarrow> Inr (False, args, vals)
   | s # rest \<Rightarrow>
       if length s < 2 \<or> s ! 0 \<noteq> CHR ''-'' then Inr (False, args, vals)
       else if s ! 1 = CHR ''-'' \<and> length s = 2 then Inr (False, rest, vals)
       else
         let name = drop (if s ! 1 = CHR ''-'' then 2 else 1) s in
         if length name = 0 \<or> name ! 0 = CHR ''-'' \<or> name ! 0 = CHR ''='' then Inl (BadSyntax s)
         else
           let (name, value) = cutEquals name in
           (case findFlag formal name of
              None \<Rightarrow> Inl (if name = ''help'' \<or> name = ''h'' then ErrHelp else NotDefined name)
            | Some fl \<Rightarrow>
                if fl_isBool fl then setFlag fl (case value of Some v \<Rightarrow> v | None \<Rightarrow> ''true'') rest vals
                else
                  (case value of
                     Some v \<Rightarrow> setFlag fl v rest vals
                   | None \<Rightarrow>
                       (case rest of
                          v # rest' \<Rightarrow> setFlag fl v rest' vals
                        | [] \<Rightarrow> Inl (NeedsArgument name)))))"

lemma setFlag_Inr: "setFlag fl v rest vals = Inr (seen, args', vals') \<Longrightarrow> args' = rest"
  by (simp add: setFlag_def split: if_splits)

lemma parseOne_shorter: "parseOne formal args vals = Inr (True, args', vals') \<Longrightarrow> length args' < length args"
  by (auto simp: parseOne_def Let_def split: list.splits if_splits prod.splits option.splits dest!: setFlag_Inr)

function parseFlags :: "flagspec list \<Rightarrow> string list \<Rightarrow> flagvalues \<Rightarrow> flagerror + flagvalues \<times> string list" where
  "parseFlags formal args vals = (case parseOne formal args vals of
     Inl e \<Rightarrow> Inl e
   | Inr (seen, args', vals') \<Rightarrow> if seen then parseFlags formal args' vals' else Inr (vals', args'))"
  by pat_completeness auto

termination
  by (relation "measure (\<lambda>(_, args, _). length args)") (auto simp: parseOne_shorter)

declare parseFlags.simps [simp del]

definition flagValue :: "flagvalues \<Rightarrow> string \<Rightarrow> string \<Rightarrow> string" where
  "flagValue vals name dflt = (case map_of vals name of None \<Rightarrow> dflt | Some v \<Rightarrow> v)"

section \<open>Settings\<close>

text \<open>How a setting can be written: with one dash or two, with the value in the same argument or the next, or, for a switch, without one.\<close>

datatype setting = Joined bool string string | Separate bool string string | Switch bool string

fun settingName :: "setting \<Rightarrow> string" where
  "settingName (Joined _ n _) = n"
| "settingName (Separate _ n _) = n"
| "settingName (Switch _ n) = n"

fun settingValue :: "setting \<Rightarrow> string" where
  "settingValue (Joined _ _ v) = v"
| "settingValue (Separate _ _ v) = v"
| "settingValue (Switch _ _) = ''true''"

definition dashes :: "bool \<Rightarrow> string" where
  "dashes double = (if double then ''--'' else ''-'')"

fun written :: "setting \<Rightarrow> string list" where
  "written (Joined double n v) = [dashes double @ n @ ''='' @ v]"
| "written (Separate double n v) = [dashes double @ n, v]"
| "written (Switch double n) = [dashes double @ n]"

definition wellNamed :: "string \<Rightarrow> bool" where
  "wellNamed n \<longleftrightarrow> n \<noteq> '''' \<and> hd n \<noteq> CHR ''-'' \<and> CHR ''='' \<notin> set n"

fun needsValue :: "setting \<Rightarrow> bool option" where
  "needsValue (Joined _ _ _) = None"
| "needsValue (Separate _ _ _) = Some True"
| "needsValue (Switch _ _) = Some False"

definition settable :: "flagspec list \<Rightarrow> setting \<Rightarrow> bool" where
  "settable formal s \<longleftrightarrow> wellNamed (settingName s) \<and> (case findFlag formal (settingName s) of None \<Rightarrow> False
     | Some fl \<Rightarrow> fl_accepts fl (settingValue s) \<and> (case needsValue s of None \<Rightarrow> True | Some b \<Rightarrow> b = (\<not> fl_isBool fl)))"

lemma cutEquals_name:
  assumes "wellNamed n"
  shows "cutEquals n = (n, None)"
proof -
  have "dropWhile (\<lambda>c. c \<noteq> CHR ''='') (tl n) = []"
    using assms by (cases n) (auto simp: wellNamed_def dropWhile_eq_Nil_conv)
  then show ?thesis by (simp add: cutEquals_def del: dropWhile_eq_Nil_conv)
qed

lemma cutEquals_value: "wellNamed n \<Longrightarrow> cutEquals (n @ CHR ''='' # v) = (n, Some v)"
proof (cases n)
  case (Cons c n')
  assume "wellNamed n"
  then have "\<forall>x\<in>set n'. x \<noteq> CHR ''=''" using Cons by (auto simp: wellNamed_def)
  then show ?thesis using Cons by (simp add: cutEquals_def dropWhile_append takeWhile_append)
qed (simp add: wellNamed_def)

lemma find_name: "findFlag formal n = Some fl \<Longrightarrow> fl_name fl = n"
  by (auto simp: findFlag_def find_Some_iff)

text \<open>An argument that names a flag, whatever comes after the name.\<close>

lemma parse_named:
  assumes "wellNamed n"
  shows "parseOne formal ((dashes double @ n @ x) # rest) vals =
    (let (name, value) = cutEquals (n @ x) in
           (case findFlag formal name of
              None \<Rightarrow> Inl (if name = ''help'' \<or> name = ''h'' then ErrHelp else NotDefined name)
            | Some fl \<Rightarrow>
                if fl_isBool fl then setFlag fl (case value of Some v \<Rightarrow> v | None \<Rightarrow> ''true'') rest vals
                else
                  (case value of
                     Some v \<Rightarrow> setFlag fl v rest vals
                   | None \<Rightarrow>
                       (case rest of
                          v # rest' \<Rightarrow> setFlag fl v rest' vals
                        | [] \<Rightarrow> Inl (NeedsArgument name)))))"
proof (cases n)
  case (Cons c n')
  then show ?thesis using assms by (auto simp: wellNamed_def parseOne_def dashes_def Let_def)
qed (use assms in \<open>simp add: wellNamed_def\<close>)

lemma parse_setting:
  assumes "settable formal s"
  shows "parseOne formal (written s @ rest) vals = Inr (True, rest, AList.update (settingName s) (settingValue s) vals)"
proof -
  obtain fl where fl: "findFlag formal (settingName s) = Some fl" "fl_accepts fl (settingValue s)"
    "(case needsValue s of None \<Rightarrow> True | Some b \<Rightarrow> b = (\<not> fl_isBool fl))" and name: "wellNamed (settingName s)"
    using assms by (auto simp: settable_def split: option.splits)
  note named = parse_named[where x = "[]", simplified] parse_named[where x = "CHR ''='' # v" for v]
  show ?thesis
    using fl name find_name[OF fl(1)]
    by (cases s) (auto simp: named cutEquals_name cutEquals_value setFlag_def)
qed

lemma parse_settings:
  "list_all (settable formal) ss \<Longrightarrow> parseFlags formal (concat (map written ss)) vals
     = Inr (fold (\<lambda>s. AList.update (settingName s) (settingValue s)) ss vals, [])"
proof (induction ss arbitrary: vals)
  case Nil
  show ?case by (simp add: parseFlags.simps[of formal "[]"] parseOne_def)
next
  case (Cons s ss)
  then show ?case
    by (simp add: parseFlags.simps[of formal "written s @ _"] parse_setting)
qed

definition lastSetting :: "setting list \<Rightarrow> string \<Rightarrow> string \<Rightarrow> string" where
  "lastSetting ss name dflt = flagValue (rev (map (\<lambda>s. (settingName s, settingValue s)) ss)) name dflt"

lemma flagValue_fold:
  "flagValue (fold (\<lambda>s. AList.update (settingName s) (settingValue s)) ss []) name dflt = lastSetting ss name dflt"
proof -
  have "map_of (fold (\<lambda>s. AList.update (settingName s) (settingValue s)) ss vals) name
      = map_of (rev (map (\<lambda>s. (settingName s, settingValue s)) ss) @ vals) name" for vals
    by (induction ss arbitrary: vals) (auto simp: AList.update_conv' map_add_def split: option.split)
  from this[of "[]"] show ?thesis by (simp add: lastSetting_def flagValue_def)
qed

end
