(* ===== verification/Startup.thy ===== *)
theory Startup
  imports Operator Watches Command_Line
begin

text \<open>
  Starting the operator: \<open>main\<close> of \<open>cmd/dns-operator/main.go\<close> collects the configuration, and
  \<open>New\<close> of \<open>pkg/operator/operator.go\<close> wires the controllers with it.

  What the process finds outside itself is one record: the environment variables, the
  values of the flags, the errors of the clients and of the manager, the API server's configuration and the
  feature gates. \<open>logrus.Fatalf\<close> and an error are \<^const>\<open>Inl\<close>, a panic is \<^const>\<open>None\<close>. The process
  that has started is described by what its parts were given.
\<close>

section \<open>The environment\<close>

record featuregate =
  fg_enabled :: "string list"
  fg_disabled :: "string list"

text \<open>\<open>Enabled\<close> of the vendored feature gates panics when the feature is not registered.\<close>

definition featureEnabled :: "featuregate \<Rightarrow> string \<Rightarrow> bool option" where
  "featureEnabled f key =
     (if key \<in> set (fg_enabled f) then Some True
      else if key \<in> set (fg_disabled f) then Some False else None)"

record environment =
  env_getenv :: "string \<Rightarrow> string"
  env_metricsBindAddr :: string
  env_metricsCertDir :: string
  env_kubeConfig :: "goerror option"
  env_configClient :: "goerror option"
  env_apiServer :: "goerror + tlssecurityprofile option"
  env_kubeClient :: "goerror option"
  env_gatesObserved :: bool
  env_featureGates :: "goerror + featuregate"
  env_manager :: "goerror option"
  env_dnsController :: "goerror option"
  env_statusController :: "goerror option"
  env_nameResolverController :: "goerror option"

section \<open>main\<close>

definition operatorNamespace :: string where
  "operatorNamespace = ''openshift-dns-operator''"

text \<open>The function that \<open>main\<close> puts into \<open>metricsTLSOpts\<close>.\<close>

definition metricsTLSOpt :: "tlsconf \<Rightarrow> tlsconf \<Rightarrow> tlsconf" where
  "metricsTLSOpt tlsCfg cfg =
     (let cfg1 = cfg\<lparr>conf_CipherSuites := conf_CipherSuites tlsCfg, conf_MinVersion := conf_MinVersion tlsCfg\<rparr>
      in if length (conf_CurvePreferences tlsCfg) > 0
         then cfg1\<lparr>conf_CurvePreferences := conf_CurvePreferences tlsCfg\<rparr> else cfg1)"

definition metricsTLSOpts :: "environment \<Rightarrow> goerror + (tlsconf \<Rightarrow> tlsconf) list" where
  "metricsTLSOpts env =
     (if env_metricsCertDir env \<noteq> '''' then
        (case env_configClient env of
           Some e \<Rightarrow> Inl (errorf ''failed to create config client'' e)
         | None \<Rightarrow>
             let tlsSecurityProfile = (case env_apiServer env of Inl _ \<Rightarrow> None | Inr p \<Rightarrow> p) in
             (case TLSConfigFromProfile (Some (TLSProfileSpecForSecurityProfile tlsSecurityProfile)) of
                Inl e \<Rightarrow> Inl (errorf ''failed to build TLS config from profile'' e)
              | Inr tlsCfg \<Rightarrow> Inr [metricsTLSOpt tlsCfg]))
      else Inr [])"

definition operatorConfig :: "environment \<Rightarrow> goerror + operatorconfig" where
  "operatorConfig env =
     (let releaseVersion = (if length (env_getenv env ''RELEASE_VERSION'') = 0 then UnknownVersionValue
                            else env_getenv env ''RELEASE_VERSION'');
          coreDNSImage = env_getenv env ''IMAGE'';
          cliImage = env_getenv env ''OPENSHIFT_CLI_IMAGE'';
          kubeRBACProxyImage = env_getenv env ''KUBE_RBAC_PROXY_IMAGE''
      in if length coreDNSImage = 0 then Inl (ErrMsg ''IMAGE environment variable is required'')
         else if length cliImage = 0 then Inl (ErrMsg ''OPENSHIFT_CLI_IMAGE environment variable is required'')
         else if length kubeRBACProxyImage = 0
         then Inl (ErrMsg ''KUBE_RBAC_PROXY_IMAGE environment variable is required'')
         else
           (case env_kubeConfig env of
              Some e \<Rightarrow> Inl (errorf ''failed to get kube config'' e)
            | None \<Rightarrow>
           (case metricsTLSOpts env of
              Inl e \<Rightarrow> Inl e
            | Inr opts \<Rightarrow> Inr
                \<lparr>oc_OperatorReleaseVersion = releaseVersion, oc_OperatorNamespace = operatorNamespace,
                 oc_CoreDNSImage = coreDNSImage, oc_OpenshiftCLIImage = cliImage,
                 oc_KubeRBACProxyImage = kubeRBACProxyImage, oc_MetricsBindAddress = env_metricsBindAddr env,
                 oc_MetricsCertDir = env_metricsCertDir env, oc_MetricsTLSOpts = opts\<rparr>)))"

section \<open>New\<close>

record metricsoptions =
  mo_BindAddress :: string
  mo_SecureServing :: bool
  mo_CertDir :: string
  mo_AuthFilter :: bool
  mo_TLSOpts :: "(tlsconf \<Rightarrow> tlsconf) list"

definition metricsOptions :: "operatorconfig \<Rightarrow> metricsoptions" where
  "metricsOptions oc =
     (let opts = \<lparr>mo_BindAddress = oc_MetricsBindAddress oc, mo_SecureServing = False, mo_CertDir = '''',
                  mo_AuthFilter = False, mo_TLSOpts = []\<rparr>
      in if oc_MetricsCertDir oc \<noteq> ''''
         then opts\<lparr>mo_SecureServing := True, mo_CertDir := oc_MetricsCertDir oc, mo_AuthFilter := True,
                   mo_TLSOpts := oc_MetricsTLSOpts oc\<rparr>
         else opts)"

definition cacheNamespaces :: "operatorconfig \<Rightarrow> string list" where
  "cacheNamespaces oc = [oc_OperatorNamespace oc, DefaultOperandNamespace, GlobalUserSpecifiedConfigNamespace]"

record nameresolverconfig =
  nrc_OperandNamespace :: string
  nrc_ServiceName :: string
  nrc_DNSPort :: string
  nrc_DNSNameResolverNamespace :: string

definition nameResolverConfig :: nameresolverconfig where
  "nameResolverConfig =
     \<lparr>nrc_OperandNamespace = DefaultOperandNamespace, nrc_ServiceName = nn_name (DNSServiceName defaultDNS),
      nrc_DNSPort = itoa (cp_containerPort (hd (ct_ports (hd (ps_containers (ds_pod DNSDaemonSet)))))),
      nrc_DNSNameResolverNamespace = DefaultDNSNameResolverNamespace\<rparr>"

text \<open>
  The operator: its metrics server, the namespaces its cache watches and the controllers, with
  what each of them was given. The status controller and the DNS controller get a copy of
  the configuration without the metrics fields.
\<close>

record operator =
  op_metrics :: metricsoptions
  op_cache :: "string list"
  op_config :: operatorconfig
  op_nameResolver :: bool
  op_nameResolverController :: "nameresolverconfig option"

text \<open>
  When the gates were observed in time but cannot be read, the log statement of the \<open>select\<close> calls a
  method of a nil interface: the error check that comes after it is never reached.
\<close>

definition newOperator :: "environment \<Rightarrow> operatorconfig \<Rightarrow> (goerror + operator) option" where
  "newOperator env oc =
     (case env_kubeClient env of
        Some e \<Rightarrow> Some (Inl (errorf ''failed to create kube client'' e))
      | None \<Rightarrow>
     (case env_configClient env of
        Some e \<Rightarrow> Some (Inl (errorf ''failed to create openshift client'' e))
      | None \<Rightarrow>
      if \<not> env_gatesObserved env then Some (Inl (ErrMsg ''timed out waiting for FeatureGate detection''))
      else
     (case env_featureGates env of
        Inl _ \<Rightarrow> None
      | Inr featureGates \<Rightarrow>
     (case featureEnabled featureGates ''DNSNameResolver'' of
        None \<Rightarrow> None
      | Some dnsNameResolverEnabled \<Rightarrow> Some
     (case env_manager env of
        Some e \<Rightarrow> Inl (errorf ''failed to create operator manager'' e)
      | None \<Rightarrow>
     (case env_dnsController env of
        Some e \<Rightarrow> Inl (errorf ''failed to create operator controller'' e)
      | None \<Rightarrow>
     (case env_statusController env of
        Some e \<Rightarrow> Inl (errorf ''failed to create status controller'' e)
      | None \<Rightarrow>
      let opr = \<lparr>op_metrics = metricsOptions oc, op_cache = cacheNamespaces oc,
                 op_config = oc\<lparr>oc_MetricsBindAddress := '''', oc_MetricsCertDir := '''', oc_MetricsTLSOpts := []\<rparr>,
                 op_nameResolver = dnsNameResolverEnabled,
                 op_nameResolverController = (if dnsNameResolverEnabled then Some nameResolverConfig else None)\<rparr> in
      if dnsNameResolverEnabled then
        (case env_nameResolverController env of
           Some e \<Rightarrow> Inl (errorf ''failed to create dnsnameresolver controller'' e)
         | None \<Rightarrow> Inr opr)
      else Inr opr)))))))"

definition startup :: "environment \<Rightarrow> (goerror + operator) option" where
  "startup env =
     (case operatorConfig env of
        Inl e \<Rightarrow> Some (Inl e)
      | Inr oc \<Rightarrow> map_option (map_sum (errorf ''failed to create operator'') id) (newOperator env oc))"

section \<open>From the command line\<close>

definition metricsFlags :: "flagspec list" where
  "metricsFlags =
     [\<lparr>fl_name = ''metrics-bind-addr'', fl_isBool = False, fl_accepts = (\<lambda>_. True)\<rparr>,
      \<lparr>fl_name = ''metrics-cert-dir'', fl_isBool = False, fl_accepts = (\<lambda>_. True)\<rparr>]"

text \<open>
  The whole of \<open>main\<close> up to \<open>Start\<close>: the code the process exits with, or the operator it starts. \<open>flag.Parse\<close> exits
  with 0 for a call for help and with 2 for an argument it cannot use, \<open>logrus.Fatalf\<close> with 1, a panic with 2.
  \<open>others\<close> are the flags that the logger and the client register.
\<close>

definition mainProgram :: "flagspec list \<Rightarrow> string list \<Rightarrow> environment \<Rightarrow> int + operator" where
  "mainProgram others args env =
     (case parseFlags (metricsFlags @ others) args [] of
        Inl e \<Rightarrow> Inl (if e = ErrHelp then 0 else 2)
      | Inr (vals, _) \<Rightarrow>
          (case startup (env\<lparr>env_metricsBindAddr := flagValue vals ''metrics-bind-addr'' ''127.0.0.1:60000'',
                              env_metricsCertDir := flagValue vals ''metrics-cert-dir'' ''''\<rparr>) of
             None \<Rightarrow> Inl 2
           | Some (Inl _) \<Rightarrow> Inl 1
           | Some (Inr opr) \<Rightarrow> Inr opr))"

section \<open>Facts\<close>

lemma operand_namespace:
  assumes "operand d o1"
  shows "m_namespace (obj_meta o1) = DefaultOperandNamespace"
  using assms
proof (cases rule: operand.cases)
  case (daemonset img proxy revs prof ds)
  moreover have "meta_key (ds_meta ds) = DNSDaemonSetName d"
    using desired_daemonset[of d img proxy revs prof] daemonset(2) by auto
  ultimately show ?thesis by (auto simp: meta_key_def DNSDaemonSetName_def)
next
  case (corefile toU32 cd revs nameResolver ns cm)
  then have "m_namespace (cm_meta cm) = DefaultOperandNamespace"
    by (auto simp: desiredDNSConfigMap_def Let_def sanitize_Inr DNSConfigMapName_def DefaultOperandNamespace_def
        split: sum.splits)
  then show ?thesis using corefile by simp
next
  case (ca_bundle src n cm)
  then show ?thesis
    by (auto simp: desiredCABundleConfigMap_def CABundleConfigMapName_def DefaultOperandNamespace_def split: option.splits if_splits)
qed (simp_all add: desiredNodeResolverDaemonSet_def desiredDNSService_def desiredDNSNetworkPolicy_def Let_def
    NodeResolverDaemonSetName_def DNSServiceName_def DNSNetworkPolicyName_def DefaultOperandNamespace_def)

text \<open>The profile that the metrics server follows: the Intermediate one when the API server cannot be read.\<close>

definition metricsProfile :: "environment \<Rightarrow> tlsprofilespec" where
  "metricsProfile env = TLSProfileSpecForSecurityProfile (case env_apiServer env of Inl _ \<Rightarrow> None | Inr p \<Rightarrow> p)"

definition knownVersion :: "string \<Rightarrow> bool" where
  "knownVersion v \<longleftrightarrow> v = '''' \<or> map_of goTLSVersions v \<noteq> None"

lemma metrics_conf:
  "knownVersion (tps_minTLSVersion (metricsProfile env)) \<longleftrightarrow>
   (\<exists>conf. TLSConfigFromProfile (Some (metricsProfile env)) = Inr conf)"
  using tls_config_complete[of "Some (metricsProfile env)"]
  by (auto simp: knownVersion_def TLSConfigFromProfile_def TLSVersion_def Let_def split: sum.splits option.splits)

lemma metricsTLSOpts_cases:
  "metricsTLSOpts env = (if env_metricsCertDir env = '''' then Inr []
     else case env_configClient env of Some e \<Rightarrow> Inl (errorf ''failed to create config client'' e)
     | None \<Rightarrow> (case TLSConfigFromProfile (Some (metricsProfile env)) of
         Inl e \<Rightarrow> Inl (errorf ''failed to build TLS config from profile'' e) | Inr c \<Rightarrow> Inr [metricsTLSOpt c]))"
  by (simp add: metricsTLSOpts_def metricsProfile_def Let_def split: option.split)

definition starts :: "environment \<Rightarrow> bool" where
  "starts env \<longleftrightarrow> env_getenv env ''IMAGE'' \<noteq> '''' \<and> env_getenv env ''OPENSHIFT_CLI_IMAGE'' \<noteq> ''''
     \<and> env_getenv env ''KUBE_RBAC_PROXY_IMAGE'' \<noteq> ''''
     \<and> env_kubeConfig env = None \<and> env_kubeClient env = None \<and> env_configClient env = None
     \<and> (env_metricsCertDir env = '''' \<or> knownVersion (tps_minTLSVersion (metricsProfile env)))
     \<and> env_gatesObserved env \<and> env_manager env = None \<and> env_dnsController env = None
     \<and> env_statusController env = None"

lemma operatorConfig_Inr:
  "operatorConfig env = Inr oc \<longleftrightarrow> env_getenv env ''IMAGE'' \<noteq> '''' \<and> env_getenv env ''OPENSHIFT_CLI_IMAGE'' \<noteq> ''''
     \<and> env_getenv env ''KUBE_RBAC_PROXY_IMAGE'' \<noteq> '''' \<and> env_kubeConfig env = None
     \<and> (\<exists>opts. metricsTLSOpts env = Inr opts \<and> oc =
        \<lparr>oc_OperatorReleaseVersion = (if env_getenv env ''RELEASE_VERSION'' = '''' then UnknownVersionValue
           else env_getenv env ''RELEASE_VERSION''), oc_OperatorNamespace = operatorNamespace,
         oc_CoreDNSImage = env_getenv env ''IMAGE'', oc_OpenshiftCLIImage = env_getenv env ''OPENSHIFT_CLI_IMAGE'',
         oc_KubeRBACProxyImage = env_getenv env ''KUBE_RBAC_PROXY_IMAGE'', oc_MetricsBindAddress = env_metricsBindAddr env,
         oc_MetricsCertDir = env_metricsCertDir env, oc_MetricsTLSOpts = opts\<rparr>)"
  by (auto simp: operatorConfig_def Let_def split: option.split sum.split)

lemma newOperator_Inr:
  "newOperator env oc = Some (Inr opr) \<longleftrightarrow> env_kubeClient env = None \<and> env_configClient env = None
     \<and> env_gatesObserved env \<and> env_manager env = None \<and> env_dnsController env = None \<and> env_statusController env = None
     \<and> (\<exists>gates enabled. env_featureGates env = Inr gates \<and> featureEnabled gates ''DNSNameResolver'' = Some enabled
        \<and> (enabled \<longrightarrow> env_nameResolverController env = None)
        \<and> opr = \<lparr>op_metrics = metricsOptions oc, op_cache = cacheNamespaces oc,
                 op_config = oc\<lparr>oc_MetricsBindAddress := '''', oc_MetricsCertDir := '''', oc_MetricsTLSOpts := []\<rparr>,
                 op_nameResolver = enabled,
                 op_nameResolverController = (if enabled then Some nameResolverConfig else None)\<rparr>)"
  by (auto simp: newOperator_def Let_def split: option.split sum.split)

lemma startup_Inr:
  "startup env = Some (Inr opr) \<longleftrightarrow> (\<exists>oc. operatorConfig env = Inr oc \<and> newOperator env oc = Some (Inr opr))"
proof -
  have "map_sum f id z = Inr x \<longleftrightarrow> z = Inr x" for f :: "goerror \<Rightarrow> goerror" and z :: "goerror + operator" and x
    by (cases z) auto
  then show ?thesis by (auto simp: startup_def split: sum.split)
qed


lemma operatorConfig_gates: "operatorConfig (env\<lparr>env_featureGates := g\<rparr>) = operatorConfig env"
  by (simp add: operatorConfig_def metricsTLSOpts_def Let_def cong: option.case_cong sum.case_cong)

definition gateRegistered :: "environment \<Rightarrow> bool" where
  "gateRegistered env = (case env_featureGates env of Inl _ \<Rightarrow> False
     | Inr gates \<Rightarrow> ''DNSNameResolver'' \<in> set (fg_enabled gates @ fg_disabled gates))"

lemma gateRegistered_iff:
  "gateRegistered env \<longleftrightarrow> (\<exists>gates b. env_featureGates env = Inr gates \<and> featureEnabled gates ''DNSNameResolver'' = Some b)"
  by (auto simp: gateRegistered_def featureEnabled_def split: sum.split)

lemma startup_succeeds:
  "(\<exists>opr. startup env = Some (Inr opr)) \<longleftrightarrow> starts env \<and> gateRegistered env
      \<and> (case env_featureGates env of Inl _ \<Rightarrow> False
         | Inr gates \<Rightarrow> ''DNSNameResolver'' \<notin> set (fg_enabled gates) \<or> env_nameResolverController env = None)"
proof -
  have conf: "(\<exists>oc. operatorConfig env = Inr oc) \<longleftrightarrow> env_getenv env ''IMAGE'' \<noteq> ''''
      \<and> env_getenv env ''OPENSHIFT_CLI_IMAGE'' \<noteq> '''' \<and> env_getenv env ''KUBE_RBAC_PROXY_IMAGE'' \<noteq> ''''
      \<and> env_kubeConfig env = None \<and> (env_metricsCertDir env = ''''
         \<or> env_configClient env = None \<and> knownVersion (tps_minTLSVersion (metricsProfile env)))"
    by (auto simp: operatorConfig_Inr metricsTLSOpts_cases metrics_conf split: option.split sum.split)
  have "(\<exists>opr. startup env = Some (Inr opr)) \<longleftrightarrow> (\<exists>oc. operatorConfig env = Inr oc) \<and> env_kubeClient env = None
      \<and> env_configClient env = None \<and> env_gatesObserved env \<and> env_manager env = None \<and> env_dnsController env = None
      \<and> env_statusController env = None \<and> (\<exists>gates b. env_featureGates env = Inr gates
        \<and> featureEnabled gates ''DNSNameResolver'' = Some b \<and> (b \<longrightarrow> env_nameResolverController env = None))"
    unfolding startup_Inr newOperator_Inr by blast
  moreover have "(\<exists>gates b. env_featureGates env = Inr gates \<and> featureEnabled gates ''DNSNameResolver'' = Some b
        \<and> (b \<longrightarrow> env_nameResolverController env = None)) \<longleftrightarrow> gateRegistered env
      \<and> (case env_featureGates env of Inl _ \<Rightarrow> False
         | Inr gates \<Rightarrow> ''DNSNameResolver'' \<notin> set (fg_enabled gates) \<or> env_nameResolverController env = None)"
    by (cases "env_featureGates env") (auto simp: gateRegistered_def featureEnabled_def)
  ultimately show ?thesis
    unfolding conf starts_def by blast
qed

text \<open>The parts of an operator that has started.\<close>

lemma started_parts:
  assumes "startup env = Some (Inr opr)"
  shows "oc_CoreDNSImage (op_config opr) \<noteq> '''' \<and> oc_OpenshiftCLIImage (op_config opr) \<noteq> ''''
      \<and> oc_KubeRBACProxyImage (op_config opr) \<noteq> '''' \<and> oc_OperatorReleaseVersion (op_config opr) \<noteq> ''''
    \<and> (mo_SecureServing (op_metrics opr) \<longleftrightarrow> env_metricsCertDir env \<noteq> '''')
    \<and> mo_AuthFilter (op_metrics opr) = mo_SecureServing (op_metrics opr)
    \<and> mo_BindAddress (op_metrics opr) = env_metricsBindAddr env
    \<and> (mo_SecureServing (op_metrics opr) \<longrightarrow> (\<forall>base. let conf = fold (\<lambda>f. f) (mo_TLSOpts (op_metrics opr)) base in
         conf_CipherSuites conf \<noteq> [] \<and> 769 \<le> conf_MinVersion conf
         \<and> (tps_minTLSVersion (metricsProfile env) = ''''
            \<or> map_of goTLSVersions (tps_minTLSVersion (metricsProfile env)) = Some (conf_MinVersion conf))))
    \<and> (\<forall>d o1. operand d o1 \<longrightarrow> m_namespace (obj_meta o1) \<in> set (op_cache opr))
    \<and> (op_nameResolverController opr = None \<longleftrightarrow> \<not> op_nameResolver opr)
    \<and> (\<forall>nrc. op_nameResolverController opr = Some nrc \<longrightarrow>
         meta_key (svc_meta (desiredDNSService defaultDNS ip hints ref))
           = \<lparr>nn_ns = nrc_OperandNamespace nrc, nn_name = nrc_ServiceName nrc\<rparr>
         \<and> (\<exists>cp\<in>set (ct_ports dnsContainer). cp_name cp = ''dns'' \<and> nrc_DNSPort nrc = itoa (cp_containerPort cp)))"
proof -
  obtain oc opts where oc: "operatorConfig env = Inr oc" and new: "newOperator env oc = Some (Inr opr)"
    and opts: "metricsTLSOpts env = Inr opts"
    using assms unfolding startup_Inr operatorConfig_Inr by blast
  have images: "oc_CoreDNSImage oc \<noteq> ''''" "oc_OpenshiftCLIImage oc \<noteq> ''''" "oc_KubeRBACProxyImage oc \<noteq> ''''"
    "oc_OperatorReleaseVersion oc \<noteq> ''''" "oc_MetricsCertDir oc = env_metricsCertDir env"
    "oc_MetricsBindAddress oc = env_metricsBindAddr env" "oc_MetricsTLSOpts oc = opts"
    using oc opts by (auto simp: operatorConfig_Inr UnknownVersionValue_def)
  have fields: "op_config opr = oc\<lparr>oc_MetricsBindAddress := '''', oc_MetricsCertDir := '''', oc_MetricsTLSOpts := []\<rparr>"
    "op_metrics opr = metricsOptions oc" "op_cache opr = cacheNamespaces oc"
    "op_nameResolverController opr = (if op_nameResolver opr then Some nameResolverConfig else None)"
    using new by (auto simp: newOperator_Inr)
  have "meta_key (svc_meta (desiredDNSService defaultDNS ip hints ref))
      = \<lparr>nn_ns = nrc_OperandNamespace nameResolverConfig, nn_name = nrc_ServiceName nameResolverConfig\<rparr>"
    by (simp add: nameResolverConfig_def desiredDNSService_def meta_key_def DNSServiceName_def DefaultOperandNamespace_def Let_def)
  moreover have "\<exists>cp\<in>set (ct_ports dnsContainer). cp_name cp = ''dns'' \<and> nrc_DNSPort nameResolverConfig = itoa (cp_containerPort cp)"
    by (simp add: nameResolverConfig_def DNSDaemonSet_def dnsContainer_def port_def)
  moreover have "conf_CipherSuites conf \<noteq> [] \<and> 769 \<le> conf_MinVersion conf
         \<and> (tps_minTLSVersion (metricsProfile env) = ''''
            \<or> map_of goTLSVersions (tps_minTLSVersion (metricsProfile env)) = Some (conf_MinVersion conf))"
    if dir: "env_metricsCertDir env \<noteq> ''''" and conf: "conf = fold (\<lambda>f. f) opts base" for conf base
  proof -
    obtain c where c: "TLSConfigFromProfile (Some (metricsProfile env)) = Inr c" "opts = [metricsTLSOpt c]"
      using opts dir by (auto simp: metricsTLSOpts_cases split: option.splits sum.splits)
    then have "conf_CipherSuites conf = conf_CipherSuites c" "conf_MinVersion conf = conf_MinVersion c"
      using conf by (simp_all add: metricsTLSOpt_def Let_def)
    then show ?thesis using tls_config_complete[of "Some (metricsProfile env)"] c(1) by auto
  qed
  moreover have "m_namespace (obj_meta o1) \<in> set (op_cache opr)" if "operand d o1" for d o1
    using operand_namespace[OF that] by (simp add: fields cacheNamespaces_def)
  ultimately show ?thesis
    using images unfolding fields by (simp add: metricsOptions_def Let_def)
qed

section \<open>Properties\<close>

text \<open>
  C23: When the operator starts. It panics exactly when it got as far as the feature gates and the
  DNSNameResolver gate is not among them (or they cannot be read); otherwise it comes up
  exactly when the three image variables are set, every client could be made, the gates were observed in time, the
  manager and the controllers could be made, and, with a certificate directory for the metrics,
  the cluster's TLS profile names a minimum version that Go knows. A missing RELEASE_VERSION and an API server configuration
  that cannot be read do not keep it from starting.
\<close>

theorem startup_fails_iff:
  "(startup env = None \<longleftrightarrow> (\<exists>oc. operatorConfig env = Inr oc) \<and> env_kubeClient env = None
      \<and> env_configClient env = None \<and> env_gatesObserved env \<and> \<not> gateRegistered env)
   \<and> ((\<exists>opr. startup env = Some (Inr opr)) \<longleftrightarrow> starts env \<and> gateRegistered env
      \<and> (case env_featureGates env of Inl _ \<Rightarrow> False
         | Inr gates \<Rightarrow> ''DNSNameResolver'' \<notin> set (fg_enabled gates) \<or> env_nameResolverController env = None))"
proof
  show "startup env = None \<longleftrightarrow> (\<exists>oc. operatorConfig env = Inr oc) \<and> env_kubeClient env = None
      \<and> env_configClient env = None \<and> env_gatesObserved env \<and> \<not> gateRegistered env"
    by (auto simp: startup_def newOperator_def gateRegistered_def featureEnabled_def Let_def
        split: sum.splits option.splits)
qed (rule startup_succeeds)


definition sample_environment :: environment where
  "sample_environment =
     \<lparr>env_getenv = (\<lambda>v. if v = ''RELEASE_VERSION'' then '''' else ''quay.io/'' @ v),
      env_metricsBindAddr = '':9393'', env_metricsCertDir = ''/etc/certs'', env_kubeConfig = None,
      env_configClient = None, env_apiServer = Inr (Some \<lparr>tsp_type = ''Modern'', tsp_custom = None\<rparr>),
      env_kubeClient = None, env_gatesObserved = True,
      env_featureGates = Inr \<lparr>fg_enabled = [''DNSNameResolver''], fg_disabled = []\<rparr>, env_manager = None,
      env_dnsController = None, env_statusController = None, env_nameResolverController = None\<rparr>"

lemma sample_starts: "starts sample_environment"
proof -
  have "knownVersion (tps_minTLSVersion (TLSProfileSpecForSecurityProfile (Some \<lparr>tsp_type = ''Modern'', tsp_custom = None\<rparr>)))"
    by code_simp
  then show ?thesis by (simp add: starts_def sample_environment_def metricsProfile_def)
qed

theorem startup_fails_iff_witness:
  "(\<exists>opr. startup sample_environment = Some (Inr opr))
   \<and> startup (sample_environment\<lparr>env_featureGates := Inr \<lparr>fg_enabled = [], fg_disabled = []\<rparr>\<rparr>) = None"
proof -
  let ?env = "sample_environment\<lparr>env_featureGates := Inr \<lparr>fg_enabled = [], fg_disabled = []\<rparr>\<rparr>"
  have up: "\<exists>opr. startup sample_environment = Some (Inr opr)"
    using startup_fails_iff[of sample_environment] sample_starts by (simp add: gateRegistered_def sample_environment_def)
  then obtain oc where "operatorConfig sample_environment = Inr oc" unfolding startup_Inr by blast
  then have "operatorConfig ?env = Inr oc" by (simp only: operatorConfig_gates)
  then have "startup ?env = None"
    using startup_fails_iff[of ?env] by (simp add: gateRegistered_def sample_environment_def)
  then show ?thesis using up by blast
qed

text \<open>
  C24: What the operator that has started is made of. No image and no version is empty, so the
  settling of the daemonset updates applies to its controllers. However the settings are written on the command
  line, the last one of each flag counts, and the metrics are served over
  TLS with authentication exactly when a certificate directory is given (without one, in plaintext on the very address
  that was asked for, loopback or not), and whatever TLS configuration the server starts from, it ends up with at
  least one cipher suite and with the minimum version of the cluster's profile. Every operand lives in a namespace that the cache watches, so its events reach
  the controllers. The name resolver controller runs exactly when its feature gate is enabled,
  and it looks for the service and the port that the operator gives CoreDNS.
\<close>

theorem startup_wiring:
  assumes "list_all (settable (metricsFlags @ others)) ss"
    and "mainProgram others (concat (map written ss)) env = Inr opr"
  shows "oc_CoreDNSImage (op_config opr) \<noteq> '''' \<and> oc_OpenshiftCLIImage (op_config opr) \<noteq> ''''
      \<and> oc_KubeRBACProxyImage (op_config opr) \<noteq> '''' \<and> oc_OperatorReleaseVersion (op_config opr) \<noteq> ''''
    \<and> (mo_SecureServing (op_metrics opr) \<longleftrightarrow> lastSetting ss ''metrics-cert-dir'' '''' \<noteq> '''')
    \<and> mo_AuthFilter (op_metrics opr) = mo_SecureServing (op_metrics opr)
    \<and> mo_BindAddress (op_metrics opr) = lastSetting ss ''metrics-bind-addr'' ''127.0.0.1:60000''
    \<and> (mo_SecureServing (op_metrics opr) \<longrightarrow> (\<forall>base. let conf = fold (\<lambda>f. f) (mo_TLSOpts (op_metrics opr)) base in
         conf_CipherSuites conf \<noteq> [] \<and> 769 \<le> conf_MinVersion conf
         \<and> (tps_minTLSVersion (metricsProfile env) = ''''
            \<or> map_of goTLSVersions (tps_minTLSVersion (metricsProfile env)) = Some (conf_MinVersion conf))))
    \<and> (\<forall>d o1. operand d o1 \<longrightarrow> m_namespace (obj_meta o1) \<in> set (op_cache opr))
    \<and> (op_nameResolverController opr = None \<longleftrightarrow> \<not> op_nameResolver opr)
    \<and> (\<forall>nrc. op_nameResolverController opr = Some nrc \<longrightarrow>
         meta_key (svc_meta (desiredDNSService defaultDNS ip hints ref))
           = \<lparr>nn_ns = nrc_OperandNamespace nrc, nn_name = nrc_ServiceName nrc\<rparr>
         \<and> (\<exists>cp\<in>set (ct_ports dnsContainer). cp_name cp = ''dns'' \<and> nrc_DNSPort nrc = itoa (cp_containerPort cp)))"
proof -
  define env' where "env' = env\<lparr>env_metricsBindAddr := lastSetting ss ''metrics-bind-addr'' ''127.0.0.1:60000'',
      env_metricsCertDir := lastSetting ss ''metrics-cert-dir'' ''''\<rparr>"
  have "startup env' = Some (Inr opr)"
    using assms(2) by (auto simp: mainProgram_def parse_settings[OF assms(1)] flagValue_fold env'_def split: option.splits sum.splits)
  moreover have "metricsProfile env' = metricsProfile env" by (simp add: metricsProfile_def env'_def)
  ultimately show ?thesis using started_parts[of env' opr ip hints ref] by (simp add: env'_def)
qed

definition sample_flags :: "flagspec list" where
  "sample_flags = [\<lparr>fl_name = ''zap-devel'', fl_isBool = True, fl_accepts = (\<lambda>v. v = ''true'' \<or> v = ''false'')\<rparr>,
     \<lparr>fl_name = ''kubeconfig'', fl_isBool = False, fl_accepts = (\<lambda>_. True)\<rparr>]"

theorem startup_wiring_witness:
  "\<exists>opr. mainProgram sample_flags [''--metrics-bind-addr'', '':9393'', ''--metrics-cert-dir'', ''/etc/tls/metrics'', ''-zap-devel'']
       sample_environment = Inr opr
     \<and> mo_SecureServing (op_metrics opr) \<and> mo_AuthFilter (op_metrics opr) \<and> mo_BindAddress (op_metrics opr) = '':9393''
     \<and> oc_OperatorReleaseVersion (op_config opr) \<noteq> ''''"
proof -
  let ?ss = "[Separate True ''metrics-bind-addr'' '':9393'', Separate True ''metrics-cert-dir'' ''/etc/tls/metrics'',
    Switch False ''zap-devel'']"
  let ?env = "sample_environment\<lparr>env_metricsBindAddr := '':9393'', env_metricsCertDir := ''/etc/tls/metrics''\<rparr>"
  have ok: "list_all (settable (metricsFlags @ sample_flags)) ?ss" by code_simp
  have last: "lastSetting ?ss ''metrics-bind-addr'' ''127.0.0.1:60000'' = '':9393''"
    "lastSetting ?ss ''metrics-cert-dir'' '''' = ''/etc/tls/metrics''" by code_simp+
  have "starts ?env" "gateRegistered ?env"
    using sample_starts by (simp_all add: starts_def metricsProfile_def gateRegistered_def sample_environment_def)
  then obtain opr where "startup ?env = Some (Inr opr)"
    using startup_succeeds[of ?env] by (auto simp: sample_environment_def)
  then have main: "mainProgram sample_flags (concat (map written ?ss)) sample_environment = Inr opr"
    by (simp only: mainProgram_def parse_settings[OF ok] sum.case prod.case flagValue_fold last option.case)
  have "concat (map written ?ss) = [''--metrics-bind-addr'', '':9393'', ''--metrics-cert-dir'', ''/etc/tls/metrics'', ''-zap-devel'']"
    by (simp add: dashes_def)
  then show ?thesis using main startup_wiring[OF ok main] unfolding last by auto
qed

end
