(* ===== verification/Process.thy ===== *)
theory Process
  imports Startup
begin

text \<open>
  The running process: \<open>Start\<close> of \<open>pkg/operator/operator.go\<close>, the end of \<open>main\<close>, and the client package
  (\<open>pkg/operator/client/client.go\<close>).

  \<open>Start\<close> runs three things at once: the loop of \<open>wait.Until\<close> that ensures the default DNS every minute, the manager
  with its controllers, and the \<open>select\<close> that waits for the context or the manager. They are a step
  relation on one state, in which any of them may move next; the steps of the cluster are those of \<open>Operator\<close>.
  A run of \<open>Reconcile\<close> is one step here too, with what happens between its calls inside it.
\<close>

section \<open>The client package\<close>

text \<open>
  \<open>init\<close> registers the operator's types and panics when one cannot be registered. The scheme, the
  functions that extend it and the constructors of the REST machinery are the libraries': arguments.
\<close>

definition initScheme :: "'s \<Rightarrow> ('s \<Rightarrow> goerror + 's) \<Rightarrow> ('s \<Rightarrow> goerror + 's) \<Rightarrow> ('s \<Rightarrow> goerror + 's) \<Rightarrow> 's option" where
  "initScheme kscheme addOperator addConfig addNetwork =
     (case addOperator kscheme of Inl _ \<Rightarrow> None | Inr s1 \<Rightarrow>
     (case addConfig s1 of Inl _ \<Rightarrow> None | Inr s2 \<Rightarrow>
     (case addNetwork s2 of Inl _ \<Rightarrow> None | Inr s3 \<Rightarrow> Some s3)))"

definition NewClient ::
  "('k \<Rightarrow> goerror + 'h) \<Rightarrow> ('k \<Rightarrow> 'h \<Rightarrow> goerror + 'm) \<Rightarrow> ('k \<Rightarrow> 's \<Rightarrow> 'm \<Rightarrow> goerror + 'c) \<Rightarrow> 's \<Rightarrow> 'k \<Rightarrow> goerror + 'c" where
  "NewClient httpClientFor newDynamicRESTMapper clientNew scheme kubeConfig =
     (case httpClientFor kubeConfig of
        Inl e \<Rightarrow> Inl (errorf ''failed to create http client'' e)
      | Inr httpClient \<Rightarrow>
     (case newDynamicRESTMapper kubeConfig httpClient of
        Inl e \<Rightarrow> Inl (errorf ''failed to discover api rest mapper'' e)
      | Inr mapper \<Rightarrow>
     (case clientNew kubeConfig scheme mapper of
        Inl e \<Rightarrow> Inl (errorf ''failed to create kube client'' e)
      | Inr kubeClient \<Rightarrow> Inr kubeClient)))"

text \<open>A client is only ever built on the registered scheme and a mapper for the same configuration.\<close>

lemma NewClient_Inr:
  "NewClient h m n s k = Inr c \<longleftrightarrow> (\<exists>hc mp. h k = Inr hc \<and> m k hc = Inr mp \<and> n k s mp = Inr c)"
  by (auto simp: NewClient_def split: sum.splits)

section \<open>The process\<close>

text \<open>
  Where the loop of the default DNS is: at the top of \<open>wait.Until\<close>, in \<open>WaitForCacheSync\<close>, before
  \<open>ensureDefaultDNS\<close>, waiting for the timer, or at its end.
\<close>

datatype looppos = AtTop | Syncing | Ensuring | Sleeping | Ended

text \<open>
  The goroutine of the manager: running, returned and waiting to hand its result to the unbuffered
  \<open>errChan\<close>, or taken off it by the \<open>select\<close>.
\<close>

datatype managerpos = Running | Returned "goerror option" | Delivered "goerror option"

record process =
  p_done :: bool
  p_synced :: bool
  p_loop :: looppos
  p_manager :: managerpos
  p_start :: "goerror option option"
  p_exit :: "nat option"
  p_cluster :: cluster

definition initialProcess :: "cluster \<Rightarrow> process" where
  "initialProcess w = \<lparr>p_done = False, p_synced = False, p_loop = AtTop, p_manager = Running,
     p_start = None, p_exit = None, p_cluster = w\<rparr>"

text \<open>\<open>main\<close> returns when \<open>Start\<close> has returned no error, and ends in \<open>logrus.Fatalf\<close> otherwise.\<close>

definition exitCode :: "goerror option \<Rightarrow> nat" where
  "exitCode err = (case err of None \<Rightarrow> 0 | Some _ \<Rightarrow> 1)"

text \<open>
  The steps of the loop (\<open>loop_*\<close>): the stop channel is looked at before every round and while the timer
  runs; \<open>WaitForCacheSync\<close> returns when the cache is there, or false when the context ends. The steps
  of the manager, of the \<open>select\<close> and of \<open>main\<close>. The goroutines may go on until the process has exited.
\<close>

inductive pstep :: "config \<Rightarrow> process \<Rightarrow> process \<Rightarrow> bool" for cfg :: config where
  signal: "p_exit p = None \<Longrightarrow> pstep cfg p (p\<lparr>p_done := True\<rparr>)"
| loop_stop: "p_exit p = None \<Longrightarrow> p_loop p \<in> {AtTop, Sleeping} \<Longrightarrow> p_done p \<Longrightarrow> pstep cfg p (p\<lparr>p_loop := Ended\<rparr>)"
| loop_round: "p_exit p = None \<Longrightarrow> p_loop p = AtTop \<Longrightarrow> \<not> p_done p \<Longrightarrow> pstep cfg p (p\<lparr>p_loop := Syncing\<rparr>)"
| loop_synced: "p_exit p = None \<Longrightarrow> p_loop p = Syncing \<Longrightarrow> p_synced p \<Longrightarrow> pstep cfg p (p\<lparr>p_loop := Ensuring\<rparr>)"
| loop_unsynced: "p_exit p = None \<Longrightarrow> p_loop p = Syncing \<Longrightarrow> p_done p \<Longrightarrow> pstep cfg p (p\<lparr>p_loop := Sleeping\<rparr>)"
| loop_ensure: "p_exit p = None \<Longrightarrow> p_loop p = Ensuring \<Longrightarrow>
    pstep cfg p (p\<lparr>p_loop := Sleeping,
      p_cluster := snd (run_state (ensureDefaultDNS (da_dns clusterApi)) (p_cluster p))\<rparr>)"
| loop_timer: "p_exit p = None \<Longrightarrow> p_loop p = Sleeping \<Longrightarrow> pstep cfg p (p\<lparr>p_loop := AtTop\<rparr>)"
| sync: "p_exit p = None \<Longrightarrow> p_manager p = Running \<Longrightarrow> pstep cfg p (p\<lparr>p_synced := True\<rparr>)"
| reconcile: "p_exit p = None \<Longrightarrow> p_manager p = Running \<Longrightarrow> p_synced p \<Longrightarrow> fairPlan meanwhile plan \<Longrightarrow>
    pstep cfg p (p\<lparr>p_cluster := reconcileAmong plan cfg clk n (p_cluster p)\<rparr>)"
| manager_return: "p_exit p = None \<Longrightarrow> p_manager p = Running \<Longrightarrow> pstep cfg p (p\<lparr>p_manager := Returned err\<rparr>)"
| select_done: "p_exit p = None \<Longrightarrow> p_start p = None \<Longrightarrow> p_done p \<Longrightarrow> pstep cfg p (p\<lparr>p_start := Some None\<rparr>)"
| select_err: "p_exit p = None \<Longrightarrow> p_start p = None \<Longrightarrow> p_manager p = Returned err \<Longrightarrow>
    pstep cfg p (p\<lparr>p_manager := Delivered err, p_start := Some err\<rparr>)"
| main_exit: "p_exit p = None \<Longrightarrow> p_start p = Some err \<Longrightarrow> pstep cfg p (p\<lparr>p_exit := Some (exitCode err)\<rparr>)"
| world: "outside (p_cluster p) w' \<Longrightarrow> pstep cfg p (p\<lparr>p_cluster := w'\<rparr>)"

inductive preachable :: "config \<Rightarrow> process \<Rightarrow> bool" for cfg :: config where
  init: "cl_daemonset w = [] \<Longrightarrow> preachable cfg (initialProcess w)"
| step: "preachable cfg p \<Longrightarrow> pstep cfg p p' \<Longrightarrow> preachable cfg p'"

section \<open>Facts\<close>

text \<open>Every step of the process is a step of the operator in its cluster, or does not touch the cluster.\<close>

lemma pstep_cluster: "pstep cfg p p' \<Longrightarrow> p_cluster p' = p_cluster p \<or> step cfg (p_cluster p) (p_cluster p')"
  by (induction rule: pstep.induct) (auto intro: Operator.step.intros)

lemma pstep_after_exit: "pstep cfg p p' \<Longrightarrow> p_exit p \<noteq> None \<Longrightarrow> p' = p\<lparr>p_cluster := p_cluster p'\<rparr> \<and> outside (p_cluster p) (p_cluster p')"
  by (induction rule: pstep.induct) auto

lemma preachable_cluster: "preachable cfg p \<Longrightarrow> reachable cfg (p_cluster p)"
proof (induction rule: preachable.induct)
  case (init w)
  then show ?case by (auto simp: initialProcess_def intro: reachable.init)
next
  case (step p p')
  then show ?case using pstep_cluster by (metis reachable.step)
qed

definition processInv :: "process \<Rightarrow> bool" where
  "processInv p \<longleftrightarrow>
     (p_start p = Some None \<longrightarrow> p_done p \<or> p_manager p = Delivered None)
   \<and> (\<forall>e. p_start p = Some (Some e) \<longrightarrow> p_manager p = Delivered (Some e))
   \<and> (p_start p = None \<longrightarrow> (\<forall>r. p_manager p \<noteq> Delivered r))
   \<and> (\<forall>n. p_exit p = Some n \<longrightarrow> (\<exists>r. p_start p = Some r \<and> n = exitCode r))
   \<and> (p_loop p = Ensuring \<longrightarrow> p_synced p)
   \<and> (p_loop p = Ended \<longrightarrow> p_done p)"

lemma pstep_inv: "pstep cfg p p' \<Longrightarrow> processInv p \<Longrightarrow> processInv p'"
  by (induction rule: pstep.induct) (auto simp: processInv_def)

lemma preachable_inv: "preachable cfg p \<Longrightarrow> processInv p"
proof (induction rule: preachable.induct)
  case (init w)
  then show ?case by (simp add: processInv_def initialProcess_def)
qed (rule pstep_inv)

lemma two_steps: "pstep cfg p q \<Longrightarrow> pstep cfg q r \<Longrightarrow> (pstep cfg)\<^sup>*\<^sup>* p r"
  by (rule converse_rtranclp_into_rtranclp[OF _ r_into_rtranclp])




section \<open>Properties\<close>

text \<open>
  C14: What the process can do. It implements the operator of \<open>Operator\<close>: the cluster it works on is one
  that the steps there reach, and once it has exited only others change it. It exits with 0 only after the context was cancelled or the
  manager ended without an error, and with 1 only when the manager ended with an error, which is what
  \<open>Start\<close> returns. The default DNS is ensured only with the cache synced. When the context is cancelled and the
  manager has failed, both exit codes are possible: the \<open>select\<close> may take either.
\<close>

theorem process_sound:
  assumes "preachable cfg p"
  shows "reachable cfg (p_cluster p)
    \<and> (p_exit p \<noteq> None \<longrightarrow> pstep cfg p p' \<longrightarrow> p' = p\<lparr>p_cluster := p_cluster p'\<rparr> \<and> outside (p_cluster p) (p_cluster p'))
    \<and> (p_exit p = Some n \<longrightarrow> n = 0 \<and> (p_done p \<or> p_manager p = Delivered None)
         \<or> (\<exists>e. n = 1 \<and> p_start p = Some (Some e) \<and> p_manager p = Delivered (Some e)))
    \<and> (p_loop p = Ensuring \<longrightarrow> p_synced p)
    \<and> (p_exit p = None \<longrightarrow> p_start p = None \<longrightarrow> p_done p \<longrightarrow> p_manager p = Returned (Some e) \<longrightarrow>
        (\<exists>q. (pstep cfg)\<^sup>*\<^sup>* p q \<and> p_exit q = Some 0) \<and> (\<exists>q. (pstep cfg)\<^sup>*\<^sup>* p q \<and> p_exit q = Some 1))"
proof (intro conjI impI)
  note inv = preachable_inv[OF assms, unfolded processInv_def]
  show "reachable cfg (p_cluster p)" using assms by (rule preachable_cluster)
  show "p' = p\<lparr>p_cluster := p_cluster p'\<rparr>" "outside (p_cluster p) (p_cluster p')" if "p_exit p \<noteq> None" "pstep cfg p p'"
    using pstep_after_exit that by auto
  show "n = 0 \<and> (p_done p \<or> p_manager p = Delivered None)
      \<or> (\<exists>e. n = 1 \<and> p_start p = Some (Some e) \<and> p_manager p = Delivered (Some e))" if "p_exit p = Some n"
    using inv that by (auto simp: exitCode_def split: option.splits)
  show "p_synced p" if "p_loop p = Ensuring" using inv that by blast
  assume open': "p_exit p = None" "p_start p = None" and ctx: "p_done p" and err: "p_manager p = Returned (Some e)"
  let ?ok = "p\<lparr>p_start := Some None\<rparr>" and ?bad = "p\<lparr>p_manager := Delivered (Some e), p_start := Some (Some e)\<rparr>"
  have "pstep cfg p ?ok" "pstep cfg ?ok (?ok\<lparr>p_exit := Some (exitCode None)\<rparr>)"
    "pstep cfg p ?bad" "pstep cfg ?bad (?bad\<lparr>p_exit := Some (exitCode (Some e))\<rparr>)"
    using open' ctx err by (auto intro: pstep.intros)
  note two_steps[OF this(1,2)] two_steps[OF this(3,4)]
  moreover have "p_exit (?ok\<lparr>p_exit := Some (exitCode None)\<rparr>) = Some 0"
    "p_exit (?bad\<lparr>p_exit := Some (exitCode (Some e))\<rparr>) = Some 1"
    by (simp_all add: exitCode_def)
  ultimately show "\<exists>q. (pstep cfg)\<^sup>*\<^sup>* p q \<and> p_exit q = Some 0" "\<exists>q. (pstep cfg)\<^sup>*\<^sup>* p q \<and> p_exit q = Some 1"
    by blast+
qed

text \<open>A cancelled process whose manager has failed on the way out.\<close>

definition sample_process :: process where
  "sample_process = (initialProcess emptyCluster)\<lparr>p_done := True, p_manager := Returned (Some (ErrMsg ''lost''))\<rparr>"

lemma sample_process_reachable: "preachable sample_config sample_process"
proof -
  let ?p0 = "initialProcess emptyCluster" and ?p1 = "(initialProcess emptyCluster)\<lparr>p_done := True\<rparr>"
  have "preachable sample_config ?p0"
    by (rule preachable.init) (simp add: emptyCluster_def clusterWith_def)
  moreover have "pstep sample_config ?p0 ?p1"
    by (rule pstep.signal) (simp add: initialProcess_def)
  moreover have "pstep sample_config ?p1 sample_process"
    unfolding sample_process_def by (rule pstep.manager_return) (simp_all add: initialProcess_def)
  ultimately show ?thesis by (metis preachable.step)
qed

theorem process_sound_witness:
  "(\<exists>q. (pstep sample_config)\<^sup>*\<^sup>* sample_process q \<and> p_exit q = Some 0)
   \<and> (\<exists>q. (pstep sample_config)\<^sup>*\<^sup>* sample_process q \<and> p_exit q = Some 1)"
proof -
  have "p_exit sample_process = None" "p_start sample_process = None" "p_done sample_process"
    "p_manager sample_process = Returned (Some (ErrMsg ''lost''))"
    by (simp_all add: sample_process_def initialProcess_def)
  then show ?thesis using process_sound[OF sample_process_reachable] by blast
qed



end
