(* ===== verification/Realised.thy ===== *)
theory Realised
  imports Reconciliation
begin

text \<open>
  What a reconciliation promises of a cluster, operand by operand, stated on the objects that are found in
  it and not on the steps that are taken: namespace and access rights, metrics integration, network policies
  and service, CA bundles and Corefile. For every step of the reconciler there is a predicate \<open>xRealised\<close>
  and two lemmas: a step that reports no error establishes it (\<open>done\<close>), and where it holds the step writes
  nothing (\<open>quiet\<close>). \<open>Realised_Workload\<close> does the same for the daemonsets, \<open>Settling\<close> puts them together.
\<close>

section \<open>Clients of the cluster\<close>

lemma stores_sim: "stores (=) key c \<Longrightarrow> (\<And>x. sim x x) \<Longrightarrow> stores sim key c"
  unfolding stores_def by metis

lemma framed_clientOn:
  assumes "framed key c" "\<And>s w. g (u (\<lambda>_. s) w) = s"
  shows "framed key (clientOn g u c)"
  using assms by (simp add: framed_def look_clientOn) (simp add: clientOn_def run_zoom)

lemma deletes_clientOn:
  assumes "deletes c" "\<And>s w. g (u (\<lambda>_. s) w) = s"
  shows "deletes (clientOn g u c)"
  using assms unfolding deletes_def look_clientOn by (auto simp: clientOn_def run_zoom) (metis prod.collapse)+

lemma lists_clientOn: "lists sel key c items \<Longrightarrow> lists sel key (clientOn g u c) (\<lambda>w. items (g w))"
  by (simp add: lists_def look_clientOn)

lemma key_eqs:
  "(\<lambda>s. meta_key (svc_meta s)) = svc_key" "(\<lambda>p. meta_key (npol_meta p)) = np_key"
  by (simp_all add: fun_eq_iff svc_key_def np_key_def)

abbreviation "rb_key b \<equiv> meta_key (rb_meta b)"
abbreviation "sa_key a \<equiv> meta_key (sa_meta a)"
abbreviation "ns_key a \<equiv> meta_key (ns_meta a)"

lemmas cluster_client = stores_clientOn[OF storeClient_stores] framed_clientOn[OF storeClient_framed]

lemma cluster_stores [simp]:
  "stores (=) ds_key (da_daemonset clusterApi)" "stores (=) cm_key (da_configmap clusterApi)"
  "stores (=) svc_key (da_service clusterApi)" "stores (=) np_key (da_netpol clusterApi)"
  "stores (=) role_key (da_clusterRole clusterApi)" "stores (=) rb_key (da_clusterRoleBinding clusterApi)"
  "stores (=) role_key (da_role clusterApi)" "stores (=) rb_key (da_roleBinding clusterApi)"
  "stores (=) sa_key (da_serviceAccount clusterApi)" "stores (=) ns_key (da_namespace clusterApi)"
  "stores (=) sm_key (da_serviceMonitor clusterApi)"
  by (simp_all add: clusterApi_def cluster_client key_eqs)

lemma cluster_framed [simp]:
  "framed ds_key (da_daemonset clusterApi)" "framed cm_key (da_configmap clusterApi)"
  "framed svc_key (da_service clusterApi)" "framed np_key (da_netpol clusterApi)"
  "framed role_key (da_clusterRole clusterApi)" "framed rb_key (da_clusterRoleBinding clusterApi)"
  "framed sa_key (da_serviceAccount clusterApi)"
  by (simp_all add: clusterApi_def cluster_client key_eqs)

lemma cluster_deletes [simp]: "deletes (da_configmap clusterApi)"
  by (simp add: clusterApi_def deletes_clientOn storeClient_deletes)

text \<open>What a name reads as is a function of the store of its kind.\<close>

lemma cluster_look:
  "look (da_dns clusterApi) n w = look (storeClient dns_key) n (cl_dns w)"
  "look (da_daemonset clusterApi) n w = look (storeClient ds_key) n (cl_daemonset w)"
  "look (da_configmap clusterApi) n w = look (storeClient cm_key) n (cl_configmap w)"
  "look (da_service clusterApi) n w = look (storeClient svc_key) n (cl_service w)"
  "look (da_netpol clusterApi) n w = look (storeClient np_key) n (cl_netpol w)"
  "look (da_clusterRole clusterApi) n w = look (storeClient role_key) n (cl_clusterRole w)"
  "look (da_clusterRoleBinding clusterApi) n w = look (storeClient (\<lambda>b. rb_key b)) n (cl_clusterRoleBinding w)"
  "look (da_role clusterApi) n w = look (storeClient role_key) n (cl_role w)"
  "look (da_roleBinding clusterApi) n w = look (storeClient (\<lambda>b. rb_key b)) n (cl_roleBinding w)"
  "look (da_serviceAccount clusterApi) n w = look (storeClient (\<lambda>a. sa_key a)) n (cl_serviceAccount w)"
  "look (da_namespace clusterApi) n w = look (storeClient (\<lambda>a. ns_key a)) n (cl_namespace w)"
  "look (da_serviceMonitor clusterApi) n w = look (storeClient sm_key) n (cl_serviceMonitor w)"
  by (simp_all add: clusterApi_def look_clientOn key_eqs)

lemma store_missing: "look (storeClient key) n s = Inl e \<Longrightarrow> IsNotFound e"
  by (auto simp: look_def storeClient_def split: option.splits if_splits)

lemma store_look: "look (storeClient key) n s = Inr x \<longleftrightarrow> map_of s n = Some x \<and> key x = n"
  by (auto simp: look_def storeClient_def split: option.splits)

lemma kget_look: "stores sim key c \<Longrightarrow> run_state (kget c n) w = (look c n w, w)"
  by (simp add: stores_def look_def prod_eq_iff)

text \<open>Calls on one kind leave the other kinds alone.\<close>

lemma cluster_leaves:
  "(\<And>s w. I (cl_daemonset_update (\<lambda>_. s) w) \<longleftrightarrow> I w) \<Longrightarrow> leaves I (da_daemonset clusterApi)"
  "(\<And>s w. I (cl_configmap_update (\<lambda>_. s) w) \<longleftrightarrow> I w) \<Longrightarrow> leaves I (da_configmap clusterApi)"
  "(\<And>s w. I (cl_service_update (\<lambda>_. s) w) \<longleftrightarrow> I w) \<Longrightarrow> leaves I (da_service clusterApi)"
  "(\<And>s w. I (cl_netpol_update (\<lambda>_. s) w) \<longleftrightarrow> I w) \<Longrightarrow> leaves I (da_netpol clusterApi)"
  "(\<And>s w. I (cl_clusterRole_update (\<lambda>_. s) w) \<longleftrightarrow> I w) \<Longrightarrow> leaves I (da_clusterRole clusterApi)"
  "(\<And>s w. I (cl_clusterRoleBinding_update (\<lambda>_. s) w) \<longleftrightarrow> I w) \<Longrightarrow> leaves I (da_clusterRoleBinding clusterApi)"
  "(\<And>s w. I (cl_role_update (\<lambda>_. s) w) \<longleftrightarrow> I w) \<Longrightarrow> leaves I (da_role clusterApi)"
  "(\<And>s w. I (cl_roleBinding_update (\<lambda>_. s) w) \<longleftrightarrow> I w) \<Longrightarrow> leaves I (da_roleBinding clusterApi)"
  "(\<And>s w. I (cl_serviceAccount_update (\<lambda>_. s) w) \<longleftrightarrow> I w) \<Longrightarrow> leaves I (da_serviceAccount clusterApi)"
  "(\<And>s w. I (cl_namespace_update (\<lambda>_. s) w) \<longleftrightarrow> I w) \<Longrightarrow> leaves I (da_namespace clusterApi)"
  "(\<And>s w. I (cl_serviceMonitor_update (\<lambda>_. s) w) \<longleftrightarrow> I w) \<Longrightarrow> leaves I (da_serviceMonitor clusterApi)"
  by (simp_all add: clusterApi_def leaves_clientOn)

section \<open>Objects that only need to exist\<close>

lemma getOrCreate_done:
  assumes "stores sim key c" "key des = n" "run_state (getOrCreate c n what des) w = (None, w')"
  obtains x where "look c n w' = Inr x"
  using assms unfolding stores_def getOrCreate_def look_def
  by (auto split: prod.splits sum.splits if_splits) (metis snd_conv fst_conv)+

lemma getOrCreate_quiet:
  "snd (run_state (kget c n) w) = w \<Longrightarrow> look c n w = Inr x \<Longrightarrow> run_state (getOrCreate c n what des) w = (None, w)"
  by (cases "run_state (kget c n) w") (simp add: getOrCreate_def look_def)

lemma getOrCreate_frame:
  assumes "stores sim key c" "framed key c" "key des \<noteq> n"
  shows "preserves (\<lambda>v. look c n v = r) (getOrCreate c m what des)"
proof -
  have "preserves (\<lambda>v. look c n v = r) (kget c k)" for k
    using assms(1) by (simp add: preserves_def stores_def)
  moreover have "preserves (\<lambda>v. look c n v = r) (kcreate c des)"
    using assms(2,3) by (auto simp: preserves_def framed_def)
  ultimately show ?thesis unfolding getOrCreate_def by (intro pres_intros)
qed

lemma andThen_run:
  "run_state (andThen m k) w = (None, w') \<longleftrightarrow>
   (\<exists>v. run_state m w = (None, v) \<and> run_state k v = (None, w'))"
  by (cases "run_state m w") (auto simp: andThen_def split: option.split)


text \<open>What holds whenever a step reports no error, and how such steps compose.\<close>

definition achieves :: "('w, goerror option) state \<Rightarrow> ('w \<Rightarrow> bool) \<Rightarrow> bool" where
  "achieves m P \<longleftrightarrow> (\<forall>w w'. run_state m w = (None, w') \<longrightarrow> P w')"

lemma achievesD: "achieves m P \<Longrightarrow> run_state m w = (None, w') \<Longrightarrow> P w'"
  by (simp add: achieves_def)

lemma achieves_andThen:
  assumes "achieves m P" "preserves P k" "achieves k Q"
  shows "achieves (andThen m k) (\<lambda>w. P w \<and> Q w)"
  using assms unfolding achieves_def andThen_run preserves_def by (metis snd_conv)

section \<open>The namespace and the access rights\<close>

text \<open>The object under a name exists and has a property.\<close>

definition found :: "('o, 'w) kclient \<Rightarrow> nsname \<Rightarrow> ('o \<Rightarrow> bool) \<Rightarrow> 'w \<Rightarrow> bool" where
  "found c n P w = (case look c n w of Inl _ \<Rightarrow> False | Inr x \<Rightarrow> P x)"

lemma found_iff: "found c n P w \<longleftrightarrow> (\<exists>x. look c n w = Inr x \<and> P x)"
  by (simp add: found_def split: sum.split)

lemma preserves_found:
  "(\<And>r. preserves (\<lambda>v. look c n v = r) m) \<Longrightarrow> preserves (found c n P) m"
  unfolding preserves_def found_iff by metis

lemma leaves_found:
  "(\<And>r. leaves (\<lambda>v. look c n v = r) k) \<Longrightarrow> leaves (found c n P) k"
  by (simp add: leaves_def preserves_found)

lemma achieves_getOrCreate:
  "stores sim key c \<Longrightarrow> key des = n \<Longrightarrow> achieves (getOrCreate c n what des) (found c n (\<lambda>_. True))"
  by (auto simp: achieves_def found_iff elim: getOrCreate_done)

lemma andThen_quiet: "run_state m w = (None, w) \<Longrightarrow> run_state k w = (None, w) \<Longrightarrow> run_state (andThen m k) w = (None, w)"
  by (simp add: andThen_def)

lemma getOrCreate_found: "stores sim key c \<Longrightarrow> found c n (\<lambda>_. True) w \<Longrightarrow> run_state (getOrCreate c n what des) w = (None, w)"
  by (auto simp: found_iff stores_def intro: getOrCreate_quiet)

lemmas other_kind = preserves_found preserves_andThen preserves_getOrCreate cluster_leaves

definition labelsInPlace :: "namespace \<Rightarrow> bool" where
  "labelsInPlace x \<longleftrightarrow> list_all (\<lambda>k. case map_of (m_labels (ns_meta DNSNamespace)) k of
       None \<Rightarrow> True | Some v \<Rightarrow> map_of (m_labels (ns_meta x)) k = Some v) managedDNSNamespaceLabels"

lemma syncLabels_iff:
  "fst (syncLabels ks ex des (ch, upd)) \<longleftrightarrow> ch \<or> \<not> list_all (\<lambda>k. case map_of des k of
     None \<Rightarrow> True | Some v \<Rightarrow> map_of ex k = Some v) ks"
  by (induction ks arbitrary: ch upd) (auto split: option.splits)

lemma syncLabels_labels:
  "map_of (snd (syncLabels ks ex des (ch, upd))) k =
     (if k \<in> set ks \<and> (\<exists>v. map_of des k = Some v \<and> map_of ex k \<noteq> Some v) then map_of des k else map_of upd k)"
  by (induction ks arbitrary: ch upd) (auto simp: gomap_simps split: option.splits)

lemma namespaceLabelsChanged_None: "namespaceLabelsChanged x DNSNamespace = None \<longleftrightarrow> labelsInPlace x"
  using syncLabels_iff[of managedDNSNamespaceLabels "m_labels (ns_meta x)" "m_labels (ns_meta DNSNamespace)" False
      "m_labels (ns_meta x)"]
  by (auto simp: namespaceLabelsChanged_def labelsInPlace_def split: prod.split)

lemma namespaceLabelsChanged_Some:
  assumes "namespaceLabelsChanged x DNSNamespace = Some y"
  shows "labelsInPlace y" "ns_key y = ns_key x"
proof -
  let ?sync = "syncLabels managedDNSNamespaceLabels (m_labels (ns_meta x)) (m_labels (ns_meta DNSNamespace))
      (False, m_labels (ns_meta x))"
  have "y = x\<lparr>ns_meta := (ns_meta x)\<lparr>m_labels := snd ?sync\<rparr>\<rparr>"
    using assms by (auto simp: namespaceLabelsChanged_def split: prod.splits if_splits)
  then show "labelsInPlace y" "ns_key y = ns_key x"
    by (auto simp: labelsInPlace_def list_all_iff syncLabels_labels meta_key_def split: option.split)
qed

lemma ns_key_desired: "ns_key DNSNamespace = DefaultDNSOperandNamespaceName"
  by (simp add: DNSNamespace_def meta_key_def DefaultDNSOperandNamespaceName_def DefaultOperandNamespace_def
      namedMeta_def emptyMeta_def)

lemma ensureNamespaceObject_done:
  assumes api: "stores (=) ns_key c" and run: "run_state (ensureNamespaceObject c) w = (None, w')"
  shows "found c DefaultDNSOperandNamespaceName labelsInPlace w'"
proof -
  let ?n = DefaultDNSOperandNamespaceName
  have put: "run_state (kcreate c x) v = (None, v') \<Longrightarrow> look c (ns_key x) v' = Inr x"
    "run_state (kupdate c x) v = (None, v') \<Longrightarrow> look c (ns_key x) v' = Inr x"
    "look c m v = Inr x \<Longrightarrow> ns_key x = m" for m x v v'
    using api by (auto simp: stores_def look_def)
  have own: "labelsInPlace DNSNamespace" by code_simp
  show ?thesis
  proof (cases "look c ?n w")
    case (Inl e)
    then show ?thesis
      using run put(1)[of DNSNamespace w w'] own ns_key_desired
      by (auto simp: ensureNamespaceObject_def kget_look[OF api] found_iff split: if_splits prod.splits)
  next
    case (Inr x)
    then show ?thesis
    proof (cases "namespaceLabelsChanged x DNSNamespace")
      case (Some y)
      then have "run_state (kupdate c y) w = (None, w')"
        using run Inr by (auto simp: ensureNamespaceObject_def kget_look[OF api] split: prod.splits)
      then have "look c (ns_key y) w' = Inr y" by (rule put(2))
      then show ?thesis
        using namespaceLabelsChanged_Some[OF Some] put(3)[OF Inr] by (auto simp: found_iff)
    next
      case None
      then show ?thesis
        using run Inr namespaceLabelsChanged_None[of x] by (simp add: ensureNamespaceObject_def kget_look[OF api] found_iff)
    qed
  qed
qed

lemma ensureNamespaceObject_quiet:
  assumes "stores (=) ns_key c" "found c DefaultDNSOperandNamespaceName labelsInPlace w"
  shows "run_state (ensureNamespaceObject c) w = (None, w)"
  using assms(2) unfolding found_iff namespaceLabelsChanged_None[symmetric]
  by (auto simp: ensureNamespaceObject_def kget_look[OF assms(1)])


definition namespaceRealised :: "bool \<Rightarrow> cluster \<Rightarrow> bool" where
  "namespaceRealised nameResolver w \<longleftrightarrow>
     found (da_namespace clusterApi) DefaultDNSOperandNamespaceName labelsInPlace w
     \<and> found (da_clusterRole clusterApi) (role_key DNSClusterRole)
         (\<lambda>x. role_same x (desiredDNSClusterRole nameResolver)) w
     \<and> found (da_clusterRoleBinding clusterApi) (rb_key DNSClusterRoleBinding) (\<lambda>_. True) w
     \<and> found (da_serviceAccount clusterApi) (sa_key DNSServiceAccount) (\<lambda>_. True) w
     \<and> found (da_serviceAccount clusterApi) (sa_key NodeResolverServiceAccount) (\<lambda>_. True) w"

lemma role_key_dns: "role_key DNSClusterRole = \<lparr>nn_ns = '''', nn_name = m_name (role_meta DNSClusterRole)\<rparr>"
  by (simp add: role_key_def meta_key_def DNSClusterRole_def namedMeta_def emptyMeta_def)

lemma role_same_refl [simp]: "role_same x x"
  by (simp add: role_same_def)

lemma ensureDNSClusterRole_done:
  assumes "stores (=) role_key c" "run_state (ensureDNSClusterRole c b) w = ((r, None), w')"
  shows "found c (role_key DNSClusterRole) (\<lambda>x. role_same x (desiredDNSClusterRole b)) w'"
  using crd.ensure_object_done[OF stores_sim[OF assms(1)] desired_role_key] assms(2)
  by (fastforce simp: ensureDNSClusterRole_def updateDNSClusterRole_def found_iff role_key_dns)

lemma ensureDNSClusterRole_quiet:
  assumes "stores (=) role_key c" "found c (role_key DNSClusterRole) (\<lambda>x. role_same x (desiredDNSClusterRole b)) w"
  shows "\<exists>x. run_state (ensureDNSClusterRole c b) w = ((Some x, None), w)"
  using crd.ensure_object_quiet[OF stores_sim[OF assms(1)]] assms(2)
  by (fastforce simp: ensureDNSClusterRole_def updateDNSClusterRole_def found_iff role_key_dns)

lemma sa_keys_differ: "sa_key NodeResolverServiceAccount \<noteq> sa_key DNSServiceAccount"
  by code_simp

lemma namespaceRealised_quiet:
  assumes "namespaceRealised b w"
  shows "run_state (ensureDNSNamespace clusterApi b) w = (None, w)"
proof -
  obtain x where "run_state (ensureDNSClusterRole (da_clusterRole clusterApi) b) w = ((Some x, None), w)"
    using ensureDNSClusterRole_quiet[OF cluster_stores(5)] assms by (auto simp: namespaceRealised_def)
  then show ?thesis
    using assms ensureNamespaceObject_quiet[OF cluster_stores(10)] unfolding namespaceRealised_def ensureDNSNamespace_def
    by - (intro andThen_quiet cluster_stores[THEN getOrCreate_found]; simp)
qed

lemma namespaceRealised_done: "achieves (ensureDNSNamespace clusterApi b) (namespaceRealised b)"
proof -
  have role: "achieves (do { (_, err) \<leftarrow> ensureDNSClusterRole (da_clusterRole clusterApi) b;
        State_Monad.return (map_option (errorf m) err) })
      (found (da_clusterRole clusterApi) (role_key DNSClusterRole) (\<lambda>x. role_same x (desiredDNSClusterRole b)))" for m
    by (auto simp: achieves_def split: prod.splits dest: ensureDNSClusterRole_done[OF cluster_stores(5)])
  have role_frame: "preserves I (do { (_, err) \<leftarrow> ensureDNSClusterRole (da_clusterRole clusterApi) b;
        State_Monad.return (map_option (errorf m) err) })" if "leaves I (da_clusterRole clusterApi)" for I m
    unfolding ensureDNSClusterRole_def updateDNSClusterRole_def by (intro pres_intros leavesD that)
  show ?thesis
    unfolding ensureDNSNamespace_def namespaceRealised_def
  proof (rule achieves_andThen[OF _ _ achieves_andThen[OF role _ achieves_andThen[OF _ _ achieves_andThen]]])
    show "achieves (ensureNamespaceObject (da_namespace clusterApi))
        (found (da_namespace clusterApi) DefaultDNSOperandNamespaceName labelsInPlace)"
      by (auto simp: achieves_def intro: ensureNamespaceObject_done[OF cluster_stores(10)])
    show "preserves (found (da_serviceAccount clusterApi) (sa_key DNSServiceAccount) (\<lambda>_. True))
        (getOrCreate (da_serviceAccount clusterApi) n what NodeResolverServiceAccount)" for n what
      by (intro preserves_found getOrCreate_frame[OF cluster_stores(9) cluster_framed(7) sa_keys_differ])
  qed ((rule achieves_getOrCreate, rule cluster_stores, rule refl)[1]
       | (intro other_kind role_frame; simp add: cluster_look)[1])+
qed

section \<open>The metrics integration\<close>

definition metricsRealised :: "dns \<Rightarrow> service \<Rightarrow> ownerref \<Rightarrow> cluster \<Rightarrow> bool" where
  "metricsRealised d svc ref w \<longleftrightarrow>
     found (da_clusterRole clusterApi) (meta_key (role_meta MetricsClusterRole)) (\<lambda>_. True) w
     \<and> found (da_clusterRoleBinding clusterApi) (rb_key MetricsClusterRoleBinding) (\<lambda>_. True) w
     \<and> found (da_role clusterApi) (meta_key (role_meta MetricsRole)) (\<lambda>_. True) w
     \<and> found (da_roleBinding clusterApi) (rb_key MetricsRoleBinding) (\<lambda>_. True) w
     \<and> found (da_serviceMonitor clusterApi) (DNSServiceMonitorName d)
         (\<lambda>x. sm_same x (desiredServiceMonitor d svc ref)) w"

lemma sm_same_refl [simp]: "sm_same x x"
  by (simp add: sm_same_def)

lemma ensureServiceMonitor_done:
  assumes "stores (=) sm_key c" "run_state (ensureServiceMonitor c d svc ref) w = ((r, None), w')"
  shows "found c (DNSServiceMonitorName d) (\<lambda>x. sm_same x (desiredServiceMonitor d svc ref)) w'"
  using smd.ensure_object_done[OF stores_sim[OF assms(1)] desired_sm_key] assms(2)
  by (fastforce simp: ensureServiceMonitor_def updateDNSServiceMonitor_def found_iff Let_def)

lemma ensureServiceMonitor_quiet:
  assumes "stores (=) sm_key c"
    and "found c (DNSServiceMonitorName d) (\<lambda>x. sm_same x (desiredServiceMonitor d svc ref)) w"
  shows "\<exists>x. run_state (ensureServiceMonitor c d svc ref) w = ((Some x, None), w)"
  using smd.ensure_object_quiet[OF stores_sim[OF assms(1)]] assms(2)
  by (fastforce simp: ensureServiceMonitor_def updateDNSServiceMonitor_def found_iff Let_def)

lemma metricsRealised_quiet:
  assumes "metricsRealised d svc ref w"
  shows "run_state (ensureMetricsIntegration clusterApi d svc ref) w = (None, w)"
proof -
  obtain x where "run_state (ensureServiceMonitor (da_serviceMonitor clusterApi) d svc ref) w = ((Some x, None), w)"
    using ensureServiceMonitor_quiet[OF cluster_stores(11), of d svc ref w] assms by (auto simp: metricsRealised_def)
  then show ?thesis
    using assms unfolding metricsRealised_def ensureMetricsIntegration_def
    by - (intro andThen_quiet cluster_stores[THEN getOrCreate_found]; simp)
qed

lemma metricsRealised_done: "achieves (ensureMetricsIntegration clusterApi d svc ref) (metricsRealised d svc ref)"
proof -
  have sm: "achieves (do { (_, err) \<leftarrow> ensureServiceMonitor (da_serviceMonitor clusterApi) d svc ref;
        State_Monad.return (map_option (errorf m) err) })
      (found (da_serviceMonitor clusterApi) (DNSServiceMonitorName d) (\<lambda>x. sm_same x (desiredServiceMonitor d svc ref)))" for m
    by (auto simp: achieves_def split: prod.splits dest: ensureServiceMonitor_done[OF cluster_stores(11)])
  have sm_frame: "preserves I (do { (_, err) \<leftarrow> ensureServiceMonitor (da_serviceMonitor clusterApi) d svc ref;
        State_Monad.return (map_option (errorf m) err) })" if "leaves I (da_serviceMonitor clusterApi)" for I m
    unfolding ensureServiceMonitor_def updateDNSServiceMonitor_def Let_def by (intro pres_intros leavesD that)
  show ?thesis
    unfolding ensureMetricsIntegration_def metricsRealised_def
    by (rule achieves_andThen[OF _ _ achieves_andThen[OF _ _ achieves_andThen[OF _ _ achieves_andThen[OF _ _ sm]]]];
        ((rule achieves_getOrCreate, rule cluster_stores, simp add: role_key_def)
         | (intro other_kind sm_frame; simp add: cluster_look)))
qed


section \<open>Exposure: network policies, service, metrics\<close>

definition policyRealised :: "networkpolicy \<Rightarrow> cluster \<Rightarrow> bool" where
  "policyRealised p w = found (da_netpol clusterApi) (np_key p) (\<lambda>x. np_managed x p) w"

definition exposureRealised :: "dns \<Rightarrow> string \<Rightarrow> ownerref \<Rightarrow> cluster \<Rightarrow> bool" where
  "exposureRealised d ip ref w \<longleftrightarrow>
     policyRealised (desiredDNSNetworkPolicy d) w \<and> policyRealised NetworkPolicyDenyAll w
     \<and> found (da_service clusterApi) (DNSServiceName d)
         (\<lambda>svc. svc_managed svc (desiredDNSService d ip (enableHints (cl_nodes w)) ref)
                \<and> metricsRealised d svc ref w) w"

lemma cluster_reads:
  "run_state (da_listNodes clusterApi) w = (Inr (cl_nodes w), w)"
  "run_state (da_listCABundles clusterApi) w = (Inr (storeItems cmSelector cm_key (cl_configmap w)), w)"
  by (simp_all add: clusterApi_def readPart_def)

lemma svc_sim_refl [simp]: "svc_sim x x"
  by (simp add: svc_sim_def)

lemmas svc_stores = stores_sim[OF cluster_stores(3), of svc_sim, OF svc_sim_refl]

lemmas np_stores = stores_sim[OF cluster_stores(4), of np_managed, OF np_managed_refl]

lemma ensure_policies:
  "ensureDNSNetworkPolicy c d = ensureObject c (np_key (desiredDNSNetworkPolicy d)) ''failed to create dns networkpolicy''
       (updateDNSNetworkPolicy c) (desiredDNSNetworkPolicy d)"
  "ensureDenyAllNetworkPolicy c = ensureObject c (np_key NetworkPolicyDenyAll) ''failed to create networkpolicy''
       (updateDNSNetworkPolicy c) NetworkPolicyDenyAll"
  by (simp_all add: ensureDNSNetworkPolicy_def ensureDenyAllNetworkPolicy_def desired_np_key) (simp add: np_key_def)

lemma policy_done:
  assumes "run_state (ensureObject (da_netpol clusterApi) (np_key p) m (updateDNSNetworkPolicy (da_netpol clusterApi)) p) w
      = ((r, None), w')"
  shows "policyRealised p w'"
  using npd.ensure_object_done[OF np_stores refl assms[unfolded updateDNSNetworkPolicy_def]]
  by (auto simp: policyRealised_def found_iff)

lemma policy_quiet:
  assumes "policyRealised p w"
  shows "\<exists>x. run_state (ensureObject (da_netpol clusterApi) (np_key p) m (updateDNSNetworkPolicy (da_netpol clusterApi)) p) w
      = ((Some x, None), w)"
  using assms npd.ensure_object_quiet[OF np_stores] unfolding policyRealised_def found_iff updateDNSNetworkPolicy_def
  by blast

lemma exposure_quiet:
  assumes "exposureRealised d ip ref w"
  shows "run_state (ensureExposure clusterApi d ref ip errs) w = (Inr (errs, ip), w)"
proof -
  obtain p q where np: "run_state (ensureDNSNetworkPolicy (da_netpol clusterApi) d) w = ((Some p, None), w)"
      "run_state (ensureDenyAllNetworkPolicy (da_netpol clusterApi)) w = ((Some q, None), w)"
    using assms policy_quiet unfolding exposureRealised_def ensure_policies by blast
  obtain svc where svc: "look (da_service clusterApi) (DNSServiceName d) w = Inr svc"
      "svc_managed svc (desiredDNSService d ip (enableHints (cl_nodes w)) ref)" "metricsRealised d svc ref w"
    using assms by (auto simp: exposureRealised_def found_iff)
  show ?thesis
    using np metricsRealised_quiet[OF svc(3)]
      service_quiet[OF svc_stores cluster_reads(1) svc(1,2)]
    by (simp add: ensureExposure_def errList_def)
qed


lemma policy_frame:
  "preserves (policyRealised (desiredDNSNetworkPolicy d)) (ensureDenyAllNetworkPolicy (da_netpol clusterApi))"
proof -
  have "np_key NetworkPolicyDenyAll \<noteq> np_key (desiredDNSNetworkPolicy d)"
    unfolding desired_np_key
    by (simp add: np_key_def meta_key_def NetworkPolicyDenyAll_def namedMeta_def DNSNetworkPolicyName_def)
  then show ?thesis
    unfolding ensure_policies updateDNSNetworkPolicy_def policyRealised_def
    by (intro preserves_found npd.ensure_object_frame[OF np_stores cluster_framed(4) refl])
qed

lemma exposure_success:
  assumes "run_state (ensureExposure api d ref ip errs) w = (Inr ([], ip'), w')"
  obtains p q svc w1 w2 w3 where "errs = []" "ip' = ip"
    "run_state (ensureDNSNetworkPolicy (da_netpol api) d) w = ((p, None), w1)"
    "run_state (ensureDenyAllNetworkPolicy (da_netpol api)) w1 = ((q, None), w2)"
    "run_state (ensureDNSService (da_service api) (da_listNodes api) d ip ref) w2 = ((Some svc, None), w3)"
    "run_state (ensureMetricsIntegration api d svc ref) w3 = (None, w')"
  using assms
  by (auto simp: ensureExposure_def Let_def split: prod.splits option.splits)

lemma preserves_netpol_frame:
  "(\<And>s w. I (cl_netpol_update (\<lambda>_. s) w) \<longleftrightarrow> I w) \<Longrightarrow> preserves I (ensureDNSNetworkPolicy (da_netpol clusterApi) d)"
  by (intro pres_intros cluster_leaves)

lemma preserves_service_frame:
  "(\<And>s w. I (cl_service_update (\<lambda>_. s) w) \<longleftrightarrow> I w) \<Longrightarrow>
   preserves I (ensureDNSService (da_service clusterApi) (da_listNodes clusterApi) d ip ref)"
  by (intro pres_intros cluster_leaves) (simp_all add: preserves_def cluster_reads)

lemma exposure_done:
  assumes "run_state (ensureExposure clusterApi d ref ip errs) w = (Inr ([], ip'), w')"
  shows "exposureRealised d ip ref w'"
proof -
  obtain p q svc w1 w2 w3 where
    s1: "run_state (ensureDNSNetworkPolicy (da_netpol clusterApi) d) w = ((p, None), w1)" and
    s2: "run_state (ensureDenyAllNetworkPolicy (da_netpol clusterApi)) w1 = ((q, None), w2)" and
    s3: "run_state (ensureDNSService (da_service clusterApi) (da_listNodes clusterApi) d ip ref) w2 = ((Some svc, None), w3)" and
    s4: "run_state (ensureMetricsIntegration clusterApi d svc ref) w3 = (None, w')"
    by (rule exposure_success[OF assms]) (rule that)
  have np: "policyRealised (desiredDNSNetworkPolicy d) w2" "policyRealised NetworkPolicyDenyAll w2"
    using preservesD[OF policy_frame policy_done[OF s1[unfolded ensure_policies]]]
      policy_done[OF s2[unfolded ensure_policies]] s2 by simp_all
  have svc: "look (da_service clusterApi) (DNSServiceName d) w3 = Inr svc"
    "svc_managed svc (desiredDNSService d ip (enableHints (cl_nodes w2)) ref)"
    by (rule service_done[OF svc_stores cluster_reads(1) s3], simp)+
  let ?I = "\<lambda>v. cl_netpol v = cl_netpol w2 \<and> cl_nodes v = cl_nodes w2"
  have "preserves ?I (ensureDNSService (da_service clusterApi) (da_listNodes clusterApi) d ip ref)"
    by (intro preserves_service_frame) simp
  then have "?I w3" using s3 by (auto dest!: preservesD)
  moreover have "preserves (\<lambda>v. ?I v \<and> cl_service v = cl_service w3) (ensureMetricsIntegration clusterApi d svc ref)"
    by (intro pres_intros cluster_leaves) simp_all
  ultimately have "?I w' \<and> cl_service w' = cl_service w3" using s4 by (auto dest!: preservesD)
  then show ?thesis
    using np svc achievesD[OF metricsRealised_done s4]
    by (simp add: exposureRealised_def policyRealised_def found_def cluster_look)
qed


section \<open>Configmaps\<close>

text \<open>
  The Corefile step only writes under its own name, and what it writes there is never one of the
  configmaps that the synchronisation of the CA bundles would pick up.
\<close>

lemma corefile_current:
  assumes "stores (=) cm_key c"
  obtains cur err where "run_state (currentDNSConfigMap c d) w = ((cur, err), w)"
    "\<And>x. cur = Some x \<Longrightarrow> look c (DNSConfigMapName d) w = Inr x \<and> cm_key x = DNSConfigMapName d"
  using run_currentObject[OF reads_only[OF assms], of "DNSConfigMapName d" w] that assms
  by (auto simp: currentDNSConfigMap_def look_def stores_def split: sum.splits)

lemma corefile_frame:
  assumes api: "stores (=) cm_key c" "framed cm_key c" and n: "n \<noteq> DNSConfigMapName d"
  shows "preserves (\<lambda>v. look c n v = r) (ensureDNSConfigMap c u nr nss d cd revs)"
  unfolding preserves_def
proof (intro allI impI)
  fix w assume w: "look c n w = r"
  obtain cur err where cur: "run_state (currentDNSConfigMap c d) w = ((cur, err), w)"
    and own: "\<And>x. cur = Some x \<Longrightarrow> look c (DNSConfigMapName d) w = Inr x \<and> cm_key x = DNSConfigMapName d"
    by (rule corefile_current[OF api(1)]) (rule that)
  show "look c n (snd (run_state (ensureDNSConfigMap c u nr nss d cd revs) w)) = r"
  proof (cases "desiredDNSConfigMap u d cd revs nr nss")
    case (Inr des)
    then have "cm_key des \<noteq> n" using desired_Inr[OF Inr] n by (auto simp: cm_key_def)
    then have "preserves (\<lambda>v. look c n v = r) (createOrUpdate (kcreate c) m (currentDNSConfigMap c d) (updateDNSConfigMap c) cur des)" for m
      unfolding currentDNSConfigMap_def updateDNSConfigMap_def
      using own n by (intro cmd.create_or_update_frame[OF stores_sim[OF api(1)] api(2)]) (auto simp: cm_same_def)
    from preservesD[OF this w] show ?thesis
      using cur Inr w by (cases err) (simp_all add: ensureDNSConfigMap_def)
  qed (use cur w in \<open>cases err; simp add: ensureDNSConfigMap_def\<close>)
qed

lemma unselected_write:
  assumes "\<not> cmSelector x"
  shows "preserves (\<lambda>v. \<not> found (da_configmap clusterApi) n cmSelector v) (kcreate (da_configmap clusterApi) x)"
    "preserves (\<lambda>v. \<not> found (da_configmap clusterApi) n cmSelector v) (kupdate (da_configmap clusterApi) x)"
  using assms
  by (auto simp: preserves_def found_iff cluster_look look_def)
    (auto simp: clusterApi_def clientOn_def run_zoom storeClient_def gomap_simps split: if_splits option.splits)

lemma desired_unselected:
  "desiredDNSConfigMap u d cd revs nr nss = Inr des \<Longrightarrow> \<not> cmSelector des"
  by (auto simp: desiredDNSConfigMap_def cmSelector_def OwningDNSLabel_def Let_def split: sum.splits if_splits)

lemma corefile_unselected:
  "preserves (\<lambda>v. \<not> found (da_configmap clusterApi) (DNSConfigMapName d) cmSelector v)
     (ensureDNSConfigMap (da_configmap clusterApi) u nr nss d cd revs)" (is "preserves ?I _")
  unfolding preserves_def
proof (intro allI impI)
  let ?c = "da_configmap clusterApi"
  fix w assume w: "?I w"
  obtain cur err where cur: "run_state (currentDNSConfigMap ?c d) w = ((cur, err), w)"
    and own: "\<And>x. cur = Some x \<Longrightarrow> look ?c (DNSConfigMapName d) w = Inr x \<and> cm_key x = DNSConfigMapName d"
    by (rule corefile_current[OF cluster_stores(2)]) (rule that)
  have plain: "\<not> cmSelector upd" if "cur = Some x" "corefileChanged x des = Some upd" for x des upd
    using own[OF that(1)] w that(2) by (auto simp: found_iff corefileChanged_def cmSelector_def split: if_splits)
  have get: "preserves ?I (kget ?c n)" for n by (simp add: preserves_def kget_look[OF cluster_stores(2)])
  show "?I (snd (run_state (ensureDNSConfigMap ?c u nr nss d cd revs) w))"
  proof (cases "desiredDNSConfigMap u d cd revs nr nss")
    case (Inr des)
    have "preserves ?I (createOrUpdate (kcreate ?c) m (currentDNSConfigMap ?c d) (updateDNSConfigMap ?c) cur des)" for m
      unfolding createOrUpdate_def currentDNSConfigMap_def updateDNSConfigMap_def updateObject_def
      using plain by (intro pres_intros get unselected_write desired_unselected[OF Inr]) auto
    from preservesD[OF this w] show ?thesis
      using cur Inr w by (cases err) (simp_all add: ensureDNSConfigMap_def)
  qed (use cur w in \<open>cases err; simp add: ensureDNSConfigMap_def\<close>)
qed


abbreviation clusterBundles :: "cluster \<Rightarrow> configmap list" where
  "clusterBundles w \<equiv> storeItems cmSelector cm_key (cl_configmap w)"

definition bundlesRealised :: "dns \<Rightarrow> cluster \<Rightarrow> bool" where
  "bundlesRealised d w = caSettled (da_configmap clusterApi) clusterBundles d w"

definition corefileRealised :: "config \<Rightarrow> dns \<Rightarrow> gomap \<Rightarrow> cluster \<Rightarrow> bool" where
  "corefileRealised cfg d revs w =
     (case desiredDNSConfigMap (cfg_toU32 cfg) d ''cluster.local'' revs (cfg_nameResolver cfg)
             (cfg_nameResolverNamespaces cfg) of
        Inl _ \<Rightarrow> False
      | Inr cm \<Rightarrow> found (da_configmap clusterApi) (DNSConfigMapName d) (\<lambda>x. cm_same x cm) w)"

lemma cm_same_refl [simp]: "cm_same x x"
  by (simp add: cm_same_def)

lemmas cm_stores = stores_sim[OF cluster_stores(2), of cm_same, OF cm_same_refl]

lemma cluster_lists: "lists cmSelector cm_key (da_configmap clusterApi) clusterBundles"
  by (simp add: clusterApi_def lists_clientOn[OF storeClient_lists])

lemma bundles_done:
  assumes "run_state (ensureCABundleConfigMaps (da_configmap clusterApi) (da_listCABundles clusterApi) d) w = (None, w')"
    and "m_deletionTimestamp (dns_meta d) = None"
  shows "bundlesRealised d w'"
  unfolding bundlesRealised_def
  by (rule ca_synced[OF cm_stores cluster_framed(2) cluster_deletes cluster_lists cluster_reads(2) assms(2,1)])

lemma bundles_quiet:
  assumes "bundlesRealised d w" "m_deletionTimestamp (dns_meta d) = None"
  shows "run_state (ensureCABundleConfigMaps (da_configmap clusterApi) (da_listCABundles clusterApi) d) w = (None, w)"
  using assms unfolding bundlesRealised_def
  by (intro ca_quiet[OF cm_stores _ cluster_reads(2)]) (auto simp: cluster_look dest: store_missing)

lemma corefile_done:
  assumes "run_state (ensureDNSConfigMap (da_configmap clusterApi) (cfg_toU32 cfg) (cfg_nameResolver cfg)
      (cfg_nameResolverNamespaces cfg) d ''cluster.local'' revs) w = ((r, None), w')"
  shows "corefileRealised cfg d revs w'"
proof -
  obtain x des where "desiredDNSConfigMap (cfg_toU32 cfg) d ''cluster.local'' revs (cfg_nameResolver cfg)
      (cfg_nameResolverNamespaces cfg) = Inr des" "cm_same x des"
    and cur: "run_state (currentObject (da_configmap clusterApi) (DNSConfigMapName d)) w' = ((Some x, None), w')"
    by (rule ensureDNSConfigMap_ensured[OF cm_stores assms]) (rule that)
  moreover have "look (da_configmap clusterApi) (DNSConfigMapName d) w' = Inr x"
    using cur by (auto simp: currentObject_def look_def split: prod.splits sum.splits if_splits)
  ultimately show ?thesis by (simp add: corefileRealised_def found_iff)
qed

lemma corefile_quiet:
  assumes "corefileRealised cfg d revs w"
  shows "\<exists>x. run_state (ensureDNSConfigMap (da_configmap clusterApi) (cfg_toU32 cfg) (cfg_nameResolver cfg)
      (cfg_nameResolverNamespaces cfg) d ''cluster.local'' revs) w = ((Some x, None), w)"
proof -
  obtain x des where des: "desiredDNSConfigMap (cfg_toU32 cfg) d ''cluster.local'' revs (cfg_nameResolver cfg)
      (cfg_nameResolverNamespaces cfg) = Inr des"
    and x: "look (da_configmap clusterApi) (DNSConfigMapName d) w = Inr x" "cm_same x des"
    using assms by (auto simp: corefileRealised_def found_iff split: sum.splits)
  have "run_state (currentObject (da_configmap clusterApi) (DNSConfigMapName d)) w = ((Some x, None), w)"
    using run_currentObject[OF reads_only[OF cluster_stores(2)], of "DNSConfigMapName d" w] x(1) by (simp add: look_def)
  then show ?thesis
    using cmd.quiet[OF x(2)] des
    by (intro exI[of _ x]) (simp add: ensureDNSConfigMap_def currentDNSConfigMap_def updateDNSConfigMap_def)
qed

lemma bundles_kept:
  assumes "bundlesRealised d w"
    and run: "run_state (ensureDNSConfigMap (da_configmap clusterApi) u nr nss d cd revs) w = (r, w')"
  shows "bundlesRealised d w'"
    and "look (da_configmap clusterApi) (CABundleConfigMapName name) w' = look (da_configmap clusterApi) (CABundleConfigMapName name) w"
proof -
  let ?c = "da_configmap clusterApi" and ?n = "DNSConfigMapName d"
  have same: "look ?c n w' = look ?c n w" if "n \<noteq> ?n" for n
    using preservesD[OF corefile_frame[OF cluster_stores(2) cluster_framed(2) that, of "look ?c n w" u nr nss cd revs], of w] run
    by simp
  show "look ?c (CABundleConfigMapName name) w' = look ?c (CABundleConfigMapName name) w"
    by (intro same CABundleConfigMapName_not_DNS)
  have source: "sourceName name \<noteq> ?n" for name
    by (simp add: sourceName_def DNSConfigMapName_def GlobalUserSpecifiedConfigNamespace_def)
  have refs: "referredInDNS (configmapNames d) cm" if "cm \<in> set (clusterBundles w)" for cm
    using assms(1) that by (auto simp: bundlesRealised_def caSettled_def)
  have "\<not> found ?c ?n cmSelector w"
  proof
    assume "found ?c ?n cmSelector w"
    then obtain x where x: "look ?c ?n w = Inr x" "cmSelector x" by (auto simp: found_iff)
    then have "cm_key x = ?n" using cluster_stores(2) by (auto simp: stores_def look_def)
    then have "referredInDNS (configmapNames d) x" "m_name (cm_meta x) = ''dns-'' @ dns_name d"
      using x refs cluster_lists by (auto simp: lists_def cm_key_def meta_key_def DNSConfigMapName_def)
    then show False by (auto simp: referredInDNS_def list_ex_iff CABundleConfigMapName_def)
  qed
  then have "\<not> found ?c ?n cmSelector w'"
    using preservesD[OF corefile_unselected, of d w u nr nss cd revs] run by simp
  then have "cm \<in> set (clusterBundles w)" if "cm \<in> set (clusterBundles w')" for cm
    using that cluster_lists same[of "cm_key cm"]
    by (cases "cm_key cm = ?n") (auto simp: lists_def found_iff)
  then show "bundlesRealised d w'"
    using assms(1) refs same[OF source] same[OF CABundleConfigMapName_not_DNS]
    by (auto simp: bundlesRealised_def caSettled_def)
qed

end
