(* ===== verification/Realised_Workload.thy ===== *)
theory Realised_Workload
  imports Realised
begin

text \<open>
  The daemonsets in a realised cluster, with the placement decision, which depends on pods and nodes, and
  what each step of the reconciler can touch at all, so that what an earlier step has achieved survives the
  later ones.
\<close>

section \<open>The DNS daemonset\<close>

text \<open>
  Whether changing the placement is safe is decided by the pods and nodes of the cluster; in the
  realised state the comparison either finds nothing to change, or it only finds a placement that is
  not safe.
\<close>

definition placementSafe :: "cluster \<Rightarrow> daemonset \<Rightarrow> daemonset \<Rightarrow> bool" where
  "placementSafe w current updated =
     (case fst (run_state (daemonsetUpdateIsSafe clusterPlacement current updated) w) of Inl _ \<Rightarrow> False | Inr b \<Rightarrow> b)"

definition daemonsetSettled :: "cluster \<Rightarrow> daemonset \<Rightarrow> daemonset \<Rightarrow> bool" where
  "daemonsetSettled w current desired =
     (case daemonsetConfigChanged current desired of
        None \<Rightarrow> False
      | Some None \<Rightarrow> True
      | Some (Some updated) \<Rightarrow> \<not> placementSafe w current updated
          \<and> daemonsetConfigChanged current (keepPlacement current updated) = Some None)"

lemma placement_run:
  "run_state (daemonsetUpdateIsSafe clusterPlacement current updated) w = (Inr (placementSafe w current updated), w)"
  by (simp add: placementSafe_def daemonsetUpdateIsSafe_def clusterPlacement_def readPart_def)

lemma placement_cong:
  assumes "cl_pods w' = cl_pods w" "cl_nodes w' = cl_nodes w"
    and "dss_selector (ds_spec c') = dss_selector (ds_spec c)" "m_namespace (ds_meta c') = m_namespace (ds_meta c)"
    and "ps_nodeSelector (ds_pod u') = ps_nodeSelector (ds_pod u)" "ps_tolerations (ds_pod u') = ps_tolerations (ds_pod u)"
  shows "placementSafe w' c' u' = placementSafe w c u"
  using assms by (simp add: placementSafe_def daemonsetUpdateIsSafe_def clusterPlacement_def readPart_def)

lemma settled_cong:
  "cl_pods w' = cl_pods w \<Longrightarrow> cl_nodes w' = cl_nodes w \<Longrightarrow> daemonsetSettled w' x y = daemonsetSettled w x y"
  unfolding daemonsetSettled_def using placement_cong[of w' w x x] by (simp split: option.split)

lemma settled_update:
  assumes "daemonsetSettled w x y"
  shows "run_state (updateDNSDaemonSet c clusterPlacement x y) w = (Some (Inr False), w)"
  using assms
  by (auto simp: daemonsetSettled_def updateDNSDaemonSet_def placement_run Let_def split: option.splits)

text \<open>What is written settles, whether the wanted placement is safe or not.\<close>

lemma fresh_settled:
  assumes "desiredDNSDaemonSet d img proxy revs prof = Inr exp" "img \<noteq> ''''" "proxy \<noteq> ''''"
    and "noAdjacentDup (tolerationsForDNS d)"
  shows "daemonsetSettled w exp exp"
proof -
  have "ct_image (ps_containers (ds_pod exp) ! 0) \<noteq> ''''" "ct_image (ps_containers (ds_pod exp) ! 1) \<noteq> ''''"
    using desired_facts(2)[OF assms(1)] assms(2,3) by (auto simp: map_eq_Cons_conv)
  then have "daemonsetConfigChanged exp exp = Some None"
    using desired_facts(1,3)[OF assms(1)] assms(4)
    by (intro unchanged_refl) (simp_all add: managedAnnotationsEqual_def list_all_iff)
  then show ?thesis by (simp add: daemonsetSettled_def)
qed

lemma kept_identity:
  "ds_meta (keepPlacement x y) = ds_meta y" "dss_selector (ds_spec (keepPlacement x y)) = dss_selector (ds_spec y)"
  by (simp_all add: keepPlacement_def with_pod_def)

lemmas keepPlacement_simps = kept_identity kept_fields

lemma changed_identity:
  assumes "daemonsetConfigChanged cur exp = Some (Some upd)"
  shows "ds_meta upd = ds_meta cur" "dss_selector (ds_spec upd) = dss_selector (ds_spec cur)"
  using changed_merge[OF assms] by (auto simp: mergeDaemonSet_def)

lemma kept_settled:
  assumes des: "desiredDNSDaemonSet d img proxy revs prof = Inr exp"
    and img: "img \<noteq> ''''" "proxy \<noteq> ''''" and tol: "noAdjacentDup (tolerationsForDNS d)"
    and names: "map ct_name (ps_containers (ds_pod cur)) = [''dns'', ''kube-rbac-proxy'']"
    and curTol: "noAdjacentDup (ps_tolerations (ds_pod cur))"
    and upd: "daemonsetConfigChanged cur exp = Some (Some upd)" and unsafe: "\<not> placementSafe w cur upd"
    and w': "cl_pods w' = cl_pods w" "cl_nodes w' = cl_nodes w"
  shows "daemonsetSettled w' (keepPlacement cur upd) exp"
proof (cases "daemonsetConfigChanged (keepPlacement cur upd) exp")
  case None
  obtain b where "tolerationsEqual (ps_tolerations (ds_pod cur)) (ps_tolerations (ds_pod exp)) = Some b"
    using changed_merge[OF upd] by blast
  moreover obtain s where "syncContainers (ps_containers (ds_pod upd)) (ps_containers (ds_pod exp))
      [''dns'', ''kube-rbac-proxy''] (False, ps_containers (ds_pod upd)) = Some s"
    using daemonset_settles(1)[OF des img tol names upd]
    by (auto simp: daemonsetConfigChanged_def simp del: syncContainers.simps split: option.splits)
  ultimately show ?thesis
    using None by (auto simp: daemonsetConfigChanged_def keepPlacement_simps simp del: syncContainers.simps split: prod.splits)
next
  case (Some r)
  show ?thesis
  proof (cases r)
    case u: (Some upd2)
    note k = kept_placement_settles[OF des img tol names curTol upd Some[unfolded u]]
    have "placementSafe w' (keepPlacement cur upd) upd2 = placementSafe w cur upd"
      using k(2,3) changed_identity[OF upd] w' by (intro placement_cong) (simp_all add: keepPlacement_simps)
    then show ?thesis using Some u k(1) unsafe by (simp add: daemonsetSettled_def)
  qed (use Some in \<open>simp add: daemonsetSettled_def\<close>)
qed


definition adoptable :: "daemonset \<Rightarrow> bool" where
  "adoptable ds \<longleftrightarrow> map ct_name (ps_containers (ds_pod ds)) = [''dns'', ''kube-rbac-proxy'']
     \<and> noAdjacentDup (ps_tolerations (ds_pod ds))"

lemma put_daemonset:
  assumes "run_state (kcreate (da_daemonset clusterApi) x) w = (None, w') \<or> run_state (kupdate (da_daemonset clusterApi) x) w = (None, w')"
  shows "look (da_daemonset clusterApi) (ds_key x) w' = Inr x" "cl_pods w' = cl_pods w" "cl_nodes w' = cl_nodes w"
proof -
  show "look (da_daemonset clusterApi) (ds_key x) w' = Inr x"
    using assms cluster_stores(1) by (auto simp: stores_def look_def)
  show "cl_pods w' = cl_pods w" "cl_nodes w' = cl_nodes w"
    using assms by (auto simp: clusterApi_def clientOn_def run_zoom)
qed

lemma write_run:
  assumes "run_state (writeDNSDaemonSet (da_daemonset clusterApi) y) w = (Some (Inr b), w')"
  shows "b" "look (da_daemonset clusterApi) (ds_key y) w' = Inr y" "cl_pods w' = cl_pods w" "cl_nodes w' = cl_nodes w"
proof -
  have "b \<and> run_state (kupdate (da_daemonset clusterApi) y) w = (None, w')"
    using assms by (auto simp: writeDNSDaemonSet_def split: prod.splits option.splits)
  then show "b" "look (da_daemonset clusterApi) (ds_key y) w' = Inr y" "cl_pods w' = cl_pods w" "cl_nodes w' = cl_nodes w"
    using put_daemonset[OF disjI2] by blast+
qed

lemma update_writes_settled:
  assumes des: "desiredDNSDaemonSet d img proxy revs prof = Inr exp"
    and img: "img \<noteq> ''''" "proxy \<noteq> ''''" and tol: "noAdjacentDup (tolerationsForDNS d)"
    and cur: "look (da_daemonset clusterApi) n w = Inr cur" "adoptable cur" "ds_key cur = n"
    and run: "run_state (updateDNSDaemonSet (da_daemonset clusterApi) clusterPlacement cur exp) w = (Some (Inr b), w')"
  shows "\<exists>x. look (da_daemonset clusterApi) n w' = Inr x \<and> daemonsetSettled w' x exp \<and> (\<not> b \<longrightarrow> x = cur)"
proof (cases "daemonsetConfigChanged cur exp")
  case (Some r)
  note ad = cur(2)[unfolded adoptable_def, THEN conjunct1] cur(2)[unfolded adoptable_def, THEN conjunct2]
  show ?thesis
  proof (cases r)
    case None
    then show ?thesis using run Some cur by (simp add: updateDNSDaemonSet_def daemonsetSettled_def)
  next
    case u: (Some upd)
    let ?y = "keepPlacement cur upd"
    have key: "ds_key upd = n" "ds_key ?y = n"
      using changed_identity(1)[OF Some[unfolded u]] cur(3) by (simp_all add: ds_key_def keepPlacement_simps)
    consider (safe) "placementSafe w cur upd"
      | (kept) r2 where "\<not> placementSafe w cur upd" "daemonsetConfigChanged cur ?y = Some r2"
      using run Some u by (cases "placementSafe w cur upd") (auto simp: updateDNSDaemonSet_def placement_run Let_def split: option.splits)
    then show ?thesis
    proof cases
      case safe
      then have "run_state (writeDNSDaemonSet (da_daemonset clusterApi) upd) w = (Some (Inr b), w')"
        using run Some u by (simp add: updateDNSDaemonSet_def placement_run)
      from write_run[OF this] show ?thesis
        using key daemonset_settles(1)[OF des img tol ad(1) Some[unfolded u]] by (simp add: daemonsetSettled_def)
    next
      case kept
      show ?thesis
      proof (cases r2)
        case None
        then have "w' = w" using run Some u kept by (auto simp: updateDNSDaemonSet_def placement_run Let_def)
        then show ?thesis using cur Some u None kept by (simp add: daemonsetSettled_def)
      next
        case (Some y2)
        then have "run_state (writeDNSDaemonSet (da_daemonset clusterApi) ?y) w = (Some (Inr b), w')"
          using run \<open>daemonsetConfigChanged cur exp = Some r\<close> u kept by (simp add: updateDNSDaemonSet_def placement_run Let_def)
        from write_run[OF this] show ?thesis
          using key kept_settled[OF des img tol ad \<open>daemonsetConfigChanged cur exp = Some r\<close>[unfolded u] kept(1)] by simp
      qed
    qed
  qed
qed (use run in \<open>simp add: updateDNSDaemonSet_def\<close>)

definition daemonsetRealised :: "config \<Rightarrow> dns \<Rightarrow> gomap \<Rightarrow> tlssecurityprofile option \<Rightarrow> daemonset \<Rightarrow> cluster \<Rightarrow> bool" where
  "daemonsetRealised cfg d revs prof ds w =
     (look (da_daemonset clusterApi) (DNSDaemonSetName d) w = Inr ds
      \<and> (case desiredDNSDaemonSet d (cfg_coreDNSImage cfg) (cfg_proxyImage cfg) revs prof of
           Inl _ \<Rightarrow> False | Inr desired \<Rightarrow> daemonsetSettled w ds desired))"

lemma ds_current:
  "run_state (currentDNSDaemonSet (da_daemonset clusterApi) d) w =
    (case look (da_daemonset clusterApi) (DNSDaemonSetName d) w of
       Inl e \<Rightarrow> ((None, None), w) | Inr x \<Rightarrow> ((Some x, None), w))"
  using run_currentObject[OF reads_only[OF cluster_stores(1)], of "DNSDaemonSetName d" w] store_missing
  by (auto simp: currentDNSDaemonSet_def look_def[symmetric] cluster_look split: sum.splits)

lemma daemonset_quiet:
  assumes "daemonsetRealised cfg d revs prof ds w"
  shows "run_state (ensureDNSDaemonSet (da_daemonset clusterApi) clusterPlacement (cfg_coreDNSImage cfg) (cfg_proxyImage cfg)
      d revs prof) w = (Some (Some ds, None), w)"
  using assms settled_update
  by (auto simp: daemonsetRealised_def ensureDNSDaemonSet_def ds_current split: sum.splits)

lemma daemonset_done:
  assumes run: "run_state (ensureDNSDaemonSet (da_daemonset clusterApi) clusterPlacement (cfg_coreDNSImage cfg) (cfg_proxyImage cfg)
      d revs prof) w = (Some (Some ds, None), w')"
    and img: "cfg_coreDNSImage cfg \<noteq> ''''" "cfg_proxyImage cfg \<noteq> ''''" and tol: "noAdjacentDup (tolerationsForDNS d)"
    and old: "\<And>cur. look (da_daemonset clusterApi) (DNSDaemonSetName d) w = Inr cur \<Longrightarrow> adoptable cur"
  shows "daemonsetRealised cfg d revs prof ds w'"
proof -
  let ?n = "DNSDaemonSetName d" and ?c = "da_daemonset clusterApi"
  obtain exp where des: "desiredDNSDaemonSet d (cfg_coreDNSImage cfg) (cfg_proxyImage cfg) revs prof = Inr exp"
    by (rule desired_daemonset)
  have again: "run_state (currentDNSDaemonSet ?c d) v = ((Some ds, None), w') \<Longrightarrow> v = w' \<and> look ?c ?n w' = Inr ds" for v
    by (auto simp: ds_current split: sum.splits)
  show ?thesis
  proof (cases "look ?c ?n w")
    case (Inl e)
    then obtain v where cr: "run_state (kcreate ?c exp) w = (None, v)" "run_state (currentDNSDaemonSet ?c d) v = ((Some ds, None), w')"
      using run des by (auto simp: ensureDNSDaemonSet_def ds_current[of d w] createDNSDaemonSet_def split: prod.splits option.splits)
    then have "look ?c ?n w' = Inr exp"
      using put_daemonset(1)[OF disjI1[OF cr(1)]] again[OF cr(2)] desired_facts(4)[OF des] by (auto simp: ds_key_def)
    then show ?thesis
      using again[OF cr(2)] fresh_settled[OF des img tol] des by (simp add: daemonsetRealised_def)
  next
    case (Inr cur)
    have key: "ds_key cur = ?n" using Inr cluster_stores(1) by (auto simp: stores_def look_def)
    obtain b v where up: "run_state (updateDNSDaemonSet ?c clusterPlacement cur exp) w = (Some (Inr b), v)"
      and fin: "if b then run_state (currentDNSDaemonSet ?c d) v = ((Some ds, None), w') else ds = cur \<and> w' = v"
      using run des Inr
      by (auto simp: ensureDNSDaemonSet_def ds_current[of d w] split: prod.splits option.splits sum.splits if_splits)
    obtain x where "look ?c ?n v = Inr x" "daemonsetSettled v x exp" "\<not> b \<longrightarrow> x = cur"
      using update_writes_settled[OF des img tol Inr old[OF Inr] key up] by blast
    then show ?thesis using fin again[of v] des by (cases b) (auto simp: daemonsetRealised_def)
  qed
qed


section \<open>The node resolver\<close>

definition resolverRealised :: "config \<Rightarrow> dns \<Rightarrow> string \<Rightarrow> cluster \<Rightarrow> bool" where
  "resolverRealised cfg d ip w = found (da_daemonset clusterApi) NodeResolverDaemonSetName
     (\<lambda>x. resolver_managed x (desiredNodeResolverDaemonSet (cfg_script cfg) d ip ''cluster.local'' (cfg_cliImage cfg))) w"

lemmas resolver_stores = stores_sim[OF cluster_stores(1), of resolver_sim, OF resolver_sim_refl]

lemma resolver_current:
  "run_state (currentNodeResolverDaemonSet (da_daemonset clusterApi)) w =
    (case look (da_daemonset clusterApi) NodeResolverDaemonSetName w of
       Inl e \<Rightarrow> ((None, None), w) | Inr x \<Rightarrow> ((Some x, None), w))"
  using run_currentObject[OF reads_only[OF cluster_stores(1)], of NodeResolverDaemonSetName w] store_missing
  by (auto simp: currentNodeResolverDaemonSet_def look_def[symmetric] cluster_look split: sum.splits)

text \<open>A step that reports no error returns a daemonset; an error is never a retryable one.\<close>

lemma not_retryable [simp]: "\<not> is_retryable (errorf m e)" "\<not> is_retryable (apiErr a)"
  by (simp_all add: errorf_def apiErr_def)

lemma resolver_run:
  fixes s img d ip cd w
  defines "run \<equiv> run_state (ensureNodeResolverDaemonSet (da_daemonset clusterApi) s img d ip cd) w"
  shows "(\<forall>r err. fst run = Some (r, err) \<longrightarrow> (case err of None \<Rightarrow> r \<noteq> None | Some e \<Rightarrow> \<not> is_retryable e))
    \<and> (snd run = w \<or> (\<exists>y. ds_key y = NodeResolverDaemonSetName \<and>
         snd run \<in> {snd (run_state (kcreate (da_daemonset clusterApi) y) w), snd (run_state (kupdate (da_daemonset clusterApi) y) w)}))"
proof -
  let ?c = "da_daemonset clusterApi" and ?n = NodeResolverDaemonSetName
    and ?D = "desiredNodeResolverDaemonSet s d ip cd img"
  note ensure = run_def ensureNodeResolverDaemonSet_def ensureNodeResolver_def
  show ?thesis
  proof (cases "look ?c ?n w")
    case (Inl e)
    obtain cr v where cr: "run_state (kcreate ?c ?D) w = (cr, v)" by fastforce
    have key: "ds_key ?D = ?n" by (rule desired_resolver(1))
    then have "cr = None \<Longrightarrow> look ?c ?n v = Inr ?D"
      using put_daemonset(1)[of ?D w v] cr by simp
    then show ?thesis
      using Inl cr key
      by (cases cr) (auto simp: ensure resolver_current createNodeResolverDaemonSet_def intro!: exI[of _ ?D] split: sum.split)
  next
    case (Inr cur)
    have key: "ds_key cur = ?n" using Inr cluster_stores(1) by (auto simp: stores_def look_def)
    show ?thesis
    proof (cases "nodeResolverDaemonSetConfigChanged cur ?D")
      case (Some u)
      show ?thesis
      proof (cases u)
        case upd: (Some upd)
        obtain ur v where ur: "run_state (kupdate ?c upd) w = (ur, v)" by fastforce
        have key2: "ds_key upd = ?n"
          using resolver_changed_Some[OF Some[unfolded upd] desired_resolver(3)] key by (simp add: ds_key_def)
        then have "ur = None \<Longrightarrow> look ?c ?n v = Inr upd"
          using put_daemonset(1)[of upd w v] ur by simp
        then show ?thesis
          using Inr Some upd ur key2
          by (cases ur) (auto simp: ensure resolver_current updateNodeResolverDaemonSet_def intro!: exI[of _ upd] split: sum.split)
      qed (use Inr Some in \<open>auto simp: ensure resolver_current updateNodeResolverDaemonSet_def\<close>)
    qed (use Inr in \<open>auto simp: ensure resolver_current updateNodeResolverDaemonSet_def\<close>)
  qed
qed

lemma resolver_frame:
  "preserves (\<lambda>v. look (da_daemonset clusterApi) (DNSDaemonSetName d) v = r)
     (ensureNodeResolverDaemonSet (da_daemonset clusterApi) s img d' ip cd)"
  unfolding preserves_def
proof (intro allI impI)
  let ?c = "da_daemonset clusterApi" and ?I = "\<lambda>v. look (da_daemonset clusterApi) (DNSDaemonSetName d) v = r"
  fix w assume w: "?I w"
  have "?I (snd (run_state (kcreate ?c y) w))" "?I (snd (run_state (kupdate ?c y) w))" if "ds_key y = NodeResolverDaemonSetName" for y
    using w cluster_framed(1) that DNSDaemonSetName_not_resolver[of d] by (auto simp: framed_def)
  then show "?I (snd (run_state (ensureNodeResolverDaemonSet ?c s img d' ip cd) w))"
    using resolver_run[of s img d' ip cd w] w by auto
qed

lemma resolver_ok:
  assumes run: "run_state (ensureNodeResolverDaemonSet (da_daemonset clusterApi) (cfg_script cfg) (cfg_cliImage cfg) d ip ''cluster.local'') w
      = (Some (r, None), w')"
  obtains x where "r = Some x" "resolverRealised cfg d ip w'"
proof -
  obtain x where r: "r = Some x"
    using resolver_run[of "cfg_script cfg" "cfg_cliImage cfg" d ip "''cluster.local''" w] run by auto
  then show ?thesis
    using that resolver_done[OF resolver_stores run[unfolded r]] by (auto simp: resolverRealised_def found_iff)
qed

lemma resolver_still:
  assumes "resolverRealised cfg d ip w"
  obtains x where "run_state (ensureNodeResolverDaemonSet (da_daemonset clusterApi) (cfg_script cfg) (cfg_cliImage cfg) d ip ''cluster.local'') w
      = (Some (Some x, None), w)"
  using assms resolver_quiet[OF resolver_stores] that by (auto simp: resolverRealised_def found_iff)

section \<open>What each step can touch\<close>

lemma only_client:
  assumes "\<And>a b v. u (\<lambda>_. a) (u (\<lambda>_. b) v) = u (\<lambda>_. a) v"
  shows "leaves (\<lambda>v. \<exists>s. v = u (\<lambda>_. s) w) (clientOn g u c)"
  using assms by (auto simp: leaves_def clientOn_def preserves_def run_zoom)

lemma only_run:
  assumes "preserves (\<lambda>v. \<exists>s. v = u (\<lambda>_. s) w) m" "u (\<lambda>_. g w) w = w"
  shows "\<exists>s. snd (run_state m w) = u (\<lambda>_. s) w"
  using preservesD[OF assms(1), of w] assms(2) by metis

lemma cluster_only:
  "leaves (\<lambda>v. \<exists>s. v = w\<lparr>cl_configmap := s\<rparr>) (da_configmap clusterApi)"
  "leaves (\<lambda>v. \<exists>s. v = w\<lparr>cl_daemonset := s\<rparr>) (da_daemonset clusterApi)"
  "leaves (\<lambda>v. \<exists>s. v = w\<lparr>cl_service := s\<rparr>) (da_service clusterApi)"
  "leaves (\<lambda>v. \<exists>s. v = w\<lparr>cl_netpol := s\<rparr>) (da_netpol clusterApi)"
  by (simp_all add: clusterApi_def only_client)

lemma preserves_reads [pres_intros]:
  "preserves I (da_listNodes clusterApi)" "preserves I (da_listCABundles clusterApi)"
  "preserves I (da_network clusterApi)" "preserves I (da_apiServer clusterApi)"
  "preserves I (pa_listPods clusterPlacement sel n)" "preserves I (pa_listNodes clusterPlacement sel')"
  by (simp_all add: clusterApi_def clusterPlacement_def preserves_readPart)

lemma bundles_touch:
  "\<exists>s. snd (run_state (ensureCABundleConfigMaps (da_configmap clusterApi) (da_listCABundles clusterApi) d) w) = w\<lparr>cl_configmap := s\<rparr>"
  by (rule only_run[where u = cl_configmap_update and g = cl_configmap]) (intro pres_intros cluster_only, simp)

lemma daemonset_touch:
  "\<exists>s. snd (run_state (ensureDNSDaemonSet (da_daemonset clusterApi) clusterPlacement img proxy d revs prof) w) = w\<lparr>cl_daemonset := s\<rparr>"
  by (rule only_run[where u = cl_daemonset_update and g = cl_daemonset]) (intro pres_intros cluster_only, simp)

lemma corefile_touch:
  "\<exists>s. snd (run_state (ensureDNSConfigMap (da_configmap clusterApi) u nr nss d cd revs) w) = w\<lparr>cl_configmap := s\<rparr>"
  by (rule only_run[where u = cl_configmap_update and g = cl_configmap]) (intro pres_intros cluster_only, simp)

lemma resolver_touch:
  "\<exists>s. snd (run_state (ensureNodeResolverDaemonSet (da_daemonset clusterApi) scr img d ip cd) w) = w\<lparr>cl_daemonset := s\<rparr>"
  by (rule only_run[where u = cl_daemonset_update and g = cl_daemonset]) (intro pres_intros cluster_only, simp)

lemma external_touch:
  "\<exists>s. snd (run_state (ensureExternalNameForOpenshiftService clusterApi) w) = w\<lparr>cl_service := s\<rparr>"
  unfolding ensureExternalNameForOpenshiftService_def
  by (rule only_run[where u = cl_service_update and g = cl_service]) (intro pres_intros cluster_only, simp)

text \<open>
  The steps of the exposure leave the kinds of the other steps alone, and so they do with the access
  rights of the operand's service account.
\<close>

definition exposureTouch :: "cluster \<Rightarrow> cluster \<Rightarrow> bool" where
  "exposureTouch w v \<longleftrightarrow> cl_dns v = cl_dns w \<and> cl_daemonset v = cl_daemonset w \<and> cl_configmap v = cl_configmap w
     \<and> cl_serviceAccount v = cl_serviceAccount w \<and> cl_namespace v = cl_namespace w \<and> cl_nodes v = cl_nodes w
     \<and> cl_pods v = cl_pods w \<and> cl_apiServer v = cl_apiServer w \<and> cl_network v = cl_network w \<and> cl_level v = cl_level w
     \<and> look (da_clusterRole clusterApi) (role_key DNSClusterRole) v = look (da_clusterRole clusterApi) (role_key DNSClusterRole) w
     \<and> look (da_clusterRoleBinding clusterApi) (rb_key DNSClusterRoleBinding) v
         = look (da_clusterRoleBinding clusterApi) (rb_key DNSClusterRoleBinding) w"

lemma metrics_names:
  "role_key MetricsClusterRole \<noteq> role_key DNSClusterRole" "rb_key MetricsClusterRoleBinding \<noteq> rb_key DNSClusterRoleBinding"
  by code_simp+

lemma preserves_conj: "preserves I m \<Longrightarrow> preserves J m \<Longrightarrow> preserves (\<lambda>v. I v \<and> J v) m"
  by (simp add: preserves_def)

lemma exposure_frame: "preserves (exposureTouch w) (ensureExposure clusterApi d ref ip errs)"
proof -
  have other: "leaves (exposureTouch w) (da_netpol clusterApi)" "leaves (exposureTouch w) (da_service clusterApi)"
    "leaves (exposureTouch w) (da_role clusterApi)" "leaves (exposureTouch w) (da_roleBinding clusterApi)"
    "leaves (exposureTouch w) (da_serviceMonitor clusterApi)"
    by (intro cluster_leaves; simp add: exposureTouch_def cluster_look)+
  have role: "preserves (exposureTouch w) (getOrCreate (da_clusterRole clusterApi) n what MetricsClusterRole)" for n what
    unfolding exposureTouch_def
    by (intro preserves_conj getOrCreate_frame[OF cluster_stores(5) cluster_framed(5) metrics_names(1)]
        preserves_getOrCreate cluster_leaves; simp add: cluster_look)
  have bind: "preserves (exposureTouch w) (getOrCreate (da_clusterRoleBinding clusterApi) n what MetricsClusterRoleBinding)" for n what
    unfolding exposureTouch_def
    by (intro preserves_conj getOrCreate_frame[OF cluster_stores(6) cluster_framed(6) metrics_names(2)]
        preserves_getOrCreate cluster_leaves; simp add: cluster_look)
  have met: "preserves (exposureTouch w) (ensureMetricsIntegration clusterApi d svc ref)" for svc
    unfolding ensureMetricsIntegration_def ensureServiceMonitor_def updateDNSServiceMonitor_def Let_def
    by (intro role bind pres_intros leavesD other)
  show ?thesis
    unfolding ensureExposure_def by (intro met pres_intros other)
qed

end
