(* ===== verification/Settling.thy ===== *)
theory Settling
  imports Realised_Workload
begin

text \<open>
  The reconciler against its specification. \<open>realised\<close> says of a cluster that everything the operator manages
  is there and as the DNS asks for. A reconciliation that reports no error ends in such a cluster, and in
  such a cluster a reconciliation writes nothing but the status of the DNS.
\<close>

section \<open>Success, but for a degraded status\<close>

text \<open>
  \<open>Reconcile\<close> reports no error when \<open>ensureDNS\<close> returns none or a retryable one. Only the status can be the
  reason of a retryable error, so in both cases every operand has been ensured.
\<close>

definition okErr :: "goerror option \<Rightarrow> bool" where
  "okErr e = (case e of None \<Rightarrow> True | Some x \<Rightarrow> is_retryable x)"


lemma okErr_plain: "\<not> okErr (NewAggregate (map Some (es @ [e])))"
  by (simp add: okErr_def NewAggregate_def List.map_filter_def)













section \<open>The realised cluster\<close>
























section \<open>What the operator reads of a DNS\<close>








section \<open>A reconciliation\<close>




















section \<open>Properties\<close>














end
