(* ===== verification/No_Panic.thy ===== *)
theory No_Panic
  imports Reconciliation
begin

text \<open>
  Panic freedom. A reconciliation can panic in two places only: the comparison of the
  daemonsets indexes the expected containers by a position in the current ones, and the
  tolerations are sorted by a comparison library that panics on the order it is given. Both
  depend on objects that are read from the API. This theory states what has to hold of the
  objects in the cluster for the reconciler never to panic, and shows that the reconciler's
  own writes keep it that way.
\<close>

section \<open>Triples\<close>

text \<open>From a state with \<open>I\<close>, the action answers with \<open>Q\<close> and leaves \<open>I\<close> true.\<close>

definition yields :: "('w \<Rightarrow> bool) \<Rightarrow> ('w, 'a) state \<Rightarrow> ('a \<Rightarrow> bool) \<Rightarrow> bool" where
  "yields I m Q \<longleftrightarrow> (\<forall>w. I w \<longrightarrow> Q (fst (run_state m w)) \<and> I (snd (run_state m w)))"

named_theorems yield_intros

lemma yields_return [yield_intros]: "Q x \<Longrightarrow> yields I (State_Monad.return x) Q"
  by (simp add: yields_def)

lemma yields_bind:
  "yields I m P \<Longrightarrow> (\<And>x. P x \<Longrightarrow> yields I (f x) Q) \<Longrightarrow> yields I (State_Monad.bind m f) Q"
  by (fastforce simp: yields_def split: prod.splits)

lemma yields_preserves: "preserves I m \<Longrightarrow> yields I m (\<lambda>_. True)"
  by (simp add: yields_def preserves_def)

lemma preserves_yields: "yields I m Q \<Longrightarrow> preserves I m"
  by (simp add: yields_def preserves_def)

lemma yields_then: "preserves I m \<Longrightarrow> (\<And>x. yields I (f x) Q) \<Longrightarrow> yields I (State_Monad.bind m f) Q"
  by (rule yields_bind[OF yields_preserves])

lemma yields_case_option [yield_intros]:
  "(x = None \<Longrightarrow> yields I m Q) \<Longrightarrow> (\<And>y. x = Some y \<Longrightarrow> yields I (f y) Q) \<Longrightarrow>
   yields I (case x of None \<Rightarrow> m | Some y \<Rightarrow> f y) Q"
  by (cases x) auto

lemma yields_case_sum [yield_intros]:
  "(\<And>y. x = Inl y \<Longrightarrow> yields I (f y) Q) \<Longrightarrow> (\<And>y. x = Inr y \<Longrightarrow> yields I (g y) Q) \<Longrightarrow>
   yields I (case x of Inl y \<Rightarrow> f y | Inr y \<Rightarrow> g y) Q"
  by (cases x) auto

lemma yields_case_prod [yield_intros]:
  "(\<And>a b. x = (a, b) \<Longrightarrow> yields I (f a b) Q) \<Longrightarrow> yields I (case x of (a, b) \<Rightarrow> f a b) Q"
  by (cases x) auto

lemma yields_case_bool [yield_intros]:
  "(b \<Longrightarrow> yields I m Q) \<Longrightarrow> (\<not> b \<Longrightarrow> yields I n Q) \<Longrightarrow> yields I (case b of True \<Rightarrow> m | False \<Rightarrow> n) Q"
  by (cases b) auto

lemma yields_if [yield_intros]:
  "(b \<Longrightarrow> yields I m Q) \<Longrightarrow> (\<not> b \<Longrightarrow> yields I n Q) \<Longrightarrow> yields I (if b then m else n) Q"
  by simp

lemma yields_let [yield_intros]:
  "(\<And>x. x = t \<Longrightarrow> yields I (f x) Q) \<Longrightarrow> yields I (let x = t in f x) Q"
  by simp

section \<open>The daemonset comparisons\<close>

text \<open>
  What keeps the comparisons from panicking: no more than the two expected containers, and no
  two neighbouring tolerations that the sorting comparison cannot tell apart.
\<close>

definition tameDS :: "daemonset \<Rightarrow> bool" where
  "tameDS ds \<longleftrightarrow> length (ps_containers (ds_pod ds)) \<le> 2 \<and> noAdjacentDup (ps_tolerations (ds_pod ds))"

definition tameDNS :: "dns \<Rightarrow> bool" where
  "tameDNS d \<longleftrightarrow> noAdjacentDup (tolerationsForDNS d)"

lemma syncContainer_no_panic:
  assumes "length C \<le> length E"
  shows "\<exists>go ch cts. syncContainer C E name (b, U) = Some (go, ch, cts)
    \<and> (go \<longrightarrow> length cts = length U) \<and> (\<not> go \<longrightarrow> cts = E)"
proof (cases "fidx name C < length C \<and> ct_image (C ! fidx name C) \<noteq> ''''")
  case False
  then show ?thesis by (auto simp: syncContainer_def findContainer_eq Let_def)
next
  case True
  obtain k eImg eReady where "findContainer name 0 E = (k, eImg, eReady)" by (rule prod_cases3)
  moreover have "fidx name C < length E" using True assms by simp
  ultimately show ?thesis using True by (auto simp: syncContainer_def findContainer_eq[of name 0 C] Let_def)
qed

lemma syncContainers_no_panic:
  assumes "length C \<le> length E" "length U = length C"
  shows "\<exists>ch cts. syncContainers C E names (b, U) = Some (ch, cts) \<and> length cts \<in> {length C, length E}"
  using assms(2)
proof (induction names arbitrary: b U)
  case (Cons name names)
  obtain go ch cts where s: "syncContainer C E name (b, U) = Some (go, ch, cts)"
    "go \<Longrightarrow> length cts = length U" "\<not> go \<Longrightarrow> cts = E"
    using syncContainer_no_panic[OF assms(1), of name b U] by blast
  show ?case
  proof (cases go)
    case True
    then show ?thesis using Cons.IH[of cts ch] s Cons.prems by simp
  next
    case False
    then show ?thesis using s by simp
  qed
qed simp

lemma comparison_no_panic:
  assumes "tameDS cur" "length (ps_containers (ds_pod exp)) = 2" "noAdjacentDup (ps_tolerations (ds_pod exp))"
  obtains r where "daemonsetConfigChanged cur exp = Some r"
    "\<And>upd. r = Some upd \<Longrightarrow> tameDS upd \<and> length (ps_containers (ds_pod upd)) = 2"
proof -
  let ?cur = "ps_containers (ds_pod cur)" and ?exp = "ps_containers (ds_pod exp)"
  have len: "length ?cur \<le> length ?exp" and tol: "noAdjacentDup (ps_tolerations (ds_pod cur))"
    using assms by (simp_all add: tameDS_def)
  obtain ch cts where s: "syncContainers ?cur ?exp [''dns'', ''kube-rbac-proxy''] (False, ?cur) = Some (ch, cts)"
    "length cts \<in> {length ?cur, length ?exp}"
    using syncContainers_no_panic[OF len refl] by blast
  let ?same = "ps_tolerations (ds_pod cur) = ps_tolerations (ds_pod exp)"
  let ?upd = "mergeDaemonSet cur exp cts ?same"
  have "ps_containers (ds_pod ?upd) = (if containersDiffer ?cur ?exp then ?exp else cts)"
    "ps_tolerations (ds_pod ?upd) = ps_tolerations (ds_pod exp)"
    by (simp_all add: mergeDaemonSet_def)
  then have upd: "tameDS ?upd \<and> length (ps_containers (ds_pod ?upd)) = 2"
    using s(2) assms(2,3) by (auto simp: tameDS_def containersDiffer_def)
  have "daemonsetConfigChanged cur exp = Some (if ch \<or> \<not> ?same \<or> fieldsChanged cur exp then Some ?upd else None)"
    by (simp add: daemonsetConfigChanged_def s(1) tolerationsEqual_plain[OF tol assms(3)] del: syncContainers.simps)
  then show ?thesis using upd by (auto intro: that split: if_splits)
qed

lemma resolver_comparison_no_panic:
  assumes "tameDS cur" "tameDS exp"
  obtains r where "nodeResolverDaemonSetConfigChanged cur exp = Some r" "\<And>upd. r = Some upd \<Longrightarrow> tameDS upd"
proof -
  let ?cts = "resolverContainers (ps_containers (ds_pod cur)) (ps_containers (ds_pod exp))"
  have "length (snd ?cts) \<le> 2"
    using assms by (cases "(ps_containers (ds_pod cur), ps_containers (ds_pod exp))" rule: resolverContainers.cases)
      (auto simp: tameDS_def Let_def)
  then show ?thesis
    using assms tolerationsEqual_plain[of "ps_tolerations (ds_pod cur)" "ps_tolerations (ds_pod exp)"]
    by (cases "nodeResolverDaemonSetConfigChanged cur exp")
      (auto intro: that simp: nodeResolverDaemonSetConfigChanged_def tameDS_def Let_def split: prod.splits if_splits)
qed

lemma tame_desired:
  assumes "tameDNS d" "desiredDNSDaemonSet d img proxy revs prof = Inr ds"
  shows "tameDS ds" "length (ps_containers (ds_pod ds)) = 2" "noAdjacentDup (ps_tolerations (ds_pod ds))"
  using assms desired_daemonset[of d img proxy revs prof] by (fastforce simp: tameDNS_def tameDS_def)+

lemma tame_desired_resolver: "tameDS (desiredNodeResolverDaemonSet s d ip cd img)"
  by (simp add: tameDS_def desiredNodeResolverDaemonSet_def noAdjacentDup_def sliceIsSorted_def)

section \<open>The daemonsets\<close>

text \<open>A client that hands out only objects with \<open>P\<close> in states with \<open>I\<close>, and keeps \<open>I\<close> when it is given such objects.\<close>

definition guards :: "('o \<Rightarrow> bool) \<Rightarrow> ('w \<Rightarrow> bool) \<Rightarrow> ('o, 'w) kclient \<Rightarrow> bool" where
  "guards P I c \<longleftrightarrow> (\<forall>n. yields I (kget c n) (pred_sum (\<lambda>_. True) P))
     \<and> (\<forall>x. P x \<longrightarrow> preserves I (kcreate c x)) \<and> (\<forall>x. P x \<longrightarrow> preserves I (kupdate c x))
     \<and> (\<forall>n. preserves I (kdelete c n))"

lemma guardsD:
  "guards P I c \<Longrightarrow> yields I (kget c n) (pred_sum (\<lambda>_. True) P)"
  "guards P I c \<Longrightarrow> P x \<Longrightarrow> preserves I (kcreate c x)"
  "guards P I c \<Longrightarrow> P x \<Longrightarrow> preserves I (kupdate c x)" "guards P I c \<Longrightarrow> preserves I (kdelete c n)"
  by (simp_all add: guards_def)

lemma yields_currentObject:
  "guards P I c \<Longrightarrow> yields I (currentObject c n) (\<lambda>(cur, err). pred_option P cur)"
  unfolding currentObject_def by (rule yields_bind[OF guardsD(1)]) (auto intro!: yield_intros split: sum.splits)

text \<open>Not panicking is answering with a \<^const>\<open>Some\<close>.\<close>

abbreviation never_panics :: "('w \<Rightarrow> bool) \<Rightarrow> ('w, 'a option) state \<Rightarrow> bool" where
  "never_panics I m \<equiv> yields I m (\<lambda>r. r \<noteq> None)"

lemma writeDNSDaemonSet_never_panics:
  "preserves I (kupdate c x) \<Longrightarrow> never_panics I (writeDNSDaemonSet c x)"
  unfolding writeDNSDaemonSet_def by (intro yields_then yield_intros) simp_all

lemma updateDNSDaemonSet_never_panics:
  assumes c: "guards tameDS I c" and pa: "\<And>s n. preserves I (pa_listPods pa s n)" "\<And>s. preserves I (pa_listNodes pa s)"
    and cur: "tameDS cur"
    and exp: "length (ps_containers (ds_pod exp)) = 2" "noAdjacentDup (ps_tolerations (ds_pod exp))"
  shows "never_panics I (updateDNSDaemonSet c pa cur exp)"
proof -
  obtain r where r: "daemonsetConfigChanged cur exp = Some r"
    "\<And>upd. r = Some upd \<Longrightarrow> tameDS upd \<and> length (ps_containers (ds_pod upd)) = 2"
    using comparison_no_panic[OF cur exp] by metis
  have keep: "tameDS (keepPlacement cur upd)" "daemonsetConfigChanged cur (keepPlacement cur upd) \<noteq> None"
    if "r = Some upd" for upd
  proof -
    have k: "ps_containers (ds_pod (keepPlacement cur upd)) = ps_containers (ds_pod upd)"
      "ps_tolerations (ds_pod (keepPlacement cur upd)) = ps_tolerations (ds_pod cur)"
      by (simp_all add: keepPlacement_def with_pod_def)
    then show "tameDS (keepPlacement cur upd)" using r(2)[OF that] cur by (simp add: tameDS_def)
    show "daemonsetConfigChanged cur (keepPlacement cur upd) \<noteq> None"
      using comparison_no_panic[OF cur, of "keepPlacement cur upd"] r(2)[OF that] cur k by (auto simp: tameDS_def)
  qed
  have "preserves I (daemonsetUpdateIsSafe pa cur upd)" for upd
    unfolding daemonsetUpdateIsSafe_def by (intro pres_intros pa)
  then show ?thesis
    unfolding updateDNSDaemonSet_def r(1)
    by (auto simp: keep(2) r(2) keep(1) simp del: not_None_eq intro!: yield_intros yields_then writeDNSDaemonSet_never_panics guardsD[OF c])
qed

lemma ensureDNSDaemonSet_never_panics:
  assumes c: "guards tameDS I c" and pa: "\<And>s n. preserves I (pa_listPods pa s n)" "\<And>s. preserves I (pa_listNodes pa s)"
    and d: "tameDNS d"
  shows "never_panics I (ensureDNSDaemonSet c pa img proxy d revs prof)"
proof -
  have get: "yields I (currentDNSDaemonSet c d) (\<lambda>(cur, err). pred_option tameDS cur)"
    unfolding currentDNSDaemonSet_def by (rule yields_currentObject[OF c])
  have create: "preserves I (createDNSDaemonSet c x)" if "tameDS x" for x
    unfolding createDNSDaemonSet_def by (intro pres_intros guardsD(2)[OF c that])
  obtain ds where ds: "desiredDNSDaemonSet d img proxy revs prof = Inr ds" by (rule desired_daemonset)
  note desired = tame_desired[OF d ds]
  have update: "never_panics I (updateDNSDaemonSet c pa cur ds)" if "tameDS cur" for cur
    by (rule updateDNSDaemonSet_never_panics[OF c pa that desired(2,3)])
  show ?thesis
    unfolding ensureDNSDaemonSet_def ds
    by (rule yields_bind[OF get])
      (auto simp del: not_None_eq intro!: yield_intros yields_then[OF create] yields_then[OF preserves_yields[OF get]]
        yields_bind[OF update] desired)
qed

lemma ensureNodeResolver_never_panics:
  assumes c: "guards tameDS I c"
  shows "never_panics I (ensureNodeResolverDaemonSet c s img d ip cd)"
proof -
  let ?ds = "desiredNodeResolverDaemonSet s d ip cd img"
  have get: "yields I (currentNodeResolverDaemonSet c) (\<lambda>(cur, err). pred_option tameDS cur)"
    unfolding currentNodeResolverDaemonSet_def by (rule yields_currentObject[OF c])
  have create: "preserves I (createNodeResolverDaemonSet c ?ds)"
    unfolding createNodeResolverDaemonSet_def by (intro pres_intros guardsD(2)[OF c] tame_desired_resolver)
  have update: "never_panics I (updateNodeResolverDaemonSet c cur ?ds)" if cur: "tameDS cur" for cur
  proof -
    obtain r where r: "nodeResolverDaemonSetConfigChanged cur ?ds = Some r" "\<And>upd. r = Some upd \<Longrightarrow> tameDS upd"
      using resolver_comparison_no_panic[OF cur tame_desired_resolver] by metis
    then show ?thesis
      unfolding updateNodeResolverDaemonSet_def r(1)
      by (auto intro!: yield_intros yields_then guardsD(3)[OF c])
  qed
  show ?thesis
    unfolding ensureNodeResolverDaemonSet_def ensureNodeResolver_def
    by (rule yields_bind[OF get])
      (auto simp del: not_None_eq intro!: yield_intros yields_then[OF create] yields_then[OF preserves_yields[OF get]]
        yields_bind[OF update])
qed

section \<open>The reconciliation\<close>

text \<open>
  What the server has to promise about \<open>I\<close>: only tame daemonsets and DNSes are read as long as
  the writes are tame, a write of a DNS answers with a tame one, and no other kind of object is concerned.
\<close>

definition tames :: "('w \<Rightarrow> bool) \<Rightarrow> 'w dnsapi \<Rightarrow> bool" where
  "tames I api \<longleftrightarrow> guards tameDS I (da_daemonset api) \<and> guards tameDNS I (da_dns api)
     \<and> (\<forall>d. tameDNS d \<longrightarrow> yields I (da_updateDNS api d) (pred_sum (\<lambda>_. True) tameDNS))
     \<and> (\<forall>d. tameDNS d \<longrightarrow> preserves I (da_statusUpdate api d))
     \<and> leaves I (da_configmap api) \<and> leaves I (da_service api) \<and> leaves I (da_netpol api)
     \<and> leaves I (da_clusterRole api) \<and> leaves I (da_clusterRoleBinding api) \<and> leaves I (da_role api)
     \<and> leaves I (da_roleBinding api) \<and> leaves I (da_serviceAccount api) \<and> leaves I (da_namespace api)
     \<and> leaves I (da_serviceMonitor api)
     \<and> (\<forall>s n. preserves I (pa_listPods (da_placement api) s n)) \<and> (\<forall>s. preserves I (pa_listNodes (da_placement api) s))
     \<and> preserves I (da_listNodes api) \<and> preserves I (da_listCABundles api) \<and> preserves I (da_apiServer api)
     \<and> preserves I (da_network api) \<and> (\<forall>l. preserves I (da_setLevel api l))"

lemma tamesD:
  assumes "tames I api"
  shows "guards tameDS I (da_daemonset api)" "guards tameDNS I (da_dns api)"
    and "\<And>d. tameDNS d \<Longrightarrow> yields I (da_updateDNS api d) (pred_sum (\<lambda>_. True) tameDNS)"
    and "\<And>d. tameDNS d \<Longrightarrow> preserves I (da_statusUpdate api d)"
    and "leaves I (da_configmap api)" "leaves I (da_service api)" "leaves I (da_netpol api)"
    "leaves I (da_clusterRole api)" "leaves I (da_clusterRoleBinding api)" "leaves I (da_role api)"
    "leaves I (da_roleBinding api)" "leaves I (da_serviceAccount api)" "leaves I (da_namespace api)"
    "leaves I (da_serviceMonitor api)" "\<And>s n. preserves I (pa_listPods (da_placement api) s n)"
    "\<And>s. preserves I (pa_listNodes (da_placement api) s)" "preserves I (da_listNodes api)"
    "preserves I (da_listCABundles api)" "preserves I (da_apiServer api)" "preserves I (da_network api)"
    "\<And>l. preserves I (da_setLevel api l)"
  using assms by (simp_all add: tames_def)

lemma tameDNS_spec: "tameDNS d \<Longrightarrow> dns_spec x = dns_spec d \<Longrightarrow> tameDNS x"
  by (simp add: tameDNS_def tolerationsForDNS_def split: if_splits)

lemma finishDNS_never_panics:
  assumes "tames I api" "tameDNS d"
  shows "never_panics I (finishDNS api cfg clk d ds ip cd errs res)"
proof -
  have sync: "preserves I (syncDNSStatus (da_statusUpdate api) pp clk d ip' cd' ds' nr' tol' res')" for pp ip' cd' ds' nr' tol' res'
    by (rule preserves_syncDNSStatus) (blast intro: tamesD(4)[OF assms(1)] tameDNS_spec[OF assms(2)])
  show ?thesis
    unfolding finishDNS_def
    by (rule yields_bind[OF ensureNodeResolver_never_panics[OF tamesD(1)[OF assms(1)]]])
      (intro yield_intros yields_then sync; simp)
qed

lemma ensureWorkload_never_panics:
  assumes "tames I api" "tameDNS d"
  shows "never_panics I (ensureWorkload api cfg clk d ip cd revs prof errs res)"
proof -
  note t = tamesD[OF assms(1)]
  have "preserves I (ensureOperands api cfg d ds ip cd revs)" for ds
    unfolding ensureOperands_def ensureExposure_def by (intro pres_intros t)
  then show ?thesis
    unfolding ensureWorkload_def
    by (intro yields_bind[OF ensureDNSDaemonSet_never_panics[OF t(1,15,16) assms(2)]])
      (intro yield_intros yields_then finishDNS_never_panics[OF assms]; simp)
qed

lemma ensureDNS_never_panics:
  assumes "tames I api" "tameDNS d"
  shows "never_panics I (ensureDNS api cfg clk d res)"
  unfolding ensureDNS_def
  by (intro yields_then yield_intros pres_intros ensureWorkload_never_panics[OF assms] tamesD[OF assms(1)]) simp_all

lemma reconcileManaged_never_panics:
  assumes "tames I api" "tameDNS d"
  shows "never_panics I (reconcileManaged api cfg clk d errs)"
proof -
  note t = tamesD[OF assms(1)]
  have "yields I (enforceDNSFinalizer api d) (pred_sum (\<lambda>_. True) tameDNS)"
    unfolding enforceDNSFinalizer_def
    by (auto intro!: yield_intros yields_bind[OF t(3)] split: sum.split simp: assms(2) tameDNS_spec[OF assms(2)])
  moreover have "preserves I (ensureExternalNameForOpenshiftService api)"
    unfolding ensureExternalNameForOpenshiftService_def by (intro pres_intros t)
  ultimately show ?thesis
    unfolding reconcileManaged_def
    by (elim yields_bind) (intro yield_intros yields_then yields_bind[OF ensureDNS_never_panics[OF assms(1)]]; simp)
qed

lemma Reconcile_never_panics:
  assumes "tames I api"
  shows "never_panics I (Reconcile api cfg clk req)"
proof -
  note t = tamesD[OF assms]
  have ns: "preserves I (ensureDNSNamespace api b)" for b
    by (intro preserves_ensureDNSNamespace t)
  have "preserves I (reconcileUnmanaged api cfg clk d)" if "tameDNS d" for d
    by (rule preserves_reconcileUnmanaged)
      (blast intro: t(4,20) preserves_yields[OF guardsD(1)[OF t(1)]] tameDNS_spec[OF that])+
  moreover have "preserves I (reconcileDeleted api d errs)" if "tameDNS d" for d errs
  proof -
    have "tameDNS (withoutFinalizer d)" by (rule tameDNS_spec[OF that]) (simp add: withoutFinalizer_def)
    then show ?thesis
      unfolding reconcileDeleted_def ensureOpenshiftExternalNameServiceDeleted_def ensureDNSDeleted_def
        ensureDNSDaemonSetDeleted_def
      by (intro pres_intros leavesD t guardsD(4)[OF t(1)] preserves_yields[OF t(3)])
  qed
  ultimately have branches: "never_panics I (if spec_managementState (dns_spec d) = Unmanaged
      then do { x \<leftarrow> reconcileUnmanaged api cfg clk d; State_Monad.return (Some x) }
      else do {
        nsErr \<leftarrow> ensureDNSNamespace api (cfg_nameResolver cfg);
        let errs = errList ''failed to ensure dns namespace'' nsErr;
        (if m_deletionTimestamp (dns_meta d) \<noteq> None
         then do { x \<leftarrow> reconcileDeleted api d errs; State_Monad.return (Some x) }
         else reconcileManaged api cfg clk d errs)
      })" if "tameDNS d" for d
    using that by (intro yield_intros yields_then ns reconcileManaged_never_panics[OF assms]) simp_all
  show ?thesis
    unfolding Reconcile_def
    by (intro yield_intros yields_bind[OF guardsD(1)[OF t(2)]] yields_then[OF t(21)] branches) simp_all
qed

text \<open>
  C17: A reconciliation does not panic. Let \<open>I\<close> be a property of the cluster in which the
  server hands out only tame objects: daemonsets with at most two containers and DNSes and
  daemonsets without neighbouring tolerations that the sort cannot tell apart; and let writes of
  tame objects, and all writes of other kinds, keep \<open>I\<close>. Then, whatever the API answers otherwise (errors
  included), every reconciliation from a state with \<open>I\<close> returns, and leaves \<open>I\<close> true for
  the next one: the operator never writes the object that would make it panic.
\<close>

theorem reconcile_no_panic:
  assumes "tames I api" "I w"
  shows "\<exists>r w'. run_state (Reconcile api cfg clk req) w = (Some r, w') \<and> I w'"
  using Reconcile_never_panics[OF assms(1), of cfg clk req] assms(2) unfolding yields_def
  by (metis not_None_eq prod.collapse)

definition tameCluster :: "cluster \<Rightarrow> bool" where
  "tameCluster w \<longleftrightarrow> list_all (\<lambda>(_, ds). tameDS ds) (cl_daemonset w) \<and> list_all (\<lambda>(_, d). tameDNS d) (cl_dns w)"

lemma yields_zoom:
  assumes "yields J m Q" "\<And>w. I w \<Longrightarrow> J (g w)" "\<And>w s. I w \<Longrightarrow> J s \<Longrightarrow> I (u (\<lambda>_. s) w)"
  shows "yields I (zoom g u m) Q"
  using assms by (simp add: yields_def run_zoom)

lemma preserves_zoom_part:
  assumes "preserves J m" "\<And>w. I w \<Longrightarrow> J (g w)" "\<And>w s. I w \<Longrightarrow> J s \<Longrightarrow> I (u (\<lambda>_. s) w)"
  shows "preserves I (zoom g u m)"
  using assms by (simp add: preserves_def run_zoom)

lemma guards_clientOn:
  fixes c :: "('a, 'b) kclient"
  assumes "guards P J c" "\<And>w. I w \<Longrightarrow> J (g w)" "\<And>w s. I w \<Longrightarrow> J s \<Longrightarrow> I (u (\<lambda>_. s) w)"
  shows "guards P I (clientOn g u c)"
proof -
  have "yields I (zoom g u m) Q" if "yields J m Q" for m :: "('b, apierror + 'a) state" and Q
    using that assms(2,3) by (simp add: yields_def run_zoom)
  moreover have "preserves I (zoom g u m)" if "preserves J m" for m :: "('b, apierror option) state"
    using that assms(2,3) by (simp add: preserves_def run_zoom)
  ultimately show ?thesis using assms(1) by (simp add: guards_def clientOn_def)
qed

lemma list_all_update:
  "list_all (\<lambda>(_, x). P x) s \<Longrightarrow> P v \<Longrightarrow> list_all (\<lambda>(_, x). P x) (AList.update k v s)"
  by (induction s) auto

lemma list_all_map_of: "list_all (\<lambda>(_, x). P x) s \<Longrightarrow> map_of s k = Some v \<Longrightarrow> P v"
  by (auto simp: list_all_iff dest!: map_of_SomeD)

lemma guards_store: "guards P (list_all (\<lambda>(_, x). P x)) (storeClient key)"
proof -
  have "list_all (\<lambda>(_, x). P x) (AList.delete n s)" if "list_all (\<lambda>(_, x). P x) s" for n s
    using that by (auto simp: AList.delete_eq list_all_iff)
  then show ?thesis
    by (auto simp: guards_def yields_def preserves_def storeClient_def list_all_update
        split: option.split dest: list_all_map_of)
qed

lemma tames_clusterApi: "tames tameCluster clusterApi"
proof -
  have stored: "yields (list_all (\<lambda>(_, x). tameDNS x)) (storeDNS d) (pred_sum (\<lambda>_. True) tameDNS)" if "tameDNS d" for d
    using that by (auto simp: yields_def storeDNS_def list_all_update)
  have "yields tameCluster (zoom cl_dns cl_dns_update (storeDNS d)) (pred_sum (\<lambda>_. True) tameDNS)" if "tameDNS d" for d
    by (rule yields_zoom[OF stored[OF that]]) (simp_all add: tameCluster_def)
  moreover have "tameDNS (x\<lparr>dns_status := st\<rparr>) = tameDNS x" for x st
    by (simp add: tameDNS_def tolerationsForDNS_def)
  then have "preserves (list_all (\<lambda>(_, x). tameDNS x)) (storeStatus d)" for d
    by (auto simp: preserves_def storeStatus_def split: option.split intro!: list_all_update dest: list_all_map_of)
  then have "preserves tameCluster (zoom cl_dns cl_dns_update (storeStatus d))" for d
    by (rule preserves_zoom_part) (auto simp: tameCluster_def)
  moreover have "guards tameDS tameCluster (clientOn cl_daemonset cl_daemonset_update (storeClient ds_key))"
    "guards tameDNS tameCluster (clientOn cl_dns cl_dns_update (storeClient dns_key))"
    by (rule guards_clientOn[OF guards_store]; simp add: tameCluster_def)+
  ultimately show ?thesis
    by (simp add: tames_def clusterApi_def clusterPlacement_def leaves_clientOn tameCluster_def pres_intros preserves_zoom)
qed

theorem reconcile_no_panic_witness:
  "tames tameCluster clusterApi \<and> tameCluster (clusterWith sample_default sample_running)
   \<and> (\<exists>r w'. run_state (Reconcile clusterApi sample_config sample_clock DefaultDNSNamespaceName)
        (clusterWith sample_default sample_running) = (Some r, w') \<and> tameCluster w')"
proof -
  have tame: "tameDNS sample_default"
    by (simp add: tameDNS_def sample_default_def emptyDNS_def tolerationsForDNS_def noAdjacentDup_def sliceIsSorted_def)
  obtain ds where ds: "desiredDNSDaemonSet sample_default ''coredns'' ''proxy'' [] None = Inr ds" by (rule desired_daemonset)
  have "tameCluster (clusterWith sample_default sample_running)"
    using tame tame_desired(1)[OF tame ds] by (simp add: tameCluster_def clusterWith_def sample_running_def ds tameDS_def)
  then show ?thesis using reconcile_no_panic[OF tames_clusterApi] tames_clusterApi by blast
qed

end
