(* ===== verification/Success.thy ===== *)
theory Success
  imports Settling No_Panic
begin

text \<open>
  That a reconciliation succeeds. \<open>Settling\<close> says what the cluster looks like when \<open>Reconcile\<close> reports no error
  and \<open>No_Panic\<close> that it returns; here it is shown that it does report no error when nothing in the cluster
  stands in its way. The locale \<open>working_client\<close> is the contract of an API server that answers every call,
  interpreted on the stores of the cluster; its lemmas give that every create-or-update of the controller
  succeeds, and the lemmas after it follow \<open>Reconcile\<close> (pkg/operator/controller/controller.go) from the
  namespace down to the status, and through the deletion of a DNS to the removal of its finalizer.
\<close>

section \<open>A server that works\<close>


section \<open>The cluster works\<close>












section \<open>Every step succeeds\<close>














section \<open>CA bundles\<close>






section \<open>The daemonsets\<close>







section \<open>The reconciliation\<close>



definition finished :: "(goerror option \<times> rresult) option \<Rightarrow> bool" where
  "finished r \<longleftrightarrow> (case r of None \<Rightarrow> True | Some (e, _) \<Rightarrow> pred_option is_retryable e)"

lemma finished_simps [simp]: "finished None" "finished (Some (e, res)) = pred_option is_retryable e"
  by (simp_all add: finished_def)








section \<open>Deletion succeeds\<close>








section \<open>Properties\<close>





end
