(* ===== verification/Operands_Fit.thy ===== *)
theory Operands_Fit
  imports Cluster
begin

text \<open>
  The objects that the operator wants for a DNS, taken together: a pod is well formed when its mounts
  and names resolve, and the daemonset, the service, the network policy and the configmap refer to each
  other by labels, port names, secrets and keys that exist.
\<close>

section \<open>Well-formed operands\<close>

text \<open>A container port without a protocol is a TCP port.\<close>

definition portFor :: "serviceport \<Rightarrow> containerport \<Rightarrow> bool" where
  "portFor sp cp \<longleftrightarrow> sp_targetPort sp = StrVal (cp_name cp)
     \<and> sp_protocol sp = (if cp_protocol cp = '''' then ''TCP'' else cp_protocol cp)"

definition podWellFormed :: "podspec \<Rightarrow> bool" where
  "podWellFormed p \<longleftrightarrow> distinct (map ct_name (ps_containers p))
     \<and> list_all (\<lambda>ct. list_all (\<lambda>m. list_ex (\<lambda>v. vol_name v = vm_name m) (ps_volumes p)) (ct_volumeMounts ct))
         (ps_containers p)"

definition templateWellFormed :: "daemonset \<Rightarrow> bool" where
  "templateWellFormed ds \<longleftrightarrow> podWellFormed (ds_pod ds)
     \<and> (case dss_selector (ds_spec ds) of None \<Rightarrow> False
        | Some s \<Rightarrow> ls_matchLabels s \<noteq> [] \<and> matchesLabels (ls_matchLabels s) (pt_labels (ds_template ds)))"

definition admits :: "networkpolicy \<Rightarrow> serviceport \<Rightarrow> containerport \<Rightarrow> bool" where
  "admits np sp cp \<longleftrightarrow>
     list_ex (\<lambda>r. (sp_protocol sp, IntVal (cp_containerPort cp)) \<in> set (nr_ports r)) (nps_ingress (npol_spec np))"

definition serviceReaches :: "service \<Rightarrow> networkpolicy \<Rightarrow> daemonset \<Rightarrow> bool" where
  "serviceReaches svc np ds \<longleftrightarrow> matchesLabels (ss_selector (svc_spec svc)) (pt_labels (ds_template ds))
     \<and> list_all (\<lambda>sp. list_ex (\<lambda>ct. list_ex (\<lambda>cp. portFor sp cp \<and> admits np sp cp) (ct_ports ct))
         (ps_containers (ds_pod ds))) (ss_ports (svc_spec svc))"

definition policyCovers :: "networkpolicy \<Rightarrow> daemonset \<Rightarrow> bool" where
  "policyCovers np ds \<longleftrightarrow> m_namespace (npol_meta np) = m_namespace (ds_meta ds)
     \<and> ls_matchExpressions (nps_podSelector (npol_spec np)) = []
     \<and> matchesLabels (ls_matchLabels (nps_podSelector (npol_spec np))) (pt_labels (ds_template ds))"

lemma desired_pod:
  assumes "desiredDNSDaemonSet d img proxy revs prof = Inr ds"
  shows "dss_selector (ds_spec ds) = Some (DNSDaemonSetPodSelector d)"
    "pt_labels (ds_template ds) = ls_matchLabels (DNSDaemonSetPodSelector d)"
    "m_namespace (ds_meta ds) = DefaultOperandNamespace"
    "ps_serviceAccountName (ds_pod ds) = ''dns''"
  using assms by (auto simp: desiredDNSDaemonSet_def Let_def DNSDaemonSetName_def DNSDaemonSet_def split: if_splits prod.splits)

lemma in_map_filter: "x \<in> set (List.map_filter f xs) \<longleftrightarrow> (\<exists>y\<in>set xs. f y = Some x)"
  by (induction xs) (auto simp: map_filter_Cons List.map_filter_def split: option.splits)

lemma bundle_mount: "caBundleFor revs tc = Some (v, m) \<Longrightarrow> vol_name v = vm_name m"
  by (auto simp: caBundleFor_def caBundleCMVolAndVolMount_def Let_def split: option.splits if_splits)

lemma bundle_mounted: "(v, m) \<in> set (caBundles revs d) \<Longrightarrow> vol_name v = vm_name m"
  unfolding caBundles_def in_map_filter using bundle_mount by blast

lemma selector_self: "matchesLabels (ls_matchLabels (DNSDaemonSetPodSelector d)) (ls_matchLabels (DNSDaemonSetPodSelector d))"
  by (simp add: matchesLabels_def DNSDaemonSetPodSelector_def)

lemma complete_volume_name [simp]: "vol_name (completeVolume d v) = vol_name v"
  by (simp add: completeVolume_def split: volumesource.split)

lemma desired_contents:
  assumes "desiredDNSDaemonSet d img proxy revs prof = Inr ds"
  shows "ps_containers (ds_pod ds) =
      [dnsContainer\<lparr>ct_image := img, ct_volumeMounts := ct_volumeMounts dnsContainer @ map snd (caBundles revs d)\<rparr>,
       kubeRBACProxyContainer\<lparr>ct_image := proxy, ct_args := kubeRBACProxyArgs prof\<rparr>]"
    "ps_volumes (ds_pod ds) = map (completeVolume d) (ps_volumes (ds_pod DNSDaemonSet)) @ map fst (caBundles revs d)"
  using desired_daemonset[of d img proxy revs prof] assms by (metis sum.inject(2))+

lemma desired_template:
  assumes "desiredDNSDaemonSet d img proxy revs prof = Inr ds"
  shows "templateWellFormed ds"
proof -
  have fixed: "list_all (\<lambda>m. list_ex (\<lambda>v. vol_name v = vm_name m) (ps_volumes (ds_pod DNSDaemonSet)))
      (ct_volumeMounts dnsContainer @ ct_volumeMounts kubeRBACProxyContainer)"
    by (simp add: DNSDaemonSet_def dnsContainer_def kubeRBACProxyContainer_def mount_def)
  have "\<exists>v\<in>set (ps_volumes (ds_pod ds)). vol_name v = vm_name m"
    if m: "m \<in> set (ct_volumeMounts dnsContainer @ ct_volumeMounts kubeRBACProxyContainer) \<or> m \<in> snd ` set (caBundles revs d)" for m
    using m
  proof
    assume "m \<in> snd ` set (caBundles revs d)"
    then obtain v where "(v, m) \<in> set (caBundles revs d)" by auto
    then show ?thesis
      using bundle_mounted[of v m revs d] by (force simp: desired_contents[OF assms])
  next
    assume "m \<in> set (ct_volumeMounts dnsContainer @ ct_volumeMounts kubeRBACProxyContainer)"
    then obtain v where "v \<in> set (ps_volumes (ds_pod DNSDaemonSet))" "vol_name v = vm_name m"
      using fixed by (auto simp: list_all_iff list_ex_iff)
    then show ?thesis by (intro bexI[of _ "completeVolume d v"]) (simp_all add: desired_contents[OF assms])
  qed
  then have "podWellFormed (ds_pod ds)"
    unfolding podWellFormed_def list_all_iff list_ex_iff desired_contents(1)[OF assms]
    by (auto simp: dnsContainer_def kubeRBACProxyContainer_def)
  then show ?thesis
    using selector_self[of d]
    by (simp add: templateWellFormed_def desired_pod[OF assms]) (simp add: DNSDaemonSetPodSelector_def)
qed

lemma desired_reachable:
  assumes "desiredDNSDaemonSet d img proxy revs prof = Inr ds"
  shows "serviceReaches (desiredDNSService d ip h ref) (desiredDNSNetworkPolicy d) ds" "policyCovers (desiredDNSNetworkPolicy d) ds"
proof -
  have "ss_selector (svc_spec (desiredDNSService d ip h ref)) = ls_matchLabels (DNSDaemonSetPodSelector d)"
    "ss_ports (svc_spec (desiredDNSService d ip h ref)) = ss_ports (svc_spec DNSService)"
    by (simp_all add: desiredDNSService_def Let_def)
  moreover have "nps_ingress (npol_spec (desiredDNSNetworkPolicy d)) = nps_ingress (npol_spec DNSNetworkPolicy)"
    by (simp add: desiredDNSNetworkPolicy_def Let_def)
  ultimately show "serviceReaches (desiredDNSService d ip h ref) (desiredDNSNetworkPolicy d) ds"
    using selector_self[of d]
    by (simp add: serviceReaches_def desired_pod[OF assms] desired_contents(1)[OF assms])
      (simp add: DNSService_def servicePort_def portFor_def admits_def DNSNetworkPolicy_def dnsContainer_def
        kubeRBACProxyContainer_def port_def)
  show "policyCovers (desiredDNSNetworkPolicy d) ds"
    using selector_self[of d]
    by (simp add: policyCovers_def desired_pod[OF assms] desiredDNSNetworkPolicy_def Let_def DNSNetworkPolicyName_def
        DefaultOperandNamespace_def)
      (simp add: DNSDaemonSetPodSelector_def)
qed

lemma desired_mounts:
  assumes "desiredDNSDaemonSet d img proxy revs prof = Inr ds"
  shows "\<lparr>vol_name = ''metrics-tls'', vol_source = VSecret \<lparr>sv_secretName = DNSMetricsSecretName d, sv_items = [],
       sv_defaultMode = None, sv_optional = None\<rparr>\<rparr> \<in> set (ps_volumes (ds_pod ds))"
    "\<lparr>vol_name = ''config-volume'', vol_source = VConfigMap \<lparr>cmv_name = nn_name (DNSConfigMapName d),
       cmv_items = [\<lparr>kp_key = ''Corefile'', kp_path = ''Corefile'', kp_mode = None\<rparr>],
       cmv_defaultMode = None, cmv_optional = None\<rparr>\<rparr> \<in> set (ps_volumes (ds_pod ds))"
  by (simp_all add: desired_contents(2)[OF assms] DNSDaemonSet_def completeVolume_def)

lemma desired_corefile_data: "desiredDNSConfigMap toU32 d cd revs nr nss = Inr cm \<Longrightarrow> fst ` set (cm_data cm) = {''Corefile''}"
  by (auto simp: desiredDNSConfigMap_def Let_def split: sum.splits if_splits)

section \<open>Properties\<close>

text \<open>
  C19: The operands of a DNS fit together. The pods of the desired daemonset are well formed (container names are
  distinct and every mount, those of the CA bundles included, has its volume), the daemonset selects its
  own pods, the service selects them too and every one of its target ports is a named port of the pods
  with the right protocol that an ingress rule of the network policy admits, the policy covers these pods, the metrics certificate that the service asks for is
  the secret that the pods mount, and the configmap that they mount is the one with the Corefile.
\<close>

theorem operands_fit:
  assumes "desiredDNSDaemonSet d img proxy revs prof = Inr ds"
    and "desiredDNSConfigMap toU32 d cd revs nr nss = Inr cm"
  shows "templateWellFormed ds
    \<and> serviceReaches (desiredDNSService d ip h ref) (desiredDNSNetworkPolicy d) ds \<and> policyCovers (desiredDNSNetworkPolicy d) ds
    \<and> (\<exists>s v. map_of (m_annotations (svc_meta (desiredDNSService d ip h ref))) MetricsServingCertAnnotation = Some s
        \<and> v \<in> set (ps_volumes (ds_pod ds)) \<and> vol_name v = ''metrics-tls''
        \<and> vol_source v = VSecret \<lparr>sv_secretName = s, sv_items = [], sv_defaultMode = None, sv_optional = None\<rparr>)
    \<and> (\<exists>v c. v \<in> set (ps_volumes (ds_pod ds)) \<and> vol_name v = ''config-volume'' \<and> vol_source v = VConfigMap c
        \<and> \<lparr>nn_ns = m_namespace (ds_meta ds), nn_name = cmv_name c\<rparr> = meta_key (cm_meta cm)
        \<and> list_all (\<lambda>i. kp_key i \<in> fst ` set (cm_data cm)) (cmv_items c))"
proof -
  note key = desired_Inr[OF assms(2)]
  have "map_of (m_annotations (svc_meta (desiredDNSService d ip h ref))) MetricsServingCertAnnotation = Some (DNSMetricsSecretName d)"
    by (simp add: desiredDNSService_def Let_def gomap_simps MetricsServingCertAnnotation_def topologyAwareHintsAnnotationKey_def)
  moreover have "\<lparr>nn_ns = m_namespace (ds_meta ds), nn_name = nn_name (DNSConfigMapName d)\<rparr> = meta_key (cm_meta cm)"
    using key desired_pod(3)[OF assms(1)] by (simp add: DNSConfigMapName_def DefaultOperandNamespace_def)
  ultimately show ?thesis
    using desired_template[OF assms(1)] desired_reachable[OF assms(1)] desired_mounts[OF assms(1)]
      desired_corefile_data[OF assms(2)]
    by (intro conjI exI) (assumption | simp)+
qed

theorem operands_fit_witness:
  "\<exists>ds. desiredDNSDaemonSet emptyDNS ''coredns'' ''proxy'' [] None = Inr ds \<and> templateWellFormed ds
     \<and> serviceReaches (desiredDNSService emptyDNS ''172.30.0.10'' False (dnsOwnerRef emptyDNS)) (desiredDNSNetworkPolicy emptyDNS) ds"
proof -
  obtain ds where ds: "desiredDNSDaemonSet emptyDNS ''coredns'' ''proxy'' [] None = Inr ds" by (rule desired_daemonset)
  have "case desiredDNSConfigMap id emptyDNS ''cluster.local'' [] False [] of Inl _ \<Rightarrow> False | Inr _ \<Rightarrow> True" by code_simp
  then obtain cm where "desiredDNSConfigMap id emptyDNS ''cluster.local'' [] False [] = Inr cm" by (auto split: sum.splits)
  from operands_fit[OF ds this] ds show ?thesis by blast
qed

end
