(* ===== verification/Assets.thy ===== *)
theory Assets
  imports Manifests
begin

text \<open>
  \<open>pkg/manifests/manifests.go\<close> at work: looking an embedded file up, decoding it into a struct, and
  panicking when either fails. The file system that the build embeds and the vendored YAML reader are
  arguments (\<open>content\<close>, \<open>readYAML\<close>); the documents of the assets are written out as trees, and a
  decoder per struct follows the json tags of its fields: a missing key or a null leaves the zero
  value, an unknown key is ignored, a value of another kind is an error. \<^const>\<open>None\<close> is the error of a
  \<open>New\<close> function and the panic of its callers. The objects of \<open>Manifests\<close> are what comes out.
\<close>

section \<open>Documents\<close>















definition nodeResolverScriptAsset :: string where
  "nodeResolverScriptAsset = ''assets/node-resolver/update-node-resolver.sh''"














section \<open>Decoding\<close>














subsection \<open>Metadata and access objects\<close>










subsection \<open>Services and network policies\<close>






subsection \<open>Daemonsets\<close>















section \<open>Assets\<close>

definition MustAsset :: "(string \<Rightarrow> 'b option) \<Rightarrow> string \<Rightarrow> 'b option" where
  "MustAsset content asset = (case content asset of None \<Rightarrow> None | Some b \<Rightarrow> Some b)"

definition MustAssetString :: "(string \<Rightarrow> 'b option) \<Rightarrow> ('b \<Rightarrow> string) \<Rightarrow> string \<Rightarrow> string option" where
  "MustAssetString content toString asset = map_option toString (MustAsset content asset)"


























definition NodeResolverScript :: "(string \<Rightarrow> 'b option) \<Rightarrow> ('b \<Rightarrow> string) \<Rightarrow> string option" where
  "NodeResolverScript content toString = MustAssetString content toString nodeResolverScriptAsset"



section \<open>Properties\<close>




















end
