(* ===== verification/Spec2Isabelle.thy ===== *)
theory Spec2Isabelle
  imports Process Success Sort_Ends Operands_Fit Assets
begin

text \<open>
  \<^bold>\<open>The cluster DNS operator\<close>

  The operator runs CoreDNS in an OpenShift cluster. Its users describe what they want in a
  DNS resource (\<open>dnses.operator.openshift.io/default\<close>); the operator turns it into a daemonset
  of CoreDNS pods, a configmap with their Corefile, copies of the CA bundles they need, a
  service, network policies, access control, a service monitor and a second daemonset that
  keeps the hosts files of the nodes up to date, and reports how that is going, in the status of the
  DNS and in the ClusterOperator resource \<open>dns\<close>.

  \<^bold>\<open>Parts and theories\<close>

  \<^item> \<open>Prelude\<close>, \<open>Go_Lib\<close>, \<open>Go_Net\<close>: Go maps, strings, errors, time, stable sorting with
    \<open>cmpopts.SortSlices\<close> and its panic, IP addresses and prefixes.
  \<^item> \<open>Util\<close>: \<open>pkg/util/slice\<close>, \<open>pkg/util/retryableerror\<close>.
  \<^item> \<open>Kube_Types\<close>, \<open>Names\<close>, \<open>Manifests\<close>: API objects as records, \<open>names.go\<close>, the objects of \<open>pkg/manifests\<close>;
    \<open>Assets\<close>: how \<open>manifests.go\<close> gets them from its embedded YAML files, with a decoder per struct.
  \<^item> \<open>Sort_Ends\<close>: the loops of the stable sort without a counter, and that they end.
  \<^item> \<open>Kube_API\<close>: the API client as a record of actions over an arbitrary world, the shapes the
    \<open>currentX\<close>, \<open>updateX\<close>, \<open>ensureX\<close> functions share, and the locale \<open>change_detector\<close>: the contract
    between a comparison (\<open>xChanged\<close>) and the operation that uses it. Convergence (an ensured
    object is as desired, ensuring it again writes nothing) is proved once in the locale.
  \<^item> \<open>Corefile\<close> (\<open>controller_dns_configmap.go\<close>), \<open>DNS_Service\<close>, \<open>Network_Policy\<close>, \<open>Cluster_Role\<close>,
    \<open>Service_Monitor\<close>: one operand each, with the interpretation of the locale on its comparison.
  \<^item> \<open>CA_Bundle\<close>, \<open>TLS_Profile\<close>, \<open>Cluster_IP\<close>, \<open>Node_Placement\<close>: CA bundle copies and their revisions,
    \<open>tls.go\<close>, the service address, node selectors and tolerations.
  \<^item> \<open>DNS_DaemonSet\<close>, \<open>Node_Resolver\<close>: the two daemonsets. Their comparisons can panic, so they
    have convergence proofs of their own.
  \<^item> \<open>DNS_Status\<close>: \<open>dns_status.go\<close>, the conditions of the DNS and their publication.
  \<^item> \<open>Controller\<close>: \<open>controller.go\<close>, from \<open>Reconcile\<close> down to every operand; \<open>Cluster\<close>: an executable
    cluster that satisfies the contracts assumed of a server; \<open>Reconciliation\<close>: properties of whole
    reconciliations; \<open>No_Panic\<close>: triples over actions, and that the reconciler keeps the
    cluster in a state in which it cannot panic; \<open>Realised\<close>, \<open>Realised_Workload\<close>, \<open>Settling\<close>: what a cluster looks like that
    is as a DNS asks for, operand by operand, that a reconciliation leads there, and that it stays there; \<open>Success\<close>: that a
    reconciliation succeeds when nothing in the cluster stands in its way.
  \<^item> \<open>Operands_Fit\<close>: the desired objects taken together.
  \<^item> \<open>Status_Controller\<close>, \<open>Status_Reports\<close>: \<open>status/controller.go\<close>, the ClusterOperator, and its properties.
  \<^item> \<open>Interference\<close>: an API whose calls may fail, with or without effect, and between whose calls others act;
    the locale \<open>steady\<close>: what holds after every call although they do.
  \<^item> \<open>Operator\<close>: \<open>operator.go\<close>, the configuration of both controllers, the default DNS, and the
    state machine of the operator among users, API server and environment.
  \<^item> \<open>Watches\<close>: \<open>New\<close> of both controllers, as the requests that an event of a watched kind leads to, with
    the handlers of the controller runtime.
  \<^item> \<open>Command_Line\<close>: the \<open>flag\<close> package; \<open>Startup\<close>: \<open>main\<close> and \<open>New\<close> of \<open>operator.go\<close>: from the command line, environment
    variables and feature gates to the parts of a running operator; \<open>Process\<close>: \<open>Start\<close> as a step relation of its goroutines, up to the exit code, and the client package.
  \<^item> This theory: properties that span components.

  \<^bold>\<open>How code and model correspond\<close>

  Definitions have the names of the Go functions and keep their order of effects; a loop or a
  branch that is a definition of its own says so where it stands. A struct is a record, a pointer that may be
  nil and a pair \<open>(have, object)\<close> are options, \<open>(changed, updated)\<close> is an option, an error is a
  value, and a panic is \<^const>\<open>None\<close>. Effects are actions of the state monad over the world
  behind the API. The clock, the order in which Go visits a map, the text of a toleration list
  (\<open>%+v\<close> prints addresses), the printing of non-ASCII text by \<open>%q\<close>, and out-of-range float conversions are
  arguments. Every definition is total. Fuel is used in the merge phase of Go's stable sort, where it is the
  length of the slice: a merge call works on strictly shorter intervals, and \<open>symMerge_fuel\<close>,
  \<open>merge_blocks_fuel\<close> and \<open>merge_passes_fuel\<close> show that more fuel changes nothing; \<open>Sort_Ends\<close> has the same loops as
  partial functions, which return that very value. The loops that read and print
  IPv6 addresses have eight rounds, as many as an address has groups.

  \<^bold>\<open>What the lemmas show\<close>

  \<^item> Each operand: what is desired, when building it fails, that updates settle and writes stop.
  \<^item> The reconciler: it succeeds when nothing in the cluster stands in its way; success means that every operand is in the
    cluster as the DNS asks for, and then reconciling
    again, at any time, writes nothing but the status; an unmanaged DNS is left alone;
    a deleted DNS goes away, its finalizer last; no interleaving of operator, users and API server, between any two calls
    of a reconciliation, and no failing call or crash leaves a DNS
    daemonset without a DNS that carries the finalizer; a degraded DNS is retried; a reconciliation
    does not panic as long as nobody else writes objects that make it.
  \<^item> Events: whatever happens to a watched operand, the controller runs for its DNS.
  \<^item> Starting: when the process comes up, when it exits and when it panics, and that what it has put together fits the
    rest: images are set, the cache covers the operands, the metrics server follows the cluster's TLS profile.
  \<^item> Running: the process with its goroutines refines the state machine of the operator, brings the default DNS back, exits when it is
    told to, and its exit code says why.
  \<^item> Status: which conditions are reported when, that healthy states are quiet, that versions are bumped
    after the rollout and the operator's version last, and that Degraded=True is never published.
  \<^item> Across components: Corefile and mounts agree on CA paths, service, pods and
    network policy on ports and labels, both controllers on images and container names, and the
    manifests that the model starts from are what the embedded documents decode to.
  \<^item> Where the code does not do what it means to, the behaviour is proved as it is: the panics of the
    daemonset comparison, duplicate volume names, an upgrade message that never settles.

  \<^bold>\<open>Not modelled\<close>

  Logging; the delivery of signals, the queues and caches of the controller runtime, the informers
  behind the feature gates, and the reading of YAML text into a tree, which are I/O or
  calls of libraries; resource versions and conflicts, which appear as failing calls. In the state machine and in the
  process, users, the API server, the rest of the cluster and the task that brings the default DNS back act between any
  two calls of a reconciliation; what they do not do there is to take finalizers off a DNS or to create daemonsets, and
  there is no second reconciliation of the DNS at the same time, which the controller runtime rules out.
\<close>

section \<open>The operands fit together\<close>

text \<open>
  C27: The CA bundle of an upstream is where the Corefile says. When the Corefile of a DNS gives a path for the CA
  bundle of one of its TLS transports, the \<open>dns\<close> container mounts, at the directory of that path, a volume with the
  operator's copy of that very bundle, whose file has the name at the end of the path.
\<close>

theorem corefile_ca_path_mounted:
  assumes "sanitizeTLSSettings d = Inr d'" "tc \<in> set (transports d')" "tc_tls tc = Some tls" "tls_serverName tls \<noteq> ''''"
    and "path = caBundlePath (corefileParameters toU32 d' ur domain_name revs nameResolver namespaces) tls" "path \<noteq> ''''"
    and "map_of revs '''' = None"
    and "desiredDNSDaemonSet d img proxy revs prof = Inr ds"
  shows "\<exists>ct m v cv. ct \<in> set (ps_containers (ds_pod ds)) \<and> ct_name ct = ''dns''
    \<and> m \<in> set (ct_volumeMounts ct) \<and> v \<in> set (ps_volumes (ds_pod ds)) \<and> vm_name m = vol_name v
    \<and> path = '' '' @ vm_mountPath m @ ''/'' @ caBundleFileName
    \<and> vol_source v = VConfigMap cv \<and> cmv_name cv = nn_name (CABundleConfigMapName (tls_caBundle tls))
    \<and> (\<exists>k\<in>set (cmv_items cv). kp_key k = caBundleFileName \<and> kp_path k = caBundleFileName)"
proof -
  have "d' = sanitized d" using assms(1) by (simp add: sanitize_Inr)
  then have "transports d' = map defaultTransport (transports d)"
    by (simp add: transports_def sanitized_def withDefaults_def)
  then obtain tc0 where tc0: "tc0 \<in> set (transports d)" "tc = defaultTransport tc0" using assms(2) by auto
  then have tls: "tc_tls tc0 = Some tls"
    using assms(3,4) by (cases "tc_tls tc0") (auto simp: defaultTransport_def Let_def split: if_splits)
  have rev: "gm_get revs (tls_caBundle tls) \<noteq> ''''"
    and path: "path = '' /etc/pki/'' @ tls_serverName tls @ ''-'' @ gm_get revs (tls_caBundle tls) @ ''/'' @ caBundleFileName"
    using assms(5,6) by (auto simp: caBundlePath_def corefileParameters_def Let_def split: if_splits)
  then obtain r where r: "map_of revs (tls_caBundle tls) = Some r" "gm_get revs (tls_caBundle tls) = r"
    by (auto simp: gm_get_def split: option.splits)
  then have "tls_caBundle tls \<noteq> ''''" using assms(7) by auto
  then obtain v m where vm: "caBundleFor revs tc0 = Some (v, m)"
    and fields: "v = \<lparr>vol_name = nn_name (CABundleConfigMapName (tls_caBundle tls)),
        vol_source = VConfigMap \<lparr>cmv_name = nn_name (CABundleConfigMapName (tls_caBundle tls)),
          cmv_items = [\<lparr>kp_key = caBundleFileName, kp_path = caBundleFileName, kp_mode = None\<rparr>],
          cmv_defaultMode = None, cmv_optional = None\<rparr>\<rparr>"
      "m = \<lparr>vm_name = nn_name (CABundleConfigMapName (tls_caBundle tls)),
        vm_mountPath = ''/etc/pki/'' @ tls_serverName tls @ ''-'' @ r, vm_readOnly = True\<rparr>"
    using tls r by (simp add: caBundleFor_def caBundleCMVolAndVolMount_def Let_def)
  have "(v, m) \<in> set (caBundles revs d)"
    using vm tc0(1) unfolding caBundles_def transports_def[symmetric]
    by (force simp: List.map_filter_def image_iff)
  then have "m \<in> set (map snd (caBundles revs d))" "v \<in> set (map fst (caBundles revs d))"
    by (auto simp: image_iff intro: bexI[of _ "(v, m)"])
  then show ?thesis
    unfolding desired_contents[OF assms(8)]
    using fields path r
    by (intro exI[of _ "dnsContainer\<lparr>ct_image := img, ct_volumeMounts := ct_volumeMounts dnsContainer @ map snd (caBundles revs d)\<rparr>"]
        exI[of _ m] exI[of _ v]) (auto simp: dnsContainer_def)
qed

definition sample_tls_dns :: dns where
  "sample_tls_dns = emptyDNS\<lparr>dns_spec := (dns_spec emptyDNS)\<lparr>spec_upstreamResolvers :=
     \<lparr>ur_upstreams = [\<lparr>up_type = NetworkResolverType, up_address = ''1.1.1.1'', up_port = 853\<rparr>], ur_policy = '''',
      ur_transportConfig = \<lparr>tc_transport = TLSTransport,
        tc_tls = Some \<lparr>tls_serverName = ''dns.example.com'', tls_caBundle = ''corp''\<rparr>\<rparr>,
      ur_protocolStrategy = ''''\<rparr>\<rparr>\<rparr>"

theorem corefile_ca_path_mounted_witness:
  "\<exists>ds ct m. desiredDNSDaemonSet sample_tls_dns ''coredns'' ''proxy'' [(''corp'', ''ca-corp-7'')] None = Inr ds
     \<and> ct \<in> set (ps_containers (ds_pod ds)) \<and> m \<in> set (ct_volumeMounts ct)
     \<and> '' /etc/pki/dns.example.com-ca-corp-7/ca-bundle.crt'' = '' '' @ vm_mountPath m @ ''/ca-bundle.crt''"
proof -
  let ?ur = "spec_upstreamResolvers (dns_spec sample_tls_dns)"
  let ?tls = "\<lparr>tls_serverName = ''dns.example.com'', tls_caBundle = ''corp''\<rparr>"
  let ?p = "corefileParameters id sample_tls_dns ?ur ''cluster.local'' [(''corp'', ''ca-corp-7'')] False []"
  have s: "sanitizeTLSSettings sample_tls_dns = Inr sample_tls_dns" by code_simp
  have tc: "ur_transportConfig ?ur \<in> set (transports sample_tls_dns)" by (simp add: transports_def)
  have tls: "tc_tls (ur_transportConfig ?ur) = Some ?tls" by (simp add: sample_tls_dns_def)
  have path: "'' /etc/pki/dns.example.com-ca-corp-7/ca-bundle.crt'' = caBundlePath ?p ?tls" by code_simp
  obtain ds where ds: "desiredDNSDaemonSet sample_tls_dns ''coredns'' ''proxy'' [(''corp'', ''ca-corp-7'')] None = Inr ds"
    by (rule desired_daemonset)
  have "\<exists>ct m. ct \<in> set (ps_containers (ds_pod ds)) \<and> m \<in> set (ct_volumeMounts ct)
      \<and> '' /etc/pki/dns.example.com-ca-corp-7/ca-bundle.crt'' = '' '' @ vm_mountPath m @ ''/'' @ caBundleFileName"
    using corefile_ca_path_mounted[OF s tc tls _ path _ _ ds] by fastforce
  then show ?thesis using ds unfolding caBundleFileName_def by (simp only: append.simps) blast
qed

section \<open>From the rollout to the reported version\<close>

lemma length_filter_concat:
  assumes "\<forall>p\<in>set ps. \<exists>c\<in>set (f p). P c"
  shows "length ps \<le> length (filter P (concat (map f ps)))"
  using assms
proof (induction ps)
  case (Cons p ps)
  then have "filter P (f p) \<noteq> []" by (auto simp: filter_empty_conv)
  then have "1 \<le> length (filter P (f p))" by (cases "filter P (f p)") auto
  then show ?case using Cons by simp
qed simp

lemma instances_at_least:
  assumes "\<forall>p\<in>set pods. IsPodAvailable p m now \<longrightarrow> (\<exists>c\<in>set (pod_containers p). runsNew new n c)"
  shows "int (length (filter (\<lambda>p. IsPodAvailable p m now) pods)) \<le> instancesAt new n m now pods"
  using length_filter_concat[of "filter (\<lambda>p. IsPodAvailable p m now) pods" pod_containers "runsNew new n"] assms
  by (simp add: instancesAt_def)

text \<open>
  C25: A finished rollout is reported. If as many available pods as each daemonset wants have been created from the
  daemonsets that the DNS controller wants, then the status controller, which gets its configuration from the same
  operator configuration, reports every component, the operator included, at its new version, whatever it reported
  before: the container names and images that the two controllers use agree.
\<close>

theorem rollout_reaches_level:
  assumes "cc = controllerConfig oc nameResolver script toU32 ppTol" "sc = statusControllerConfig oc qu"
    and "desiredDNSDaemonSet d (cfg_coreDNSImage cc) (cfg_proxyImage cc) revs prof = Inr ds"
    and "nr = desiredNodeResolverDaemonSet script d ip domain_name (cfg_cliImage cc)"
    and "\<forall>p\<in>set dnsPods. IsPodAvailable p (dss_minReadySeconds (ds_spec dnsDS)) now \<longrightarrow> pod_containers p = ps_containers (ds_pod ds)"
    and "\<forall>p\<in>set nrPods. IsPodAvailable p (dss_minReadySeconds (ds_spec nrDS)) now \<longrightarrow> pod_containers p = ps_containers (ds_pod nr)"
    and "dst_desiredNumberScheduled (ds_status dnsDS)
       \<le> int (length (filter (\<lambda>p. IsPodAvailable p (dss_minReadySeconds (ds_spec dnsDS)) now) dnsPods))"
    and "dst_desiredNumberScheduled (ds_status nrDS)
       \<le> int (length (filter (\<lambda>p. IsPodAvailable p (dss_minReadySeconds (ds_spec nrDS)) now) nrPods))"
  shows "computeCurrentVersions now old (newVersionsOf sc) dnsDS nrDS dnsPods nrPods = newVersionsOf sc"
proof -
  let ?new = "newVersionsOf sc"
  have new: "?new = [(OperatorVersionName, oc_OperatorReleaseVersion oc), (CoreDNSVersionName, oc_CoreDNSImage oc),
      (OpenshiftCLIVersionName, oc_OpenshiftCLIImage oc), (KubeRBACProxyName, oc_KubeRBACProxyImage oc)]"
    by (simp add: assms(2) newVersionsOf_def computeNewVersions_def statusControllerConfig_def)
  have dns: "\<exists>c\<in>set (ps_containers (ds_pod ds)). runsNew ?new n c" if "n \<in> {CoreDNSVersionName, KubeRBACProxyName}" for n
    using that unfolding desired_contents[OF assms(3)]
    by (auto simp: runsNew_def versionNameForContainerName_def new gm_get_def dnsContainer_def kubeRBACProxyContainer_def
        assms(1) controllerConfig_def)
  have nr: "\<exists>c\<in>set (ps_containers (ds_pod nr)). runsNew ?new OpenshiftCLIVersionName c"
    by (simp add: assms(1,4) desiredNodeResolverDaemonSet_def Let_def runsNew_def versionNameForContainerName_def new
        gm_get_def controllerConfig_def)
  have nonneg: "0 \<le> instancesAt ?new n m now pods" for n m pods by (simp add: instancesAt_def)
  have "dst_desiredNumberScheduled (ds_status dnsDS) \<le> instances ?new now dnsDS nrDS dnsPods nrPods n"
    if "n \<in> {CoreDNSVersionName, KubeRBACProxyName}" for n
  proof -
    have "int (length (filter (\<lambda>p. IsPodAvailable p (dss_minReadySeconds (ds_spec dnsDS)) now) dnsPods))
        \<le> instancesAt ?new n (dss_minReadySeconds (ds_spec dnsDS)) now dnsPods"
      using dns[OF that] assms(5) by (intro instances_at_least) auto
    then show ?thesis
      using assms(7) nonneg[of n "dss_minReadySeconds (ds_spec nrDS)" nrPods] unfolding instances_def by linarith
  qed
  then have d: "dnsAtLevel ?new now dnsDS nrDS dnsPods nrPods" unfolding dnsAtLevel_def by blast
  have "int (length (filter (\<lambda>p. IsPodAvailable p (dss_minReadySeconds (ds_spec nrDS)) now) nrPods))
      \<le> instancesAt ?new OpenshiftCLIVersionName (dss_minReadySeconds (ds_spec nrDS)) now nrPods"
    using nr assms(6) by (intro instances_at_least) auto
  then have r: "resolverAtLevel ?new now dnsDS nrDS dnsPods nrPods"
    using assms(8) nonneg[of OpenshiftCLIVersionName "dss_minReadySeconds (ds_spec dnsDS)" dnsPods]
    unfolding resolverAtLevel_def instances_def by linarith
  show ?thesis using d r by (simp add: computeCurrentVersions_eq new gm_get_def)
qed

definition sample_operator :: operatorconfig where
  "sample_operator = \<lparr>oc_OperatorReleaseVersion = ''4.20'', oc_OperatorNamespace = ''openshift-dns-operator'',
     oc_CoreDNSImage = ''coredns'', oc_OpenshiftCLIImage = ''cli'', oc_KubeRBACProxyImage = ''proxy'',
     oc_MetricsBindAddress = ''127.0.0.1:60000'', oc_MetricsCertDir = '''', oc_MetricsTLSOpts = []\<rparr>"

definition readyPod :: "container list \<Rightarrow> pod" where
  "readyPod cts = \<lparr>pod_meta = emptyMeta, pod_containers = cts,
     pod_conditions = [\<lparr>pc_type = ''Ready'', pc_status = ConditionTrue, pc_lastTransitionTime = Some 1\<rparr>]\<rparr>"

lemma readyPod_available [simp]: "IsPodAvailable (readyPod cts) 0 now"
  by (simp add: readyPod_def IsPodAvailable_def IsPodReady_def getPodReadyCondition_def)

theorem rollout_reaches_level_witness:
  "\<exists>dnsPods nrPods. gm_get (computeCurrentVersions 5 [(OperatorVersionName, ''4.19'')]
     (newVersionsOf (statusControllerConfig sample_operator id)) sample_one sample_one dnsPods nrPods) OperatorVersionName = ''4.20''"
proof -
  let ?cc = "controllerConfig sample_operator False ''script'' id (\<lambda>_. '''')"
  let ?nr = "desiredNodeResolverDaemonSet ''script'' sample_default ''172.30.0.10'' ''cluster.local'' (cfg_cliImage ?cc)"
  obtain ds where ds: "desiredDNSDaemonSet sample_default (cfg_coreDNSImage ?cc) (cfg_proxyImage ?cc) [] None = Inr ds"
    by (rule desired_daemonset)
  have one: "dss_minReadySeconds (ds_spec sample_one) = 0" "dst_desiredNumberScheduled (ds_status sample_one) = 1"
    by (simp_all add: sample_one_def emptyDaemonSet_def)
  have "computeCurrentVersions 5 [(OperatorVersionName, ''4.19'')] (newVersionsOf (statusControllerConfig sample_operator id))
      sample_one sample_one [readyPod (ps_containers (ds_pod ds))] [readyPod (ps_containers (ds_pod ?nr))]
      = newVersionsOf (statusControllerConfig sample_operator id)"
    by (rule rollout_reaches_level[OF refl refl ds refl, where ip = "''172.30.0.10''" and domain_name = "''cluster.local''"]) (simp_all add: one, simp_all add: readyPod_def)
  moreover have "gm_get (newVersionsOf (statusControllerConfig sample_operator id)) OperatorVersionName = ''4.20''"
    by code_simp
  ultimately show ?thesis by metis
qed

section \<open>From the operands to the ClusterOperator\<close>

text \<open>
  C26: What the cluster gets to see of the operands. Take any DNS whose conditions are ones that \<open>syncDNSStatus\<close> could
  publish (it publishes only when no error comes with them). Then the ClusterOperator reports Available=True exactly
  when the DNS service has a cluster IP and the daemonset an available pod, Upgradeable=True exactly when the DNS is
  not Unmanaged, and it never reports Degraded=True, whatever state the daemonsets are in.
\<close>

theorem operator_reports_operands:
  assumes "computeDNSStatusConditions pp clk d0 ip ds nr tol r = (cs, None, r')"
    and "d = d0\<lparr>dns_status := \<lparr>st_clusterIP = ip, st_clusterDomain = cd, st_conditions = cs\<rparr>\<rparr>"
  shows "(c_status (computeOperatorAvailableCondition (Some d)) = ConditionTrue \<longleftrightarrow>
      ip \<noteq> '''' \<and> (\<exists>x. ds = Some x \<and> dst_numberAvailable (ds_status x) \<noteq> 0))
    \<and> (c_status (computeOperatorUpgradeableCondition d) = ConditionTrue \<longleftrightarrow> spec_managementState (dns_spec d) \<noteq> Unmanaged)
    \<and> c_status (computeOperatorDegradedCondition qu visit (Some d) old new cur) = ConditionFalse"
proof -
  from assms(1) obtain p dg where cs: "cs = [p,
        computeDNSAvailableCondition (oldCondition TypeAvailable d0) ip ds (clk_available clk),
        computeDNSUpgradeableCondition (oldCondition TypeUpgradeable d0) d0 (clk_upgradeable clk), dg]"
      and P: "computeDNSProgressingCondition pp (oldCondition TypeProgressing d0) d0 ip ds nr tol
        (clk_now clk) (clk_progressing clk) r = (p, r')"
      and D: "computeDNSDegradedCondition (oldCondition TypeDegraded d0) (Some p) ip ds tol
        (clk_now clk) (clk_degraded clk) = (dg, None)"
    by (cases rule: status_conditions_cases)
  have deg: "c_status dg = ConditionFalse" using degraded_facts(4,5)[OF D] by (auto split: if_splits)
  have conds: "st_conditions (dns_status d) = cs" using assms(2) by simp
  note types = progressing_facts(1)[OF P] available_facts(1) upgradeable_facts(1) degraded_facts(1)[OF D]
  have "checkDNSAvailable d \<longleftrightarrow> ip \<noteq> '''' \<and> (\<exists>x. ds = Some x \<and> dst_numberAvailable (ds_status x) \<noteq> 0)"
    unfolding checkDNSAvailable_iff conds cs by (simp add: types available_facts(3))
  moreover have "degradedMessages cs = []" by (simp add: degradedMessages_def cs types deg)
  moreover have "fst (upgradeableOf (True, '''') cs) \<longleftrightarrow> spec_managementState (dns_spec d0) \<noteq> Unmanaged"
    by (simp add: cs types upgradeable_facts(3))
  ultimately show ?thesis
    using conds assms(2)
    by (auto simp: computeOperatorAvailableCondition_def computeOperatorUpgradeableCondition_def
        computeOperatorDegradedCondition_def Let_def split: prod.splits)
qed

theorem operator_reports_operands_witness:
  "\<exists>cs r'. computeDNSStatusConditions (\<lambda>_. '''') sample_clock emptyDNS ''172.30.0.10'' (Some sample_daemonset)
      (Some sample_daemonset) 40 emptyResult = (cs, None, r')
    \<and> c_status (computeOperatorAvailableCondition (Some (emptyDNS\<lparr>dns_status := \<lparr>st_clusterIP = ''172.30.0.10'',
        st_clusterDomain = ''cluster.local'', st_conditions = cs\<rparr>\<rparr>))) = ConditionTrue"
proof -
  let ?run = "computeDNSStatusConditions (\<lambda>_. '''') sample_clock emptyDNS ''172.30.0.10'' (Some sample_daemonset)
      (Some sample_daemonset) 40 emptyResult"
  have "fst (snd ?run) = None" by code_simp
  then have run: "?run = (fst ?run, None, snd (snd ?run))" by (simp only: prod_eq_iff fst_conv snd_conv)
  have "dst_numberAvailable (ds_status sample_daemonset) \<noteq> 0" by (simp add: sample_daemonset_def)
  then have "c_status (computeOperatorAvailableCondition (Some (emptyDNS\<lparr>dns_status := \<lparr>st_clusterIP = ''172.30.0.10'',
        st_clusterDomain = ''cluster.local'', st_conditions = fst ?run\<rparr>\<rparr>))) = ConditionTrue"
    using operator_reports_operands[OF run refl] by blast
  with run show ?thesis by blast
qed

end
